(* ===== verification/Prelude.thy ===== *)
theory Prelude
  imports Main "HOL-Library.Char_ord" "HOL-Library.List_Lexorder"
begin

text \<open>
  The shared vocabulary of the development.

  \<^item> Fallible C++ code is a value of \<open>'e + 'a\<close>: \<open>Inl e\<close> is a thrown exception, \<open>Inr x\<close> a
    normal return. \<open>bindE\<close> is the sequencing of two statements, \<open>run\<close> the execution of a list of
    statements that update one local variable, and \<open>traverseE\<close> a loop that stops at the first
    exception.
  \<^item> Code that also changes state is a function \<open>'w \<Rightarrow> (('e + 'a) \<times> 'w) option\<close>: the state it
    leaves behind is returned together with the result or the exception, and \<open>None\<close> means that
    the call never returns.
  \<^item> The simp rules of both layers are collected in \<open>flow_simps\<close>.
\<close>

named_theorems flow_simps \<open>execution of the sequencing combinators\<close>
named_theorems flow_iffs \<open>when a sequence returns normally\<close>

section \<open>Exceptions as values\<close>

type_synonym ('e, 'a) outcome = "'e + 'a"

fun bindE :: "('e, 'a) outcome \<Rightarrow> ('a \<Rightarrow> ('e, 'b) outcome) \<Rightarrow> ('e, 'b) outcome" where
  "bindE (Inl e) f = Inl e"
| "bindE (Inr x) f = f x"

fun catchE :: "('e, 'a) outcome \<Rightarrow> ('e \<Rightarrow> ('f, 'a) outcome) \<Rightarrow> ('f, 'a) outcome" where
  "catchE (Inl e) h = h e"
| "catchE (Inr x) h = Inr x"

definition whenE :: "bool \<Rightarrow> ('e, unit) outcome \<Rightarrow> ('e, unit) outcome" where
  "whenE b m = (if b then m else Inr ())"

fun traverseE :: "('a \<Rightarrow> ('e, 'b) outcome) \<Rightarrow> 'a list \<Rightarrow> ('e, 'b list) outcome" where
  "traverseE f [] = Inr []"
| "traverseE f (x # xs) = bindE (f x) (\<lambda>y. bindE (traverseE f xs) (\<lambda>ys. Inr (y # ys)))"

text \<open>
  A statement of a C++ function body that works on one local object is a function from the object
  to its next value or an exception; \<open>assign upd v\<close> is \<open>obj.field = v\<close>.
\<close>

type_synonym ('e, 's) stmt = "'s \<Rightarrow> ('e, 's) outcome"

fun run :: "('e, 's) stmt list \<Rightarrow> ('e, 's) stmt" where
  "run [] s = Inr s"
| "run (c # cs) s = bindE (c s) (run cs)"

definition assign :: "(('v \<Rightarrow> 'v) \<Rightarrow> 's \<Rightarrow> 's) \<Rightarrow> ('e, 'v) outcome \<Rightarrow> ('e, 's) stmt" where
  "assign upd v s = bindE v (\<lambda>x. Inr (upd (\<lambda>_. x) s))"

definition onlyIf :: "bool \<Rightarrow> ('e, 's) stmt \<Rightarrow> ('e, 's) stmt" where
  "onlyIf b c s = (if b then c s else Inr s)"

lemmas [flow_simps] = whenE_def assign_def onlyIf_def

lemma bindE_assoc: "bindE (bindE m f) g = bindE m (\<lambda>x. bindE (f x) g)"
  by (cases m) auto

lemma bindE_eq_Inr [flow_iffs]: "bindE m f = Inr y \<longleftrightarrow> (\<exists>x. m = Inr x \<and> f x = Inr y)"
  by (cases m) auto

lemma map_sum_eq_Inr: "map_sum f g x = Inr y \<longleftrightarrow> (\<exists>z. x = Inr z \<and> y = g z)"
  by (cases x) auto

lemma bindE_eq_Inl: "bindE m f = Inl e \<longleftrightarrow> m = Inl e \<or> (\<exists>x. m = Inr x \<and> f x = Inl e)"
  by (cases m) auto

lemma bindE_if [flow_simps]:
  "bindE (if b then m else n) f = (if b then bindE m f else bindE n f)"
  by simp

lemma whenE_eq_Inr [flow_iffs]: "whenE b m = Inr u \<longleftrightarrow> (b \<longrightarrow> m = Inr ())"
  by (auto simp: whenE_def)

lemma run_append: "run (cs @ ds) s = bindE (run cs s) (run ds)"
proof (induction cs arbitrary: s)
  case (Cons c cs)
  then show ?case by (cases "c s") auto
qed simp

lemma traverseE_length: "traverseE f xs = Inr ys \<Longrightarrow> length ys = length xs"
  by (induction xs arbitrary: ys) (auto simp: bindE_eq_Inr)

lemma traverseE_total: "(\<And>x. x \<in> set xs \<Longrightarrow> f x = Inr (g x)) \<Longrightarrow> traverseE f xs = Inr (map g xs)"
  by (induction xs) auto

lemma traverseE_nth:
  "traverseE f xs = Inr ys \<Longrightarrow> i < length xs \<Longrightarrow> f (xs ! i) = Inr (ys ! i)"
  by (induction xs arbitrary: ys i) (auto simp: bindE_eq_Inr nth_Cons split: nat.splits)

lemma traverseE_cong [fundef_cong]:
  "xs = ys \<Longrightarrow> (\<And>x. x \<in> set ys \<Longrightarrow> f x = g x) \<Longrightarrow> traverseE f xs = traverseE g ys"
  by (induction xs arbitrary: ys) auto

section \<open>State, exceptions and divergence\<close>

type_synonym ('w, 'e, 'a) io = "'w \<Rightarrow> (('e, 'a) outcome \<times> 'w) option"

definition returnIO :: "'a \<Rightarrow> ('w, 'e, 'a) io" where
  "returnIO x w = Some (Inr x, w)"

definition throwIO :: "'e \<Rightarrow> ('w, 'e, 'a) io" where
  "throwIO e w = Some (Inl e, w)"

definition liftIO :: "('e, 'a) outcome \<Rightarrow> ('w, 'e, 'a) io" where
  "liftIO r w = Some (r, w)"

definition bindIO :: "('w, 'e, 'a) io \<Rightarrow> ('a \<Rightarrow> ('w, 'e, 'b) io) \<Rightarrow> ('w, 'e, 'b) io" where
  "bindIO m f w =
     (case m w of
        None \<Rightarrow> None
      | Some (r, w') \<Rightarrow> (case r of Inl e \<Rightarrow> Some (Inl e, w') | Inr x \<Rightarrow> f x w'))"

definition catchIO :: "('w, 'e, 'a) io \<Rightarrow> ('e \<Rightarrow> ('w, 'f, 'a) io) \<Rightarrow> ('w, 'f, 'a) io" where
  "catchIO m h w =
     (case m w of
        None \<Rightarrow> None
      | Some (r, w') \<Rightarrow> (case r of Inl e \<Rightarrow> h e w' | Inr x \<Rightarrow> Some (Inr x, w')))"

definition getIO :: "('w \<Rightarrow> 'a) \<Rightarrow> ('w, 'e, 'a) io" where
  "getIO f w = Some (Inr (f w), w)"

definition modifyIO :: "('w \<Rightarrow> 'w) \<Rightarrow> ('w, 'e, unit) io" where
  "modifyIO f w = Some (Inr (), f w)"

lemmas io_prims [flow_simps] =
  returnIO_def throwIO_def liftIO_def getIO_def modifyIO_def

lemma bindIO_steps [flow_simps]:
  "m w = None \<Longrightarrow> bindIO m f w = None"
  "m w = Some (Inl e, w') \<Longrightarrow> bindIO m f w = Some (Inl e, w')"
  "m w = Some (Inr x, w') \<Longrightarrow> bindIO m f w = f x w'"
  by (simp_all add: bindIO_def)

lemma bindIO_prims [simp]:
  "bindIO (returnIO x) f = f x"
  "bindIO (throwIO e) f = throwIO e"
  "bindIO (liftIO (Inl e)) f = throwIO e"
  "bindIO (liftIO (Inr x)) f = f x"
  "bindIO (getIO g) f w = f (g w) w"
  "bindIO (modifyIO u) f' w = f' () (u w)"
  by (simp_all add: fun_eq_iff bindIO_def io_prims)

lemma catchIO_prims [simp]:
  "catchIO (returnIO x) h = returnIO x"
  "catchIO (throwIO e) h = h e"
  by (simp_all add: fun_eq_iff catchIO_def io_prims)

lemma catchIO_steps [flow_simps]:
  "m w = None \<Longrightarrow> catchIO m h w = None"
  "m w = Some (Inl e, w') \<Longrightarrow> catchIO m h w = h e w'"
  "m w = Some (Inr x, w') \<Longrightarrow> catchIO m h w = Some (Inr x, w')"
  by (simp_all add: catchIO_def)

lemma bindIO_assoc: "bindIO (bindIO m f) g = bindIO m (\<lambda>x. bindIO (f x) g)"
  by (auto simp: fun_eq_iff bindIO_def split: option.splits sum.splits)

lemma bindIO_if [flow_simps]:
  "bindIO (if b then m else n) f = (if b then bindIO m f else bindIO n f)"
  by simp

subsection \<open>Invariants of stateful code\<close>

text \<open>
  \<open>keepsIO I m Q\<close>: started in a state with \<open>I\<close>, \<open>m\<close> ends in one, whether it returns or throws, and what
  it returns has \<open>Q\<close>.
\<close>

named_theorems keeps_intros \<open>structural rules for keepsIO\<close>

definition keepsIO :: "('w \<Rightarrow> bool) \<Rightarrow> ('w, 'e, 'a) io \<Rightarrow> ('a \<Rightarrow> bool) \<Rightarrow> bool" where
  "keepsIO I m Q \<longleftrightarrow>
     (\<forall>w r w'. I w \<longrightarrow> m w = Some (r, w') \<longrightarrow> I w' \<and> (\<forall>x. r = Inr x \<longrightarrow> Q x))"

lemma keepsIO_D: "keepsIO I m Q \<Longrightarrow> I w \<Longrightarrow> m w = Some (r, w') \<Longrightarrow> I w'"
  by (auto simp: keepsIO_def)

lemma keepsIO_bind:
  assumes "keepsIO I m Q" "\<And>x. Q x \<Longrightarrow> keepsIO I (f x) R"
  shows "keepsIO I (bindIO m f) R"
  unfolding keepsIO_def
proof (intro allI impI)
  fix w r w' assume w: "I w" "bindIO m f w = Some (r, w')"
  then obtain q v where m: "m w = Some (q, v)" by (auto simp: bindIO_def split: option.splits)
  with w assms(1) have v: "I v" "\<And>x. q = Inr x \<Longrightarrow> Q x" by (auto simp: keepsIO_def)
  show "I w' \<and> (\<forall>x. r = Inr x \<longrightarrow> R x)"
  proof (cases q)
    case (Inl e)
    with w m v show ?thesis by (auto simp: bindIO_def)
  next
    case (Inr x)
    with w m have "f x v = Some (r, w')" by (simp add: bindIO_def)
    with assms(2) v Inr show ?thesis unfolding keepsIO_def by blast
  qed
qed

lemma keepsIO_catch:
  assumes "keepsIO I m Q" "\<And>e. keepsIO I (h e) Q"
  shows "keepsIO I (catchIO m h) Q"
  unfolding keepsIO_def
proof (intro allI impI)
  fix w r w' assume w: "I w" "catchIO m h w = Some (r, w')"
  then obtain q v where m: "m w = Some (q, v)" by (auto simp: catchIO_def split: option.splits)
  with w assms(1) have v: "I v" "\<And>x. q = Inr x \<Longrightarrow> Q x" by (auto simp: keepsIO_def)
  show "I w' \<and> (\<forall>x. r = Inr x \<longrightarrow> Q x)"
  proof (cases q)
    case (Inl e)
    with w m have "h e v = Some (r, w')" by (simp add: catchIO_def)
    with assms(2) v show ?thesis unfolding keepsIO_def by blast
  next
    case (Inr x)
    with w m v show ?thesis by (auto simp: catchIO_def)
  qed
qed

abbreviation keeps :: "('w \<Rightarrow> bool) \<Rightarrow> ('w, 'e, 'a) io \<Rightarrow> bool" where
  "keeps I m \<equiv> keepsIO I m (\<lambda>_. True)"

lemma keeps_prims [keeps_intros]:
  "keeps I m \<Longrightarrow> (\<And>x. keeps I (f x)) \<Longrightarrow> keeps I (bindIO m f)"
  "keeps I m \<Longrightarrow> (\<And>e. keeps I (h e)) \<Longrightarrow> keeps I (catchIO m h)"
  "keeps I (returnIO x)" "keeps I (throwIO e)" "keeps I (liftIO v)" "keeps I (getIO g)"
  "(\<And>w. I w \<Longrightarrow> I (u w)) \<Longrightarrow> keeps I (modifyIO u)"
  "(b \<Longrightarrow> keeps I m) \<Longrightarrow> (\<not> b \<Longrightarrow> keeps I m2) \<Longrightarrow> keeps I (if b then m else m2)"
  by (blast intro: keepsIO_bind keepsIO_catch | auto simp: keepsIO_def io_prims)+

lemma keepsIO_weaken: "keepsIO I m Q \<Longrightarrow> (\<And>x. Q x \<Longrightarrow> R x) \<Longrightarrow> keepsIO I m R"
  unfolding keepsIO_def by blast

section \<open>Lists and options\<close>

text \<open>\<open>joinS sep xs\<close> is the loop \<open>if (i > 0) out << sep; out << xs[i]\<close>.\<close>

fun joinS :: "string \<Rightarrow> string list \<Rightarrow> string" where
  "joinS sep [] = []"
| "joinS sep [x] = x"
| "joinS sep (x # y # xs) = x @ sep @ joinS sep (y # xs)"

lemma joinS_Cons: "joinS sep (x # xs) = (if xs = [] then x else x @ sep @ joinS sep xs)"
  by (cases xs) auto

fun splitOn :: "char \<Rightarrow> string \<Rightarrow> string list" where
  "splitOn c [] = [[]]"
| "splitOn c (x # xs) =
     (if x = c then [] # splitOn c xs
      else (case splitOn c xs of [] \<Rightarrow> [[x]] | p # ps \<Rightarrow> (x # p) # ps))"

lemma splitOn_nonempty [simp]: "splitOn c xs \<noteq> []"
  by (induction xs) (auto split: list.splits)

lemma splitOn_free: "c \<notin> set x \<Longrightarrow> splitOn c x = [x]"
  by (induction x) auto

lemma splitOn_append: "c \<notin> set x \<Longrightarrow> splitOn c (x @ c # ys) = x # splitOn c ys"
  by (induction x) auto

lemma splitOn_joinS:
  "xs \<noteq> [] \<Longrightarrow> (\<And>x. x \<in> set xs \<Longrightarrow> c \<notin> set x) \<Longrightarrow> splitOn c (joinS [c] xs) = xs"
proof (induction xs rule: induct_list012)
  case (3 x y zs)
  then show ?case by (simp add: splitOn_append)
qed (auto simp: splitOn_free)

lemma list_all_take: "list_all P xs \<Longrightarrow> list_all P (take n xs)"
  by (metis append_take_drop_id list_all_append)

end
