(* ===== verification/Cpp_Std.thy ===== *)
theory Cpp_Std
  imports "HOL-Library.Code_Target_Nat" Complex_Main Prelude "HOL-Library.Log_Nat"
begin

text \<open>
  The part of C++ and of its standard library that the sources of \<^verbatim>\<open>src/\<close> use: \<open>std::to_string\<close> and
  \<open>std::stoi\<close>, \<open>double\<close> with its comparisons and conversions, \<open>std::string\<close> searching and trimming,
  and \<open>std::map\<close> as an association list kept sorted by its keys, which is the order in which the
  code iterates over it.
\<close>

section \<open>Decimal integers\<close>

definition digit_char :: "nat \<Rightarrow> char" where
  "digit_char d = char_of (48 + d)"

definition char_digit :: "char \<Rightarrow> nat" where
  "char_digit c = of_char c - 48"

definition is_digit :: "char \<Rightarrow> bool" where
  "is_digit c \<longleftrightarrow> 48 \<le> (of_char c :: nat) \<and> (of_char c :: nat) \<le> 57"

fun to_string_nat :: "nat \<Rightarrow> string" where
  "to_string_nat n =
     (if n < 10 then [digit_char n] else to_string_nat (n div 10) @ [digit_char (n mod 10)])"

declare to_string_nat.simps [simp del]

definition to_string :: "int \<Rightarrow> string" where
  "to_string i = (if i < 0 then ''-'' @ to_string_nat (nat (- i)) else to_string_nat (nat i))"

definition read_nat :: "string \<Rightarrow> nat" where
  "read_nat s = foldl (\<lambda>a c. 10 * a + char_digit c) 0 s"

lemma of_digit_char [simp]: "d < 10 \<Longrightarrow> (of_char (digit_char d) :: nat) = 48 + d"
  by (simp add: digit_char_def)

lemma char_digit_digit_char [simp]: "d < 10 \<Longrightarrow> char_digit (digit_char d) = d"
  by (simp add: char_digit_def)

lemma is_digit_digit_char [simp]: "d < 10 \<Longrightarrow> is_digit (digit_char d)"
  by (simp add: is_digit_def)

lemma read_nat_snoc [simp]: "read_nat (s @ [c]) = 10 * read_nat s + char_digit c"
  by (simp add: read_nat_def)

lemma read_to_string_nat [simp]: "read_nat (to_string_nat n) = n"
proof (induction n rule: to_string_nat.induct)
  case (1 n)
  show ?case
  proof (cases "n < 10")
    case True
    then show ?thesis by (subst to_string_nat.simps) (simp add: read_nat_def)
  next
    case False
    with 1 have "read_nat (to_string_nat (n div 10)) = n div 10" by simp
    with False show ?thesis by (subst to_string_nat.simps) simp
  qed
qed

lemma to_string_nat_digits: "list_all is_digit (to_string_nat n)"
proof (induction n rule: to_string_nat.induct)
  case (1 n)
  then show ?case by (subst to_string_nat.simps) auto
qed

lemma to_string_nat_nonempty [simp]: "to_string_nat n \<noteq> []"
  by (subst to_string_nat.simps) simp

lemma to_string_nat_inject [simp]: "to_string_nat m = to_string_nat n \<longleftrightarrow> m = n"
  using read_to_string_nat by metis

lemma is_digit_minus [simp]: "\<not> is_digit (CHR ''-'')"
  by (simp add: is_digit_def)

lemma to_string_nat_minus: "to_string_nat n \<noteq> CHR ''-'' # s"
  using to_string_nat_digits [of n] by auto

lemma to_string_inject [simp]: "to_string i = to_string j \<longleftrightarrow> i = j"
  using to_string_nat_minus [of "nat i" "to_string_nat (nat (- j))"]
    to_string_nat_minus [of "nat j" "to_string_nat (nat (- i))"]
  by (auto simp: to_string_def)

text \<open>
  \<open>std::stoi\<close>: leading white space and a sign are accepted, trailing characters ignored; \<open>None\<close> is
  the thrown \<open>std::invalid_argument\<close> or \<open>std::out_of_range\<close>.
\<close>

definition is_int32 :: "int \<Rightarrow> bool" where
  "is_int32 i \<longleftrightarrow> - (2 ^ 31) \<le> i \<and> i < 2 ^ 31"

definition is_space :: "char \<Rightarrow> bool" where
  "is_space c \<longleftrightarrow> c = CHR '' '' \<or> (9 \<le> (of_char c :: nat) \<and> (of_char c :: nat) \<le> 13)"

definition stoi :: "string \<Rightarrow> int option" where
  "stoi s =
     (let t = dropWhile is_space s;
          neg = (t \<noteq> [] \<and> hd t = CHR ''-'');
          u = (if t \<noteq> [] \<and> (hd t = CHR ''-'' \<or> hd t = CHR ''+'') then tl t else t);
          ds = takeWhile is_digit u;
          v = (if neg then - int (read_nat ds) else int (read_nat ds))
      in if ds = [] \<or> \<not> is_int32 v then None else Some v)"

lemma stoi_int32: "stoi s = Some v \<Longrightarrow> is_int32 v"
  by (auto simp: stoi_def Let_def split: if_splits)

section \<open>double\<close>

text \<open>
  A \<open>double\<close> is a NaN, an infinity, a finite number other than minus zero given by its exact value,
  or minus zero; the boolean of the first two is the sign bit (\<open>True\<close> for negative).
\<close>

datatype double = DNaN bool | DInf bool | DFin rat | DNegZero

fun d_finite :: "double \<Rightarrow> bool" where
  "d_finite (DFin r) = True"
| "d_finite DNegZero = True"
| "d_finite _ = False"

fun d_val :: "double \<Rightarrow> rat" where
  "d_val (DFin r) = r"
| "d_val _ = 0"

fun d_lt :: "double \<Rightarrow> double \<Rightarrow> bool" where
  "d_lt (DNaN _) _ = False"
| "d_lt _ (DNaN _) = False"
| "d_lt (DInf s) y = (s \<and> y \<noteq> DInf True)"
| "d_lt x (DInf s) = (\<not> s)"
| "d_lt x y = (d_val x < d_val y)"

fun d_is_nan :: "double \<Rightarrow> bool" where
  "d_is_nan (DNaN _) = True"
| "d_is_nan _ = False"

definition d_le :: "double \<Rightarrow> double \<Rightarrow> bool" where
  "d_le x y \<longleftrightarrow> \<not> d_is_nan x \<and> \<not> d_is_nan y \<and> \<not> d_lt y x"

text \<open>\<open>std::to_string(double)\<close> prints with \<open>%f\<close>: six decimals, ties to even.\<close>

definition round_half_even :: "rat \<Rightarrow> int" where
  "round_half_even r =
     (let f = \<lfloor>r\<rfloor>; d = r - of_int f
      in if d < 1 / 2 then f else if 1 / 2 < d then f + 1 else if even f then f else f + 1)"

definition micros :: "rat \<Rightarrow> nat" where
  "micros r = nat (round_half_even (\<bar>r\<bar> * 1000000))"

definition pad0 :: "nat \<Rightarrow> string \<Rightarrow> string" where
  "pad0 k s = replicate (k - length s) (CHR ''0'') @ s"

definition fixed6 :: "nat \<Rightarrow> string" where
  "fixed6 n = to_string_nat (n div 1000000) @ ''.'' @ pad0 6 (to_string_nat (n mod 1000000))"

fun to_string_double :: "double \<Rightarrow> string" where
  "to_string_double (DNaN s) = (if s then ''-nan'' else ''nan'')"
| "to_string_double (DInf s) = (if s then ''-inf'' else ''inf'')"
| "to_string_double DNegZero = ''-0.000000''"
| "to_string_double (DFin r) = (if r < 0 then ''-'' else []) @ fixed6 (micros r)"

lemma round_half_even_error: "\<bar>of_int (round_half_even r) - r\<bar> \<le> 1 / 2"
proof -
  have a: "of_int \<lfloor>r\<rfloor> \<le> r" and b: "r < of_int \<lfloor>r\<rfloor> + 1" by linarith+
  show ?thesis
    unfolding round_half_even_def Let_def using a b by (auto simp: abs_le_iff)
qed

lemma round_half_even_nonneg: "0 \<le> r \<Longrightarrow> 0 \<le> round_half_even r"
  by (auto simp: round_half_even_def Let_def)

lemma of_nat_micros: "of_nat (micros r) = (of_int (round_half_even (\<bar>r\<bar> * 1000000)) :: rat)"
proof -
  have "0 \<le> round_half_even (\<bar>r\<bar> * 1000000)" by (rule round_half_even_nonneg) simp
  then show ?thesis by (simp add: micros_def)
qed

lemma micros_error: "\<bar>of_nat (micros r) / 1000000 - \<bar>r\<bar>\<bar> \<le> 1 / 2000000"
proof -
  have "\<bar>of_nat (micros r) - \<bar>r\<bar> * 1000000\<bar> \<le> 1 / 2"
    unfolding of_nat_micros by (rule round_half_even_error)
  then show ?thesis by (simp only: abs_le_iff) linarith
qed

text \<open>The number that a string of the form \<open>digits.dddddd\<close> denotes.\<close>

definition read_fixed :: "string \<Rightarrow> rat" where
  "read_fixed s =
     (let i = takeWhile is_digit s; f = tl (dropWhile is_digit s)
      in of_nat (read_nat i) + of_nat (read_nat f) / 10 ^ length f)"

lemma read_nat_zeros: "read_nat (replicate k (CHR ''0'') @ s) = read_nat s"
  by (induction k) (auto simp: read_nat_def char_digit_def)

lemma length_to_string_nat: "n < 10 ^ k \<Longrightarrow> 0 < k \<Longrightarrow> length (to_string_nat n) \<le> k"
proof (induction k arbitrary: n)
  case (Suc k)
  show ?case
  proof (cases "n < 10")
    case True
    then show ?thesis by (subst to_string_nat.simps) simp
  next
    case False
    with Suc.prems have "n div 10 < 10 ^ k" "0 < k"
      by (auto intro: ccontr simp: less_mult_imp_div_less)
    then show ?thesis using Suc.IH False by (subst to_string_nat.simps) simp
  qed
qed simp

lemma read_fixed6: "read_fixed (fixed6 n) = of_nat n / 1000000"
proof -
  let ?i = "to_string_nat (n div 1000000)" and ?f = "to_string_nat (n mod 1000000)"
  have len: "length (pad0 6 ?f) = 6"
    using length_to_string_nat [of "n mod 1000000" 6] by (simp add: pad0_def)
  have dig: "\<And>c. c \<in> set ?i \<Longrightarrow> is_digit c"
    using to_string_nat_digits by (simp add: list_all_iff)
  have dot: "\<not> is_digit (CHR ''.'')" by (simp add: is_digit_def)
  have tw: "takeWhile is_digit (fixed6 n) = ?i"
    unfolding fixed6_def using dig dot by (simp add: takeWhile_append2)
  have dw: "dropWhile is_digit (fixed6 n) = CHR ''.'' # pad0 6 ?f"
    unfolding fixed6_def using dig dot by (simp add: dropWhile_append2)
  have "read_nat (pad0 6 ?f) = n mod 1000000"
    by (simp add: pad0_def read_nat_zeros)
  moreover have "(of_nat n :: rat) = of_nat (n div 1000000) * 1000000 + of_nat (n mod 1000000)"
    by (metis div_mult_mod_eq of_nat_add of_nat_mult of_nat_numeral)
  ultimately show ?thesis
    unfolding read_fixed_def tw dw by (simp add: len add_divide_distrib)
qed

subsection \<open>Rounded arithmetic\<close>

text \<open>
  \<open>round64\<close> is the binary64 value nearest to an exact result (ties to even), as the hardware rounds
  a product. The library uses products and powers of \<open>double\<close>s in one place, the retry delays.
\<close>

definition pow2 :: "int \<Rightarrow> rat" where
  "pow2 k = (if 0 \<le> k then 2 ^ nat k else 1 / 2 ^ nat (- k))"

definition ilog2 :: "rat \<Rightarrow> int" where
  "ilog2 r =
     (let (n, d) = quotient_of r; k = int (floorlog 2 (nat n)) - int (floorlog 2 (nat d))
      in if pow2 k \<le> r then k else k - 1)"

definition round64 :: "rat \<Rightarrow> double" where
  "round64 r =
     (if r = 0 then DFin 0
      else let a = \<bar>r\<bar>; e = max (- 1074) (ilog2 a - 52);
               v = of_int (round_half_even (a / pow2 e)) * pow2 e
           in if 2 ^ 1024 \<le> v then DInf (r < 0)
              else if v = 0 then (if r < 0 then DNegZero else DFin 0)
              else DFin (if r < 0 then - v else v))"

fun d_neg :: "double \<Rightarrow> bool" where
  "d_neg (DNaN s) = s"
| "d_neg (DInf s) = s"
| "d_neg (DFin r) = (r < 0)"
| "d_neg DNegZero = True"

definition d_signed :: "bool \<Rightarrow> rat \<Rightarrow> double" where
  "d_signed neg a = (if a = 0 then (if neg then DNegZero else DFin 0) else round64 (if neg then - a else a))"

definition d_times :: "double \<Rightarrow> double \<Rightarrow> double" where
  "d_times x y =
     (let s = (d_neg x \<noteq> d_neg y)
      in if d_is_nan x then x else if d_is_nan y then y
         else if d_finite x \<and> d_finite y then d_signed s (\<bar>d_val x\<bar> * \<bar>d_val y\<bar>)
         else if (d_finite x \<and> d_val x = 0) \<or> (d_finite y \<and> d_val y = 0) then DNaN True
         else DInf s)"

definition d_pow :: "double \<Rightarrow> nat \<Rightarrow> double" where
  "d_pow x k =
     (if k = 0 then DFin 1
      else if d_is_nan x then x
      else if d_finite x then d_signed (d_neg x \<and> odd k) (\<bar>d_val x\<bar> ^ k)
      else DInf (d_neg x \<and> odd k))"

text \<open>\<open>static_cast<long>\<close>: truncation; the cast is undefined for the values mapped to \<open>None\<close>.\<close>

definition d_trunc :: "double \<Rightarrow> int option" where
  "d_trunc x =
     (if d_finite x then
        (let i = (if 0 \<le> d_val x then \<lfloor>d_val x\<rfloor> else \<lceil>d_val x\<rceil>)
         in if - (2 ^ 63) \<le> i \<and> i < 2 ^ 63 then Some i else None)
      else None)"

text \<open>Integers below \<open>2 ^ 53\<close> are exact.\<close>

lemma round_half_even_int [simp]: "round_half_even (of_int i) = i"
  by (simp add: round_half_even_def)

lemma ilog2_int_le:
  assumes "0 < i" "i < 2 ^ 53"
  shows "ilog2 (of_int i) \<le> 52"
proof -
  have "nat i < 2 ^ 53" using assms by (simp add: nat_less_iff)
  then have "floorlog 2 (nat i) \<le> 53" by (simp add: floorlog_leI)
  moreover have "floorlog 2 (nat 1) = 1" by (simp add: floorlog_def)
  ultimately show ?thesis by (simp add: ilog2_def Let_def)
qed

lemma round64_int:
  assumes "0 < i" "i < 2 ^ 53"
  shows "round64 (of_int i) = DFin (of_int i)"
proof -
  define e where "e = max (- 1074) (ilog2 (of_int i) - 52)"
  have "e \<le> 0" using ilog2_int_le [OF assms] by (simp add: e_def)
  then obtain k where k: "pow2 e = 1 / 2 ^ k" by (cases "e = 0") (auto simp: pow2_def intro: that [of 0])
  have "of_int i / pow2 e = of_int (i * 2 ^ k)" by (simp add: k)
  then have v: "of_int (round_half_even (of_int i / pow2 e)) * pow2 e = of_int i"
    by (simp only: round_half_even_int) (simp add: k)
  have "(of_int i :: rat) < of_int (2 ^ 53)" using assms(2) by (simp only: of_int_less_iff)
  also have "of_int (2 ^ 53) < (2 :: rat) ^ 1024" by simp
  finally have "\<not> 2 ^ 1024 \<le> (of_int i :: rat)" by simp
  then show ?thesis
    using assms(1) v unfolding round64_def Let_def by (simp add: e_def)
qed

section \<open>std::string\<close>

definition trim_front :: "string \<Rightarrow> string \<Rightarrow> string" where
  "trim_front cs s = dropWhile (\<lambda>c. c \<in> set cs) s"

definition trim_back :: "string \<Rightarrow> string \<Rightarrow> string" where
  "trim_back cs s = rev (dropWhile (\<lambda>c. c \<in> set cs) (rev s))"

fun is_prefix :: "string \<Rightarrow> string \<Rightarrow> bool" where
  "is_prefix [] s = True"
| "is_prefix (p # ps) [] = False"
| "is_prefix (p # ps) (c # s) = (p = c \<and> is_prefix ps s)"

text \<open>\<open>s.find(p) != npos\<close>\<close>

fun has_substring :: "string \<Rightarrow> string \<Rightarrow> bool" where
  "has_substring p [] = (p = [])"
| "has_substring p (c # s) = (is_prefix p (c # s) \<or> has_substring p s)"

lemma trim_front_hd: "trim_front cs s = c # t \<Longrightarrow> c \<notin> set cs"
  by (auto simp: trim_front_def dropWhile_eq_Cons_conv)

lemma trim_back_last: "trim_back cs s \<noteq> [] \<Longrightarrow> last (trim_back cs s) \<notin> set cs"
  unfolding trim_back_def using hd_dropWhile [of "\<lambda>c. c \<in> set cs" "rev s"]
  by (simp add: last_rev)

lemma is_prefix_append: "is_prefix p s \<longleftrightarrow> (\<exists>t. s = p @ t)"
  by (induction p s rule: is_prefix.induct) auto

end
