(* ===== verification/Std_Map.thy ===== *)
theory Std_Map
  imports Cpp_Std
begin

text \<open>
  \<open>std::map\<close> (the \<open>QueryParams\<close>, \<open>FormParams\<close> and \<open>Headers\<close> of \<^verbatim>\<open>common/types.hpp\<close> and the state
  cache of \<^verbatim>\<open>auth.hpp\<close>): the interface its clients rely on, as the locale \<open>ordered_map\<close>, and the
  sorted association list that implements it. Iterating the list visits the keys in the order of
  \<open>std::map\<close>.
\<close>

section \<open>The sorted association list\<close>

type_synonym ('k, 'v) smap = "('k \<times> 'v) list"

fun map_put :: "'k :: linorder \<Rightarrow> 'v \<Rightarrow> ('k, 'v) smap \<Rightarrow> ('k, 'v) smap" where
  "map_put k v [] = [(k, v)]"
| "map_put k v ((l, u) # m) =
     (if k < l then (k, v) # (l, u) # m
      else if k = l then (k, v) # m
      else (l, u) # map_put k v m)"

definition map_erase :: "'k :: linorder \<Rightarrow> ('k, 'v) smap \<Rightarrow> ('k, 'v) smap" where
  "map_erase k m = filter (\<lambda>(l, u). l \<noteq> k) m"

definition map_ok :: "('k :: linorder, 'v) smap \<Rightarrow> bool" where
  "map_ok m \<longleftrightarrow> sorted_wrt (<) (map fst m)"

definition putIf :: "bool \<Rightarrow> 'k :: linorder \<Rightarrow> 'v \<Rightarrow> ('k, 'v) smap \<Rightarrow> ('k, 'v) smap" where
  "putIf b k v m = (if b then map_put k v m else m)"

definition putOpt :: "'k :: linorder \<Rightarrow> 'v option \<Rightarrow> ('k, 'v) smap \<Rightarrow> ('k, 'v) smap" where
  "putOpt k ov m = (case ov of None \<Rightarrow> m | Some v \<Rightarrow> map_put k v m)"

section \<open>The interface\<close>

locale ordered_map =
  fixes empty :: "'m"
    and put :: "'k :: linorder \<Rightarrow> 'v \<Rightarrow> 'm \<Rightarrow> 'm"
    and erase :: "'k \<Rightarrow> 'm \<Rightarrow> 'm"
    and lookup :: "'m \<Rightarrow> 'k \<Rightarrow> 'v option"
    and entries :: "'m \<Rightarrow> ('k \<times> 'v) list"
    and ok :: "'m \<Rightarrow> bool"
  assumes ok_empty: "ok empty"
    and ok_put: "ok m \<Longrightarrow> ok (put k v m)"
    and ok_erase: "ok m \<Longrightarrow> ok (erase k m)"
    and lookup_empty: "lookup empty k = None"
    and lookup_put: "ok m \<Longrightarrow> lookup (put k v m) l = (if l = k then Some v else lookup m l)"
    and lookup_erase: "ok m \<Longrightarrow> lookup (erase k m) l = (if l = k then None else lookup m l)"
    and entries_sorted: "ok m \<Longrightarrow> sorted_wrt (<) (map fst (entries m))"
    and entries_lookup: "ok m \<Longrightarrow> map_of (entries m) = lookup m"
    and entries_inject: "ok m \<Longrightarrow> ok n \<Longrightarrow> entries m = entries n \<Longrightarrow> m = n"
begin

lemma sorted_entries_unique:
  assumes "sorted_wrt (<) (map fst xs)" "sorted_wrt (<) (map fst ys)" "map_of xs = map_of ys"
  shows "(xs :: ('k \<times> 'v) list) = ys"
proof -
  have dist: "distinct (map fst xs)" "distinct (map fst ys)"
    using assms(1,2) strict_sorted_iff by blast+
  have "set (map fst xs) = set (map fst ys)"
    using arg_cong [OF assms(3), of dom] by (simp add: dom_map_of_conv_image_fst)
  then have keys: "map fst xs = map fst ys"
    using assms(1,2) strict_sorted_equal by blast
  have "map snd xs = map snd ys"
  proof (rule nth_equalityI)
    show len: "length (map snd xs) = length (map snd ys)"
      using arg_cong [OF keys, of length] by simp
    fix i assume i: "i < length (map snd xs)"
    then have "map_of xs (fst (xs ! i)) = Some (snd (xs ! i))"
      "map_of ys (fst (ys ! i)) = Some (snd (ys ! i))"
      using dist len by (simp_all add: map_of_eq_Some_iff)
    moreover have "fst (xs ! i) = fst (ys ! i)"
      using keys i len by (metis length_map nth_map)
    ultimately show "map snd xs ! i = map snd ys ! i"
      using assms(3) i len by simp
  qed
  with keys show ?thesis by (metis zip_map_fst_snd)
qed

text \<open>A map is determined by its lookups, so the order of the assignments that built it is lost.\<close>

lemma ext:
  assumes "ok m" "ok n" "lookup m = lookup n"
  shows "m = n"
proof (rule entries_inject [OF assms(1,2)])
  show "entries m = entries n"
    using assms sorted_entries_unique [OF entries_sorted entries_sorted] entries_lookup by metis
qed

lemma put_commute:
  assumes "ok m" "k \<noteq> l"
  shows "put k v (put l u m) = put l u (put k v m)"
  using assms by (intro ext ok_put) (auto simp: fun_eq_iff lookup_put ok_put)

lemma put_overwrite:
  assumes "ok m"
  shows "put k v (put k u m) = put k v m"
  using assms by (intro ext ok_put) (auto simp: fun_eq_iff lookup_put ok_put)

lemma erase_absent:
  assumes "ok m" "lookup m k = None"
  shows "erase k m = m"
  using assms by (intro ext ok_erase) (auto simp: fun_eq_iff lookup_erase)

end

section \<open>The association list provides the interface\<close>

lemma fst_map_put: "set (map fst (map_put k v m)) = insert k (set (map fst m))"
  by (induction k v m rule: map_put.induct) auto

lemma map_ok_Cons [simp]: "map_ok ((l, u) # m) \<longleftrightarrow> (\<forall>k \<in> fst ` set m. l < k) \<and> map_ok m"
  by (auto simp: map_ok_def)

lemma map_ok_Nil [simp]: "map_ok []"
  by (simp add: map_ok_def)

lemma map_ok_put [simp]: "map_ok m \<Longrightarrow> map_ok (map_put k v m)"
proof (induction k v m rule: map_put.induct)
  case (2 k v l u m)
  have "fst ` set (map_put k v m) = insert k (fst ` set m)"
    using fst_map_put [of k v m] by simp
  with 2 show ?case by auto
qed simp

lemma map_of_put [simp]: "map_of (map_put k v m) l = (if l = k then Some v else map_of m l)"
  by (induction k v m rule: map_put.induct) auto

lemma map_of_erase [simp]: "map_of (map_erase k m) l = (if l = k then None else map_of m l)"
  by (induction m) (auto simp: map_erase_def)

lemma map_ok_erase [simp]: "map_ok m \<Longrightarrow> map_ok (map_erase k m)"
  unfolding map_ok_def map_erase_def by (induction m) auto

lemma map_ok_filter [simp]: "map_ok m \<Longrightarrow> map_ok (filter P m)"
  unfolding map_ok_def by (induction m) auto

lemma map_of_filter:
  assumes "map_ok m"
  shows "map_of (filter P m) k =
     (case map_of m k of None \<Rightarrow> None | Some v \<Rightarrow> if P (k, v) then Some v else None)"
  using assms
proof (induction m)
  case (Cons x m)
  obtain l u where x: "x = (l, u)" by (cases x)
  then have "l \<notin> fst ` set m" using Cons.prems by auto
  then have "map_of m l = None" by (simp add: map_of_eq_None_iff)
  with Cons x show ?case by (auto split: option.splits)
qed simp

interpretation sm: ordered_map "[]" map_put map_erase map_of "\<lambda>m. m" map_ok
  by unfold_locales (auto simp: map_ok_def [symmetric])

lemma map_ok_putIf [simp]: "map_ok m \<Longrightarrow> map_ok (putIf b k v m)"
  by (simp add: putIf_def)

lemma map_ok_putOpt [simp]: "map_ok m \<Longrightarrow> map_ok (putOpt k ov m)"
  by (simp add: putOpt_def split: option.splits)

lemma map_of_putIf [simp]:
  "map_of (putIf b k v m) l = (if b \<and> l = k then Some v else map_of m l)"
  by (simp add: putIf_def)

lemma map_of_putOpt [simp]:
  "map_of (putOpt k ov m) l = (if l = k \<and> ov \<noteq> None then ov else map_of m l)"
  by (auto simp: putOpt_def split: option.splits)

end
