(* ===== verification/Errors.thy ===== *)
theory Errors
  imports Std_Map
begin

text \<open>
  The exception hierarchy of \<^verbatim>\<open>common/errors.hpp\<close>. A constructor of \<open>exn\<close> carries the argument of
  the C++ constructor; \<open>what\<close> is the message the object then has. \<open>JsonException\<close> stands for the
  exceptions of the JSON library and \<open>RuntimeError\<close> for every other \<open>std::exception\<close>, both with
  their \<open>what()\<close>.
\<close>

record api_error =
  statusCode :: int
  apiMessage :: string
  endpoint :: string

definition ApiErr :: "int \<Rightarrow> string \<Rightarrow> string \<Rightarrow> api_error" where
  "ApiErr code message ep =
     \<lparr>statusCode = code, apiMessage = ''API('' @ to_string code @ ''): '' @ message, endpoint = ep\<rparr>"

definition apiErrorToString :: "api_error \<Rightarrow> string" where
  "apiErrorToString e =
     (if endpoint e = [] then apiMessage e else apiMessage e @ '' ['' @ endpoint e @ '']'')"

definition apiErrorIsRetryable :: "api_error \<Rightarrow> bool" where
  "apiErrorIsRetryable e \<longleftrightarrow> 500 \<le> statusCode e \<or> statusCode e = 429"

datatype exn =
    TradierException string
  | AuthenticationError string
  | ConnectionError string
  | ValidationError string
  | TimeoutError string
  | ParseError string
  | CryptoError string
  | ConfigurationError string
  | NetworkError string
  | ApiError api_error
  | JsonException string
  | RuntimeError string

fun what :: "exn \<Rightarrow> string" where
  "what (TradierException m) = m"
| "what (AuthenticationError m) = ''Auth: '' @ m"
| "what (ConnectionError m) = ''Connection: '' @ m"
| "what (ValidationError m) = ''Validation: '' @ m"
| "what (TimeoutError m) = ''Timeout: '' @ m"
| "what (ParseError m) = ''Parse: '' @ m"
| "what (CryptoError m) = ''Crypto: '' @ m"
| "what (ConfigurationError m) = ''Config: '' @ m"
| "what (NetworkError m) = ''Network: '' @ m"
| "what (ApiError e) = apiMessage e"
| "what (JsonException m) = m"
| "what (RuntimeError m) = m"

type_synonym 'a fallible = "(exn, 'a) outcome"

definition throwApi :: "int \<Rightarrow> string \<Rightarrow> 'a fallible" where
  "throwApi code message = Inl (ApiError (ApiErr code message []))"

lemma ApiErr_fields [simp]:
  "statusCode (ApiErr c m ep) = c"
  "apiMessage (ApiErr c m ep) = ''API('' @ to_string c @ ''): '' @ m"
  "endpoint (ApiErr c m ep) = ep"
  by (simp_all add: ApiErr_def)

end
