(* ===== verification/Api_Result.thy ===== *)
theory Api_Result
  imports Errors
begin

text \<open>
  \<^verbatim>\<open>common/api_result.hpp\<close>: \<open>ApiResult<T>\<close>, the value every service operation returns, its
  combinators and \<open>tryExecute\<close>, which turns thrown exceptions into error results.
\<close>

section \<open>The result type\<close>

datatype ErrorCategory = NONE | NETWORK | AUTHENTICATION | VALIDATION | API_ERROR | PARSING | INTERNAL

record 'a ApiResult =
  value_opt :: "'a option"
  error_opt :: "api_error option"

fun categoryToString :: "ErrorCategory \<Rightarrow> string" where
  "categoryToString NETWORK = ''Network Error''"
| "categoryToString AUTHENTICATION = ''Authentication Error''"
| "categoryToString VALIDATION = ''Validation Error''"
| "categoryToString API_ERROR = ''API Error''"
| "categoryToString PARSING = ''Parsing Error''"
| "categoryToString INTERNAL = ''Internal Error''"
| "categoryToString NONE = ''Unknown Error''"

definition ofValue :: "'a \<Rightarrow> 'a ApiResult" where
  "ofValue v = \<lparr>value_opt = Some v, error_opt = None\<rparr>"

definition ofError :: "api_error \<Rightarrow> 'a ApiResult" where
  "ofError e = \<lparr>value_opt = None, error_opt = Some e\<rparr>"

definition ofCategory :: "ErrorCategory \<Rightarrow> string \<Rightarrow> 'a ApiResult" where
  "ofCategory cat message =
     (if cat = API_ERROR then ofError (ApiErr 500 message [])
      else ofError (ApiErr 0 (categoryToString cat @ '': '' @ message) []))"

definition ofStatus :: "ErrorCategory \<Rightarrow> int \<Rightarrow> string \<Rightarrow> 'a ApiResult" where
  "ofStatus cat httpStatus message = ofError (ApiErr httpStatus message [])"

definition networkError :: "string \<Rightarrow> 'a ApiResult" where
  "networkError message = ofCategory NETWORK message"

definition authError :: "string \<Rightarrow> 'a ApiResult" where
  "authError message = ofCategory AUTHENTICATION message"

definition validationError :: "string \<Rightarrow> 'a ApiResult" where
  "validationError message = ofCategory VALIDATION message"

definition apiError :: "int \<Rightarrow> string \<Rightarrow> 'a ApiResult" where
  "apiError httpStatus message = ofStatus API_ERROR httpStatus message"

definition parseError :: "string \<Rightarrow> 'a ApiResult" where
  "parseError message = ofCategory PARSING message"

definition internalError :: "string \<Rightarrow> 'a ApiResult" where
  "internalError message = ofCategory INTERNAL message"

definition isSuccess :: "'a ApiResult \<Rightarrow> bool" where
  "isSuccess r \<longleftrightarrow> value_opt r \<noteq> None"

definition isError :: "'a ApiResult \<Rightarrow> bool" where
  "isError r \<longleftrightarrow> error_opt r \<noteq> None"

definition isRetryable :: "'a ApiResult \<Rightarrow> bool" where
  "isRetryable r = (case error_opt r of None \<Rightarrow> False | Some e \<Rightarrow> 500 \<le> statusCode e)"

definition resultValue :: "'a ApiResult \<Rightarrow> 'a fallible" where
  "resultValue r =
     (case value_opt r of
        None \<Rightarrow> Inl (ValidationError ''Accessing value of failed ApiResult'')
      | Some v \<Rightarrow> Inr v)"

definition resultError :: "'a ApiResult \<Rightarrow> api_error fallible" where
  "resultError r =
     (case error_opt r of
        None \<Rightarrow> Inl (ValidationError ''Accessing error of successful ApiResult'')
      | Some e \<Rightarrow> Inr e)"

definition valueOr :: "'a ApiResult \<Rightarrow> 'a \<Rightarrow> 'a" where
  "valueOr r d = (case value_opt r of Some v \<Rightarrow> v | None \<Rightarrow> d)"

section \<open>Combinators\<close>

text \<open>
  The chain of \<open>catch\<close> clauses of \<open>andThen\<close>, \<open>map\<close> and \<open>tryExecute\<close>; \<open>pre\<close> is what \<open>tryExecute\<close>
  puts in front of the message.
\<close>

fun resultOfExn :: "string \<Rightarrow> exn \<Rightarrow> 'a ApiResult" where
  "resultOfExn pre (ValidationError m) = validationError (pre @ what (ValidationError m))"
| "resultOfExn pre (AuthenticationError m) = authError (pre @ what (AuthenticationError m))"
| "resultOfExn pre (ConnectionError m) = networkError (pre @ what (ConnectionError m))"
| "resultOfExn pre (ApiError e) = apiError (statusCode e) (pre @ what (ApiError e))"
| "resultOfExn pre e = internalError (pre @ what e)"

fun resultOf :: "string \<Rightarrow> 'a fallible \<Rightarrow> 'a ApiResult" where
  "resultOf pre (Inr v) = ofValue v"
| "resultOf pre (Inl e) = resultOfExn pre e"

definition andThen :: "'a ApiResult \<Rightarrow> ('a \<Rightarrow> 'b fallible) \<Rightarrow> 'b ApiResult" where
  "andThen r func =
     (case error_opt r of
        Some e \<Rightarrow> ofError e
      | None \<Rightarrow> resultOf [] (bindE (resultValue r) func))"

definition mapResult :: "'a ApiResult \<Rightarrow> ('a \<Rightarrow> 'b fallible) \<Rightarrow> 'b ApiResult" where
  "mapResult r func =
     (case error_opt r of
        Some e \<Rightarrow> ofError e
      | None \<Rightarrow> resultOf [] (bindE (resultValue r) func))"

text \<open>\<open>orElse\<close> assigns the handler's result to the object, or leaves it as it is when it throws.\<close>

definition orElse :: "'a ApiResult \<Rightarrow> (api_error \<Rightarrow> ('e, 'a ApiResult) outcome) \<Rightarrow> 'a ApiResult" where
  "orElse r func =
     (case error_opt r of
        None \<Rightarrow> r
      | Some e \<Rightarrow> (case func e of Inr r' \<Rightarrow> r' | Inl _ \<Rightarrow> r))"

definition tryExecute :: "'a fallible \<Rightarrow> string \<Rightarrow> 'a ApiResult" where
  "tryExecute func operation = resultOf (operation @ '': '') func"

text \<open>\<open>tryExecute\<close> around a body that changes the state \<open>'w\<close>.\<close>

definition tryExecuteIO :: "('w, exn, 'a) io \<Rightarrow> string \<Rightarrow> ('w, 'e, 'a ApiResult) io" where
  "tryExecuteIO func operation w =
     (case func w of
        None \<Rightarrow> None
      | Some (r, w') \<Rightarrow> Some (Inr (tryExecute r operation), w'))"

section \<open>Well-formed results\<close>

definition result_ok :: "'a ApiResult \<Rightarrow> bool" where
  "result_ok r \<longleftrightarrow> isSuccess r \<noteq> isError r"

lemmas result_defs = ofValue_def ofError_def ofCategory_def ofStatus_def networkError_def
  authError_def validationError_def apiError_def parseError_def internalError_def

lemma ofValue_fields [simp]: "value_opt (ofValue v) = Some v" "error_opt (ofValue v) = None"
  by (simp_all add: ofValue_def)

lemma ofError_fields [simp]: "value_opt (ofError e) = None" "error_opt (ofError e) = Some e"
  by (simp_all add: ofError_def)

lemma result_ok_constructors [simp]:
  "result_ok (ofValue v)" "result_ok (ofError e)" "result_ok (ofCategory c m)"
  "result_ok (ofStatus c i m)"
  by (simp_all add: result_ok_def isSuccess_def isError_def ofCategory_def ofStatus_def)

lemma result_ok_named [simp]:
  "result_ok (networkError m)" "result_ok (authError m)" "result_ok (validationError m)"
  "result_ok (apiError i m)" "result_ok (parseError m)" "result_ok (internalError m)"
  by (simp_all add: networkError_def authError_def validationError_def apiError_def
      parseError_def internalError_def)

lemma result_ok_resultOf [simp]: "result_ok (resultOf pre r)"
proof (cases r)
  case (Inl e)
  then show ?thesis by (cases e) simp_all
qed simp

lemma result_ok_cases:
  assumes "result_ok r"
  obtains (success) v where "r = ofValue v" | (error) e where "r = ofError e"
  using assms by (cases r) (auto simp: result_ok_def isSuccess_def isError_def ofValue_def ofError_def)

lemma result_ok_combinators:
  assumes "result_ok r"
  shows "result_ok (andThen r f)" "result_ok (mapResult r f)"
    "(\<And>e r'. h e = Inr r' \<Longrightarrow> result_ok r') \<Longrightarrow> result_ok (orElse r h)"
    "result_ok (tryExecute q op)"
  using assms
  by (auto simp: andThen_def mapResult_def orElse_def tryExecute_def split: option.splits sum.splits)

text \<open>The HTTP status a thrown exception leaves in the result.\<close>

fun exn_status :: "exn \<Rightarrow> int" where
  "exn_status (ApiError e) = statusCode e"
| "exn_status _ = 0"

lemma resultOf_Inl [simp]:
  "value_opt (resultOfExn pre e) = None"
  "\<exists>x. error_opt (resultOfExn pre e) = Some x \<and> statusCode x = exn_status e"
  by (cases e; simp add: result_defs)+

lemma tryExecute_Inr [simp]: "tryExecute (Inr v) op = ofValue v"
  by (simp add: tryExecute_def)

lemma tryExecuteIO_steps [flow_simps]:
  "m w = None \<Longrightarrow> tryExecuteIO m op w = None"
  "m w = Some (r, w') \<Longrightarrow> tryExecuteIO m op w = Some (Inr (tryExecute r op), w')"
  by (simp_all add: tryExecuteIO_def)

end
