(* ===== verification/Validation.thy ===== *)
theory Validation
  imports Api_Result
begin

text \<open>
  \<^verbatim>\<open>common/validation.hpp\<close>: the argument checks of the services. A check returns \<open>Inr ()\<close> or the
  \<open>ValidationError\<close> it throws. The templates are modelled at \<open>int\<close>, \<open>double\<close> and lists.
\<close>

section \<open>The checks\<close>

definition requireNonEmpty :: "'a list \<Rightarrow> string \<Rightarrow> unit fallible" where
  "requireNonEmpty v paramName =
     whenE (v = []) (Inl (ValidationError (paramName @ '' cannot be empty'')))"

definition is_alnum :: "char \<Rightarrow> bool" where
  "is_alnum c \<longleftrightarrow>
     (let n = (of_char c :: nat)
      in (48 \<le> n \<and> n \<le> 57) \<or> (65 \<le> n \<and> n \<le> 90) \<or> (97 \<le> n \<and> n \<le> 122))"

text \<open>The pattern \<open>^[A-Za-z0-9.-]+$\<close>.\<close>

definition symbolPattern :: "string \<Rightarrow> bool" where
  "symbolPattern s \<longleftrightarrow> s \<noteq> [] \<and> list_all (\<lambda>c. is_alnum c \<or> c = CHR ''.'' \<or> c = CHR ''-'') s"

definition requireValidSymbol :: "string \<Rightarrow> unit fallible" where
  "requireValidSymbol symbol =
     bindE (requireNonEmpty symbol ''symbol'') (\<lambda>_.
     bindE (whenE (10 < length symbol)
              (Inl (ValidationError ''Symbol cannot exceed 10 characters''))) (\<lambda>_.
     whenE (\<not> symbolPattern symbol)
       (Inl (ValidationError ''Symbol contains invalid characters''))))"

definition requireValidAccountNumber :: "string \<Rightarrow> unit fallible" where
  "requireValidAccountNumber accountNumber =
     bindE (requireNonEmpty accountNumber ''account number'') (\<lambda>_.
     whenE (length accountNumber < 8 \<or> 20 < length accountNumber)
       (Inl (ValidationError ''Account number must be between 8 and 20 characters'')))"

definition requirePositive :: "int \<Rightarrow> string \<Rightarrow> unit fallible" where
  "requirePositive v paramName =
     whenE (v \<le> 0) (Inl (ValidationError (paramName @ '' must be positive'')))"

definition requireNonNegative :: "int \<Rightarrow> string \<Rightarrow> unit fallible" where
  "requireNonNegative v paramName =
     whenE (v < 0) (Inl (ValidationError (paramName @ '' cannot be negative'')))"

definition requireRange :: "int \<Rightarrow> int \<Rightarrow> int \<Rightarrow> string \<Rightarrow> unit fallible" where
  "requireRange v lo hi paramName =
     whenE (v < lo \<or> hi < v)
       (Inl (ValidationError
          (paramName @ '' must be between '' @ to_string lo @ '' and '' @ to_string hi)))"

definition requireValidOrderId :: "int \<Rightarrow> unit fallible" where
  "requireValidOrderId orderId =
     bindE (whenE (orderId \<le> 0) (Inl (ValidationError ''Order ID must be positive''))) (\<lambda>_.
     whenE (2 ^ 31 - 1 < orderId) (Inl (ValidationError ''Order ID exceeds maximum value'')))"

definition requireValidQuantity :: "double \<Rightarrow> unit fallible" where
  "requireValidQuantity quantity =
     bindE (whenE (d_le quantity (DFin 0)) (Inl (ValidationError ''Quantity must be positive''))) (\<lambda>_.
     whenE (d_lt (DFin 1000000) quantity)
       (Inl (ValidationError ''Quantity exceeds maximum allowed value'')))"

definition requireValidPrice :: "double \<Rightarrow> unit fallible" where
  "requireValidPrice price =
     bindE (whenE (d_lt price (DFin 0)) (Inl (ValidationError ''Price cannot be negative''))) (\<lambda>_.
     whenE (d_lt (DFin 1000000) price)
       (Inl (ValidationError ''Price exceeds maximum allowed value'')))"

definition requireMaxSize :: "'a list \<Rightarrow> nat \<Rightarrow> string \<Rightarrow> unit fallible" where
  "requireMaxSize container maxSize paramName =
     whenE (maxSize < length container)
       (Inl (ValidationError (paramName @ '' exceeds maximum size of '' @ to_string (int maxSize))))"

text \<open>A pointer is an option.\<close>

definition requireNonNull :: "'a option \<Rightarrow> string \<Rightarrow> unit fallible" where
  "requireNonNull ptr paramName =
     whenE (ptr = None) (Inl (ValidationError (paramName @ '' cannot be null'')))"

text \<open>The four characters of the search set \<open>" \t\n\r"\<close>.\<close>

definition is_blank :: "char \<Rightarrow> bool" where
  "is_blank c \<longleftrightarrow> (of_char c :: nat) \<in> {32, 9, 10, 13}"

definition requireValidEndpoint :: "string \<Rightarrow> unit fallible" where
  "requireValidEndpoint ep =
     bindE (requireNonEmpty ep ''endpoint'') (\<lambda>_.
     bindE (whenE (500 < length ep) (Inl (ValidationError ''Endpoint URL too long''))) (\<lambda>_.
     whenE (list_ex is_blank ep) (Inl (ValidationError ''Endpoint contains invalid characters''))))"

definition requireValidAuthToken :: "string \<Rightarrow> unit fallible" where
  "requireValidAuthToken token =
     bindE (requireNonEmpty token ''auth token'') (\<lambda>_.
     bindE (whenE (length token < 10)
              (Inl (ValidationError ''Auth token appears to be invalid (too short)''))) (\<lambda>_.
     whenE (500 < length token) (Inl (ValidationError ''Auth token too long''))))"

text \<open>The pattern \<open>^\d{4}-\d{2}-\d{2}$\<close>.\<close>

definition datePattern :: "string \<Rightarrow> bool" where
  "datePattern s \<longleftrightarrow>
     (case s of
        [a, b, c, d, h, e, f, i, g, j] \<Rightarrow>
          list_all is_digit [a, b, c, d, e, f, g, j] \<and> h = CHR ''-'' \<and> i = CHR ''-''
      | _ \<Rightarrow> False)"

definition requireValidDateString :: "string \<Rightarrow> string \<Rightarrow> unit fallible" where
  "requireValidDateString date paramName =
     bindE (requireNonEmpty date paramName) (\<lambda>_.
     whenE (\<not> datePattern date)
       (Inl (ValidationError (paramName @ '' must be in YYYY-MM-DD format''))))"

text \<open>
  \<open>VALIDATE_IN_CONTEXT\<close> and \<open>ValidationContext::validate\<close>: a \<open>ValidationError\<close> is rethrown with the
  context in front of its message, any other exception passes through.
\<close>

fun inContext :: "string \<Rightarrow> exn \<Rightarrow> exn" where
  "inContext ctx (ValidationError m) = ValidationError (ctx @ '': '' @ what (ValidationError m))"
| "inContext ctx e = e"

definition validateInContext :: "string \<Rightarrow> unit fallible \<Rightarrow> unit fallible" where
  "validateInContext ctx expr = catchE expr (\<lambda>e. Inl (inContext ctx e))"

section \<open>What the checks accept\<close>

lemmas check_defs = requireNonEmpty_def requireValidSymbol_def requireValidAccountNumber_def
  requirePositive_def requireNonNegative_def requireRange_def requireValidOrderId_def
  requireValidQuantity_def requireValidPrice_def requireMaxSize_def requireNonNull_def
  requireValidEndpoint_def requireValidAuthToken_def requireValidDateString_def

lemma requireNonEmpty_ok [simp]: "requireNonEmpty v p = Inr () \<longleftrightarrow> v \<noteq> []"
  by (auto simp: requireNonEmpty_def whenE_def)

lemma requireValidSymbol_ok:
  "requireValidSymbol s = Inr () \<longleftrightarrow>
     s \<noteq> [] \<and> length s \<le> 10 \<and> list_all (\<lambda>c. is_alnum c \<or> c = CHR ''.'' \<or> c = CHR ''-'') s"
  by (auto simp: requireValidSymbol_def flow_iffs symbolPattern_def)

lemma requireValidAccountNumber_ok:
  "requireValidAccountNumber a = Inr () \<longleftrightarrow> 8 \<le> length a \<and> length a \<le> 20"
  by (cases a) (auto simp: requireValidAccountNumber_def flow_iffs)

lemma requireValidOrderId_ok: "requireValidOrderId i = Inr () \<longleftrightarrow> 0 < i \<and> i < 2 ^ 31"
  by (auto simp: requireValidOrderId_def flow_iffs)

lemma d_le_0_iff: "d_le q (DFin 0) \<longleftrightarrow> q = DInf True \<or> (d_finite q \<and> d_val q \<le> 0)"
  by (cases q) (auto simp: d_le_def)

lemma d_lt_0_iff: "d_lt q (DFin 0) \<longleftrightarrow> q = DInf True \<or> (d_finite q \<and> d_val q < 0)"
  by (cases q) auto

lemma d_gt_iff: "0 \<le> r \<Longrightarrow> d_lt (DFin r) q \<longleftrightarrow> q = DInf False \<or> (d_finite q \<and> r < d_val q)"
  by (cases q) auto

lemma requireValidQuantity_ok:
  "requireValidQuantity q = Inr () \<longleftrightarrow>
     d_is_nan q \<or> (d_finite q \<and> 0 < d_val q \<and> d_val q \<le> 1000000)"
  by (cases q) (auto simp: requireValidQuantity_def flow_iffs d_le_0_iff d_gt_iff)

lemma requireValidPrice_ok:
  "requireValidPrice p = Inr () \<longleftrightarrow>
     d_is_nan p \<or> (d_finite p \<and> 0 \<le> d_val p \<and> d_val p \<le> 1000000)"
  by (cases p) (auto simp: requireValidPrice_def flow_iffs d_lt_0_iff d_gt_iff)

text \<open>Every check throws nothing but a \<open>ValidationError\<close>.\<close>

definition only_validation :: "'a fallible \<Rightarrow> bool" where
  "only_validation m \<longleftrightarrow> (\<forall>e. m = Inl e \<longrightarrow> (\<exists>msg. e = ValidationError msg))"

lemma only_validation_intros [intro]:
  "only_validation (Inr v)"
  "only_validation (Inl (ValidationError msg))"
  "only_validation m \<Longrightarrow> only_validation (whenE b m)"
  "only_validation m' \<Longrightarrow> (\<And>x. only_validation (f x)) \<Longrightarrow> only_validation (bindE m' f)"
  by (auto simp: only_validation_def whenE_def bindE_eq_Inl)

lemma only_validation_inContext:
  "only_validation m \<Longrightarrow> only_validation (validateInContext ctx m)"
  by (cases m) (auto simp: only_validation_def validateInContext_def)

lemma validateInContext_ok [simp]: "validateInContext ctx m = Inr u \<longleftrightarrow> m = Inr u"
  by (cases m) (auto simp: validateInContext_def)

lemma checks_only_validation [simp]:
  "only_validation (requireNonEmpty xs p)" "only_validation (requireValidSymbol s)"
  "only_validation (requireValidAccountNumber s)" "only_validation (requireValidOrderId i)"
  "only_validation (requireValidQuantity q)" "only_validation (requireValidPrice q)"
  "only_validation (requireValidEndpoint s)" "only_validation (requireValidAuthToken s)"
  "only_validation (requireValidDateString s p)"
  unfolding check_defs by auto

end
