(* ===== verification/Encoding.thy ===== *)
theory Encoding
  imports Validation "HOL-Library.Word"
begin

unbundle bit_operations_syntax

text \<open>
  The text encodings: \<open>utils::urlEncode\<close> of \<^verbatim>\<open>common/utils.hpp\<close>, \<open>base64Encode\<close> of
  \<^verbatim>\<open>common/utils.cpp\<close> and \<open>AuthService::base64UrlEncode\<close> of \<^verbatim>\<open>auth.cpp\<close>. The base64 loops keep the
  shape they have in the source (a three byte buffer that is flushed when it is full, then the
  padded rest); \<open>b64_spec\<close> is the same encoding written group by group, and \<open>b64_decode\<close> and
  \<open>urlDecode\<close> are the inverses a server applies.
\<close>

section \<open>Percent encoding\<close>

definition unreserved :: "char \<Rightarrow> bool" where
  "unreserved c \<longleftrightarrow> is_alnum c \<or> c \<in> {CHR ''-'', CHR ''_'', CHR ''.'', CHR ''~''}"

definition hex_char :: "nat \<Rightarrow> char" where
  "hex_char d = (if d < 10 then char_of (48 + d) else char_of (87 + d))"

definition hex2 :: "nat \<Rightarrow> string" where
  "hex2 n = [hex_char (n div 16), hex_char (n mod 16)]"

definition urlEncodeChar :: "char \<Rightarrow> string" where
  "urlEncodeChar c = (if unreserved c then [c] else CHR ''%'' # hex2 (of_char c))"

definition urlEncode :: "string \<Rightarrow> string" where
  "urlEncode s = concat (map urlEncodeChar s)"

definition hex_val :: "char \<Rightarrow> nat" where
  "hex_val c =
     (let n = of_char c in if n < 58 then n - 48 else if n < 97 then n - 55 else n - 87)"

fun urlDecode :: "string \<Rightarrow> string" where
  "urlDecode [] = []"
| "urlDecode (c # s) =
     (if c = CHR ''%'' then
        (case s of a # b # t \<Rightarrow> char_of (16 * hex_val a + hex_val b) # urlDecode t | _ \<Rightarrow> [])
      else c # urlDecode s)"

lemma of_hex_char: "d < 16 \<Longrightarrow> (of_char (hex_char d) :: nat) = (if d < 10 then 48 + d else 87 + d)"
  by (simp add: hex_char_def)

lemma hex_val_hex_char [simp]: "d < 16 \<Longrightarrow> hex_val (hex_char d) = d"
  by (simp add: hex_val_def of_hex_char)

lemma is_alnum_hex_char: "d < 16 \<Longrightarrow> is_alnum (hex_char d)"
  by (simp add: is_alnum_def of_hex_char)

lemma unreserved_percent [simp]: "\<not> unreserved (CHR ''%'')"
  by (simp add: unreserved_def is_alnum_def)

lemma of_char_less_256: "(of_char c :: nat) < 256"
  using nat_of_char_less_256 by simp

lemma of_char_nibbles [simp]: "(of_char c :: nat) div 16 < 16" "(of_char c :: nat) mod 16 < 16"
  using of_char_less_256 [of c] by linarith+

lemma urlDecode_encodeChar [simp]: "urlDecode (urlEncodeChar c @ s) = c # urlDecode s"
proof (cases "unreserved c")
  case True
  then have "c \<noteq> CHR ''%''" by auto
  with True show ?thesis by (simp add: urlEncodeChar_def)
next
  case False
  then show ?thesis by (simp add: urlEncodeChar_def hex2_def)
qed

lemma urlEncode_simps [simp]:
  "urlEncode [] = []" "urlEncode (c # s) = urlEncodeChar c @ urlEncode s"
  "urlEncode (s @ t) = urlEncode s @ urlEncode t"
  by (simp_all add: urlEncode_def)

lemma urlDecode_urlEncode [simp]: "urlDecode (urlEncode s) = s"
  by (induction s) auto

lemma urlEncode_safe: "c \<in> set (urlEncode s) \<Longrightarrow> unreserved c \<or> c = CHR ''%''"
proof (induction s)
  case (Cons x s)
  have "\<forall>c \<in> set (urlEncodeChar x). unreserved c \<or> c = CHR ''%''"
    by (auto simp: urlEncodeChar_def hex2_def unreserved_def is_alnum_hex_char)
  with Cons show ?case by auto
qed simp

lemma urlEncode_no_separator: "CHR ''&'' \<notin> set (urlEncode s)" "CHR ''='' \<notin> set (urlEncode s)"
  using urlEncode_safe [of "CHR ''&''" s] urlEncode_safe [of "CHR ''=''" s]
  by (auto simp: unreserved_def is_alnum_def)

section \<open>Base64\<close>

type_synonym byte = "8 word"

definition base64_chars :: string where
  "base64_chars = ''ABCDEFGHIJKLMNOPQRSTUVWXYZabcdefghijklmnopqrstuvwxyz0123456789+/''"

definition b64_char :: "byte \<Rightarrow> char" where
  "b64_char w = base64_chars ! unat w"

definition bytes :: "string \<Rightarrow> byte list" where
  "bytes s = map (\<lambda>c. of_nat (of_char c)) s"

text \<open>The four entries of \<open>char_array_4\<close>.\<close>

definition b64_sextets :: "byte \<Rightarrow> byte \<Rightarrow> byte \<Rightarrow> byte list" where
  "b64_sextets a b c =
     [drop_bit 2 (a AND 0xfc),
      push_bit 4 (a AND 0x03) + drop_bit 4 (b AND 0xf0),
      push_bit 2 (b AND 0x0f) + drop_bit 6 (c AND 0xc0),
      c AND 0x3f]"

text \<open>
  The main loop: \<open>buf\<close> is \<open>char_array_3[0..i)\<close>; a third byte flushes it.
\<close>

fun b64_loop :: "byte list \<Rightarrow> byte list \<Rightarrow> string \<Rightarrow> byte list \<times> string" where
  "b64_loop [] buf result = (buf, result)"
| "b64_loop (x # xs) buf result =
     (let buf' = buf @ [x]
      in if length buf' = 3
         then b64_loop xs []
                (result @ map b64_char (b64_sextets (buf' ! 0) (buf' ! 1) (buf' ! 2)))
         else b64_loop xs buf' result)"

definition b64_tail :: "byte list \<Rightarrow> string" where
  "b64_tail buf =
     (let i = length buf; a = buf @ replicate (3 - i) 0
      in if i = 0 then []
         else map b64_char (take (i + 1) (b64_sextets (a ! 0) (a ! 1) (a ! 2)))
                @ replicate (3 - i) (CHR ''=''))"

definition base64Encode :: "string \<Rightarrow> string" where
  "base64Encode input = (case b64_loop (bytes input) [] [] of (buf, result) \<Rightarrow> result @ b64_tail buf)"

text \<open>
  \<open>AuthService::base64UrlEncode\<close>: the same loop and tail, then two \<open>std::replace\<close> and the removal of
  the padding.
\<close>

definition base64UrlEncode :: "string \<Rightarrow> string" where
  "base64UrlEncode input =
     (let result = (case b64_loop (bytes input) [] [] of (buf, r) \<Rightarrow> r @ b64_tail buf);
          r1 = map (\<lambda>c. if c = CHR ''+'' then CHR ''-'' else c) result;
          r2 = map (\<lambda>c. if c = CHR ''/'' then CHR ''_'' else c) r1
      in filter (\<lambda>c. c \<noteq> CHR ''='') r2)"

subsection \<open>Reference encoding and decoding\<close>

fun b64_spec :: "byte list \<Rightarrow> string" where
  "b64_spec [] = []"
| "b64_spec [a] = map b64_char (take 2 (b64_sextets a 0 0)) @ ''==''"
| "b64_spec [a, b] = map b64_char (take 3 (b64_sextets a b 0)) @ ''=''"
| "b64_spec (a # b # c # xs) = map b64_char (b64_sextets a b c) @ b64_spec xs"

fun index_of :: "'a \<Rightarrow> 'a list \<Rightarrow> nat" where
  "index_of x [] = 0"
| "index_of x (y # ys) = (if x = y then 0 else Suc (index_of x ys))"

definition b64_val :: "char \<Rightarrow> byte" where
  "b64_val c = of_nat (index_of c base64_chars)"

definition b64_group :: "byte \<Rightarrow> byte \<Rightarrow> byte \<Rightarrow> byte \<Rightarrow> byte list" where
  "b64_group p q r s =
     [push_bit 2 p OR drop_bit 4 q, push_bit 4 q OR drop_bit 2 r, push_bit 6 r OR s]"

fun b64_decode :: "string \<Rightarrow> byte list" where
  "b64_decode (p # q # r # s # t) =
     (if r = CHR ''='' then take 1 (b64_group (b64_val p) (b64_val q) 0 0)
      else if s = CHR ''='' then take 2 (b64_group (b64_val p) (b64_val q) (b64_val r) 0)
      else b64_group (b64_val p) (b64_val q) (b64_val r) (b64_val s) @ b64_decode t)"
| "b64_decode _ = []"

subsection \<open>Bits of the groups\<close>

lemma byte_bits: "(n::nat) < 8 \<longleftrightarrow> n = 0 \<or> n = 1 \<or> n = 2 \<or> n = 3 \<or> n = 4 \<or> n = 5 \<or> n = 6 \<or> n = 7"
  by auto

lemma b64_sextets_or:
  "b64_sextets a b c =
     [drop_bit 2 (a AND 0xfc),
      push_bit 4 (a AND 0x03) OR drop_bit 4 (b AND 0xf0),
      push_bit 2 (b AND 0x0f) OR drop_bit 6 (c AND 0xc0),
      c AND 0x3f]"
proof -
  have "push_bit 4 (a AND 3) + drop_bit 4 (b AND 240) = push_bit 4 (a AND 3) OR drop_bit 4 (b AND 240)"
    by (rule disjunctive_add) (auto simp: byte_bits bit_simps)
  moreover have "push_bit 2 (b AND 15) + drop_bit 6 (c AND 192) = push_bit 2 (b AND 15) OR drop_bit 6 (c AND 192)"
    by (rule disjunctive_add) (auto simp: byte_bits bit_simps)
  ultimately show ?thesis by (simp add: b64_sextets_def)
qed

lemma b64_sextets_group:
  assumes "b64_sextets a b c = [p, q, r, s]"
  shows "b64_group p q r s = [a, b, c]"
proof -
  have pqrs: "p = drop_bit 2 (a AND 0xfc)" "q = push_bit 4 (a AND 0x03) OR drop_bit 4 (b AND 0xf0)"
    "r = push_bit 2 (b AND 0x0f) OR drop_bit 6 (c AND 0xc0)" "s = c AND 0x3f"
    using assms by (simp_all add: b64_sextets_or)
  have "push_bit 2 p OR drop_bit 4 q = a" unfolding pqrs
    by (rule bit_word_eqI, auto simp: byte_bits bit_simps) (simp_all add: numeral_2_eq_2 numeral_3_eq_3)?
  moreover have "push_bit 4 q OR drop_bit 2 r = b" unfolding pqrs
    by (rule bit_word_eqI, auto simp: byte_bits bit_simps) (simp_all add: numeral_2_eq_2 numeral_3_eq_3)?
  moreover have "push_bit 6 r OR s = c" unfolding pqrs
    by (rule bit_word_eqI, auto simp: byte_bits bit_simps) (simp_all add: numeral_2_eq_2 numeral_3_eq_3)?
  ultimately show ?thesis by (simp add: b64_group_def)
qed

lemma sextet_less: "x AND 63 = x \<Longrightarrow> unat (x :: byte) < 64"
proof -
  assume x: "x AND 63 = x"
  have "unat (x AND 63) \<le> unat (63 :: byte)"
    by (rule word_and_le1 [THEN word_le_nat_alt [THEN iffD1]])
  with x show ?thesis by simp
qed

lemma b64_sextets_less: "x \<in> set (b64_sextets a b c) \<Longrightarrow> unat x < 64"
proof -
  assume "x \<in> set (b64_sextets a b c)"
  moreover have "drop_bit 2 (a AND 0xfc) AND 63 = drop_bit 2 (a AND 0xfc)"
    by (rule bit_word_eqI) (auto simp: byte_bits bit_simps)
  moreover have "(push_bit 4 (a AND 0x03) OR drop_bit 4 (b AND 0xf0)) AND 63 =
      push_bit 4 (a AND 0x03) OR drop_bit 4 (b AND 0xf0)"
    by (rule bit_word_eqI) (auto simp: byte_bits bit_simps)
  moreover have "(push_bit 2 (b AND 0x0f) OR drop_bit 6 (c AND 0xc0)) AND 63 =
      push_bit 2 (b AND 0x0f) OR drop_bit 6 (c AND 0xc0)"
    by (rule bit_word_eqI) (auto simp: byte_bits bit_simps)
  moreover have "(c AND 0x3f) AND 63 = c AND 0x3f" by simp
  ultimately have "x AND 63 = x" unfolding b64_sextets_or by auto
  then show ?thesis by (rule sextet_less)
qed

lemma base64_chars_facts: "length base64_chars = 64" "distinct base64_chars"
  by (simp_all add: base64_chars_def)

lemma index_of_nth: "distinct xs \<Longrightarrow> i < length xs \<Longrightarrow> index_of (xs ! i) xs = i"
  by (induction xs arbitrary: i) (auto simp: nth_Cons split: nat.splits)

lemma b64_val_char [simp]: "unat w < 64 \<Longrightarrow> b64_val (b64_char w) = w"
  by (simp add: b64_val_def b64_char_def index_of_nth base64_chars_facts)

lemma b64_char_mem: "unat w < 64 \<Longrightarrow> b64_char w \<in> set base64_chars"
  by (simp add: b64_char_def base64_chars_facts)

lemma b64_char_not_pad: "unat w < 64 \<Longrightarrow> b64_char w \<noteq> CHR ''=''"
proof
  assume "unat w < 64" "b64_char w = CHR ''=''"
  then have "CHR ''='' \<in> set base64_chars" using b64_char_mem by metis
  then show False by (simp add: base64_chars_def)
qed

subsection \<open>The loop computes the reference encoding\<close>

lemma b64_tail_spec: "length buf < 3 \<Longrightarrow> b64_tail buf = b64_spec buf"
proof -
  assume "length buf < 3"
  then consider "buf = []" | a where "buf = [a]" | a b where "buf = [a, b]"
    by (cases buf rule: b64_spec.cases) auto
  then show ?thesis
    by cases (simp_all add: b64_tail_def Let_def eval_nat_numeral b64_sextets_def)
qed

lemma b64_loop_spec:
  "length buf < 3 \<Longrightarrow>
   (case b64_loop xs buf res of (b, r) \<Rightarrow> r @ b64_tail b) = res @ b64_spec (buf @ xs)"
proof (induction xs arbitrary: buf res)
  case Nil
  then show ?case by (simp add: b64_tail_spec)
next
  case (Cons x xs)
  show ?case
  proof (cases "length buf = 2")
    case True
    then obtain a b where "buf = [a, b]"
      by (auto simp: length_Suc_conv eval_nat_numeral)
    with Cons.IH [of "[]"] show ?thesis by simp
  next
    case False
    with Cons.prems Cons.IH [of "buf @ [x]" res] show ?thesis by simp
  qed
qed

lemma base64Encode_spec: "base64Encode s = b64_spec (bytes s)"
  using b64_loop_spec [of "[]" "bytes s" "[]"] by (simp add: base64Encode_def)

lemma b64_sextets_shape:
  obtains p q r s where "b64_sextets a b c = [p, q, r, s]" "b64_group p q r s = [a, b, c]"
    "unat p < 64" "unat q < 64" "unat r < 64" "unat s < 64"
proof -
  obtain p q r s where e: "b64_sextets a b c = [p, q, r, s]" by (simp add: b64_sextets_def)
  moreover have "\<forall>x \<in> {p, q, r, s}. unat x < 64" using b64_sextets_less [of _ a b c] e by auto
  ultimately show thesis using that b64_sextets_group by auto
qed

lemma b64_sextets_zero: "b64_sextets a b 0 = [p, q, r, s] \<Longrightarrow> s = 0"
  "b64_sextets a 0 0 = [p, q, r, s] \<Longrightarrow> r = 0"
  by (auto simp: b64_sextets_def)

lemma b64_decode_spec [simp]: "b64_decode (b64_spec xs) = xs"
proof (induction xs rule: b64_spec.induct)
  case (2 a)
  obtain p q r s where e: "b64_sextets a 0 0 = [p, q, r, s]" "b64_group p q r s = [a, 0, 0]"
    "unat p < 64" "unat q < 64" by (rule b64_sextets_shape)
  moreover from e have "r = 0" "s = 0" using b64_sextets_zero by blast+
  ultimately show ?case by (simp add: eval_nat_numeral)
next
  case (3 a b)
  obtain p q r s where e: "b64_sextets a b 0 = [p, q, r, s]" "b64_group p q r s = [a, b, 0]"
    "unat p < 64" "unat q < 64" "unat r < 64" by (rule b64_sextets_shape)
  moreover from e have "s = 0" using b64_sextets_zero by blast
  ultimately show ?case by (simp add: b64_char_not_pad eval_nat_numeral)
next
  case (4 a b c xs)
  obtain p q r s where "b64_sextets a b c = [p, q, r, s]" "b64_group p q r s = [a, b, c]"
    "unat p < 64" "unat q < 64" "unat r < 64" "unat s < 64" by (rule b64_sextets_shape)
  with 4 show ?case by (simp add: b64_char_not_pad)
qed simp

lemma b64_spec_length: "length (b64_spec xs) = 4 * ((length xs + 2) div 3)"
  by (induction xs rule: b64_spec.induct) (simp_all add: b64_sextets_def, presburger)

lemma b64_spec_inject: "b64_spec xs = b64_spec ys \<longleftrightarrow> xs = ys"
  by (metis b64_decode_spec)

lemma unat_byte_of_char [simp]: "unat (of_nat (of_char c) :: byte) = of_char c"
  using of_char_less_256 [of c] by (simp add: unat_of_nat)

lemma bytes_inject [simp]: "bytes s = bytes t \<longleftrightarrow> s = t"
proof -
  have "inj (\<lambda>c. of_nat (of_char c) :: byte)"
    by (rule injI) (metis of_char_eq_iff unat_byte_of_char)
  then show ?thesis by (simp add: bytes_def inj_map_eq_map)
qed

lemma length_bytes [simp]: "length (bytes s) = length s"
  by (simp add: bytes_def)

subsection \<open>The URL-safe variant\<close>

definition url_char :: "char \<Rightarrow> char" where
  "url_char c = (if c = CHR ''+'' then CHR ''-'' else if c = CHR ''/'' then CHR ''_'' else c)"

definition b64_core :: "byte list \<Rightarrow> string" where
  "b64_core xs = filter (\<lambda>c. c \<noteq> CHR ''='') (b64_spec xs)"

lemma b64_core_simps:
  "b64_core [] = []"
  "b64_core [a] = map b64_char (take 2 (b64_sextets a 0 0))"
  "b64_core [a, b] = map b64_char (take 3 (b64_sextets a b 0))"
  "b64_core (a # b # c # xs) = map b64_char (b64_sextets a b c) @ b64_core xs"
proof -
  have np: "filter (\<lambda>c. c \<noteq> CHR ''='') (map b64_char ys) = map b64_char ys"
    if "set ys \<subseteq> set (b64_sextets a b c)" for ys a b c
    using that b64_sextets_less b64_char_not_pad by (auto simp: filter_id_conv)
  show "b64_core [] = []" by (simp add: b64_core_def)
  show "b64_core [a] = map b64_char (take 2 (b64_sextets a 0 0))"
    using np [of "take 2 (b64_sextets a 0 0)" a 0 0] by (simp add: b64_core_def set_take_subset)
  show "b64_core [a, b] = map b64_char (take 3 (b64_sextets a b 0))"
    using np [of "take 3 (b64_sextets a b 0)" a b 0] by (simp add: b64_core_def set_take_subset)
  show "b64_core (a # b # c # xs) = map b64_char (b64_sextets a b c) @ b64_core xs"
    using np [of "b64_sextets a b c" a b c] by (simp add: b64_core_def)
qed

lemma b64_core_length: "length (b64_core xs) = (4 * length xs + 2) div 3"
  by (induction xs rule: b64_spec.induct) (simp_all add: b64_core_simps b64_sextets_def)

lemma length_b64_sextets [simp]: "length (b64_sextets a b c) = 4"
  by (simp add: b64_sextets_def)

lemma b64_spec_core:
  "b64_spec xs = b64_core xs @ replicate ((4 - length (b64_core xs) mod 4) mod 4) (CHR ''='')"
  by (induction xs rule: b64_spec.induct) (simp_all add: b64_core_simps numeral_2_eq_2)

lemma b64_core_inject: "b64_core xs = b64_core ys \<longleftrightarrow> xs = ys"
  using b64_spec_core b64_spec_inject by metis

lemma b64_core_chars: "c \<in> set (b64_core xs) \<Longrightarrow> c \<in> set base64_chars"
proof (induction xs rule: b64_spec.induct)
  case (4 a b d xs)
  then show ?case
    by (auto simp: b64_core_simps b64_char_mem dest: b64_sextets_less)
qed (auto simp: b64_core_simps b64_char_mem dest!: in_set_takeD b64_sextets_less)

lemma base64UrlEncode_core: "base64UrlEncode s = map url_char (b64_core (bytes s))"
proof -
  have tr: "filter (\<lambda>c. c \<noteq> CHR ''='') (map url_char r) = map url_char (filter (\<lambda>c. c \<noteq> CHR ''='') r)" for r
    by (induction r) (auto simp: url_char_def)
  have two: "(\<lambda>c. if (if c = CHR ''+'' then CHR ''-'' else c) = CHR ''/'' then CHR ''_''
      else if c = CHR ''+'' then CHR ''-'' else c) = url_char"
    by (auto simp: fun_eq_iff url_char_def)
  have "base64UrlEncode s = filter (\<lambda>c. c \<noteq> CHR ''='') (map url_char (b64_spec (bytes s)))"
    using b64_loop_spec [of "[]" "bytes s" "[]"]
    by (simp add: base64UrlEncode_def Let_def comp_def two)
  then show ?thesis by (simp add: tr b64_core_def)
qed

lemma url_char_inj: "inj_on url_char (set base64_chars)"
proof -
  have "distinct (map url_char base64_chars)"
    by (simp add: base64_chars_def url_char_def)
  then show ?thesis by (simp add: distinct_map)
qed

lemma base64UrlEncode_inject [simp]: "base64UrlEncode s = base64UrlEncode t \<longleftrightarrow> s = t"
proof -
  have "map url_char (b64_core (bytes s)) = map url_char (b64_core (bytes t)) \<longleftrightarrow>
      b64_core (bytes s) = b64_core (bytes t)"
    using b64_core_chars by (intro inj_on_map_eq_map inj_on_subset [OF url_char_inj]) auto
  then show ?thesis by (simp add: base64UrlEncode_core b64_core_inject)
qed

lemma base64UrlEncode_length: "length (base64UrlEncode s) = (4 * length s + 2) div 3"
  by (simp add: base64UrlEncode_core b64_core_length)

lemma base64UrlEncode_unreserved: "list_all unreserved (base64UrlEncode s)"
proof -
  have "\<forall>c \<in> set base64_chars. unreserved (url_char c)"
    by (simp add: base64_chars_def url_char_def unreserved_def is_alnum_def)
  then show ?thesis
    using b64_core_chars by (fastforce simp: base64UrlEncode_core list_all_iff)
qed

end
