(* ===== verification/Json.thy ===== *)
theory Json
  imports Encoding
begin

text \<open>
  \<^verbatim>\<open>common/types.hpp\<close> (\<open>Response\<close>) and \<^verbatim>\<open>common/json_utils.hpp\<close> with \<^verbatim>\<open>common/json_utils_base.cpp\<close>:
  \<open>SafeJsonParser\<close>, \<open>JsonValidator\<close>, \<open>parseResponse\<close> and \<open>parseResponseSafe\<close>.

  The JSON library itself (\<open>nlohmann::json\<close>) is not part of the repository: it is the parameter
  \<open>J\<close>, a record of the operations the sources call, over an unknown type \<open>'j\<close> of JSON values. An
  operation that can throw returns \<open>Inl m\<close> for a \<open>nlohmann::json::exception\<close> whose \<open>what()\<close> is \<open>m\<close>.
  The documented behaviour that the results rely on is the locale \<open>json_lib\<close>; \<open>jref\<close> is a concrete
  JSON data type that has it.
\<close>

section \<open>Responses\<close>

type_synonym params = "(string, string) smap"

record Response =
  status :: int
  body :: string
  headers :: params

definition success :: "Response \<Rightarrow> bool" where
  "success r \<longleftrightarrow> 200 \<le> status r \<and> status r < 300"

section \<open>The JSON library as a parameter\<close>

record 'j json_api =
  j_is_null :: "'j \<Rightarrow> bool"
  j_is_object :: "'j \<Rightarrow> bool"
  j_is_array :: "'j \<Rightarrow> bool"
  j_is_number :: "'j \<Rightarrow> bool"
  j_is_string :: "'j \<Rightarrow> bool"
  j_contains :: "'j \<Rightarrow> string \<Rightarrow> bool"
  j_at :: "'j \<Rightarrow> string \<Rightarrow> string + 'j"
  j_nth :: "'j \<Rightarrow> nat \<Rightarrow> string + 'j"
  j_elems :: "'j \<Rightarrow> 'j list"
  j_size :: "'j \<Rightarrow> nat"
  j_string :: "'j \<Rightarrow> string + string"
  j_double :: "'j \<Rightarrow> string + double"
  j_int :: "'j \<Rightarrow> string + int"
  j_long :: "'j \<Rightarrow> string + int"
  j_bool :: "'j \<Rightarrow> string + bool"
  j_value_string :: "'j \<Rightarrow> string \<Rightarrow> string \<Rightarrow> string + string"
  j_value_double :: "'j \<Rightarrow> string \<Rightarrow> double \<Rightarrow> string + double"
  j_value_int :: "'j \<Rightarrow> string \<Rightarrow> int \<Rightarrow> string + int"
  j_value_long :: "'j \<Rightarrow> string \<Rightarrow> int \<Rightarrow> string + int"
  j_value_bool :: "'j \<Rightarrow> string \<Rightarrow> bool \<Rightarrow> string + bool"
  j_object :: "'j"
  j_parse :: "string \<Rightarrow> string + 'j"

definition jx :: "(string, 'a) outcome \<Rightarrow> 'a fallible" where
  "jx = map_sum JsonException id"

definition atE :: "'j json_api \<Rightarrow> 'j \<Rightarrow> string \<Rightarrow> 'j fallible" where
  "atE J j k = jx (j_at J j k)"

definition andE :: "bool fallible \<Rightarrow> bool fallible \<Rightarrow> bool fallible" where
  "andE a b = bindE a (\<lambda>p. if p then b else Inr False)"

definition ifE :: "bool fallible \<Rightarrow> 'a fallible \<Rightarrow> 'a fallible \<Rightarrow> 'a fallible" where
  "ifE c t e = bindE c (\<lambda>b. if b then t else e)"

definition onlyIfE :: "bool fallible \<Rightarrow> (exn, 's) stmt \<Rightarrow> (exn, 's) stmt" where
  "onlyIfE c st s = bindE c (\<lambda>b. if b then st s else Inr s)"

text \<open>\<open>json.contains(k) && !json[k].is_null() && p(json[k])\<close>\<close>

definition present :: "'j json_api \<Rightarrow> ('j \<Rightarrow> bool) \<Rightarrow> 'j \<Rightarrow> string \<Rightarrow> bool fallible" where
  "present J p j k =
     (if j_contains J j k
      then bindE (atE J j k) (\<lambda>x. Inr (\<not> j_is_null J x \<and> p x))
      else Inr False)"

text \<open>\<open>json.contains(k) && json[k].contains(l)\<close>\<close>

definition contains2 :: "'j json_api \<Rightarrow> 'j \<Rightarrow> string \<Rightarrow> string \<Rightarrow> bool fallible" where
  "contains2 J j k l =
     (if j_contains J j k then bindE (atE J j k) (\<lambda>x. Inr (j_contains J x l)) else Inr False)"

text \<open>\<open>json.contains(k) && !json[k].is_null() && json[k].contains(l) && !json[k][l].is_null()\<close>\<close>

definition present2 :: "'j json_api \<Rightarrow> 'j \<Rightarrow> string \<Rightarrow> string \<Rightarrow> bool fallible" where
  "present2 J j k l =
     andE (present J (\<lambda>_. True) j k) (bindE (atE J j k) (\<lambda>x. present J (\<lambda>_. True) x l))"

text \<open>The loop \<open>for (const auto& item : json) if (!item.is_null()) ...\<close>, and the list of an array or of
  a single object, which the server sends for one element.\<close>

definition nonNull :: "'j json_api \<Rightarrow> 'j \<Rightarrow> 'j list" where
  "nonNull J json = filter (\<lambda>x. \<not> j_is_null J x) (j_elems J json)"

definition listOf :: "'j json_api \<Rightarrow> ('j \<Rightarrow> 'a fallible) \<Rightarrow> 'j \<Rightarrow> 'a list fallible" where
  "listOf J parser json =
     (if j_is_array J json then traverseE parser (nonNull J json)
      else if j_is_object J json then map_sum id (\<lambda>x. [x]) (parser json)
      else Inr [])"

text \<open>The members of an object that the library assigns before it calls \<open>dump\<close>.\<close>

datatype jfield = FStr string | FInt int | FBool bool | FStrs "string list"

section \<open>parseResponse\<close>

definition parseResponse :: "'j json_api \<Rightarrow> Response \<Rightarrow> ('j \<Rightarrow> 'a fallible) \<Rightarrow> 'a option" where
  "parseResponse J response parser =
     (if \<not> success response then None
      else (case bindE (jx (j_parse J (body response))) parser of
              Inr v \<Rightarrow> Some v
            | Inl e \<Rightarrow> None))"

section \<open>SafeJsonParser\<close>

record 'j SafeJsonParser =
  safeJson :: 'j
  safeValid :: bool
  safeError :: string

definition safeOfString :: "'j json_api \<Rightarrow> string \<Rightarrow> 'j SafeJsonParser" where
  "safeOfString J jsonString =
     (case j_parse J jsonString of
        Inr j \<Rightarrow> \<lparr>safeJson = j, safeValid = True, safeError = []\<rparr>
      | Inl m \<Rightarrow> \<lparr>safeJson = j_object J, safeValid = False, safeError = m\<rparr>)"

definition safeOfResponse :: "'j json_api \<Rightarrow> Response \<Rightarrow> 'j SafeJsonParser" where
  "safeOfResponse J response =
     (if \<not> success response
      then \<lparr>safeJson = j_object J, safeValid = False,
            safeError = ''HTTP error: '' @ to_string (status response)\<rparr>
      else (case j_parse J (body response) of
              Inr j \<Rightarrow> \<lparr>safeJson = j, safeValid = True, safeError = []\<rparr>
            | Inl m \<Rightarrow> \<lparr>safeJson = j_object J, safeValid = False, safeError = m\<rparr>))"

definition safeOfJson :: "'j \<Rightarrow> 'j SafeJsonParser" where
  "safeOfJson j = \<lparr>safeJson = j, safeValid = True, safeError = []\<rparr>"

text \<open>
  The five overloads of \<open>value\<close> and the five conversion operators differ only in the type they
  convert to, the argument \<open>get\<close>.
\<close>

definition safeValue ::
  "'j json_api \<Rightarrow> ('j \<Rightarrow> string + 'a) \<Rightarrow> 'j SafeJsonParser \<Rightarrow> string \<Rightarrow> 'a \<Rightarrow> 'a" where
  "safeValue J get p key defaultValue =
     (if \<not> safeValid p \<or> \<not> j_contains J (safeJson p) key then defaultValue
      else (case j_at J (safeJson p) key of
              Inl m \<Rightarrow> defaultValue
            | Inr x \<Rightarrow>
                if j_is_null J x then defaultValue
                else (case get x of Inr v \<Rightarrow> v | Inl m \<Rightarrow> defaultValue)))"

definition safeValueString :: "'j json_api \<Rightarrow> 'j SafeJsonParser \<Rightarrow> string \<Rightarrow> string \<Rightarrow> string" where
  "safeValueString J = safeValue J (j_string J)"

definition safeValueDouble :: "'j json_api \<Rightarrow> 'j SafeJsonParser \<Rightarrow> string \<Rightarrow> double \<Rightarrow> double" where
  "safeValueDouble J = safeValue J (j_double J)"

definition safeValueInt :: "'j json_api \<Rightarrow> 'j SafeJsonParser \<Rightarrow> string \<Rightarrow> int \<Rightarrow> int" where
  "safeValueInt J = safeValue J (j_int J)"

definition safeValueBool :: "'j json_api \<Rightarrow> 'j SafeJsonParser \<Rightarrow> string \<Rightarrow> bool \<Rightarrow> bool" where
  "safeValueBool J = safeValue J (j_bool J)"

definition safeValueLong :: "'j json_api \<Rightarrow> 'j SafeJsonParser \<Rightarrow> string \<Rightarrow> int \<Rightarrow> int" where
  "safeValueLong J = safeValue J (j_long J)"

definition safeContains :: "'j json_api \<Rightarrow> 'j SafeJsonParser \<Rightarrow> string \<Rightarrow> bool" where
  "safeContains J p key \<longleftrightarrow> safeValid p \<and> j_contains J (safeJson p) key"

definition safeIndex :: "'j json_api \<Rightarrow> 'j SafeJsonParser \<Rightarrow> string \<Rightarrow> 'j SafeJsonParser fallible" where
  "safeIndex J p key =
     (if \<not> safeValid p \<or> \<not> j_contains J (safeJson p) key then Inr (safeOfJson (j_object J))
      else bindE (atE J (safeJson p) key) (\<lambda>x. Inr (safeOfJson x)))"

definition safeNth :: "'j json_api \<Rightarrow> 'j SafeJsonParser \<Rightarrow> nat \<Rightarrow> 'j SafeJsonParser fallible" where
  "safeNth J p index =
     (if \<not> safeValid p \<or> \<not> j_is_array J (safeJson p) \<or> j_size J (safeJson p) \<le> index
      then Inr (safeOfJson (j_object J))
      else bindE (jx (j_nth J (safeJson p) index)) (\<lambda>x. Inr (safeOfJson x)))"

definition safeIsArray :: "'j json_api \<Rightarrow> 'j SafeJsonParser \<Rightarrow> bool" where
  "safeIsArray J p \<longleftrightarrow> safeValid p \<and> j_is_array J (safeJson p)"

definition safeIsObject :: "'j json_api \<Rightarrow> 'j SafeJsonParser \<Rightarrow> bool" where
  "safeIsObject J p \<longleftrightarrow> safeValid p \<and> j_is_object J (safeJson p)"

definition safeSize :: "'j json_api \<Rightarrow> 'j SafeJsonParser \<Rightarrow> nat" where
  "safeSize J p = (if safeValid p then j_size J (safeJson p) else 0)"

definition safeEmpty :: "'j json_api \<Rightarrow> 'j SafeJsonParser \<Rightarrow> bool" where
  "safeEmpty J p \<longleftrightarrow> \<not> safeValid p \<or> j_size J (safeJson p) = 0"

definition safeConvert ::
  "'j json_api \<Rightarrow> ('j \<Rightarrow> string + 'a) \<Rightarrow> 'a \<Rightarrow> 'j SafeJsonParser \<Rightarrow> 'a" where
  "safeConvert J get zero p =
     (if \<not> safeValid p \<or> j_is_null J (safeJson p) then zero
      else (case get (safeJson p) of Inr v \<Rightarrow> v | Inl m \<Rightarrow> zero))"

definition safeToDouble :: "'j json_api \<Rightarrow> 'j SafeJsonParser \<Rightarrow> double" where
  "safeToDouble J = safeConvert J (j_double J) (DFin 0)"

definition safeToString :: "'j json_api \<Rightarrow> 'j SafeJsonParser \<Rightarrow> string" where
  "safeToString J = safeConvert J (j_string J) []"

definition safeToInt :: "'j json_api \<Rightarrow> 'j SafeJsonParser \<Rightarrow> int" where
  "safeToInt J = safeConvert J (j_int J) 0"

definition safeToBool :: "'j json_api \<Rightarrow> 'j SafeJsonParser \<Rightarrow> bool" where
  "safeToBool J = safeConvert J (j_bool J) False"

definition safeToLong :: "'j json_api \<Rightarrow> 'j SafeJsonParser \<Rightarrow> int" where
  "safeToLong J = safeConvert J (j_long J) 0"

definition parseResponseSafe ::
  "'j json_api \<Rightarrow> Response \<Rightarrow> ('j SafeJsonParser \<Rightarrow> 'a fallible) \<Rightarrow> 'a option" where
  "parseResponseSafe J response parser =
     (let jsonParser = safeOfResponse J response
      in if \<not> safeValid jsonParser then None
         else (case parser jsonParser of Inr v \<Rightarrow> Some v | Inl e \<Rightarrow> None))"

section \<open>JsonValidator\<close>

text \<open>The state is the list \<open>errors_\<close>; every check returns it with the verdict.\<close>

definition validateField ::
  "'j json_api \<Rightarrow> ('j \<Rightarrow> string + 'a) \<Rightarrow> 'j \<Rightarrow> string \<Rightarrow> bool \<Rightarrow> string list \<Rightarrow> bool \<times> string list" where
  "validateField J get json fieldName required errors =
     (if \<not> j_contains J json fieldName then
        (if required then (False, errors @ [''Missing required field: '' @ fieldName])
         else (True, errors))
      else (case bindE (j_at J json fieldName) get of
              Inr v \<Rightarrow> (True, errors)
            | Inl m \<Rightarrow> (False, errors @ [''Invalid type for field: '' @ fieldName])))"

definition validateObject ::
  "'j json_api \<Rightarrow> 'j \<Rightarrow> string \<Rightarrow> bool \<Rightarrow> string list \<Rightarrow> (bool \<times> string list) fallible" where
  "validateObject J json objectName required errors =
     (if \<not> j_contains J json objectName then
        (if required then Inr (False, errors @ [''Missing required object: '' @ objectName])
         else Inr (True, errors))
      else bindE (atE J json objectName) (\<lambda>x.
        if \<not> j_is_object J x
        then Inr (False, errors @ [''Field is not an object: '' @ objectName])
        else Inr (True, errors)))"

definition validateArray ::
  "'j json_api \<Rightarrow> 'j \<Rightarrow> string \<Rightarrow> bool \<Rightarrow> string list \<Rightarrow> (bool \<times> string list) fallible" where
  "validateArray J json arrayName required errors =
     (if \<not> j_contains J json arrayName then
        (if required then Inr (False, errors @ [''Missing required array: '' @ arrayName])
         else Inr (True, errors))
      else bindE (atE J json arrayName) (\<lambda>x.
        if \<not> j_is_array J x
        then Inr (False, errors @ [''Field is not an array: '' @ arrayName])
        else Inr (True, errors)))"

definition getErrorString :: "string list \<Rightarrow> string" where
  "getErrorString errors =
     (if errors = [] then [] else ''Validation errors: '' @ joinS '', '' errors)"

section \<open>The documented behaviour of the library\<close>

locale json_lib =
  fixes J :: "'j json_api"
  assumes kinds_disjoint:
      "j_is_null J x \<Longrightarrow> \<not> j_is_object J x \<and> \<not> j_is_array J x \<and> \<not> j_is_number J x \<and> \<not> j_is_string J x"
      "j_is_object J x \<Longrightarrow> \<not> j_is_array J x \<and> \<not> j_is_number J x \<and> \<not> j_is_string J x"
    and contains_object: "j_contains J x k \<Longrightarrow> j_is_object J x"
    and at_contained: "j_contains J x k \<Longrightarrow> \<exists>y. j_at J x k = Inr y"
    and string_get: "j_is_string J x \<Longrightarrow> \<exists>s. j_string J x = Inr s"
    and value_string_object: "j_is_object J x \<Longrightarrow>
      j_value_string J x k d1 = (if j_contains J x k then bindE (j_at J x k) (j_string J) else Inr d1)"
    and value_double_object: "j_is_object J x \<Longrightarrow>
      j_value_double J x k d2 = (if j_contains J x k then bindE (j_at J x k) (j_double J) else Inr d2)"
    and value_int_object: "j_is_object J x \<Longrightarrow>
      j_value_int J x k d3 = (if j_contains J x k then bindE (j_at J x k) (j_int J) else Inr d3)"
    and value_long_object: "j_is_object J x \<Longrightarrow>
      j_value_long J x k d4 = (if j_contains J x k then bindE (j_at J x k) (j_long J) else Inr d4)"
    and value_bool_object: "j_is_object J x \<Longrightarrow>
      j_value_bool J x k d5 = (if j_contains J x k then bindE (j_at J x k) (j_bool J) else Inr d5)"
    and value_not_object: "\<not> j_is_object J x \<Longrightarrow> \<exists>m. j_value_string J x k d1 = Inl m"
begin

lemma present_contained:
  assumes "j_contains J x k"
  obtains y where "j_at J x k = Inr y" "present J p x k = Inr (\<not> j_is_null J y \<and> p y)"
  using at_contained [OF assms] assms that by (auto simp: present_def atE_def jx_def)

lemma present_total: "present J p x k \<noteq> Inl e"
  using at_contained [of x k] by (auto simp: present_def atE_def jx_def)

lemma contains2_total: "contains2 J x k l \<noteq> Inl e"
  using at_contained [of x k] by (auto simp: contains2_def atE_def jx_def)

lemma null_contains: "j_is_null J x \<Longrightarrow> \<not> j_contains J x k"
  using contains_object kinds_disjoint by blast

lemma validator_total:
  "validateObject J x k req errs \<noteq> Inl e" "validateArray J x k req errs \<noteq> Inl e"
  using at_contained [of x k]
  by (auto simp: validateObject_def validateArray_def atE_def jx_def split: if_splits)

end

section \<open>A concrete JSON data type\<close>

datatype jval =
    JNull | JBool bool | JNum double | JStr string | JArr "jval list" | JObj "(string \<times> jval) list"

fun jv_contains :: "jval \<Rightarrow> string \<Rightarrow> bool" where
  "jv_contains (JObj m) k = (map_of m k \<noteq> None)"
| "jv_contains _ k = False"

fun jv_at :: "jval \<Rightarrow> string \<Rightarrow> string + jval" where
  "jv_at (JObj m) k = (case map_of m k of Some v \<Rightarrow> Inr v | None \<Rightarrow> Inl ''key not found'')"
| "jv_at _ k = Inl ''type_error.305''"

fun jv_nth :: "jval \<Rightarrow> nat \<Rightarrow> string + jval" where
  "jv_nth (JArr xs) i = (if i < length xs then Inr (xs ! i) else Inl ''out_of_range.401'')"
| "jv_nth _ i = Inl ''type_error.305''"

fun jv_elems :: "jval \<Rightarrow> jval list" where
  "jv_elems (JArr xs) = xs"
| "jv_elems (JObj m) = map snd m"
| "jv_elems JNull = []"
| "jv_elems x = [x]"

fun jv_string :: "jval \<Rightarrow> string + string" where
  "jv_string (JStr s) = Inr s"
| "jv_string _ = Inl ''type_error.302''"

fun jv_double :: "jval \<Rightarrow> string + double" where
  "jv_double (JNum d) = Inr d"
| "jv_double _ = Inl ''type_error.302''"

fun jv_int :: "jval \<Rightarrow> string + int" where
  "jv_int (JNum d) = Inr (case d_trunc d of Some i \<Rightarrow> i | None \<Rightarrow> 0)"
| "jv_int _ = Inl ''type_error.302''"

fun jv_bool :: "jval \<Rightarrow> string + bool" where
  "jv_bool (JBool b) = Inr b"
| "jv_bool _ = Inl ''type_error.302''"

fun jv_value :: "(jval \<Rightarrow> string + 'a) \<Rightarrow> jval \<Rightarrow> string \<Rightarrow> 'a \<Rightarrow> string + 'a" where
  "jv_value get (JObj m) k d = (case map_of m k of Some v \<Rightarrow> get v | None \<Rightarrow> Inr d)"
| "jv_value get _ k d = Inl ''type_error.306''"

text \<open>\<open>jref p\<close> is this data type with the text parser \<open>p\<close>.\<close>

definition jref :: "(string \<Rightarrow> string + jval) \<Rightarrow> jval json_api" where
  "jref p = \<lparr>
     j_is_null = (\<lambda>x. x = JNull),
     j_is_object = (\<lambda>x. case x of JObj _ \<Rightarrow> True | _ \<Rightarrow> False),
     j_is_array = (\<lambda>x. case x of JArr _ \<Rightarrow> True | _ \<Rightarrow> False),
     j_is_number = (\<lambda>x. case x of JNum _ \<Rightarrow> True | _ \<Rightarrow> False),
     j_is_string = (\<lambda>x. case x of JStr _ \<Rightarrow> True | _ \<Rightarrow> False),
     j_contains = jv_contains, j_at = jv_at, j_nth = jv_nth, j_elems = jv_elems,
     j_size = (\<lambda>x. length (jv_elems x)),
     j_string = jv_string, j_double = jv_double, j_int = jv_int, j_long = jv_int, j_bool = jv_bool,
     j_value_string = jv_value jv_string, j_value_double = jv_value jv_double,
     j_value_int = jv_value jv_int, j_value_long = jv_value jv_int, j_value_bool = jv_value jv_bool,
     j_object = JObj [], j_parse = p\<rparr>"

interpretation jr: json_lib "jref p" for p
proof unfold_locales
  fix x :: jval and k d1 d2 d3 d4 d5
  show "j_is_null (jref p) x \<Longrightarrow> \<not> j_is_object (jref p) x \<and> \<not> j_is_array (jref p) x \<and>
      \<not> j_is_number (jref p) x \<and> \<not> j_is_string (jref p) x"
    by (simp add: jref_def)
  show "j_is_object (jref p) x \<Longrightarrow> \<not> j_is_array (jref p) x \<and> \<not> j_is_number (jref p) x \<and>
      \<not> j_is_string (jref p) x"
    by (cases x) (simp_all add: jref_def)
  show "j_contains (jref p) x k \<Longrightarrow> j_is_object (jref p) x"
    by (cases x) (simp_all add: jref_def)
  show "j_contains (jref p) x k \<Longrightarrow> \<exists>y. j_at (jref p) x k = Inr y"
    by (cases x) (auto simp: jref_def)
  show "j_is_string (jref p) x \<Longrightarrow> \<exists>s. j_string (jref p) x = Inr s"
    by (cases x) (simp_all add: jref_def)
  show "\<not> j_is_object (jref p) x \<Longrightarrow> \<exists>m. j_value_string (jref p) x k d1 = Inl m"
    by (cases x) (simp_all add: jref_def)
qed (auto simp: jref_def split: jval.splits option.splits)

lemmas json_helper_defs = jx_def atE_def andE_def ifE_def onlyIfE_def present_def contains2_def

end
