(* ===== verification/World.thy ===== *)
theory World
  imports Json
begin

text \<open>
  The outside world of the library. Everything a run reads from outside (clocks, the transfers of
  libcurl, its allocations) is the parameter \<open>n\<close> of type \<open>net\<close>: external call number \<open>i\<close> of a run
  has the outcome the components of \<open>n\<close> give for \<open>i\<close>, so that every outcome may differ from call to
  call. \<open>RAND_bytes\<close> and \<open>EVP_sha256\<close> are OpenSSL's (\<open>None\<close> and \<open>Inl m\<close> are their failures, \<open>m\<close> the message
  of the exception the caller throws). What a run does to the outside is logged in the \<open>world\<close>: the number of external calls so
  far, the requests handed to libcurl, the delays of \<open>std::this_thread::sleep_for\<close> in milliseconds
  (\<open>None\<close> for a delay whose conversion is undefined) and those of condition variable waits in
  nanoseconds. The states of the components extend \<open>world\<close>.
\<close>

datatype verb = HTTPGET | HTTPPOST | CUSTOMREQUEST string

record request =
  CURLOPT_URL :: string
  CURLOPT_VERB :: verb
  CURLOPT_POSTFIELDS :: "string option"
  CURLOPT_HTTPHEADER :: "string list"
  CURLOPT_TIMEOUT :: int

record transfer =
  responseCode :: int
  headerLines :: "string list"
  bodyChunks :: "string list"

record net =
  steady_now :: "nat \<Rightarrow> int"
  system_now :: "nat \<Rightarrow> int"
  RAND_bytes :: "nat \<Rightarrow> nat \<Rightarrow> byte list option"
  EVP_sha256 :: "nat \<Rightarrow> string \<Rightarrow> string + string"
  curl_easy_init :: "nat \<Rightarrow> bool"
  curl_slist_append :: "nat \<Rightarrow> bool"
  curl_easy_escape :: "string \<Rightarrow> string option"
  curl_easy_perform :: "nat \<Rightarrow> request \<Rightarrow> string + transfer"
  uninit_status :: int

record world =
  calls :: nat
  sent :: "request list"
  sleeps :: "int option list"
  waits :: "int list"

definition tick :: "'z world_scheme \<Rightarrow> 'z world_scheme" where
  "tick w = w\<lparr>calls := Suc (calls w)\<rparr>"

definition steadyNow :: "net \<Rightarrow> ('z world_scheme, 'e, int) io" where
  "steadyNow n w = Some (Inr (steady_now n (calls w)), tick w)"

definition systemNow :: "net \<Rightarrow> ('z world_scheme, 'e, int) io" where
  "systemNow n w = Some (Inr (system_now n (calls w)), tick w)"

definition sleepFor :: "int option \<Rightarrow> 'z world_scheme \<Rightarrow> 'z world_scheme" where
  "sleepFor delay w = w\<lparr>sleeps := sleeps w @ [delay]\<rparr>"

text \<open>\<open>duration_cast<milliseconds>(initial * pow(multiplier, k))\<close>\<close>

definition backoffDelay :: "int \<Rightarrow> double \<Rightarrow> nat \<Rightarrow> int option" where
  "backoffDelay initialDelay multiplier k =
     d_trunc (d_times (round64 (of_int initialDelay)) (d_pow multiplier k))"

definition seconds :: "int \<Rightarrow> int" where
  "seconds s = s * 1000000000"

text \<open>\<open>duration_cast<seconds>\<close> truncates toward zero.\<close>

definition truncSeconds :: "int \<Rightarrow> int" where
  "truncSeconds t = (if 0 \<le> t then t div 1000000000 else - (- t div 1000000000))"

definition ms_of_ns :: "int \<Rightarrow> int" where
  "ms_of_ns t = (if 0 \<le> t then t div 1000000 else - (- t div 1000000))"

text \<open>The documented behaviour of \<open>std::chrono::steady_clock\<close>, for a run in which time passes.\<close>

definition clock_monotone :: "net \<Rightarrow> bool" where
  "clock_monotone n \<longleftrightarrow> mono (steady_now n)"

definition clock_progresses :: "net \<Rightarrow> bool" where
  "clock_progresses n \<longleftrightarrow> (\<forall>t i. \<exists>j \<ge> i. t < steady_now n j)"

lemma tick_fields [simp]:
  "calls (tick w) = Suc (calls w)" "sent (tick w) = sent w" "sleeps (tick w) = sleeps w"
  "waits (tick w) = waits w"
  by (simp_all add: tick_def)

lemma sleepFor_fields [simp]:
  "calls (sleepFor d w) = calls w" "sent (sleepFor d w) = sent w"
  "sleeps (sleepFor d w) = sleeps w @ [d]" "waits (sleepFor d w) = waits w"
  by (simp_all add: sleepFor_def)

text \<open>With the default multiplier the delays double exactly, as long as they fit.\<close>

lemma backoffDelay_double:
  assumes "0 < d" "d * 2 ^ k < 2 ^ 53"
  shows "backoffDelay d (DFin 2) k = Some (d * 2 ^ k)"
proof -
  have one: "(1 :: int) \<le> 2 ^ k" by simp
  have "d * 1 \<le> d * 2 ^ k" "1 * 2 ^ k \<le> d * 2 ^ k"
    using assms(1) one by (intro mult_left_mono mult_right_mono; linarith)+
  then have small: "d < 2 ^ 53" "(2 :: int) ^ k < 2 ^ 53"
    using assms(2) by linarith+
  have "d_pow (DFin 2) k = DFin (2 ^ k)"
    using round64_int [of "2 ^ k"] small by (simp add: d_pow_def d_signed_def)
  moreover have "round64 (of_int d) = DFin (of_int d)" using assms(1) small by (simp add: round64_int)
  moreover have "d_times (DFin (of_int d)) (DFin (2 ^ k)) = DFin (of_int (d * 2 ^ k))"
    using round64_int [of "d * 2 ^ k"] assms by (simp add: d_times_def d_signed_def abs_mult)
  moreover have "d_trunc (DFin (of_int (d * 2 ^ k))) = Some (d * 2 ^ k)"
  proof -
    have "\<lfloor>(of_int (d * 2 ^ k) :: rat)\<rfloor> = d * 2 ^ k" by (rule floor_of_int)
    moreover have "0 \<le> d * 2 ^ k" using assms(1) by simp
    moreover have "d * 2 ^ k < 2 ^ 63" using assms(2) by simp
    ultimately show ?thesis by (simp add: d_trunc_def del: of_int_mult)
  qed
  ultimately show ?thesis by (simp add: backoffDelay_def)
qed

section \<open>A sample run\<close>

text \<open>
  A network in which the clock advances half a second with every call, libcurl never fails to
  allocate, escapes as documented, and answers every transfer with the given reply.
\<close>

definition sampleNet :: "(nat \<Rightarrow> request \<Rightarrow> string + transfer) \<Rightarrow> net" where
  "sampleNet reply = \<lparr>
     steady_now = (\<lambda>i. int i * 500000000), system_now = (\<lambda>i. int i * 500000000),
     RAND_bytes = (\<lambda>i k. Some (map (\<lambda>j. of_nat (7 * i + 13 * j)) [0..<k])),
     EVP_sha256 = (\<lambda>i s. Inr (take 32 (s @ replicate 32 (CHR ''0'')))), curl_easy_init = (\<lambda>i. True), curl_slist_append = (\<lambda>i. True),
     curl_easy_escape = (\<lambda>s. Some (urlEncode s)), curl_easy_perform = reply, uninit_status = 0\<rparr>"

definition startWorld :: world where
  "startWorld = \<lparr>calls = 0, sent = [], sleeps = [], waits = []\<rparr>"

lemma sampleNet_clock: "clock_monotone (sampleNet reply)" "clock_progresses (sampleNet reply)"
proof -
  show "clock_monotone (sampleNet reply)"
    by (simp add: clock_monotone_def sampleNet_def mono_def)
  have "t < int (max i (nat t + 1)) * 500000000" for t :: int and i
    by (cases "0 \<le> t") (auto simp: max_def)
  then show "clock_progresses (sampleNet reply)"
    unfolding clock_progresses_def sampleNet_def net.select_convs by (meson max.cobounded1)
qed

end
