(* ===== verification/Config.thy ===== *)
theory Config
  imports World
begin

text \<open>
  \<^verbatim>\<open>common/config.hpp\<close> and \<^verbatim>\<open>common/config.cpp\<close>: the configuration and how it is read from the
  environment (\<open>getenv\<close>).
\<close>

record Config =
  accessToken :: string
  accountNumber :: string
  sandboxMode :: bool
  timeoutSeconds :: int

definition defaultConfig :: Config where
  "defaultConfig = \<lparr>accessToken = [], accountNumber = [], sandboxMode = True, timeoutSeconds = 30\<rparr>"

definition baseUrl :: "Config \<Rightarrow> string" where
  "baseUrl c =
     (if sandboxMode c then ''https://sandbox.tradier.com/v1'' else ''https://api.tradier.com/v1'')"

definition wsUrl :: "Config \<Rightarrow> string" where
  "wsUrl c =
     (if sandboxMode c then ''wss://sandbox.tradier.com/v1'' else ''wss://ws.tradier.com/v1'')"

definition fromEnvironment :: "(string \<Rightarrow> string option) \<Rightarrow> Config" where
  "fromEnvironment getenv =
     (let config = defaultConfig;
          config =
            (case getenv ''TRADIER_SBX_ENABLE'' of
               None \<Rightarrow> config
             | Some sandboxStr \<Rightarrow>
                 if sandboxStr = ''0'' \<or> sandboxStr = ''false'' \<or> sandboxStr = ''no'' \<or> sandboxStr = ''off''
                 then config\<lparr>sandboxMode := False\<rparr> else config);
          config =
            (if sandboxMode config then
               (let config = (case getenv ''TRADIER_SBX_TOKEN'' of
                                None \<Rightarrow> config | Some t \<Rightarrow> config\<lparr>accessToken := t\<rparr>)
                in (case getenv ''TRADIER_SBX_ACCNUM'' of
                      None \<Rightarrow> config | Some a \<Rightarrow> config\<lparr>accountNumber := a\<rparr>))
             else (case getenv ''TRADIER_PROD_TOKEN'' of
                     None \<Rightarrow> config | Some t \<Rightarrow> config\<lparr>accessToken := t\<rparr>))
      in (case getenv ''TRADIER_API_TIMEOUT'' of
            None \<Rightarrow> config
          | Some t \<Rightarrow> (case stoi t of None \<Rightarrow> config | Some i \<Rightarrow> config\<lparr>timeoutSeconds := i\<rparr>)))"

text \<open>The values of \<open>TRADIER_SBX_ENABLE\<close> that select production.\<close>

definition optsOut :: "(string \<Rightarrow> string option) \<Rightarrow> bool" where
  "optsOut getenv \<longleftrightarrow>
     getenv ''TRADIER_SBX_ENABLE'' \<in> Some ` {''0'', ''false'', ''no'', ''off''}"

lemma baseUrl_nonempty [simp]: "baseUrl c \<noteq> []"
  by (simp add: baseUrl_def)

lemma baseUrl_inject: "baseUrl c = baseUrl d \<longleftrightarrow> sandboxMode c = sandboxMode d"
  by (simp add: baseUrl_def)

lemma fromEnvironment_sandbox: "sandboxMode (fromEnvironment getenv) \<longleftrightarrow> \<not> optsOut getenv"
  by (auto simp: fromEnvironment_def defaultConfig_def optsOut_def Let_def split: option.splits)

lemma fromEnvironment_token:
  "accessToken (fromEnvironment getenv) =
     (case getenv (if optsOut getenv then ''TRADIER_PROD_TOKEN'' else ''TRADIER_SBX_TOKEN'') of
        None \<Rightarrow> [] | Some t \<Rightarrow> t)"
  by (auto simp: fromEnvironment_def defaultConfig_def optsOut_def Let_def split: option.splits)

lemma fromEnvironment_account:
  "accountNumber (fromEnvironment getenv) =
     (if optsOut getenv then []
      else (case getenv ''TRADIER_SBX_ACCNUM'' of None \<Rightarrow> [] | Some a \<Rightarrow> a))"
  by (auto simp: fromEnvironment_def defaultConfig_def optsOut_def Let_def split: option.splits)

lemma fromEnvironment_timeout: "is_int32 (timeoutSeconds (fromEnvironment getenv))"
  by (auto simp: fromEnvironment_def defaultConfig_def Let_def is_int32_def
      dest: stoi_int32 split: option.splits)

text \<open>
  The environment selects the live brokerage only by an explicit opt-out: the base URL is the
  production one exactly when \<open>TRADIER_SBX_ENABLE\<close> is one of the four opt-out values, the token then
  comes from the production variable and otherwise from the sandbox variable, never from the other
  one, and the sandbox account number never reaches a production configuration.
\<close>

theorem production_needs_opt_out:
  "baseUrl (fromEnvironment getenv) =
     (if optsOut getenv then ''https://api.tradier.com/v1'' else ''https://sandbox.tradier.com/v1'') \<and>
   accessToken (fromEnvironment getenv) =
     (case getenv (if optsOut getenv then ''TRADIER_PROD_TOKEN'' else ''TRADIER_SBX_TOKEN'') of
        None \<Rightarrow> [] | Some t \<Rightarrow> t) \<and>
   (if optsOut getenv then accountNumber (fromEnvironment getenv) = [] else True) \<and>
   is_int32 (timeoutSeconds (fromEnvironment getenv))"
  by (simp add: fromEnvironment_token fromEnvironment_account fromEnvironment_timeout
      fromEnvironment_sandbox baseUrl_def)

end
