(* ===== verification/Rate_Limiter.thy ===== *)
theory Rate_Limiter
  imports Config
begin

text \<open>
  \<^verbatim>\<open>common/async.hpp\<close>: \<open>RateLimiter\<close>, the fixed-window limiter of the HTTP client. Times are
  nanoseconds of the steady clock, \<open>windowDuration\<close> is in milliseconds as in the code. A thread that
  runs \<open>tryAcquire\<close> or \<open>tryAcquireInternal\<close> holds the mutex, so the limiter sees a sequence of
  attempts at non-decreasing times; \<open>attemptsAt\<close> is such a sequence.
\<close>

record RateLimiter =
  windowStart :: int
  requestCount :: int
  maxRequests :: int
  windowDuration :: int

definition windowNs :: "RateLimiter \<Rightarrow> int" where
  "windowNs rl = windowDuration rl * 1000000"

definition newRateLimiter :: "int \<Rightarrow> int \<Rightarrow> int \<Rightarrow> RateLimiter" where
  "newRateLimiter now maxReq duration =
     \<lparr>windowStart = now, requestCount = 0, maxRequests = maxReq, windowDuration = duration\<rparr>"

definition tryAcquire :: "int \<Rightarrow> RateLimiter \<Rightarrow> bool \<times> RateLimiter" where
  "tryAcquire now rl =
     (let rl = (if windowNs rl < now - windowStart rl
                then rl\<lparr>windowStart := now, requestCount := 0\<rparr> else rl)
      in if requestCount rl < maxRequests rl
         then (True, rl\<lparr>requestCount := requestCount rl + 1\<rparr>)
         else (False, rl))"

definition tryAcquireInternal :: "int \<Rightarrow> RateLimiter \<Rightarrow> bool \<times> RateLimiter" where
  "tryAcquireInternal now rl =
     (let rl = (if windowNs rl < now - windowStart rl
                then rl\<lparr>windowStart := now, requestCount := 0\<rparr> else rl)
      in if requestCount rl < maxRequests rl
         then (True, rl\<lparr>requestCount := requestCount rl + 1\<rparr>)
         else (False, rl))"

text \<open>
  The loop of \<open>waitForSlot\<close>: an attempt, then a timed wait until the window is over, and again. Each
  iteration reads the clock twice. \<open>None\<close> is a loop that never ends.
\<close>

partial_function (option) waitForSlot ::
  "net \<Rightarrow> RateLimiter \<Rightarrow> 'z world_scheme \<Rightarrow> (RateLimiter \<times> 'z world_scheme) option" where
  "waitForSlot n rl w =
     (let (acquired, rl') = tryAcquireInternal (steady_now n (calls w)) rl; w' = tick w
      in if acquired then Some (rl', w')
         else let timeToWait = windowNs rl' - (steady_now n (calls w') - windowStart rl')
              in if 0 < timeToWait
                 then waitForSlot n rl' ((tick w')\<lparr>waits := waits w @ [timeToWait]\<rparr>)
                 else waitForSlot n rl' (tick w'))"

section \<open>The invariant\<close>

definition limiter_ok :: "RateLimiter \<Rightarrow> bool" where
  "limiter_ok rl \<longleftrightarrow> 0 \<le> requestCount rl \<and> requestCount rl \<le> max 0 (maxRequests rl)"

lemma tryAcquireInternal_eq: "tryAcquireInternal = tryAcquire"
  by (simp add: fun_eq_iff tryAcquireInternal_def tryAcquire_def)

lemma tryAcquire_config [simp]:
  "maxRequests (snd (tryAcquire t rl)) = maxRequests rl"
  "windowDuration (snd (tryAcquire t rl)) = windowDuration rl"
  "windowNs (snd (tryAcquire t rl)) = windowNs rl"
  by (simp_all add: tryAcquire_def Let_def windowNs_def)

lemma newRateLimiter_ok: "limiter_ok (newRateLimiter t m d)"
  by (simp add: limiter_ok_def newRateLimiter_def)

lemma tryAcquire_ok: "limiter_ok rl \<Longrightarrow> limiter_ok (snd (tryAcquire t rl))"
  by (auto simp: limiter_ok_def tryAcquire_def Let_def)

lemma tryAcquire_fresh:
  assumes "windowNs rl < t - windowStart rl" "0 < maxRequests rl"
  shows "fst (tryAcquire t rl)"
  using assms by (simp add: tryAcquire_def windowNs_def)

lemma tryAcquire_denied:
  "\<not> fst (tryAcquire t rl) \<Longrightarrow>
     windowStart (snd (tryAcquire t rl)) = (if windowNs rl < t - windowStart rl then t else windowStart rl) \<and>
     (0 < maxRequests rl \<longrightarrow> snd (tryAcquire t rl) = rl)"
  by (auto simp: tryAcquire_def Let_def split: if_splits)

section \<open>How many attempts succeed\<close>

fun attemptsAt :: "int list \<Rightarrow> RateLimiter \<Rightarrow> nat \<times> RateLimiter" where
  "attemptsAt [] rl = (0, rl)"
| "attemptsAt (t # ts) rl =
     (let (b, rl1) = tryAcquire t rl; (k, rl2) = attemptsAt ts rl1
      in ((if b then 1 else 0) + k, rl2))"

definition grants :: "int list \<Rightarrow> RateLimiter \<Rightarrow> nat" where
  "grants ts rl = fst (attemptsAt ts rl)"

lemma grants_simps [simp]:
  "grants [] rl = 0"
  "grants (t # ts) rl = (if fst (tryAcquire t rl) then 1 else 0) + grants ts (snd (tryAcquire t rl))"
  by (simp_all add: grants_def Let_def split_beta)

text \<open>An attempt either stays in the window, where the counter records the grants, or opens one.\<close>

lemma grants_same_window:
  assumes "\<not> windowNs rl < t - windowStart rl"
  shows "int (grants (t # ts) rl) + requestCount rl =
      int (grants ts (snd (tryAcquire t rl))) + requestCount (snd (tryAcquire t rl))"
    "windowStart (snd (tryAcquire t rl)) = windowStart rl"
  using assms by (auto simp: tryAcquire_def Let_def)

lemma grants_new_window:
  assumes "windowNs rl < t - windowStart rl" "0 \<le> maxRequests rl"
  shows "int (grants (t # ts) rl) =
      int (grants ts (snd (tryAcquire t rl))) + requestCount (snd (tryAcquire t rl))"
    "windowStart (snd (tryAcquire t rl)) = t"
  using assms by (auto simp: tryAcquire_def Let_def windowNs_def)

lemma grants_bound:
  assumes "limiter_ok rl" "0 \<le> maxRequests rl" "0 \<le> windowNs rl"
    and "sorted ts" "\<And>t. t \<in> set ts \<Longrightarrow> t \<le> T" "windowStart rl \<le> T"
  shows "int (grants ts rl) + requestCount rl \<le>
           maxRequests rl * (1 + (T - windowStart rl) div (windowNs rl + 1))"
  using assms
proof (induction ts arbitrary: rl)
  case Nil
  then have "0 \<le> (T - windowStart rl) div (windowNs rl + 1)"
    by (simp add: pos_imp_zdiv_nonneg_iff)
  then have "maxRequests rl * 1 \<le> maxRequests rl * (1 + (T - windowStart rl) div (windowNs rl + 1))"
    using Nil.prems(2) by (intro mult_left_mono) simp_all
  with Nil.prems show ?case by (simp add: limiter_ok_def)
next
  case (Cons t ts)
  let ?r = "snd (tryAcquire t rl)" and ?D = "windowNs rl + 1"
  have tT: "t \<le> T" and pos: "0 < ?D" using Cons.prems by simp_all
  have ok: "limiter_ok ?r" using Cons.prems by (simp add: tryAcquire_ok)
  show ?case
  proof (cases "windowNs rl < t - windowStart rl")
    case False
    have "windowStart ?r \<le> T" using grants_same_window(2) [OF False] Cons.prems by simp
    then have "int (grants ts ?r) + requestCount ?r \<le>
        maxRequests rl * (1 + (T - windowStart rl) div ?D)"
      using Cons.IH [of ?r] Cons.prems ok grants_same_window(2) [OF False] by simp
    then show ?thesis using grants_same_window(1) [OF False, of ts] by simp
  next
    case True
    have ws: "windowStart ?r = t" using grants_new_window(2) [OF True] Cons.prems by simp
    have "int (grants ts ?r) + requestCount ?r \<le> maxRequests rl * (1 + (T - t) div ?D)"
      using Cons.IH [of ?r] Cons.prems ok tT ws by simp
    then have a: "int (grants (t # ts) rl) \<le> maxRequests rl * (1 + (T - t) div ?D)"
      using grants_new_window(1) [OF True, of ts] Cons.prems by simp
    have "1 + (T - t) div ?D = (T - t + ?D) div ?D" using pos by simp
    also have "\<dots> \<le> (T - windowStart rl) div ?D" using True pos by (intro zdiv_mono1) simp_all
    finally have "maxRequests rl * (1 + (T - t) div ?D) \<le>
        maxRequests rl * ((T - windowStart rl) div ?D)"
      using Cons.prems(2) by (intro mult_left_mono) simp_all
    with a have "int (grants (t # ts) rl) \<le> maxRequests rl * ((T - windowStart rl) div ?D)" by simp
    moreover have "requestCount rl \<le> maxRequests rl" using Cons.prems by (simp add: limiter_ok_def)
    ultimately show ?thesis by (simp add: distrib_left)
  qed
qed

lemma grants_burst:
  assumes "limiter_ok rl" "0 \<le> maxRequests rl" "0 \<le> windowNs rl"
    and "sorted ts" "\<And>t. t \<in> set ts \<Longrightarrow> L \<le> t \<and> t \<le> L + windowNs rl"
  shows "int (grants ts rl) + requestCount rl \<le> 2 * maxRequests rl"
  using assms
proof (induction ts arbitrary: rl)
  case Nil
  then show ?case by (simp add: limiter_ok_def)
next
  case (Cons t ts)
  let ?r = "snd (tryAcquire t rl)"
  have ok: "limiter_ok ?r" using Cons.prems by (simp add: tryAcquire_ok)
  show ?case
  proof (cases "windowNs rl < t - windowStart rl")
    case False
    then show ?thesis
      using grants_same_window(1) [OF False, of ts] Cons.IH [of ?r] Cons.prems ok by simp
  next
    case True
    have ws: "windowStart ?r = t" using grants_new_window(2) [OF True] Cons.prems by simp
    have bounds: "L \<le> t" "t \<le> L + windowNs rl" using Cons.prems(5) [of t] by simp_all
    have upper: "\<And>t. t \<in> set ts \<Longrightarrow> t \<le> L + windowNs rl" using Cons.prems(5) by simp
    have "int (grants ts ?r) + requestCount ?r \<le>
        maxRequests ?r * (1 + (L + windowNs rl - windowStart ?r) div (windowNs ?r + 1))"
      by (rule grants_bound) (use Cons.prems(2-4) ok bounds ws upper in simp_all)
    moreover have "(L + windowNs rl - t) div (windowNs rl + 1) = 0"
      using bounds by (intro div_pos_pos_trivial) simp_all
    ultimately have "int (grants (t # ts) rl) \<le> maxRequests rl"
      using grants_new_window(1) [OF True, of ts] Cons.prems by (simp add: ws)
    moreover have "requestCount rl \<le> maxRequests rl" using Cons.prems by (simp add: limiter_ok_def)
    ultimately show ?thesis by simp
  qed
qed

section \<open>Waiting for a slot\<close>

text \<open>One iteration of the loop, and what a finished loop has done.\<close>

lemma waitForSlot_step:
  "waitForSlot n rl w =
     (if fst (tryAcquire (steady_now n (calls w)) rl)
      then Some (snd (tryAcquire (steady_now n (calls w)) rl), tick w)
      else waitForSlot n (snd (tryAcquire (steady_now n (calls w)) rl))
             (let rl' = snd (tryAcquire (steady_now n (calls w)) rl);
                  timeToWait = windowNs rl' - (steady_now n (Suc (calls w)) - windowStart rl')
              in if 0 < timeToWait then (tick (tick w))\<lparr>waits := waits w @ [timeToWait]\<rparr>
                 else tick (tick w)))"
  by (subst waitForSlot.simps) (simp add: tryAcquireInternal_eq split_beta Let_def)

text \<open>What a call that returned did: the last attempt was granted, and nothing was sent.\<close>

definition slot_post ::
  "net \<Rightarrow> RateLimiter \<Rightarrow> 'z world_scheme \<Rightarrow> RateLimiter \<times> 'z world_scheme \<Rightarrow> bool" where
  "slot_post n rl w = (\<lambda>(rl', w').
     (limiter_ok rl \<longrightarrow> 0 < maxRequests rl \<and> limiter_ok rl' \<and> 0 < requestCount rl') \<and>
     maxRequests rl' = maxRequests rl \<and> windowDuration rl' = windowDuration rl \<and>
     (\<exists>ws. w' = w\<lparr>calls := calls w', waits := ws\<rparr>) \<and>
     (\<exists>rl0 i. calls w \<le> i \<and> calls w' = Suc i \<and> tryAcquire (steady_now n i) rl0 = (True, rl')))"

lemma tryAcquire_granted:
  "fst (tryAcquire t rl) \<Longrightarrow> limiter_ok rl \<Longrightarrow>
     0 < maxRequests rl \<and> 0 < requestCount (snd (tryAcquire t rl))"
  by (auto simp: tryAcquire_def Let_def limiter_ok_def split: if_splits)

lemma slot_post_granted:
  assumes "tryAcquire (steady_now n (calls w)) rl = (True, rl')"
  shows "slot_post n rl w (rl', tick w)"
  using tryAcquire_granted [of "steady_now n (calls w)" rl] tryAcquire_ok [of rl "steady_now n (calls w)"]
    tryAcquire_config [of "steady_now n (calls w)" rl] assms
  unfolding slot_post_def by (auto simp: tick_def intro: exI [of _ "waits w"])

lemma slot_post_denied:
  assumes "tryAcquire t rl = (b, rl1)" "slot_post n rl1 w1 (rl', w')"
    and "w1 = w\<lparr>calls := calls w1, waits := ws\<rparr>" "calls w \<le> calls w1"
  shows "slot_post n rl w (rl', w')"
proof -
  have "maxRequests rl1 = maxRequests rl" "windowDuration rl1 = windowDuration rl"
    "limiter_ok rl \<longrightarrow> limiter_ok rl1"
    using tryAcquire_ok [of rl t] tryAcquire_config [of t rl] assms(1) by simp_all
  moreover have "\<exists>vs. w' = w\<lparr>calls := calls w', waits := vs\<rparr>" if "w' = w1\<lparr>calls := c, waits := us\<rparr>" for c us
  proof -
    have "w' = w\<lparr>calls := c, waits := us\<rparr>" unfolding that by (subst assms(3)) simp
    then show ?thesis by (intro exI [of _ us]) simp
  qed
  ultimately show ?thesis
    using assms(2,4) unfolding slot_post_def prod.case by (metis order_trans)
qed

lemma waitForSlot_post:
  "waitForSlot n rl w = Some y \<Longrightarrow> slot_post n rl w y"
proof (erule waitForSlot.raw_induct [rotated])
  fix wait :: "net \<Rightarrow> RateLimiter \<Rightarrow> 'a world_scheme \<Rightarrow> (RateLimiter \<times> 'a world_scheme) option"
    and n rl w y
  assume IH: "\<And>n rl w y. wait n rl w = Some y \<Longrightarrow> slot_post n rl w y"
    and step: "(let (acquired, rl') = tryAcquireInternal (steady_now n (calls w)) rl; w' = tick w
      in if acquired then Some (rl', w')
         else let timeToWait = windowNs rl' - (steady_now n (calls w') - windowStart rl')
              in if 0 < timeToWait
                 then wait n rl' ((tick w')\<lparr>waits := waits w @ [timeToWait]\<rparr>)
                 else wait n rl' (tick w')) = Some y"
  obtain b rl1 where t: "tryAcquire (steady_now n (calls w)) rl = (b, rl1)" by fastforce
  show "slot_post n rl w y"
  proof (cases b)
    case True
    then show ?thesis using step t slot_post_granted by (auto simp: tryAcquireInternal_eq)
  next
    case False
    with step t obtain ws where "wait n rl1 ((tick (tick w))\<lparr>waits := ws\<rparr>) = Some y"
      by (auto simp: tryAcquireInternal_eq Let_def tick_def split: if_splits)
        (metis world.surjective world.update_convs(4))
    then have "slot_post n rl1 ((tick (tick w))\<lparr>waits := ws\<rparr>) y" by (rule IH)
    then show ?thesis by (cases y) (auto simp: tick_def intro: slot_post_denied [OF t])
  qed
qed

lemma waitForSlot_denied:
  assumes "\<not> fst (tryAcquire (steady_now n (calls w)) rl)" "0 < maxRequests rl"
  obtains w' where "waitForSlot n rl w = waitForSlot n rl w'" "calls w' = Suc (Suc (calls w))"
proof -
  have "snd (tryAcquire (steady_now n (calls w)) rl) = rl" using tryAcquire_denied assms by blast
  then show thesis
    using that waitForSlot_step [of n rl w] assms(1) by (auto simp: Let_def split: if_splits)
qed

lemma waitForSlot_returns_by:
  assumes "0 < maxRequests rl" "\<And>i. j \<le> i \<Longrightarrow> windowNs rl < steady_now n i - windowStart rl"
  shows "\<exists>y. waitForSlot n rl w = Some y"
proof (induction "j - calls w" arbitrary: w rule: less_induct)
  case less
  show ?case
  proof (cases "fst (tryAcquire (steady_now n (calls w)) rl)")
    case True
    then show ?thesis by (subst waitForSlot_step) simp
  next
    case False
    then have "calls w < j"
      using assms tryAcquire_fresh [of rl "steady_now n (calls w)"] by (meson not_less)
    moreover obtain w' where "waitForSlot n rl w = waitForSlot n rl w'" "calls w' = Suc (Suc (calls w))"
      using waitForSlot_denied [OF False assms(1)] by blast
    ultimately show ?thesis using less [of w'] by simp
  qed
qed

lemma waitForSlot_returns:
  assumes "0 < maxRequests rl" "clock_monotone n" "clock_progresses n"
  shows "\<exists>y. waitForSlot n rl w = Some y"
proof -
  obtain j where j: "windowStart rl + windowNs rl < steady_now n j"
    using assms(3) unfolding clock_progresses_def by blast
  have "windowNs rl < steady_now n i - windowStart rl" if "j \<le> i" for i
    using monoD [of "steady_now n", OF _ that] assms(2) j by (simp add: clock_monotone_def)
  then show ?thesis using waitForSlot_returns_by assms(1) by blast
qed

section \<open>Properties\<close>

text \<open>
  C14: Over a whole run the limiter grants at most \<open>maxRequests\<close> requests per window: attempts at
  non-decreasing times up to \<open>T\<close> on a limiter created at \<open>t0\<close> succeed at most \<open>maxRequests\<close> times for
  every window that fits between the two, rounded up.
\<close>

theorem rate_limit_long_run:
  assumes "0 \<le> m" "0 \<le> d" "sorted (t0 # ts)" "T = last (t0 # ts)"
  shows "int (grants ts (newRateLimiter t0 m d)) \<le> m * (1 + (T - t0) div (d * 1000000 + 1))"
proof -
  have T: "t \<le> T" if "t \<in> set (t0 # ts)" for t
    using assms(3,4) that by (metis in_set_conv_nth last_conv_nth length_pos_if_in_set
        diff_less less_Suc_eq_le One_nat_def Suc_pred list.size(3) not_less_zero sorted_nth_mono zero_less_one)
  show ?thesis
    using grants_bound [OF newRateLimiter_ok, of t0 m d ts T] assms T
    by (simp add: newRateLimiter_def windowNs_def)
qed

text \<open>Witness: three attempts a second on a limiter of two per second, over 2.5 seconds.\<close>

theorem rate_limit_long_run_witness:
  "int (grants [100, 200, 300, 1000000400, 1000000500, 1000000600, 2500000000] (newRateLimiter 0 2 1000)) \<le>
     2 * (1 + (2500000000 - 0) div (1000 * 1000000 + 1))"
  by (rule rate_limit_long_run) simp_all

text \<open>
  No stretch of time as long as one window sees more than twice \<open>maxRequests\<close> grants, whatever
  attempts came before it; the factor two is the burst across the boundary of two fixed windows.
\<close>

theorem rate_limit_burst:
  assumes "limiter_ok rl" "0 \<le> maxRequests rl" "0 \<le> windowDuration rl" "sorted ts"
    and "\<forall>t \<in> set ts. L \<le> t \<and> t \<le> L + windowDuration rl * 1000000"
  shows "int (grants ts rl) \<le> 2 * maxRequests rl"
  using grants_burst [of rl ts L] assms by (simp add: windowNs_def limiter_ok_def)

text \<open>Witness: the bound is reached: four grants within a second on a limiter of two per second.\<close>

theorem rate_limit_burst_witness:
  "grants [999999998, 999999999, 1000000001, 1000000002] (newRateLimiter 0 2 1000) = 4 \<and>
   int (grants [999999998, 999999999, 1000000001, 1000000002] (newRateLimiter 0 2 1000)) \<le> 2 * 2"
  using rate_limit_burst [of "newRateLimiter 0 2 1000"
      "[999999998, 999999999, 1000000001, 1000000002]" 999999998]
  by (simp add: newRateLimiter_ok newRateLimiter_def limiter_ok_def tryAcquire_def windowNs_def Let_def)

text \<open>
  A blocked caller is served: with a positive limit and a steady clock that goes on, the loop of
  \<open>waitForSlot\<close> ends, and when it ends it holds a slot granted at the last clock reading, has sent
  nothing and keeps the limiter's invariant.
\<close>

theorem waitForSlot_serves:
  assumes "limiter_ok rl" "0 < maxRequests rl" "clock_monotone n" "clock_progresses n"
  shows "\<exists>rl' w'. waitForSlot n rl w = Some (rl', w') \<and> limiter_ok rl' \<and>
           0 < requestCount rl' \<and> sent w' = sent w \<and> maxRequests rl' = maxRequests rl"
proof -
  obtain rl' w' where y: "waitForSlot n rl w = Some (rl', w')"
    using waitForSlot_returns [OF assms(2-4)] by (metis prod.exhaust)
  note post = waitForSlot_post [OF y, unfolded slot_post_def prod.case]
  then have "sent w' = sent w" by (metis world.select_convs(2) world.surjective world.update_convs(1,4))
  then show ?thesis using y post assms(1) by blast
qed

text \<open>Witness: a limiter of one request per minute whose slot is taken.\<close>

theorem waitForSlot_serves_witness:
  "\<exists>rl' w'. waitForSlot (sampleNet (\<lambda>i r. Inl [])) \<lparr>windowStart = 0, requestCount = 1, maxRequests = 1, windowDuration = 60000\<rparr>
       startWorld = Some (rl', w') \<and> limiter_ok rl' \<and>
     0 < requestCount rl' \<and> sent w' = sent startWorld \<and> maxRequests rl' = 1"
  using waitForSlot_serves [of "\<lparr>windowStart = 0, requestCount = 1, maxRequests = 1, windowDuration = 60000\<rparr>"
      "sampleNet (\<lambda>i r. Inl [])" startWorld]
  by (simp add: limiter_ok_def sampleNet_clock)

text \<open>
  With a limit of zero or less no slot ever becomes free: \<open>waitForSlot\<close> never returns, whatever
  the clock does.
\<close>

theorem waitForSlot_zero_diverges:
  assumes "limiter_ok rl" "maxRequests rl \<le> 0"
  shows "waitForSlot n rl w = None"
  using waitForSlot_post [of n rl w] assms
  by (cases "waitForSlot n rl w") (auto simp: slot_post_def)

text \<open>Witness: a limiter of zero requests per minute.\<close>

theorem waitForSlot_zero_diverges_witness:
  "waitForSlot (sampleNet (\<lambda>i r. Inl [])) (newRateLimiter 0 0 60000) startWorld = None"
  by (rule waitForSlot_zero_diverges) (simp_all add: newRateLimiter_ok, simp add: newRateLimiter_def)

end
