(* ===== verification/Retry.thy ===== *)
theory Retry
  imports Rate_Limiter
begin

text \<open>
  \<^verbatim>\<open>common/async.hpp\<close>: \<open>retryWithBackoff\<close>. The operation is any call that may throw, change the world
  or not return; a sleep is logged in \<open>sleeps\<close>.
\<close>

function retryLoop ::
  "('z world_scheme, exn, 'a ApiResult) io \<Rightarrow> int \<Rightarrow> int \<Rightarrow> double \<Rightarrow> int \<Rightarrow> 'a ApiResult \<Rightarrow>
     ('z world_scheme, exn, 'a ApiResult) io" where
  "retryLoop operation maxRetries initialDelay multiplier attempt lastResult w =
     (if \<not> attempt < maxRetries then Some (Inr lastResult, w)
      else case operation w of
        None \<Rightarrow> None
      | Some (Inl e, w1) \<Rightarrow> Some (Inl e, w1)
      | Some (Inr r, w1) \<Rightarrow>
          if isSuccess r then Some (Inr r, w1)
          else case resultError r of
            Inl e \<Rightarrow> Some (Inl e, w1)
          | Inr err \<Rightarrow>
              if 400 \<le> statusCode err \<and> statusCode err < 500 then Some (Inr r, w1)
              else retryLoop operation maxRetries initialDelay multiplier (attempt + 1) r
                     (if attempt < maxRetries - 1
                      then sleepFor (backoffDelay initialDelay multiplier (nat attempt)) w1 else w1))"
  by pat_completeness auto
termination
  by (relation "measure (\<lambda>(_, maxRetries, _, _, attempt, _, _). nat (maxRetries - attempt))") auto

declare retryLoop.simps [simp del]

definition retryWithBackoff ::
  "('z world_scheme, exn, 'a ApiResult) io \<Rightarrow> int \<Rightarrow> int \<Rightarrow> double \<Rightarrow>
     ('z world_scheme, exn, 'a ApiResult) io" where
  "retryWithBackoff operation maxRetries initialDelay multiplier =
     retryLoop operation maxRetries initialDelay multiplier 0 (internalError ''No attempts made'')"

section \<open>What the loop does\<close>

text \<open>A result that ends the loop: a success or a client error.\<close>

definition finalResult :: "'a ApiResult \<Rightarrow> bool" where
  "finalResult r =
     (case error_opt r of None \<Rightarrow> True | Some e \<Rightarrow> 400 \<le> statusCode e \<and> statusCode e < 500)"

text \<open>An operation whose successive results are \<open>rs\<close>.\<close>

definition scripted :: "(nat \<Rightarrow> 'a ApiResult) \<Rightarrow> ('z world_scheme, exn, 'a ApiResult) io" where
  "scripted rs w = Some (Inr (rs (calls w)), tick w)"

lemma retryLoop_scripted:
  assumes "\<And>i. result_ok (rs i)"
  shows "retryLoop (scripted rs) m d b a lr w =
     (if \<not> a < m then Some (Inr lr, w)
      else if finalResult (rs (calls w)) then Some (Inr (rs (calls w)), tick w)
      else retryLoop (scripted rs) m d b (a + 1) (rs (calls w))
             (if a < m - 1 then sleepFor (backoffDelay d b (nat a)) (tick w) else tick w))"
proof -
  obtain v where "rs (calls w) = ofValue v \<or> (\<exists>e. rs (calls w) = ofError e)"
    using result_ok_cases [OF assms] by metis
  then show ?thesis
    by (subst retryLoop.simps) (auto simp: scripted_def finalResult_def isSuccess_def resultError_def)
qed

text \<open>The run that ends with the attempt number \<open>k\<close>.\<close>

definition retryRun ::
  "(nat \<Rightarrow> 'a ApiResult) \<Rightarrow> int \<Rightarrow> int \<Rightarrow> double \<Rightarrow> nat \<Rightarrow> 'z world_scheme \<Rightarrow> nat \<Rightarrow> 'z world_scheme \<Rightarrow> bool" where
  "retryRun rs m d b a w k w' \<longleftrightarrow>
     calls w' = calls w + Suc k \<and>
     (\<forall>i<k. \<not> finalResult (rs (calls w + i))) \<and>
     (finalResult (rs (calls w + k)) \<or> int (a + k) = m - 1) \<and> int (a + k) < m \<and>
     sleeps w' = sleeps w @ map (backoffDelay d b) [a..<a + k]"

lemma retryLoop_run:
  assumes "\<And>i. result_ok (rs i)" "int a < m"
  shows "\<exists>k w'. retryLoop (scripted rs) m d b (int a) lr w = Some (Inr (rs (calls w + k)), w') \<and>
           retryRun rs m d b a w k w'"
  using assms(2)
proof (induction "nat (m - int a)" arbitrary: a lr w rule: less_induct)
  case less
  let ?r = "rs (calls w)"
  consider (final) "finalResult ?r" | (last) "\<not> finalResult ?r" "int a = m - 1"
    | (again) "\<not> finalResult ?r" "int (Suc a) < m"
    using less.prems by linarith
  then show ?case
  proof cases
    case final
    then show ?thesis
      using less.prems retryLoop_scripted [of rs m d b "int a" lr w, OF assms(1)]
      by (intro exI [of _ 0] exI [of _ "tick w"]) (simp add: retryRun_def)
  next
    case last
    then show ?thesis
      using less.prems retryLoop_scripted [of rs m d b "int a" lr w, OF assms(1)]
        retryLoop_scripted [of rs m d b "int a + 1" ?r "tick w", OF assms(1)]
      by (intro exI [of _ 0] exI [of _ "tick w"]) (simp add: retryRun_def)
  next
    case again
    let ?w = "sleepFor (backoffDelay d b a) (tick w)"
    obtain k w' where IH: "retryLoop (scripted rs) m d b (int (Suc a)) ?r ?w =
        Some (Inr (rs (calls ?w + k)), w')" "retryRun rs m d b (Suc a) ?w k w'"
      using less.hyps [of "Suc a" ?r ?w] again by fastforce
    have "[a..<a + Suc k] = a # [Suc a..<Suc a + k]" by (subst upt_rec) (simp del: upt_Suc)
    then have "retryRun rs m d b a w (Suc k) w'"
      using IH(2) again(1) unfolding retryRun_def
      by (auto simp: less_Suc_eq_0_disj simp del: upt_Suc)
    moreover have "retryLoop (scripted rs) m d b (int a) lr w = Some (Inr (rs (calls w + Suc k)), w')"
      using IH(1) again less.prems retryLoop_scripted [of rs m d b "int a" lr w, OF assms(1)]
      by (simp add: add.commute)
    ultimately show ?thesis by blast
  qed
qed

text \<open>
  C31: \<open>retryWithBackoff\<close> runs the operation at least once and at most \<open>maxRetries\<close> times, stops at the
  first success or client error (4xx), otherwise after the last attempt, returns the result of the
  last attempt made, and sleeps \<open>initialDelay * multiplier ^ i\<close> after attempt \<open>i\<close>, never after the
  last one.
\<close>

theorem retryWithBackoff_runs:
  assumes "\<forall>i. result_ok (rs i)" "0 < maxRetries"
  shows "\<exists>k w'. retryWithBackoff (scripted rs) maxRetries delay multiplier w =
             Some (Inr (rs (calls w + k)), w') \<and>
           calls w' = calls w + Suc k \<and> int k < maxRetries \<and>
           (\<forall>i<k. \<not> finalResult (rs (calls w + i))) \<and>
           (finalResult (rs (calls w + k)) \<or> int k = maxRetries - 1) \<and>
           sleeps w' = sleeps w @ map (backoffDelay delay multiplier) [0..<k]"
  using retryLoop_run [of rs 0 maxRetries delay multiplier] assms
  unfolding retryWithBackoff_def retryRun_def by (fastforce simp: retryRun_def)

text \<open>Witness: two server errors and a success, with the default policy: delays of one and two seconds.\<close>

theorem retryWithBackoff_runs_witness:
  "(let rs = (\<lambda>i. if i < 2 then apiError 503 ''busy'' else ofValue (7 :: int))
    in \<exists>k w'. retryWithBackoff (scripted rs) 3 1000 (DFin 2) startWorld = Some (Inr (rs k), w') \<and>
         calls w' = Suc k \<and> k = 2 \<and> sleeps w' = [Some 1000, Some 2000])"
proof -
  define rs where "rs = (\<lambda>i :: nat. if i < 2 then apiError 503 ''busy'' else ofValue (7 :: int))"
  have ok: "\<forall>i. result_ok (rs i)" by (simp add: rs_def)
  have fin: "finalResult (rs i) \<longleftrightarrow> 2 \<le> i" for i
    by (simp add: rs_def finalResult_def result_defs)
  obtain k w' where run: "retryWithBackoff (scripted rs) 3 1000 (DFin 2) startWorld = Some (Inr (rs k), w')"
    "calls w' = Suc k" "int k < 3" "finalResult (rs k) \<or> int k = 3 - 1"
    "sleeps w' = map (backoffDelay 1000 (DFin 2)) [0..<k]"
    using retryWithBackoff_runs [OF ok, of 3 1000 "DFin 2" startWorld] by (auto simp: startWorld_def)
  have "k = 2" using run(3,4) unfolding fin by linarith
  moreover have "backoffDelay 1000 (DFin 2) 0 = Some 1000" "backoffDelay 1000 (DFin 2) 1 = Some 2000"
    by (simp_all add: backoffDelay_double)
  ultimately show ?thesis using run unfolding Let_def rs_def [symmetric] by (auto simp: numeral_2_eq_2)
qed

end
