(* ===== verification/Http_Client.thy ===== *)
theory Http_Client
  imports Retry "HOL-Library.Word"
begin

text \<open>
  \<^verbatim>\<open>common/http_client.cpp\<close>: \<open>HttpClient\<close> and its \<open>Impl\<close>. The state of the client is the record
  \<open>HttpClient\<close>, kept in the field \<open>http\<close> of the world; libcurl is part of the parameter \<open>n\<close>. The
  unsigned counters of \<open>Statistics\<close> are 64-bit words. A null \<open>rateLimiter_\<close> does not occur (the
  constructor and \<open>setRateLimit\<close> store one), nor does a null \<open>curlHandle_\<close> after the constructor.
\<close>

section \<open>State\<close>

record Statistics =
  totalRequests :: "64 word"
  successfulRequests :: "64 word"
  failedRequests :: "64 word"
  rateLimitedRequests :: "64 word"
  retriedRequests :: "64 word"
  totalLatency :: int

definition noStatistics :: Statistics where
  "noStatistics = \<lparr>totalRequests = 0, successfulRequests = 0, failedRequests = 0,
     rateLimitedRequests = 0, retriedRequests = 0, totalLatency = 0\<rparr>"

record HttpClient =
  config :: Config
  rateLimiter :: RateLimiter
  rateLimitEnabled :: bool
  maxRetries :: int
  initialRetryDelay :: int
  backoffMultiplier :: double
  retriesEnabled :: bool
  stats :: Statistics

record http_world = world +
  http :: HttpClient

type_synonym ('z, 'a) http_io = "('z http_world_scheme, exn, 'a) io"

definition onHttp :: "(HttpClient \<Rightarrow> HttpClient) \<Rightarrow> 'z http_world_scheme \<Rightarrow> 'z http_world_scheme" where
  "onHttp f w = w\<lparr>http := f (http w)\<rparr>"

definition count :: "((64 word \<Rightarrow> 64 word) \<Rightarrow> Statistics \<Rightarrow> Statistics) \<Rightarrow> 'z http_world_scheme \<Rightarrow> 'z http_world_scheme" where
  "count upd = onHttp (stats_update (upd (\<lambda>i. i + 1)))"

definition curlInit :: "net \<Rightarrow> ('z world_scheme, exn, unit) io" where
  "curlInit n w =
     Some (if curl_easy_init n (calls w) then Inr ()
           else Inl (ConnectionError ''Failed to initialize CURL''), tick w)"

text \<open>The constructor: a \<open>CurlHandle\<close>, then a limiter of 60 requests per minute.\<close>

definition newHttpClient :: "net \<Rightarrow> Config \<Rightarrow> ('z world_scheme, exn, HttpClient) io" where
  "newHttpClient n cfg =
     bindIO (curlInit n) (\<lambda>_.
     bindIO (steadyNow n) (\<lambda>now.
     returnIO \<lparr>config = cfg, rateLimiter = newRateLimiter now 60 60000, rateLimitEnabled = False,
       maxRetries = 3, initialRetryDelay = 1000, backoffMultiplier = DFin 2, retriesEnabled = False,
       stats = noStatistics\<rparr>))"

section \<open>Callbacks\<close>

definition writeCallback :: "string \<Rightarrow> string option \<Rightarrow> nat \<times> string option" where
  "writeCallback contents data =
     (case data of None \<Rightarrow> (0, None) | Some d \<Rightarrow> (length contents, Some (d @ contents)))"

definition headerCallback :: "string \<Rightarrow> params \<Rightarrow> params" where
  "headerCallback buffer hs =
     (if CHR '':'' \<in> set buffer then
        (let key = takeWhile (\<lambda>c. c \<noteq> CHR '':'') buffer;
             val = tl (dropWhile (\<lambda>c. c \<noteq> CHR '':'') buffer);
             key = trim_front [CHR '' '', CHR 0x09] key;
             key = trim_back [CHR '' '', CHR 0x09, CHR 0x0D, CHR 0x0A] key;
             val = trim_front [CHR '' '', CHR 0x09] val;
             val = trim_back [CHR '' '', CHR 0x09, CHR 0x0D, CHR 0x0A] val
         in map_put key val hs)
      else hs)"

text \<open>The response that libcurl's calls of the two callbacks build up.\<close>

definition receive :: "transfer \<Rightarrow> Response" where
  "receive t = \<lparr>
     status = responseCode t,
     body = the (fold (\<lambda>chunk d. snd (writeCallback chunk d)) (bodyChunks t) (Some [])),
     headers = fold headerCallback (headerLines t) []\<rparr>"

section \<open>Requests\<close>

definition buildUrl :: "Config \<Rightarrow> string \<Rightarrow> string" where
  "buildUrl cfg ep =
     baseUrl cfg @ (if ep \<noteq> [] \<and> hd ep \<noteq> CHR ''/'' then ''/'' else []) @ ep"

definition buildHeaders :: "Config \<Rightarrow> params \<Rightarrow> params" where
  "buildHeaders cfg additional =
     (let hs = additional;
          hs = putIf (accessToken cfg \<noteq> []) ''Authorization'' (''Bearer '' @ accessToken cfg) hs;
          hs = putIf (sandboxMode cfg \<and> accountNumber cfg \<noteq> []) ''Tradier-Account'' (accountNumber cfg) hs
      in putIf (map_of hs ''Accept'' = None) ''Accept'' ''application/json'' hs)"

definition httpUrlEncode :: "net \<Rightarrow> string \<Rightarrow> ('z world_scheme, exn, string) io" where
  "httpUrlEncode n val =
     bindIO (curlInit n) (\<lambda>_.
       case curl_easy_escape n val of
         None \<Rightarrow> throwIO (ConnectionError ''Failed to URL encode value'')
       | Some encoded \<Rightarrow> returnIO encoded)"

text \<open>The two loops over \<open>params\<close>: the query string and the form.\<close>

fun queryLoop :: "params \<Rightarrow> bool \<Rightarrow> string \<Rightarrow> string" where
  "queryLoop [] first url = url"
| "queryLoop ((key, val) # ps) first url =
     queryLoop ps False ((if \<not> first then url @ ''&'' else url) @ urlEncode key @ ''='' @ urlEncode val)"

fun formLoop :: "net \<Rightarrow> params \<Rightarrow> bool \<Rightarrow> string \<Rightarrow> ('z world_scheme, exn, string) io" where
  "formLoop n [] first postData = returnIO postData"
| "formLoop n ((key, val) # ps) first postData =
     bindIO (httpUrlEncode n key) (\<lambda>k.
     bindIO (httpUrlEncode n val) (\<lambda>v.
       formLoop n ps False ((if \<not> first then postData @ ''&'' else postData) @ k @ ''='' @ v)))"

fun headerLoop :: "net \<Rightarrow> params \<Rightarrow> string list \<Rightarrow> ('z world_scheme, exn, string list) io" where
  "headerLoop n [] hl w = Some (Inr hl, w)"
| "headerLoop n ((key, val) # hs) hl w =
     (if curl_slist_append n (calls w) then headerLoop n hs (hl @ [key @ '': '' @ val]) (tick w)
      else Some (Inl (ConnectionError ''Failed to append CURL header''), tick w))"

definition formMethod :: "string \<Rightarrow> bool" where
  "formMethod meth \<longleftrightarrow> \<not> (meth = ''GET'' \<or> meth = ''DELETE'')"

definition requestUrl :: "Config \<Rightarrow> string \<Rightarrow> string \<Rightarrow> params \<Rightarrow> string" where
  "requestUrl cfg meth ep ps =
     (if \<not> formMethod meth \<and> ps \<noteq> [] then queryLoop ps True (buildUrl cfg ep @ ''?'')
      else buildUrl cfg ep)"

definition curlRequest :: "Config \<Rightarrow> string \<Rightarrow> string \<Rightarrow> string \<Rightarrow> string list \<Rightarrow> request" where
  "curlRequest cfg meth url postData hl = \<lparr>
     CURLOPT_URL = url,
     CURLOPT_VERB =
       (if meth = ''POST'' then HTTPPOST
        else if meth = ''PUT'' then CUSTOMREQUEST ''PUT''
        else if meth = ''DELETE'' then CUSTOMREQUEST ''DELETE''
        else HTTPGET),
     CURLOPT_POSTFIELDS = (if meth = ''POST'' \<or> meth = ''PUT'' then Some postData else None),
     CURLOPT_HTTPHEADER = hl,
     CURLOPT_TIMEOUT = timeoutSeconds cfg\<rparr>"

definition curlPerform :: "net \<Rightarrow> request \<Rightarrow> ('z world_scheme, exn, Response) io" where
  "curlPerform n req w =
     (let w' = (tick w)\<lparr>sent := sent w @ [req]\<rparr>
      in case curl_easy_perform n (calls w) req of
           Inl m \<Rightarrow> Some (Inl (ConnectionError (''CURL error: '' @ m)), w')
         | Inr t \<Rightarrow> Some (Inr (receive t), w'))"

definition performSingleRequest ::
  "net \<Rightarrow> string \<Rightarrow> string \<Rightarrow> params \<Rightarrow> ('z, Response) http_io" where
  "performSingleRequest n meth ep ps =
     bindIO (getIO (\<lambda>w. config (http w))) (\<lambda>cfg.
     bindIO (if formMethod meth \<and> ps \<noteq> [] then formLoop n ps True [] else returnIO []) (\<lambda>postData.
     bindIO (headerLoop n
               (buildHeaders cfg (if meth = ''POST'' \<or> meth = ''PUT''
                                  then [(''Content-Type'', ''application/x-www-form-urlencoded'')] else [])) [])
       (\<lambda>hl. curlPerform n (curlRequest cfg meth (requestUrl cfg meth ep ps) postData hl))))"

section \<open>performRequest\<close>

definition retryLimit :: "HttpClient \<Rightarrow> int" where
  "retryLimit h = (if retriesEnabled h then maxRetries h else 0)"

definition retryable :: "Response \<Rightarrow> bool" where
  "retryable r \<longleftrightarrow> 500 \<le> status r \<or> status r = 429"

text \<open>\<open>stats_.retriedRequests++; attempts++; sleep_for(delay)\<close>; \<open>attempts\<close> is the value before.\<close>

definition backOff :: "int \<Rightarrow> 'z http_world_scheme \<Rightarrow> 'z http_world_scheme" where
  "backOff attempts w =
     sleepFor (backoffDelay (initialRetryDelay (http w)) (backoffMultiplier (http w)) (nat attempts))
       (count retriedRequests_update w)"

function requestLoop ::
  "int \<Rightarrow> ('z, Response) http_io \<Rightarrow> int \<Rightarrow> Response \<Rightarrow> ('z, Response) http_io" where
  "requestLoop limit single attempts response w =
     (if \<not> attempts \<le> limit then Some (Inr response, w)
      else case single w of
        None \<Rightarrow> None
      | Some (Inr r, w1) \<Rightarrow>
          if retryable r \<and> attempts < limit
          then requestLoop limit single (attempts + 1) r (backOff attempts w1)
          else Some (Inr r, w1)
      | Some (Inl e, w1) \<Rightarrow>
          (case e of
             ConnectionError m \<Rightarrow>
               if attempts < limit
               then requestLoop limit single (attempts + 1) response (backOff attempts w1)
               else Some (Inl e, w1)
           | _ \<Rightarrow> Some (Inl e, w1)))"
  by pat_completeness auto
termination
  by (relation "measure (\<lambda>(limit, _, attempts, _, _). nat (limit + 1 - attempts))") auto

declare requestLoop.simps [simp del]

definition acquireSlot :: "net \<Rightarrow> ('z, unit) http_io" where
  "acquireSlot n w =
     (if rateLimitEnabled (http w) then
        (let (ok, rl) = tryAcquire (steady_now n (calls w)) (rateLimiter (http w));
             w1 = onHttp (rateLimiter_update (\<lambda>_. rl)) (tick w)
         in if ok then Some (Inr (), w1)
            else (case waitForSlot n rl (count rateLimitedRequests_update w1) of
                    None \<Rightarrow> None
                  | Some (rl', w2) \<Rightarrow> Some (Inr (), onHttp (rateLimiter_update (\<lambda>_. rl')) w2)))
      else Some (Inr (), w))"

definition recordOutcome :: "int \<Rightarrow> Response \<Rightarrow> 'z http_world_scheme \<Rightarrow> 'z http_world_scheme" where
  "recordOutcome elapsed response w =
     (let w1 = onHttp (stats_update (totalLatency_update (\<lambda>l. l + ms_of_ns elapsed))) w
      in if success response then count successfulRequests_update w1
         else count failedRequests_update w1)"

definition performRequest ::
  "net \<Rightarrow> string \<Rightarrow> string \<Rightarrow> params \<Rightarrow> ('z, Response) http_io" where
  "performRequest n meth ep ps =
     bindIO (steadyNow n) (\<lambda>start.
     bindIO (modifyIO (count totalRequests_update)) (\<lambda>_.
     bindIO (acquireSlot n) (\<lambda>_.
     bindIO (getIO (\<lambda>w. retryLimit (http w))) (\<lambda>limit.
     bindIO (requestLoop limit (performSingleRequest n meth ep ps) 0
               \<lparr>status = uninit_status n, body = [], headers = []\<rparr>) (\<lambda>response.
     bindIO (steadyNow n) (\<lambda>end_time.
     bindIO (modifyIO (recordOutcome (end_time - start) response)) (\<lambda>_.
     returnIO response)))))))"

section \<open>The public interface\<close>

definition http_get :: "net \<Rightarrow> string \<Rightarrow> params \<Rightarrow> ('z, Response) http_io" where
  "http_get n ep ps = performRequest n ''GET'' ep ps"

definition http_post :: "net \<Rightarrow> string \<Rightarrow> params \<Rightarrow> ('z, Response) http_io" where
  "http_post n ep ps = performRequest n ''POST'' ep ps"

definition http_put :: "net \<Rightarrow> string \<Rightarrow> params \<Rightarrow> ('z, Response) http_io" where
  "http_put n ep ps = performRequest n ''PUT'' ep ps"

definition http_del :: "net \<Rightarrow> string \<Rightarrow> params \<Rightarrow> ('z, Response) http_io" where
  "http_del n ep ps = performRequest n ''DELETE'' ep ps"

definition setRateLimit :: "net \<Rightarrow> int \<Rightarrow> int \<Rightarrow> ('z, unit) http_io" where
  "setRateLimit n maxReq duration =
     bindIO (steadyNow n) (\<lambda>now.
       modifyIO (onHttp (rateLimiter_update (\<lambda>_. newRateLimiter now maxReq duration))))"

definition enableRateLimit :: "bool \<Rightarrow> HttpClient \<Rightarrow> HttpClient" where
  "enableRateLimit enabled h = h\<lparr>rateLimitEnabled := enabled\<rparr>"

definition setRetryPolicy :: "int \<Rightarrow> int \<Rightarrow> double \<Rightarrow> HttpClient \<Rightarrow> HttpClient" where
  "setRetryPolicy m initialDelay multiplier h =
     h\<lparr>maxRetries := m, initialRetryDelay := initialDelay, backoffMultiplier := multiplier\<rparr>"

definition enableRetries :: "bool \<Rightarrow> HttpClient \<Rightarrow> HttpClient" where
  "enableRetries enabled h = h\<lparr>retriesEnabled := enabled\<rparr>"

definition getStatistics :: "HttpClient \<Rightarrow> Statistics" where
  "getStatistics h = stats h"

definition resetStatistics :: "HttpClient \<Rightarrow> HttpClient" where
  "resetStatistics h = h\<lparr>stats := noStatistics\<rparr>"

section \<open>One transfer\<close>

text \<open>The request that a call sends, as a function of the configuration and the arguments.\<close>

definition encodePairs :: "(string \<Rightarrow> string) \<Rightarrow> params \<Rightarrow> string" where
  "encodePairs enc ps = joinS ''&'' (map (\<lambda>(k, v). enc k @ ''='' @ enc v) ps)"

definition escaped :: "net \<Rightarrow> string \<Rightarrow> string" where
  "escaped n s = (case curl_easy_escape n s of Some t \<Rightarrow> t | None \<Rightarrow> [])"

definition preparedHeaders :: "Config \<Rightarrow> string \<Rightarrow> params" where
  "preparedHeaders cfg meth =
     buildHeaders cfg (if meth = ''POST'' \<or> meth = ''PUT''
                       then [(''Content-Type'', ''application/x-www-form-urlencoded'')] else [])"

definition preparedRequest :: "net \<Rightarrow> Config \<Rightarrow> string \<Rightarrow> string \<Rightarrow> params \<Rightarrow> request" where
  "preparedRequest n cfg meth ep ps =
     curlRequest cfg meth (requestUrl cfg meth ep ps)
       (if formMethod meth \<and> ps \<noteq> [] then encodePairs (escaped n) ps else [])
       (map (\<lambda>(k, v). k @ '': '' @ v) (preparedHeaders cfg meth))"

lemma onHttp_fields [simp]:
  "calls (onHttp f w) = calls w" "sent (onHttp f w) = sent w" "sleeps (onHttp f w) = sleeps w"
  "waits (onHttp f w) = waits w" "http (onHttp f w) = f (http w)"
  by (simp_all add: onHttp_def)

lemma http_world_fields [simp]:
  "http (tick w) = http w" "http (sleepFor d w) = http w"
  by (simp_all add: tick_def sleepFor_def)

lemma count_fields [simp]:
  "calls (count u w) = calls w" "sent (count u w) = sent w" "sleeps (count u w) = sleeps w"
  "waits (count u w) = waits w"
  "http (count u w) = stats_update (u (\<lambda>i. i + 1)) (http w)"
  by (simp_all add: count_def)

lemma queryLoop_acc:
  "queryLoop ps first url = url @ (if ps = [] \<or> first then [] else ''&'') @ encodePairs urlEncode ps"
proof (induction ps first url rule: queryLoop.induct)
  case (2 k v ps first url)
  then show ?case by (cases ps) (auto simp: encodePairs_def joinS_Cons)
qed (simp add: encodePairs_def)

text \<open>A step that may fail with a connection error and otherwise only advances the call counter.\<close>

definition quiet :: "'a \<Rightarrow> ('z world_scheme, exn, 'a) io \<Rightarrow> bool" where
  "quiet x m \<longleftrightarrow> (\<forall>w. \<exists>c. m w = Some (Inr x, w\<lparr>calls := c\<rparr>) \<or>
     (\<exists>e. m w = Some (Inl (ConnectionError e), w\<lparr>calls := c\<rparr>)))"

lemma quiet_bind:
  assumes "quiet x m" "quiet y (f x)"
  shows "quiet y (bindIO m f)"
  unfolding quiet_def
proof
  fix w
  obtain c where c: "m w = Some (Inr x, w\<lparr>calls := c\<rparr>) \<or>
      (\<exists>e. m w = Some (Inl (ConnectionError e), w\<lparr>calls := c\<rparr>))"
    using assms(1) unfolding quiet_def by blast
  obtain d where d: "f x (w\<lparr>calls := c\<rparr>) = Some (Inr y, w\<lparr>calls := d\<rparr>) \<or>
      (\<exists>e. f x (w\<lparr>calls := c\<rparr>) = Some (Inl (ConnectionError e), w\<lparr>calls := d\<rparr>))"
    using assms(2) [unfolded quiet_def, rule_format, of "w\<lparr>calls := c\<rparr>"] by auto
  show "\<exists>c. bindIO m f w = Some (Inr y, w\<lparr>calls := c\<rparr>) \<or>
      (\<exists>e. bindIO m f w = Some (Inl (ConnectionError e), w\<lparr>calls := c\<rparr>))"
    using c d by (auto simp: bindIO_def)
qed

lemma quiet_cases:
  assumes "quiet x m"
  obtains (ok) c where "m w = Some (Inr x, w\<lparr>calls := c\<rparr>)"
  | (failed) e c where "m w = Some (Inl (ConnectionError e), w\<lparr>calls := c\<rparr>)"
  using assms unfolding quiet_def by blast

lemma quiet_curlInit: "quiet () (curlInit n)"
  unfolding quiet_def curlInit_def tick_def by auto

lemma quiet_return: "quiet x (returnIO x)"
  unfolding quiet_def returnIO_def by (metis world.surjective world.update_convs(1))

lemma quiet_throw: "quiet x (throwIO (ConnectionError e))"
  unfolding quiet_def throwIO_def by (metis world.surjective world.update_convs(1))

lemma quiet_httpUrlEncode: "quiet (escaped n s) (httpUrlEncode n s)"
  unfolding httpUrlEncode_def escaped_def
  by (auto intro!: quiet_bind [OF quiet_curlInit] quiet_return quiet_throw split: option.splits)

lemma quiet_formLoop:
  "quiet (acc @ (if ps = [] \<or> first then [] else ''&'') @ encodePairs (escaped n) ps) (formLoop n ps first acc)"
proof (induction n ps first acc rule: formLoop.induct)
  case (2 n k v ps first acc)
  show ?case
    unfolding formLoop.simps
    by (intro quiet_bind [OF quiet_httpUrlEncode])
      (use 2 [of "escaped n k" "escaped n v"] in \<open>cases ps; auto simp: encodePairs_def joinS_Cons\<close>)
qed (simp add: encodePairs_def quiet_return)

lemma quiet_headerLoop:
  "quiet (hl @ map (\<lambda>(k, v). k @ '': '' @ v) hs) (headerLoop n hs hl :: ('z world_scheme, exn, string list) io)"
proof (induction hs arbitrary: hl)
  case Nil
  have nil: "headerLoop n [] hl = returnIO hl" by (simp add: fun_eq_iff returnIO_def)
  show ?case unfolding nil by (simp add: quiet_return)
next
  case (Cons h hs)
  obtain k v where h: "h = (k, v)" by fastforce
  let ?append = "\<lambda>w :: 'z world_scheme. Some (if curl_slist_append n (calls w) then Inr ()
      else Inl (ConnectionError ''Failed to append CURL header''), tick w)"
  have step: "headerLoop n (h # hs) hl = bindIO ?append (\<lambda>_. headerLoop n hs (hl @ [k @ '': '' @ v]))"
    by (simp add: fun_eq_iff bindIO_def h)
  have "quiet () ?append" unfolding quiet_def tick_def by auto
  then have "quiet ((hl @ [k @ '': '' @ v]) @ map (\<lambda>(k, v). k @ '': '' @ v) hs)
      (bindIO ?append (\<lambda>_. headerLoop n hs (hl @ [k @ '': '' @ v])))"
    by (rule quiet_bind) (rule Cons.IH)
  then show ?case
    unfolding step by (simp only: h list.map prod.case append_assoc append.simps)
qed

text \<open>
  The contract of one transfer: it returns, fails only with a connection error, changes nothing but
  the call counter and the log of requests, and the only request it may log is \<open>req\<close>.
\<close>

locale one_transfer =
  fixes single :: "('z, Response) http_io"
    and req :: "Config \<Rightarrow> request"
    and reply :: "request \<Rightarrow> Response \<Rightarrow> bool"
  assumes single_outcome:
    "\<exists>c. (\<exists>r. reply (req (config (http w))) r \<and>
            single w = Some (Inr r, w\<lparr>calls := c, sent := sent w @ [req (config (http w))]\<rparr>)) \<or>
         (\<exists>m. single w = Some (Inl (ConnectionError m), w\<lparr>calls := c\<rparr>)) \<or>
         (\<exists>m. single w =
            Some (Inl (ConnectionError m), w\<lparr>calls := c, sent := sent w @ [req (config (http w))]\<rparr>))"

definition isReply :: "net \<Rightarrow> request \<Rightarrow> Response \<Rightarrow> bool" where
  "isReply n req r \<longleftrightarrow> (\<exists>i t. curl_easy_perform n i req = Inr t \<and> r = receive t)"

lemma performSingleRequest_steps:
  fixes w :: "'z http_world_scheme"
  obtains (early) m c where "performSingleRequest n meth ep ps w =
      Some (Inl (ConnectionError m), w\<lparr>calls := c\<rparr>)"
  | (perform) c where "performSingleRequest n meth ep ps w =
      curlPerform n (preparedRequest n (config (http w)) meth ep ps) (w\<lparr>calls := c\<rparr>)"
proof -
  let ?cfg = "config (http w)"
  let ?form = "if formMethod meth \<and> ps \<noteq> [] then formLoop n ps True [] else returnIO []"
  let ?data = "if formMethod meth \<and> ps \<noteq> [] then encodePairs (escaped n) ps else []"
  let ?hl = "map (\<lambda>(k, v). k @ '': '' @ v) (preparedHeaders ?cfg meth)"
  have "quiet ?data ?form"
    using quiet_formLoop [of "[]" ps True n] by (auto intro: quiet_return)
  moreover have "quiet ?hl (headerLoop n (preparedHeaders ?cfg meth) [])"
    using quiet_headerLoop [of "[]" "preparedHeaders ?cfg meth" n] by simp
  moreover define prep :: "('z, string \<times> string list) http_io" where "prep = bindIO ?form (\<lambda>d.
      bindIO (headerLoop n (preparedHeaders ?cfg meth) []) (\<lambda>hl. returnIO (d, hl)))"
  ultimately have "quiet (?data, ?hl) prep"
    unfolding prep_def by (intro quiet_bind [where x = ?data] quiet_bind [where x = ?hl] quiet_return)
  moreover have "performSingleRequest n meth ep ps w =
      bindIO prep (\<lambda>(d, hl). curlPerform n (curlRequest ?cfg meth (requestUrl ?cfg meth ep ps) d hl)) w"
    by (simp add: performSingleRequest_def prep_def bindIO_assoc preparedHeaders_def)
  ultimately show thesis
    using that by - (erule quiet_cases [of _ _ w]; simp add: bindIO_def preparedRequest_def)
qed

interpretation psr: one_transfer "performSingleRequest n meth ep ps"
  "\<lambda>cfg. preparedRequest n cfg meth ep ps" "isReply n" for n meth ep ps
proof
  fix w :: "'a http_world_scheme"
  let ?req = "preparedRequest n (config (http w)) meth ep ps"
  show "\<exists>c. (\<exists>r. isReply n ?req r \<and> performSingleRequest n meth ep ps w =
          Some (Inr r, w\<lparr>calls := c, sent := sent w @ [?req]\<rparr>)) \<or>
        (\<exists>m. performSingleRequest n meth ep ps w = Some (Inl (ConnectionError m), w\<lparr>calls := c\<rparr>)) \<or>
        (\<exists>m. performSingleRequest n meth ep ps w =
          Some (Inl (ConnectionError m), w\<lparr>calls := c, sent := sent w @ [?req]\<rparr>))"
  proof (cases n meth ep ps w rule: performSingleRequest_steps)
    case (early m c)
    then show ?thesis by blast
  next
    case (perform c)
    then show ?thesis
      by (cases "curl_easy_perform n c ?req")
        (auto simp: curlPerform_def tick_def isReply_def Let_def)
  qed
qed

section \<open>The retry loop\<close>

text \<open>
  What the loop has done when it ends, having started at attempt \<open>a\<close>: \<open>j\<close> further attempts, at most
  one transfer of the one request per attempt, the delays of attempts \<open>a, ..., a + j - 1\<close>, and no
  retry left unused when it gives up.
\<close>

definition loop_steps ::
  "(Config \<Rightarrow> request) \<Rightarrow> (request \<Rightarrow> Response \<Rightarrow> bool) \<Rightarrow> int \<Rightarrow> nat \<Rightarrow> 'z http_world_scheme \<Rightarrow>
     exn + Response \<Rightarrow> 'z http_world_scheme \<Rightarrow> nat \<Rightarrow> nat \<Rightarrow> bool" where
  "loop_steps req reply limit a w r w' j k \<longleftrightarrow>
     int (a + j) \<le> limit \<and> k \<le> Suc j \<and>
     http w' = stats_update (retriedRequests_update (\<lambda>i. i + of_nat j)) (http w) \<and>
     sleeps w' = sleeps w @
       map (backoffDelay (initialRetryDelay (http w)) (backoffMultiplier (http w))) [a..<a + j] \<and>
     sent w' = sent w @ replicate k (req (config (http w))) \<and>
     waits w' = waits w \<and> http_world.more w' = http_world.more w \<and>
     (case r of
        Inr resp \<Rightarrow> 0 < k \<and> reply (req (config (http w))) resp \<and>
          (retryable resp \<longrightarrow> int (a + j) = limit)
      | Inl e \<Rightarrow> (\<exists>m. e = ConnectionError m) \<and> int (a + j) = limit)"

definition loop_post ::
  "(Config \<Rightarrow> request) \<Rightarrow> (request \<Rightarrow> Response \<Rightarrow> bool) \<Rightarrow> int \<Rightarrow> nat \<Rightarrow> 'z http_world_scheme \<Rightarrow>
     exn + Response \<Rightarrow> 'z http_world_scheme \<Rightarrow> bool" where
  "loop_post req reply limit a w r w' \<longleftrightarrow> (\<exists>j k. loop_steps req reply limit a w r w' j k)"

lemma backOff_fields [simp]:
  "calls (backOff a w) = calls w" "sent (backOff a w) = sent w" "waits (backOff a w) = waits w"
  "sleeps (backOff a w) = sleeps w @
     [backoffDelay (initialRetryDelay (http w)) (backoffMultiplier (http w)) (nat a)]"
  "http (backOff a w) = stats_update (retriedRequests_update (\<lambda>i. i + 1)) (http w)"
  "http_world.more (backOff a w) = http_world.more w"
  by (simp_all add: backOff_def sleepFor_def count_def onHttp_def)

lemma loop_steps_again:
  assumes w1: "http w1 = http w" "sent w1 = sent w @ replicate d (req (config (http w)))"
      "sleeps w1 = sleeps w" "waits w1 = waits w" "http_world.more w1 = http_world.more w" "d \<le> 1"
    and steps: "loop_steps req reply limit (Suc a) (backOff (int a) w1) r w' j k"
  shows "loop_steps req reply limit a w r w' (Suc j) (d + k)"
proof -
  have upt: "[a..<Suc (a + j)] = a # [Suc a..<Suc (a + j)]" by (subst upt_rec) (simp del: upt_Suc)
  show ?thesis
    using steps w1(6) unfolding loop_steps_def
    by (simp add: w1(1-5) upt replicate_add comp_def algebra_simps del: upt_Suc split: sum.splits)
qed

lemma loop_post_stop:
  assumes "d \<le> 1" "int a \<le> limit"
    and "case r of
        Inr resp \<Rightarrow> d = 1 \<and> reply (req (config (http w))) resp \<and> (retryable resp \<longrightarrow> int a = limit)
      | Inl e \<Rightarrow> (\<exists>m. e = ConnectionError m) \<and> int a = limit"
  shows "loop_post req reply limit a w r (w\<lparr>calls := c, sent := sent w @ replicate d (req (config (http w)))\<rparr>)"
proof -
  have "loop_steps req reply limit a w r (w\<lparr>calls := c, sent := sent w @ replicate d (req (config (http w)))\<rparr>) 0 d"
    using assms by (simp add: loop_steps_def split: sum.splits)
  then show ?thesis unfolding loop_post_def by blast
qed

context one_transfer
begin

text \<open>The outcome of a transfer as a number of logged requests.\<close>

lemma single_cases:
  obtains (reply) r c where "reply (req (config (http w))) r"
      "single w = Some (Inr r, w\<lparr>calls := c, sent := sent w @ replicate 1 (req (config (http w)))\<rparr>)"
  | (failed) m c d where "d \<le> 1"
      "single w = Some (Inl (ConnectionError m), w\<lparr>calls := c, sent := sent w @ replicate d (req (config (http w)))\<rparr>)"
proof -
  obtain c where c: "(\<exists>r. reply (req (config (http w))) r \<and>
            single w = Some (Inr r, w\<lparr>calls := c, sent := sent w @ [req (config (http w))]\<rparr>)) \<or>
         (\<exists>m. single w = Some (Inl (ConnectionError m), w\<lparr>calls := c\<rparr>)) \<or>
         (\<exists>m. single w =
            Some (Inl (ConnectionError m), w\<lparr>calls := c, sent := sent w @ [req (config (http w))]\<rparr>))"
    using single_outcome by blast
  have none: "w\<lparr>calls := c\<rparr> = w\<lparr>calls := c, sent := sent w @ replicate 0 (req (config (http w)))\<rparr>"
    by simp
  from c show thesis
  proof (elim disjE exE conjE)
    fix m assume "single w = Some (Inl (ConnectionError m), w\<lparr>calls := c\<rparr>)"
    then show thesis using that(2) [of 0 m c] none by simp
  next
    fix m assume "single w = Some (Inl (ConnectionError m), w\<lparr>calls := c, sent := sent w @ [req (config (http w))]\<rparr>)"
    then show thesis using that(2) [of 1 m c] by simp
  qed (use that(1) in auto)
qed

lemma requestLoop_post:
  assumes "int a \<le> limit"
  shows "\<exists>r w'. requestLoop limit single (int a) resp w = Some (r, w') \<and> loop_post req reply limit a w r w'"
  using assms
proof (induction "nat (limit - int a)" arbitrary: a resp w rule: less_induct)
  case less
  have again: "\<exists>r w'. requestLoop limit single (int a + 1) resp' (backOff (int a) w1) = Some (r, w') \<and>
        loop_post req reply limit a w r w'"
    if "int a < limit" "w1 = w\<lparr>calls := c, sent := sent w @ replicate d (req (config (http w)))\<rparr>" "d \<le> 1"
    for resp' w1 c d
  proof -
    have "nat (limit - int (Suc a)) < nat (limit - int a)" "int (Suc a) \<le> limit" using that(1) by simp_all
    from less.hyps [OF this, of resp' "backOff (int a) w1"]
    obtain r w' where step: "requestLoop limit single (int a + 1) resp' (backOff (int a) w1) = Some (r, w')"
        "loop_post req reply limit (Suc a) (backOff (int a) w1) r w'"
      by (metis of_nat_Suc add.commute)
    have "http w1 = http w" "sent w1 = sent w @ replicate d (req (config (http w)))"
      "sleeps w1 = sleeps w" "waits w1 = waits w" "http_world.more w1 = http_world.more w"
      by (simp_all add: that(2))
    then have "loop_post req reply limit a w r w'"
      using step(2) that(3) loop_steps_again unfolding loop_post_def by metis
    then show ?thesis using step(1) by blast
  qed
  show ?case
  proof (cases w rule: single_cases)
    case (reply r c)
    then show ?thesis
      using again [OF _ refl, of 1 r c] less.prems
        loop_post_stop [where d = 1 and r = "Inr r" and w = w and c = c]
      by (subst requestLoop.simps) auto
  next
    case (failed m c d)
    then show ?thesis
      using again [OF _ refl, of d resp c] less.prems
        loop_post_stop [where d = d and r = "Inl (ConnectionError m)" and w = w and c = c]
      by (subst requestLoop.simps) auto
  qed
qed

end

section \<open>performRequest\<close>

text \<open>Taking a slot changes the limiter, its statistic and the clock, nothing else.\<close>

definition slot_frame :: "'z http_world_scheme \<Rightarrow> 'z http_world_scheme \<Rightarrow> bool" where
  "slot_frame w w' \<longleftrightarrow>
     (\<exists>rl x. http w' = (http w)\<lparr>rateLimiter := rl, stats := (stats (http w))\<lparr>rateLimitedRequests := x\<rparr>\<rparr>) \<and>
     sent w' = sent w \<and> sleeps w' = sleeps w \<and> http_world.more w' = http_world.more w"

lemma waitForSlot_frame:
  fixes w :: "'z http_world_scheme"
  assumes "waitForSlot n rl w = Some (rl', w')"
  shows "http w' = http w" "sent w' = sent w" "sleeps w' = sleeps w" "http_world.more w' = http_world.more w"
proof -
  obtain c ws where "w' = w\<lparr>calls := c, waits := ws\<rparr>"
    using waitForSlot_post [OF assms] by (auto simp: slot_post_def)
  then show "http w' = http w" "sent w' = sent w" "sleeps w' = sleeps w" "http_world.more w' = http_world.more w"
    by simp_all
qed

lemma slot_frameI:
  assumes "http w' = (http w)\<lparr>rateLimiter := rl, stats := (stats (http w))\<lparr>rateLimitedRequests := x\<rparr>\<rparr>"
    "sent w' = sent w" "sleeps w' = sleeps w" "http_world.more w' = http_world.more w"
  shows "slot_frame w w'"
  using assms unfolding slot_frame_def by blast

lemma acquireSlot_frame:
  assumes "acquireSlot n w = Some (u, w')"
  shows "u = Inr () \<and> slot_frame w w'"
proof -
  let ?same = "rateLimitedRequests (stats (http w))"
  obtain ok rl where t: "tryAcquire (steady_now n (calls w)) (rateLimiter (http w)) = (ok, rl)" by fastforce
  define w1 where "w1 = count rateLimitedRequests_update (onHttp (rateLimiter_update (\<lambda>_. rl)) (tick w))"
  consider (off) "u = Inr ()" "w' = w"
    | (now) "u = Inr ()" "w' = onHttp (rateLimiter_update (\<lambda>_. rl)) (tick w)"
    | (later) rl' w2 where "u = Inr ()" "w' = onHttp (rateLimiter_update (\<lambda>_. rl')) w2"
        "waitForSlot n rl w1 = Some (rl', w2)"
    using assms t unfolding acquireSlot_def w1_def Let_def by (auto split: if_splits option.splits)
  then show ?thesis
  proof cases
    case off
    then show ?thesis by (simp add: slot_frameI [where rl = "rateLimiter (http w)" and x = ?same])
  next
    case now
    then show ?thesis by (simp add: slot_frameI [where rl = rl and x = ?same] onHttp_def tick_def)
  next
    case later
    then show ?thesis
      using waitForSlot_frame [OF later(3)]
      by (simp add: slot_frameI [where rl = rl' and x = "?same + 1"] w1_def onHttp_def tick_def count_def)
  qed
qed

lemma acquireSlot_returns:
  assumes "rateLimitEnabled (http w) \<Longrightarrow> 0 < maxRequests (rateLimiter (http w))"
    and "clock_monotone n" "clock_progresses n"
  shows "\<exists>w'. acquireSlot n w = Some (Inr (), w')"
proof (cases "rateLimitEnabled (http w)")
  case True
  obtain ok rl where t: "tryAcquire (steady_now n (calls w)) (rateLimiter (http w)) = (ok, rl)" by fastforce
  then have "maxRequests rl = maxRequests (rateLimiter (http w))"
    by (metis snd_conv tryAcquire_config(1))
  then have "\<exists>y. waitForSlot n rl v = Some y" for v :: "'a http_world_scheme"
    using assms True by (intro waitForSlot_returns) simp_all
  then obtain y where "waitForSlot n rl
      (count rateLimitedRequests_update (onHttp (rateLimiter_update (\<lambda>_. rl)) (tick w))) = Some y" by blast
  then show ?thesis using True t by (cases y) (simp add: acquireSlot_def Let_def)
qed (simp add: acquireSlot_def)

text \<open>What a call of \<open>performRequest\<close> that made \<open>j\<close> retries and \<open>k\<close> transfers has done.\<close>

definition outcomeCount :: "(Response \<Rightarrow> bool) \<Rightarrow> exn + Response \<Rightarrow> 64 word" where
  "outcomeCount p r = (case r of Inr resp \<Rightarrow> if p resp then 1 else 0 | Inl e \<Rightarrow> 0)"

definition request_steps ::
  "net \<Rightarrow> string \<Rightarrow> string \<Rightarrow> params \<Rightarrow> 'z http_world_scheme \<Rightarrow> exn + Response \<Rightarrow> 'z http_world_scheme \<Rightarrow>
     nat \<Rightarrow> nat \<Rightarrow> bool" where
  "request_steps n meth ep ps w r w' j k \<longleftrightarrow>
     int j \<le> retryLimit (http w) \<and> k \<le> Suc j \<and>
     sent w' = sent w @ replicate k (preparedRequest n (config (http w)) meth ep ps) \<and>
     sleeps w' = sleeps w @
       map (backoffDelay (initialRetryDelay (http w)) (backoffMultiplier (http w))) [0..<j] \<and>
     config (http w') = config (http w) \<and> retryLimit (http w') = retryLimit (http w) \<and>
     totalRequests (stats (http w')) = totalRequests (stats (http w)) + 1 \<and>
     successfulRequests (stats (http w')) =
       successfulRequests (stats (http w)) + outcomeCount success r \<and>
     failedRequests (stats (http w')) =
       failedRequests (stats (http w)) + outcomeCount (\<lambda>resp. \<not> success resp) r \<and>
     retriedRequests (stats (http w')) = retriedRequests (stats (http w)) + of_nat j \<and>
     http_world.more w' = http_world.more w \<and>
     (case r of
        Inr resp \<Rightarrow> 0 < k \<and> isReply n (preparedRequest n (config (http w)) meth ep ps) resp \<and>
          (retryable resp \<longrightarrow> int j = retryLimit (http w))
      | Inl e \<Rightarrow> (\<exists>m. e = ConnectionError m) \<and> int j = retryLimit (http w))"

lemma recordOutcome_fields [simp]:
  "sent (recordOutcome t r w) = sent w" "sleeps (recordOutcome t r w) = sleeps w"
  "calls (recordOutcome t r w) = calls w"
  "http_world.more (recordOutcome t r w) = http_world.more w"
  "config (http (recordOutcome t r w)) = config (http w)"
  "retryLimit (http (recordOutcome t r w)) = retryLimit (http w)"
  "totalRequests (stats (http (recordOutcome t r w))) = totalRequests (stats (http w))"
  "retriedRequests (stats (http (recordOutcome t r w))) = retriedRequests (stats (http w))"
  "successfulRequests (stats (http (recordOutcome t r w))) =
     successfulRequests (stats (http w)) + outcomeCount success (Inr r)"
  "failedRequests (stats (http (recordOutcome t r w))) =
     failedRequests (stats (http w)) + outcomeCount (\<lambda>r. \<not> success r) (Inr r)"
  by (simp_all add: recordOutcome_def Let_def count_def onHttp_def outcomeCount_def retryLimit_def)

text \<open>The tail of \<open>performRequest\<close>: the loop, then the second clock reading and the statistics.\<close>

lemma performRequest_loop:
  assumes "acquireSlot n (count totalRequests_update (tick w)) = Some (u, w2)"
  shows "performRequest n meth ep ps w =
    bindIO (requestLoop (retryLimit (http w2)) (performSingleRequest n meth ep ps) 0
        \<lparr>status = uninit_status n, body = [], headers = []\<rparr>) (\<lambda>response.
      bindIO (steadyNow n) (\<lambda>e. bindIO (modifyIO (recordOutcome (e - steady_now n (calls w)) response)) (\<lambda>_.
      returnIO response))) w2"
proof -
  have "acquireSlot n (count totalRequests_update (tick w)) = Some (Inr (), w2)"
    using assms acquireSlot_frame by blast
  then show ?thesis
    unfolding performRequest_def by (simp add: bindIO_def steadyNow_def io_prims)
qed

text \<open>The loop started after the slot was taken gives the steps of the whole call.\<close>

lemma request_steps_of_loop:
  assumes loop: "loop_steps (\<lambda>cfg. preparedRequest n cfg meth ep ps) (isReply n) (retryLimit h2) 0 w2 r0 w3 j k"
    and h2: "http w2 = h2" "h2 = (http w)\<lparr>rateLimiter := rl, stats := (stats
        (stats_update (totalRequests_update (\<lambda>i. i + 1)) (http w)))\<lparr>rateLimitedRequests := x\<rparr>\<rparr>"
    and frame: "sent w2 = sent w" "sleeps w2 = sleeps w" "http_world.more w2 = http_world.more w"
    and w': "w' = (case r0 of Inl e \<Rightarrow> w3 | Inr resp \<Rightarrow> recordOutcome t resp (tick w3))"
  shows "request_steps n meth ep ps w r0 w' j k"
proof -
  have same: "config h2 = config (http w)" "retryLimit h2 = retryLimit (http w)"
    "initialRetryDelay h2 = initialRetryDelay (http w)" "backoffMultiplier h2 = backoffMultiplier (http w)"
    by (simp_all add: h2(2) retryLimit_def)
  have "http w3 = stats_update (retriedRequests_update (\<lambda>i. i + of_nat j)) h2"
    using loop unfolding loop_steps_def h2(1) by simp
  then have h3: "config (http w3) = config (http w)" "retryLimit (http w3) = retryLimit (http w)"
    "totalRequests (stats (http w3)) = totalRequests (stats (http w)) + 1"
    "successfulRequests (stats (http w3)) = successfulRequests (stats (http w))"
    "failedRequests (stats (http w3)) = failedRequests (stats (http w))"
    "retriedRequests (stats (http w3)) = retriedRequests (stats (http w)) + of_nat j"
    by (simp_all add: h2(2) retryLimit_def)
  have w'_fields: "sent w' = sent w3" "sleeps w' = sleeps w3" "http_world.more w' = http_world.more w3"
    "config (http w') = config (http w3)" "retryLimit (http w') = retryLimit (http w3)"
    "totalRequests (stats (http w')) = totalRequests (stats (http w3))"
    "retriedRequests (stats (http w')) = retriedRequests (stats (http w3))"
    "successfulRequests (stats (http w')) = successfulRequests (stats (http w3)) + outcomeCount success r0"
    "failedRequests (stats (http w')) = failedRequests (stats (http w3)) + outcomeCount (\<lambda>r. \<not> success r) r0"
    unfolding w' by (cases r0; simp add: outcomeCount_def tick_def)+
  show ?thesis
    using loop unfolding loop_steps_def request_steps_def h2(1) w'_fields h3 frame same
    by (simp split: sum.splits)
qed

lemma performRequest_steps:
  assumes "performRequest n meth ep ps w = Some (r, w')" "0 \<le> retryLimit (http w)"
  shows "\<exists>j k. request_steps n meth ep ps w r w' j k"
proof -
  obtain u w2 where slot: "acquireSlot n (count totalRequests_update (tick w)) = Some (u, w2)"
    using assms(1) unfolding performRequest_def
    by (cases "acquireSlot n (count totalRequests_update (tick w))")
      (auto simp: bindIO_def steadyNow_def io_prims)
  then have f: "slot_frame (count totalRequests_update (tick w)) w2" using acquireSlot_frame by blast
  have frame: "sent w2 = sent w" "sleeps w2 = sleeps w" "http_world.more w2 = http_world.more w"
    using f unfolding slot_frame_def by (simp_all add: count_def onHttp_def tick_def)
  obtain rl x where h2: "http w2 = (http w)\<lparr>rateLimiter := rl, stats := (stats
        (stats_update (totalRequests_update (\<lambda>i. i + 1)) (http w)))\<lparr>rateLimitedRequests := x\<rparr>\<rparr>"
    using f unfolding slot_frame_def by auto
  have lim0: "int 0 \<le> retryLimit (http w2)" using assms(2) by (simp add: h2 retryLimit_def split: if_splits)
  from psr.requestLoop_post [OF lim0, of n meth ep ps "\<lparr>status = uninit_status n, body = [], headers = []\<rparr>" w2]
  obtain r0 w3 j k where loop: "requestLoop (retryLimit (http w2)) (performSingleRequest n meth ep ps) 0
        \<lparr>status = uninit_status n, body = [], headers = []\<rparr> w2 = Some (r0, w3)"
    "loop_steps (\<lambda>cfg. preparedRequest n cfg meth ep ps) (isReply n) (retryLimit (http w2)) 0 w2 r0 w3 j k"
    unfolding loop_post_def by auto
  have "r = r0" "\<exists>t. w' = (case r0 of Inl e \<Rightarrow> w3 | Inr resp \<Rightarrow> recordOutcome t resp (tick w3))"
    using assms(1) unfolding performRequest_loop [OF slot]
    by (cases r0; force simp: bindIO_def loop(1) steadyNow_def io_prims)+
  then show ?thesis
    using request_steps_of_loop [OF loop(2) refl h2 frame] by blast
qed

section \<open>What reaches the wire\<close>

text \<open>The inverse of the encoding of parameters, as a server reads it.\<close>

definition decodePair :: "string \<Rightarrow> string \<times> string" where
  "decodePair p =
     (urlDecode (takeWhile (\<lambda>c. c \<noteq> CHR ''='') p), urlDecode (tl (dropWhile (\<lambda>c. c \<noteq> CHR ''='') p)))"

definition decodePairs :: "string \<Rightarrow> params" where
  "decodePairs s = map decodePair (splitOn (CHR ''&'') s)"

text \<open>The documented behaviour of \<open>curl_easy_escape\<close>: unreserved characters and \<open>%XX\<close>, decodable.\<close>

definition escape_documented :: "net \<Rightarrow> bool" where
  "escape_documented n \<longleftrightarrow> (\<forall>s. \<exists>t. curl_easy_escape n s = Some t \<and> urlDecode t = s \<and>
     (\<forall>c \<in> set t. unreserved c \<or> c = CHR ''%''))"

lemma decodePair_encoded:
  assumes "CHR ''='' \<notin> set k"
  shows "decodePair (k @ ''='' @ v) = (urlDecode k, urlDecode v)"
proof -
  have "\<forall>c \<in> set k. c \<noteq> CHR ''=''" using assms by blast
  then show ?thesis by (simp add: decodePair_def takeWhile_append2 dropWhile_append2)
qed

lemma decodePairs_encodePairs:
  assumes "\<And>s. urlDecode (enc s) = s" "\<And>s. CHR ''&'' \<notin> set (enc s)" "\<And>s. CHR ''='' \<notin> set (enc s)"
    and "ps \<noteq> []"
  shows "decodePairs (encodePairs enc ps) = ps"
proof -
  have "splitOn (CHR ''&'') (encodePairs enc ps) = map (\<lambda>(k, v). enc k @ ''='' @ enc v) ps"
    unfolding encodePairs_def using assms(2,4) by (intro splitOn_joinS) auto
  then show ?thesis
    unfolding decodePairs_def using assms(1,3)
    by (simp add: comp_def split_beta decodePair_encoded [simplified])
qed

lemma escaped_decodes:
  assumes "escape_documented n"
  shows "urlDecode (escaped n s) = s" "CHR ''&'' \<notin> set (escaped n s)" "CHR ''='' \<notin> set (escaped n s)"
proof -
  obtain t where t: "curl_easy_escape n s = Some t" "urlDecode t = s"
      "\<forall>c \<in> set t. unreserved c \<or> c = CHR ''%''"
    using assms unfolding escape_documented_def by blast
  then show "urlDecode (escaped n s) = s" by (simp add: escaped_def)
  show "CHR ''&'' \<notin> set (escaped n s)" "CHR ''='' \<notin> set (escaped n s)"
    using t by (auto simp: escaped_def unreserved_def is_alnum_def)
qed

lemma sampleNet_escape: "escape_documented (sampleNet reply)"
  using urlEncode_safe by (auto simp: escape_documented_def sampleNet_def)

lemma preparedHeaders_lookup:
  "map_of (preparedHeaders cfg meth) ''Authorization'' =
     (if accessToken cfg = [] then None else Some (''Bearer '' @ accessToken cfg))"
  "map_of (preparedHeaders cfg meth) ''Accept'' = Some ''application/json''"
  "map_of (preparedHeaders cfg meth) ''Content-Type'' =
     (if meth = ''POST'' \<or> meth = ''PUT'' then Some ''application/x-www-form-urlencoded'' else None)"
  by (auto simp: preparedHeaders_def buildHeaders_def putIf_def Let_def)

lemma buildUrl_confined: "buildUrl cfg ep = baseUrl cfg \<or> (\<exists>path. buildUrl cfg ep = baseUrl cfg @ ''/'' @ path)"
  by (cases ep) (auto simp: buildUrl_def)

end
