(* ===== verification/Http_Properties.thy ===== *)
theory Http_Properties
  imports Http_Client
begin

text \<open>
  What a call of the HTTP client guarantees: how many requests it sends and when, that it returns, where the
  requests and the access token go, that the parameters decode, and what the statistics count.
\<close>

section \<open>Properties\<close>

lemma performRequest_negative:
  assumes "retryLimit (http w) < 0" "performRequest n meth ep ps w = Some (r, w')"
  shows "r = Inr \<lparr>status = uninit_status n, body = [], headers = []\<rparr> \<and> sent w' = sent w \<and>
    http_world.more w' = http_world.more w"
proof -
  obtain u w2 where slot: "acquireSlot n (count totalRequests_update (tick w)) = Some (u, w2)"
    using assms(2) unfolding performRequest_def
    by (cases "acquireSlot n (count totalRequests_update (tick w))")
      (auto simp: bindIO_def steadyNow_def io_prims)
  then have f: "slot_frame (count totalRequests_update (tick w)) w2" using acquireSlot_frame by blast
  moreover have "http_world.more (count totalRequests_update (tick w)) = http_world.more w"
    by (simp add: count_def onHttp_def tick_def)
  ultimately have "sent w2 = sent w" "http_world.more w2 = http_world.more w" "retryLimit (http w2) < 0"
    using assms(1) unfolding slot_frame_def by (auto simp: retryLimit_def split: if_splits)
  moreover have "requestLoop l s 0 resp v = Some (Inr resp, v)" if "l < 0" for l s resp and v :: "'a http_world_scheme"
    using that by (subst requestLoop.simps) simp
  ultimately show ?thesis
    using assms(2) unfolding performRequest_loop [OF slot]
    by (auto simp: bindIO_def steadyNow_def io_prims tick_def)
qed

lemma performRequest_more:
  assumes "performRequest n meth ep ps w = Some (r, w')"
  shows "http_world.more w' = http_world.more w"
  using performRequest_steps [OF assms] performRequest_negative [OF _ assms]
  by (cases "0 \<le> retryLimit (http w)") (auto simp: request_steps_def)

lemma performRequest_sends:
  assumes "performRequest n meth ep ps w = Some (r, w')"
  shows "\<exists>k. sent w' = sent w @ replicate k (preparedRequest n (config (http w)) meth ep ps)"
proof (cases "0 \<le> retryLimit (http w)")
  case True
  then show ?thesis using performRequest_steps [OF assms] unfolding request_steps_def by blast
next
  case False
  then show ?thesis using performRequest_negative [OF _ assms] by (intro exI [of _ 0]) simp
qed

lemma performRequest_returns:
  assumes "rateLimitEnabled (http w) \<Longrightarrow> 0 < maxRequests (rateLimiter (http w))"
    and "clock_monotone n" "clock_progresses n"
  shows "\<exists>y. performRequest n meth ep ps w = Some y"
proof -
  obtain w2 where slot: "acquireSlot n (count totalRequests_update (tick w)) = Some (Inr (), w2)"
    using acquireSlot_returns [of "count totalRequests_update (tick w)" n] assms by auto
  have "\<exists>r w3. requestLoop (retryLimit (http w2)) (performSingleRequest n meth ep ps) 0 resp w2 = Some (r, w3)" for resp
  proof (cases "int 0 \<le> retryLimit (http w2)")
    case True
    then show ?thesis using psr.requestLoop_post [OF True, of n meth ep ps resp w2] by auto
  next
    case False
    then show ?thesis by (subst requestLoop.simps) simp
  qed
  then show ?thesis
    unfolding performRequest_loop [OF slot]
    by (fastforce simp: bindIO_def steadyNow_def io_prims split: option.splits sum.splits)
qed

text \<open>A client as the constructor makes it, with retries switched on, for the examples.\<close>

definition sampleClient :: "int \<Rightarrow> http_world" where
  "sampleClient retries =
     \<lparr>calls = 0, sent = [], sleeps = [], waits = [],
      http = \<lparr>config = \<lparr>accessToken = ''tok'', accountNumber = ''VA1'', sandboxMode = True, timeoutSeconds = 30\<rparr>,
        rateLimiter = newRateLimiter 0 60 60000, rateLimitEnabled = True, maxRetries = retries,
        initialRetryDelay = 1000, backoffMultiplier = DFin 2, retriesEnabled = True, stats = noStatistics\<rparr>\<rparr>"

text \<open>
  C3: A call of the HTTP client retries as configured and never beyond: it makes at most
  \<open>retryLimit\<close> retries, hands libcurl only copies of the one request the arguments determine, at most
  one per attempt, sleeps the exponential delays between attempts, fails only with a connection
  error and only after the last attempt, and returns a retryable response (429 or 5xx) only when no
  retry is left.
\<close>

theorem http_retries_bounded:
  assumes "performRequest n meth ep ps w = Some (r, w')" "0 \<le> retryLimit (http w)"
  shows "\<exists>j k. int j \<le> retryLimit (http w) \<and> k \<le> Suc j \<and>
     sent w' = sent w @ replicate k (preparedRequest n (config (http w)) meth ep ps) \<and>
     sleeps w' = sleeps w @
       map (backoffDelay (initialRetryDelay (http w)) (backoffMultiplier (http w))) [0..<j] \<and>
     (case r of
        Inr resp \<Rightarrow> 0 < k \<and> isReply n (preparedRequest n (config (http w)) meth ep ps) resp \<and>
          (retryable resp \<longrightarrow> int j = retryLimit (http w))
      | Inl e \<Rightarrow> (\<exists>m. e = ConnectionError m) \<and> int j = retryLimit (http w))"
  using performRequest_steps [OF assms] unfolding request_steps_def by blast



text \<open>
  Witness: a server that answers 503 to everything, with two retries: every response is one of its
  replies, and at most three requests go out.
\<close>

theorem http_retries_bounded_witness:
  "\<exists>r w'. performRequest (sampleNet (\<lambda>i q. Inr \<lparr>responseCode = 503, headerLines = [], bodyChunks = []\<rparr>))
       ''GET'' ''/markets/clock'' [] (sampleClient 2) = Some (r, w') \<and>
     (\<exists>j k. j \<le> 2 \<and> k \<le> Suc j \<and> length (sent w') = k \<and> sleeps w' = map (backoffDelay 1000 (DFin 2)) [0..<j])"
proof -
  let ?n = "sampleNet (\<lambda>i q. Inr \<lparr>responseCode = 503, headerLines = [], bodyChunks = []\<rparr>)"
  have lim: "retryLimit (http (sampleClient 2)) = 2" by (simp add: sampleClient_def retryLimit_def)
  have "0 < maxRequests (rateLimiter (http (sampleClient 2)))"
    by (simp add: sampleClient_def newRateLimiter_def)
  then obtain r w' where c: "performRequest ?n ''GET'' ''/markets/clock'' [] (sampleClient 2) = Some (r, w')"
    using performRequest_returns [of "sampleClient 2" ?n "''GET''" "''/markets/clock''" "[]"]
    by (auto simp: sampleNet_clock)
  have "0 \<le> retryLimit (http (sampleClient 2))" by (simp add: lim)
  from http_retries_bounded [OF c this] obtain j k where jk: "int j \<le> 2" "k \<le> Suc j"
      "length (sent w') = length (sent (sampleClient 2)) + k"
      "sleeps w' = sleeps (sampleClient 2) @ map (backoffDelay 1000 (DFin 2)) [0..<j]"
    unfolding lim by (auto simp: sampleClient_def)
  have "j \<le> 2" using jk(1) by simp
  moreover have "length (sent w') = k" "sleeps w' = map (backoffDelay 1000 (DFin 2)) [0..<j]"
    using jk(3,4) by (simp_all add: sampleClient_def)
  ultimately show ?thesis using c jk(2) by blast
qed

text \<open>The lines of a request that carry the token, and the request without them.\<close>

definition isAuthorization :: "string \<Rightarrow> bool" where
  "isAuthorization line \<longleftrightarrow> is_prefix ''Authorization: '' line"

definition withoutAuthorization :: "request \<Rightarrow> request" where
  "withoutAuthorization req = req\<lparr>CURLOPT_HTTPHEADER := filter (\<lambda>h. \<not> isAuthorization h) (CURLOPT_HTTPHEADER req)\<rparr>"

definition setToken :: "string \<Rightarrow> 'z http_world_scheme \<Rightarrow> 'z http_world_scheme" where
  "setToken token = onHttp (config_update (accessToken_update (\<lambda>_. token)))"

lemma preparedHeaders_lines:
  "preparedHeaders cfg meth = (''Accept'', ''application/json'') #
   (if accessToken cfg = [] then [] else [(''Authorization'', ''Bearer '' @ accessToken cfg)]) @
   (if meth = ''POST'' \<or> meth = ''PUT'' then [(''Content-Type'', ''application/x-www-form-urlencoded'')] else []) @
   (if sandboxMode cfg \<and> accountNumber cfg \<noteq> [] then [(''Tradier-Account'', accountNumber cfg)] else [])"
proof -
  define b1 where "b1 \<longleftrightarrow> accessToken cfg = []"
  define b2 where "b2 \<longleftrightarrow> meth = ''POST'' \<or> meth = ''PUT''"
  define b3 where "b3 \<longleftrightarrow> sandboxMode cfg \<and> accountNumber cfg \<noteq> []"
  show ?thesis
    unfolding preparedHeaders_def buildHeaders_def putIf_def Let_def b1_def [symmetric] b2_def [symmetric] b3_def [symmetric]
    by (cases b1; cases b2; cases b3; simp)
qed

lemma prepared_lines:
  "filter isAuthorization (map (\<lambda>(k, v). k @ '': '' @ v) (preparedHeaders cfg meth)) =
     (if accessToken cfg = [] then [] else [''Authorization: Bearer '' @ accessToken cfg])"
  "filter (\<lambda>h. \<not> isAuthorization h) (map (\<lambda>(k, v). k @ '': '' @ v) (preparedHeaders (cfg\<lparr>accessToken := t\<rparr>) meth)) =
     filter (\<lambda>h. \<not> isAuthorization h) (map (\<lambda>(k, v). k @ '': '' @ v) (preparedHeaders cfg meth))"
  by (simp_all add: preparedHeaders_lines isAuthorization_def)

lemma prepared_without_token:
  "withoutAuthorization (preparedRequest n (cfg\<lparr>accessToken := t\<rparr>) meth ep ps) = withoutAuthorization (preparedRequest n cfg meth ep ps)"
  using prepared_lines(2) [of t cfg meth]
  by (simp add: preparedRequest_def curlRequest_def withoutAuthorization_def requestUrl_def buildUrl_def baseUrl_def)

text \<open>
  C5: The access token goes to the brokerage and nowhere else. Every request a call hands to libcurl goes
  to the configured base URL followed by nothing, a path or a query, whatever the endpoint and the
  parameters are, and carries the token in exactly one header line (in none when there is no token). The
  rest of the request does not depend on the token: two calls that differ in the token only hand
  libcurl requests that agree in URL, method, body, timeout and all other header lines.
\<close>

theorem http_confined:
  assumes "performRequest n meth ep ps w = Some (r, w')"
    and "req \<in> set (drop (length (sent w)) (sent w'))"
    and "performRequest n meth ep ps (setToken token w) = Some (r2, w2)"
    and "req2 \<in> set (drop (length (sent w)) (sent w2))"
  shows "(\<exists>rest. CURLOPT_URL req = baseUrl (config (http w)) @ rest \<and>
           (rest = [] \<or> hd rest = CHR ''/'' \<or> hd rest = CHR ''?'')) \<and>
         filter isAuthorization (CURLOPT_HTTPHEADER req) =
           (if accessToken (config (http w)) = [] then []
            else [''Authorization: Bearer '' @ accessToken (config (http w))]) \<and>
         withoutAuthorization req2 = withoutAuthorization req"
proof -
  let ?cfg = "config (http w)"
  obtain k where "sent w' = sent w @ replicate k (preparedRequest n ?cfg meth ep ps)"
    using performRequest_sends [OF assms(1)] by blast
  with assms(2) have req: "req = preparedRequest n ?cfg meth ep ps" by simp
  obtain k2 where "sent w2 = sent w @ replicate k2 (preparedRequest n (?cfg\<lparr>accessToken := token\<rparr>) meth ep ps)"
    using performRequest_sends [OF assms(3)] by (auto simp: setToken_def)
  with assms(4) have req2: "req2 = preparedRequest n (?cfg\<lparr>accessToken := token\<rparr>) meth ep ps" by simp
  have "\<exists>rest. requestUrl ?cfg meth ep ps = baseUrl ?cfg @ rest \<and>
      (rest = [] \<or> hd rest = CHR ''/'' \<or> hd rest = CHR ''?'')"
    using buildUrl_confined [of ?cfg ep] by (auto simp: requestUrl_def queryLoop_acc)
  then show ?thesis
    using prepared_lines(1) [of ?cfg meth]
    by (simp add: req req2 prepared_without_token) (simp add: preparedRequest_def curlRequest_def)
qed

definition okNet :: net where
  "okNet = sampleNet (\<lambda>i q. Inr \<lparr>responseCode = 200, headerLines = [''Server: x''], bodyChunks = [''{}'']\<rparr>)"

definition quoteRun :: "((exn + Response) \<times> http_world) option" where
  "quoteRun = performRequest okNet ''GET'' ''markets/quotes'' [(''symbols'', ''A B'')] (sampleClient 0)"

definition quoteRequest :: request where
  "quoteRequest = \<lparr>CURLOPT_URL = ''https://sandbox.tradier.com/v1/markets/quotes?symbols=A%20B'',
     CURLOPT_VERB = HTTPGET, CURLOPT_POSTFIELDS = None,
     CURLOPT_HTTPHEADER = [''Accept: application/json'', ''Authorization: Bearer tok'', ''Tradier-Account: VA1''],
     CURLOPT_TIMEOUT = 30\<rparr>"

lemma quoteRun_value:
  "quoteRun = Some (Inr \<lparr>status = 200, body = ''{}'', headers = [(''Server'', ''x'')]\<rparr>, snd (the quoteRun))"
  "sent (snd (the quoteRun)) = [quoteRequest]"
  by code_simp+

text \<open>Witness: a quote request of the sample client.\<close>

theorem http_confined_witness:
  "quoteRequest \<in> set (sent (snd (the quoteRun))) \<and>
   (\<exists>rest. CURLOPT_URL quoteRequest = ''https://sandbox.tradier.com/v1'' @ rest \<and>
      (rest = [] \<or> hd rest = CHR ''/'' \<or> hd rest = CHR ''?'')) \<and>
   filter isAuthorization (CURLOPT_HTTPHEADER quoteRequest) = [''Authorization: Bearer tok'']"
proof -
  have run: "performRequest okNet ''GET'' ''markets/quotes'' [(''symbols'', ''A B'')] (sampleClient 0) =
      Some (Inr \<lparr>status = 200, body = ''{}'', headers = [(''Server'', ''x'')]\<rparr>, snd (the quoteRun))"
    using quoteRun_value(1) unfolding quoteRun_def .
  have "quoteRequest \<in> set (drop (length (sent (sampleClient 0))) (sent (snd (the quoteRun))))"
    by (simp add: quoteRun_value(2) sampleClient_def)
  moreover have "setToken ''tok'' (sampleClient 0) = sampleClient 0" by (simp add: setToken_def onHttp_def sampleClient_def)
  ultimately show ?thesis
    using http_confined [OF run, of quoteRequest "''tok''" _ "snd (the quoteRun)" quoteRequest] run
    by (simp add: quoteRun_value(2)) (simp add: sampleClient_def baseUrl_def)
qed

text \<open>
  C6: Parameters survive the trip: in every request a call hands to libcurl, the query string of a GET or
  DELETE and the form body of a POST or PUT decode to exactly the parameters of the call, in key
  order, whatever characters they hold, given that libcurl escapes as documented; a GET or DELETE has
  no body, and the URL holds nothing but the endpoint and the query.
\<close>

theorem http_params_roundtrip:
  assumes "ps \<noteq> []" "escape_documented n"
    and "performRequest n meth ep ps w = Some (r, w')"
    and "req \<in> set (drop (length (sent w)) (sent w'))"
  shows "(if formMethod meth
          then CURLOPT_URL req = buildUrl (config (http w)) ep \<and>
            (meth = ''POST'' \<or> meth = ''PUT'' \<longrightarrow>
              (\<exists>form. CURLOPT_POSTFIELDS req = Some form \<and> decodePairs form = ps))
          else (\<exists>q. CURLOPT_URL req = buildUrl (config (http w)) ep @ ''?'' @ q \<and> decodePairs q = ps) \<and>
            CURLOPT_POSTFIELDS req = None)"
proof -
  let ?cfg = "config (http w)"
  obtain k where "sent w' = sent w @ replicate k (preparedRequest n ?cfg meth ep ps)"
    using performRequest_sends [OF assms(3)] by blast
  with assms(4) have req: "req = preparedRequest n ?cfg meth ep ps" by simp
  have q: "decodePairs (encodePairs urlEncode ps) = ps"
    by (rule decodePairs_encodePairs) (simp_all add: urlEncode_no_separator assms(1))
  have f: "decodePairs (encodePairs (escaped n) ps) = ps"
    by (rule decodePairs_encodePairs) (simp_all add: escaped_decodes [OF assms(2)] assms(1))
  show ?thesis
    using q f assms(1)
    by (auto simp: req requestUrl_def queryLoop_acc preparedRequest_def curlRequest_def formMethod_def)
qed

text \<open>Witness: an order tag with every separator in it.\<close>

definition tagRun :: "((exn + Response) \<times> http_world) option" where
  "tagRun = performRequest okNet ''POST'' ''/x'' [(''tag'', ''a&b=c%d e'')] (sampleClient 0)"

lemma tagRun_value:
  "tagRun = Some (Inr \<lparr>status = 200, body = ''{}'', headers = [(''Server'', ''x'')]\<rparr>, snd (the tagRun))"
  "map CURLOPT_POSTFIELDS (sent (snd (the tagRun))) = [Some ''tag=a%26b%3dc%25d%20e'']"
  by code_simp+

theorem http_params_roundtrip_witness:
  "\<exists>req form. sent (snd (the tagRun)) = [req] \<and> CURLOPT_POSTFIELDS req = Some form \<and>
     decodePairs form = [(''tag'', ''a&b=c%d e'')]"
proof -
  have run: "performRequest okNet ''POST'' ''/x'' [(''tag'', ''a&b=c%d e'')] (sampleClient 0) =
      Some (Inr \<lparr>status = 200, body = ''{}'', headers = [(''Server'', ''x'')]\<rparr>, snd (the tagRun))"
    using tagRun_value(1) unfolding tagRun_def .
  obtain req where req: "sent (snd (the tagRun)) = [req]"
    using tagRun_value(2) by (cases "sent (snd (the tagRun))") (auto simp: Cons_eq_map_conv)
  have "escape_documented okNet" by (simp add: okNet_def sampleNet_escape)
  moreover have "req \<in> set (drop (length (sent (sampleClient 0))) (sent (snd (the tagRun))))"
    by (simp add: req sampleClient_def)
  ultimately show ?thesis
    using http_params_roundtrip [OF _ _ run, of req] req by (simp add: formMethod_def)
qed

definition blanks :: string where
  "blanks = [CHR '' '', CHR 0x09, CHR 0x0D, CHR 0x0A]"

definition trimmed :: "string \<Rightarrow> bool" where
  "trimmed s \<longleftrightarrow> (if s = [] then True else hd s \<notin> set blanks \<and> last s \<notin> set blanks)"

lemma trim_trimmed:
  assumes "trimmed s"
  shows "trim_back blanks (trim_front [CHR '' '', CHR 0x09] s) = s"
    and "trim_back blanks (trim_front [CHR '' '', CHR 0x09] (CHR '' '' # s @ [CHR 0x0D, CHR 0x0A])) = s"
proof -
  have front: "trim_front [CHR '' '', CHR 0x09] (s @ t) = s @ t" if "s \<noteq> []" for t
    using assms that by (cases s) (auto simp: trim_front_def trimmed_def blanks_def)
  have "trim_back blanks s = s"
    using assms by (cases s rule: rev_cases) (auto simp: trim_back_def trimmed_def)
  moreover have "trim_back blanks (s @ [CHR 0x0D, CHR 0x0A]) = trim_back blanks s"
    by (simp add: trim_back_def blanks_def)
  ultimately show "trim_back blanks (trim_front [CHR '' '', CHR 0x09] s) = s"
    "trim_back blanks (trim_front [CHR '' '', CHR 0x09] (CHR '' '' # s @ [CHR 0x0D, CHR 0x0A])) = s"
    using front [of "[]"] front [of "[CHR 0x0D, CHR 0x0A]"]
    by (cases "s = []"; simp add: trim_front_def trim_back_def blanks_def)+
qed

text \<open>
  A response header line \<open>key: value\<close> becomes exactly the entry \<open>key\<close>, \<open>value\<close>, without the
  separating blank and the line end, replacing an earlier entry of the key and leaving all others;
  a line without a colon (the status line, the blank line) changes nothing.
\<close>

theorem headerCallback_parses:
  assumes "map_ok hs" "trimmed key" "CHR '':'' \<notin> set key" "trimmed val" "CHR '':'' \<notin> set junk"
  shows "map_of (headerCallback (key @ '':'' @ '' '' @ val @ [CHR 0x0D, CHR 0x0A]) hs) = (map_of hs)(key \<mapsto> val) \<and>
         map_ok (headerCallback (key @ '':'' @ '' '' @ val @ [CHR 0x0D, CHR 0x0A]) hs) \<and>
         headerCallback junk hs = hs"
proof -
  have k: "\<forall>c \<in> set key. c \<noteq> CHR '':''" using assms(3) by blast
  have "headerCallback (key @ '':'' @ '' '' @ val @ [CHR 0x0D, CHR 0x0A]) hs = map_put key val hs"
    using trim_trimmed [OF assms(2)] trim_trimmed [OF assms(4)] k
    by (simp add: headerCallback_def takeWhile_append2 dropWhile_append2 blanks_def)
  then show ?thesis
    using assms(1,5) sm.lookup_put [OF assms(1)] sm.ok_put [OF assms(1)]
    by (auto simp: headerCallback_def fun_eq_iff)
qed

text \<open>Witness: the rate limit header of a response.\<close>

theorem headerCallback_parses_witness:
  "headerCallback (''X-Ratelimit-Used'' @ '':'' @ '' '' @ ''7'' @ [CHR 0x0D, CHR 0x0A]) [(''Date'', ''now'')] =
     [(''Date'', ''now''), (''X-Ratelimit-Used'', ''7'')] \<and>
   map_of (headerCallback (''X-Ratelimit-Used'' @ '':'' @ '' '' @ ''7'' @ [CHR 0x0D, CHR 0x0A]) [(''Date'', ''now'')]) =
     (map_of [(''Date'', ''now'')])(''X-Ratelimit-Used'' \<mapsto> ''7'')"
proof
  show "headerCallback (''X-Ratelimit-Used'' @ '':'' @ '' '' @ ''7'' @ [CHR 0x0D, CHR 0x0A]) [(''Date'', ''now'')] =
     [(''Date'', ''now''), (''X-Ratelimit-Used'', ''7'')]" by code_simp
  have "map_ok [(''Date'', ''now'')]" "trimmed ''X-Ratelimit-Used''" "trimmed ''7''"
    by (simp_all add: map_ok_def trimmed_def blanks_def)
  then show "map_of (headerCallback (''X-Ratelimit-Used'' @ '':'' @ '' '' @ ''7'' @ [CHR 0x0D, CHR 0x0A]) [(''Date'', ''now'')]) =
     (map_of [(''Date'', ''now'')])(''X-Ratelimit-Used'' \<mapsto> ''7'')"
    using headerCallback_parses [of "[(''Date'', ''now'')]" "''X-Ratelimit-Used''" "''7''" "[]"] by simp
qed

section \<open>Statistics\<close>

text \<open>A sequence of calls, each with its verb, endpoint and parameters; exceptions are collected.\<close>

fun requestSeq ::
  "net \<Rightarrow> (string \<times> string \<times> params) list \<Rightarrow> 'z http_world_scheme \<Rightarrow>
     ((exn + Response) list \<times> 'z http_world_scheme) option" where
  "requestSeq n [] w = Some ([], w)"
| "requestSeq n ((meth, ep, ps) # cs) w =
     (case performRequest n meth ep ps w of
        None \<Rightarrow> None
      | Some (r, w1) \<Rightarrow> (case requestSeq n cs w1 of None \<Rightarrow> None | Some (rs, w2) \<Rightarrow> Some (r # rs, w2)))"

definition tally :: "(exn + Response \<Rightarrow> bool) \<Rightarrow> (exn + Response) list \<Rightarrow> 64 word" where
  "tally p rs = of_nat (length (filter p rs))"

fun succeeded :: "exn + Response \<Rightarrow> bool" where
  "succeeded (Inr r) = success r"
| "succeeded (Inl e) = False"

fun answeredBadly :: "exn + Response \<Rightarrow> bool" where
  "answeredBadly (Inr r) = (\<not> success r)"
| "answeredBadly (Inl e) = False"

lemma requestSeq_tally:
  assumes "requestSeq n cs w = Some (rs, w')" "0 \<le> retryLimit (http w)"
  shows "length rs = length cs \<and>
    totalRequests (stats (http w')) = totalRequests (stats (http w)) + of_nat (length rs) \<and>
    successfulRequests (stats (http w')) = successfulRequests (stats (http w)) + tally succeeded rs \<and>
    failedRequests (stats (http w')) = failedRequests (stats (http w)) + tally answeredBadly rs"
  using assms
proof (induction n cs w arbitrary: rs rule: requestSeq.induct)
  case (2 n meth ep ps cs w)
  obtain r w1 where c: "performRequest n meth ep ps w = Some (r, w1)"
    using "2.prems"(1) by (auto split: option.splits)
  then obtain rs' where s: "requestSeq n cs w1 = Some (rs', w')" "rs = r # rs'"
    using "2.prems"(1) by (auto split: option.splits)
  obtain j k where st: "request_steps n meth ep ps w r w1 j k"
    using performRequest_steps [OF c "2.prems"(2)] by blast
  then have "retryLimit (http w1) = retryLimit (http w)" by (simp add: request_steps_def)
  then have IH: "length rs' = length cs"
    "totalRequests (stats (http w')) = totalRequests (stats (http w1)) + of_nat (length rs')"
    "successfulRequests (stats (http w')) = successfulRequests (stats (http w1)) + tally succeeded rs'"
    "failedRequests (stats (http w')) = failedRequests (stats (http w1)) + tally answeredBadly rs'"
    using "2.IH" [OF c _ s(1)] "2.prems"(2) by simp_all
  have "tally succeeded rs = outcomeCount success r + tally succeeded rs'"
    "tally answeredBadly rs = outcomeCount (\<lambda>resp. \<not> success resp) r + tally answeredBadly rs'"
    unfolding s(2) by (cases r; simp add: tally_def outcomeCount_def)+
  then show ?case
    using IH st s(2) unfolding request_steps_def by (simp add: algebra_simps)
qed (simp add: tally_def)

text \<open>
  The statistics account for every call: after any sequence of calls \<open>totalRequests\<close> has grown by
  the number of calls, \<open>successfulRequests\<close> by the number of 2xx answers and \<open>failedRequests\<close> by the
  number of other answers, so that the total exceeds their sum by exactly the calls that ended in an
  exception (all modulo \<open>2 ^ 64\<close>).
\<close>

theorem statistics_account:
  assumes "requestSeq n cs w = Some (rs, w')" "0 \<le> retryLimit (http w)" "stats (http w) = noStatistics"
  shows "totalRequests (getStatistics (http w')) = of_nat (length cs) \<and>
    successfulRequests (getStatistics (http w')) = tally succeeded rs \<and>
    failedRequests (getStatistics (http w')) = tally answeredBadly rs \<and>
    totalRequests (getStatistics (http w')) = successfulRequests (getStatistics (http w')) +
      failedRequests (getStatistics (http w')) + tally isl rs"
proof -
  have "length rs = length (filter succeeded rs) + length (filter answeredBadly rs) + length (filter isl rs)"
  proof (induction rs)
    case (Cons r rs)
    then show ?case by (cases r) auto
  qed simp
  then have "of_nat (length rs) = tally succeeded rs + tally answeredBadly rs + tally isl rs"
    unfolding tally_def by (metis of_nat_add)
  with requestSeq_tally [OF assms(1,2)] assms(3) show ?thesis
    by (simp add: getStatistics_def noStatistics_def)
qed

text \<open>Witness: two calls of the sample client.\<close>

theorem statistics_account_witness:
  "(case requestSeq okNet [(''GET'', ''/a'', []), (''GET'', ''/b'', [])] (sampleClient 0) of
      None \<Rightarrow> False
    | Some (rs, w') \<Rightarrow> totalRequests (getStatistics (http w')) = 2 \<and>
        successfulRequests (getStatistics (http w')) = tally succeeded rs)"
proof -
  have "requestSeq okNet [(''GET'', ''/a'', []), (''GET'', ''/b'', [])] (sampleClient 0) \<noteq> None"
    by code_simp
  then obtain rs w' where run: "requestSeq okNet [(''GET'', ''/a'', []), (''GET'', ''/b'', [])] (sampleClient 0) = Some (rs, w')"
    by fastforce
  have "0 \<le> retryLimit (http (sampleClient 0))" "stats (http (sampleClient 0)) = noStatistics"
    by (simp_all add: sampleClient_def retryLimit_def)
  from statistics_account [OF run this] show ?thesis unfolding run by simp
qed

text \<open>
  With retries enabled and a negative \<open>maxRetries\<close> the loop body never runs: a call that returns
  has sent nothing, and its result is the default-initialised \<open>Response\<close>, whose \<open>status\<close> is whatever the
  uninitialised member holds.
\<close>

theorem negative_retries_send_nothing:
  assumes "retriesEnabled (http w)" "maxRetries (http w) < 0"
    and "performRequest n meth ep ps w = Some (r, w')"
  shows "r = Inr \<lparr>status = uninit_status n, body = [], headers = []\<rparr> \<and> sent w' = sent w"
  using performRequest_negative [of w n meth ep ps r w'] assms by (simp add: retryLimit_def)

text \<open>Witness: a policy of minus one retries.\<close>

theorem negative_retries_send_nothing_witness:
  "\<exists>r w'. performRequest okNet ''GET'' ''/a'' [] (sampleClient (- 1)) = Some (r, w') \<and>
     r = Inr \<lparr>status = 0, body = [], headers = []\<rparr> \<and> sent w' = []"
proof -
  have "performRequest okNet ''GET'' ''/a'' [] (sampleClient (- 1)) \<noteq> None" by code_simp
  then obtain r w' where run: "performRequest okNet ''GET'' ''/a'' [] (sampleClient (- 1)) = Some (r, w')"
    by fastforce
  have "retriesEnabled (http (sampleClient (- 1)))" "maxRetries (http (sampleClient (- 1))) < 0"
    by (simp_all add: sampleClient_def)
  from negative_retries_send_nothing [OF this run] show ?thesis
    using run by (simp add: okNet_def sampleNet_def) (simp add: sampleClient_def)
qed

end
