(* ===== verification/Http_Reliable.thy ===== *)
theory Http_Reliable
  imports Http_Properties
begin

text \<open>
  The HTTP client on a network where libcurl's own resources do not fail: the request reaches the
  server, and the caller gets the server's answer.
\<close>

definition reliable :: "net \<Rightarrow> bool" where
  "reliable n \<longleftrightarrow> (\<forall>i. curl_easy_init n i) \<and> (\<forall>i. curl_slist_append n i) \<and> (\<forall>s. curl_easy_escape n s \<noteq> None)"

text \<open>A step that succeeds and only advances the call counter.\<close>

definition sure :: "'a \<Rightarrow> ('z world_scheme, exn, 'a) io \<Rightarrow> bool" where
  "sure x m \<longleftrightarrow> (\<forall>w. \<exists>c. m w = Some (Inr x, w\<lparr>calls := c\<rparr>))"

lemma sure_bind:
  assumes "sure x m" "sure y (f x)"
  shows "sure y (bindIO m f)"
  unfolding sure_def
proof
  fix w
  obtain c where c: "m w = Some (Inr x, w\<lparr>calls := c\<rparr>)" using assms(1) unfolding sure_def by blast
  obtain d where d: "f x (w\<lparr>calls := c\<rparr>) = Some (Inr y, w\<lparr>calls := d\<rparr>)"
    using assms(2) [unfolded sure_def, rule_format, of "w\<lparr>calls := c\<rparr>"] by auto
  show "\<exists>c. bindIO m f w = Some (Inr y, w\<lparr>calls := c\<rparr>)" using c d by (auto simp: bindIO_def)
qed

lemma sure_return: "sure x (returnIO x)"
  unfolding sure_def returnIO_def by (metis world.surjective world.update_convs(1))

lemma sure_httpUrlEncode:
  assumes "reliable n"
  shows "sure (escaped n s) (httpUrlEncode n s)"
proof -
  have "sure () (curlInit n)" using assms by (auto simp: sure_def curlInit_def tick_def reliable_def)
  moreover obtain t where "curl_easy_escape n s = Some t" using assms unfolding reliable_def by blast
  ultimately show ?thesis
    unfolding httpUrlEncode_def by (auto intro!: sure_bind sure_return simp: escaped_def)
qed

lemma sure_formLoop:
  assumes "reliable n"
  shows "sure (acc @ (if ps = [] \<or> first then [] else ''&'') @ encodePairs (escaped n) ps) (formLoop n ps first acc)"
  using assms
proof (induction n ps first acc rule: formLoop.induct)
  case (2 n k v ps first acc)
  show ?case
    unfolding formLoop.simps
    by (intro sure_bind [OF sure_httpUrlEncode [OF "2.prems"]])
      (use "2.IH" [OF "2.prems", of "escaped n k" "escaped n v"] "2.prems" in \<open>cases ps; auto simp: encodePairs_def joinS_Cons\<close>)
qed (simp add: encodePairs_def sure_return)

lemma sure_headerLoop:
  fixes n :: net
  assumes "reliable n"
  shows "sure (hl @ map (\<lambda>(k, v). k @ '': '' @ v) hs) (headerLoop n hs hl :: ('z world_scheme, exn, string list) io)"
proof -
  have "\<exists>c. headerLoop n hs hl w = Some (Inr (hl @ map (\<lambda>(k, v). k @ '': '' @ v) hs), w\<lparr>calls := c\<rparr>)"
    for w :: "'z world_scheme"
  proof (induction hs arbitrary: hl w)
    case Nil
    show ?case by (simp add: exI [of _ "calls w"])
  next
    case (Cons h hs)
    obtain k v where h: "h = (k, v)" by fastforce
    show ?case
      using Cons.IH [of "hl @ [k @ '': '' @ v]" "tick w"] assms
      by (auto simp: h reliable_def tick_def)
  qed
  then show ?thesis unfolding sure_def by blast
qed

lemma performSingleRequest_reliable:
  fixes w :: "'z http_world_scheme"
  assumes "reliable n"
  shows "\<exists>c. performSingleRequest n meth ep ps w =
    curlPerform n (preparedRequest n (config (http w)) meth ep ps) (w\<lparr>calls := c\<rparr>)"
proof -
  let ?cfg = "config (http w)"
  let ?form = "if formMethod meth \<and> ps \<noteq> [] then formLoop n ps True [] else returnIO []"
  let ?data = "if formMethod meth \<and> ps \<noteq> [] then encodePairs (escaped n) ps else []"
  let ?hl = "map (\<lambda>(k, v). k @ '': '' @ v) (preparedHeaders ?cfg meth)"
  define prep :: "('z, string \<times> string list) http_io" where
    "prep = bindIO ?form (\<lambda>d. bindIO (headerLoop n (preparedHeaders ?cfg meth) []) (\<lambda>hl. returnIO (d, hl)))"
  have "sure ?data ?form"
    using sure_formLoop [OF assms, of "[]" ps True] by (auto intro: sure_return)
  moreover have "sure ?hl (headerLoop n (preparedHeaders ?cfg meth) [])"
    using sure_headerLoop [OF assms, of "[]"] by simp
  ultimately have "sure (?data, ?hl) prep"
    unfolding prep_def by (intro sure_bind [where x = ?data] sure_bind [where x = ?hl] sure_return)
  moreover have "performSingleRequest n meth ep ps w =
      bindIO prep (\<lambda>(d, hl). curlPerform n (curlRequest ?cfg meth (requestUrl ?cfg meth ep ps) d hl)) w"
    by (simp add: performSingleRequest_def prep_def bindIO_assoc preparedHeaders_def)
  moreover obtain c where "prep w = Some (Inr (?data, ?hl), w\<lparr>calls := c\<rparr>)"
    using \<open>sure (?data, ?hl) prep\<close> unfolding sure_def by blast
  ultimately show ?thesis by (auto simp: bindIO_def preparedRequest_def)
qed

lemma performRequest_delivers:
  assumes "reliable n" "0 \<le> retryLimit (http w)"
    and "rateLimitEnabled (http w) \<longrightarrow> 0 < maxRequests (rateLimiter (http w))"
    and "clock_monotone n" "clock_progresses n"
    and "\<forall>i. curl_easy_perform n i (preparedRequest n (config (http w)) meth ep ps) = Inr t"
    and "\<not> retryable (receive t)"
  shows "\<exists>w'. performRequest n meth ep ps w = Some (Inr (receive t), w') \<and>
           sent w' = sent w @ [preparedRequest n (config (http w)) meth ep ps]"
proof -
  let ?req = "preparedRequest n (config (http w)) meth ep ps"
  obtain w2 where slot: "acquireSlot n (count totalRequests_update (tick w)) = Some (Inr (), w2)"
    using acquireSlot_returns [of "count totalRequests_update (tick w)" n] assms(3-5) by auto
  then have "slot_frame (count totalRequests_update (tick w)) w2" using acquireSlot_frame by blast
  then have w2: "config (http w2) = config (http w)" "retryLimit (http w2) = retryLimit (http w)" "sent w2 = sent w"
    unfolding slot_frame_def by (auto simp: retryLimit_def)
  obtain c where "performSingleRequest n meth ep ps w2 = curlPerform n ?req (w2\<lparr>calls := c\<rparr>)"
    using performSingleRequest_reliable [OF assms(1), of meth ep ps w2] w2 by auto
  then obtain w3 where single: "performSingleRequest n meth ep ps w2 = Some (Inr (receive t), w3)"
      "sent w3 = sent w @ [?req]"
    using assms(6) w2(3) by (simp add: curlPerform_def Let_def tick_def)
  have "requestLoop (retryLimit (http w2)) (performSingleRequest n meth ep ps) 0 resp w2 =
      Some (Inr (receive t), w3)" for resp
    using assms(2,7) w2(2) single(1) by (subst requestLoop.simps) simp
  then show ?thesis
    unfolding performRequest_loop [OF slot] using single(2)
    by (simp add: bindIO_def steadyNow_def io_prims)
qed

lemma sampleNet_reliable: "reliable (sampleNet reply)"
  by (simp add: reliable_def sampleNet_def)

text \<open>
  On a reliable network every call of the HTTP client that takes a slot delivers its request, and
  the caller gets the server's answer: when the server answers the request with \<open>t\<close> and \<open>t\<close> is not
  to be retried, exactly one request is sent and the response is the status, body and headers of \<open>t\<close>.
\<close>

theorem http_delivers:
  assumes "reliable n" "0 \<le> retryLimit (http w)"
    and "rateLimitEnabled (http w) \<longrightarrow> 0 < maxRequests (rateLimiter (http w))"
    and "clock_monotone n" "clock_progresses n"
    and "\<forall>i. curl_easy_perform n i (preparedRequest n (config (http w)) meth ep ps) = Inr t"
    and "\<not> retryable (receive t)"
  shows "\<exists>w'. performRequest n meth ep ps w = Some (Inr (receive t), w') \<and>
           sent w' = sent w @ [preparedRequest n (config (http w)) meth ep ps]"
  using performRequest_delivers [OF assms] .

text \<open>Witness: a quote request of the sample client.\<close>

theorem http_delivers_witness:
  "\<exists>w'. performRequest okNet ''GET'' ''/markets/clock'' [] (sampleClient 2) =
       Some (Inr (receive \<lparr>responseCode = 200, headerLines = [''Server: x''], bodyChunks = [''{}'']\<rparr>), w') \<and>
     sent w' = sent (sampleClient 2) @ [preparedRequest okNet (config (http (sampleClient 2))) ''GET'' ''/markets/clock'' []]"
proof (rule http_delivers)
  show "reliable okNet" "clock_monotone okNet" "clock_progresses okNet"
    by (simp_all add: okNet_def sampleNet_reliable sampleNet_clock)
  show "0 \<le> retryLimit (http (sampleClient 2))" by (simp add: sampleClient_def retryLimit_def)
  show "rateLimitEnabled (http (sampleClient 2)) \<longrightarrow> 0 < maxRequests (rateLimiter (http (sampleClient 2)))"
    by (simp add: sampleClient_def newRateLimiter_def)
  show "\<forall>i. curl_easy_perform okNet i (preparedRequest okNet (config (http (sampleClient 2))) ''GET'' ''/markets/clock'' []) =
      Inr \<lparr>responseCode = 200, headerLines = [''Server: x''], bodyChunks = [''{}'']\<rparr>"
    by (simp add: okNet_def sampleNet_def)
  show "\<not> retryable (receive \<lparr>responseCode = 200, headerLines = [''Server: x''], bodyChunks = [''{}'']\<rparr>)"
    by (simp add: retryable_def receive_def)
qed

end
