(* ===== verification/Client.thy ===== *)
theory Client
  imports Http_Reliable
begin

text \<open>
  \<^verbatim>\<open>client.hpp\<close> and \<^verbatim>\<open>client.cpp\<close>: \<open>TradierClient\<close>, and the interface through which the services use it.

  A service holds a reference to the client and calls \<open>get\<close>, \<open>post\<close>, \<open>put\<close> and \<open>del\<close> on it; the record
  \<open>client_ops\<close> is that interface over an arbitrary state \<open>'w\<close>, \<open>tradierClient n\<close> its implementation. The
  locale \<open>api_client\<close> states what the services rely on. The locale \<open>service_call\<close> is the contract of a
  service operation: validate, make one client call, interpret the response; its lemmas hold for
  every operation of the services.
\<close>

section \<open>TradierClient\<close>

definition newTradierClient :: "net \<Rightarrow> Config \<Rightarrow> ('z world_scheme, exn, HttpClient) io" where
  "newTradierClient n cfg =
     bindIO (newHttpClient n cfg) (\<lambda>h.
       if accessToken cfg = [] then throwIO (AuthenticationError ''Access token required'')
       else returnIO h)"

definition isAuthenticated :: "Config \<Rightarrow> bool" where
  "isAuthenticated cfg \<longleftrightarrow> accessToken cfg \<noteq> []"

record 'w client_ops =
  cl_get :: "string \<Rightarrow> params \<Rightarrow> ('w, exn, Response) io"
  cl_post :: "string \<Rightarrow> params \<Rightarrow> ('w, exn, Response) io"
  cl_put :: "string \<Rightarrow> params \<Rightarrow> ('w, exn, Response) io"
  cl_del :: "string \<Rightarrow> params \<Rightarrow> ('w, exn, Response) io"

definition tradierClient :: "net \<Rightarrow> 'z http_world_scheme client_ops" where
  "tradierClient n =
     \<lparr>cl_get = http_get n, cl_post = http_post n, cl_put = http_put n, cl_del = http_del n\<rparr>"

definition client_setRateLimit :: "net \<Rightarrow> int \<Rightarrow> int \<Rightarrow> ('z, unit) http_io" where
  "client_setRateLimit n maxReq duration = setRateLimit n maxReq duration"

definition client_enableRateLimit :: "bool \<Rightarrow> ('z, unit) http_io" where
  "client_enableRateLimit enabled = modifyIO (onHttp (enableRateLimit enabled))"

definition client_setRetryPolicy :: "int \<Rightarrow> int \<Rightarrow> double \<Rightarrow> ('z, unit) http_io" where
  "client_setRetryPolicy m initialDelay multiplier =
     modifyIO (onHttp (setRetryPolicy m initialDelay multiplier))"

definition client_enableRetries :: "bool \<Rightarrow> ('z, unit) http_io" where
  "client_enableRetries enabled = modifyIO (onHttp (enableRetries enabled))"

section \<open>What services rely on\<close>

text \<open>A call either does not return, returns a response, or throws a \<open>ConnectionError\<close>.\<close>

definition connection_only :: "('w, exn, 'a) io \<Rightarrow> bool" where
  "connection_only m \<longleftrightarrow> (\<forall>w e w'. m w = Some (Inl e, w') \<longrightarrow> (\<exists>msg. e = ConnectionError msg))"

locale api_client =
  fixes C :: "'w client_ops"
  assumes get_connection: "connection_only (cl_get C ep ps)"
    and post_connection: "connection_only (cl_post C ep ps)"
    and put_connection: "connection_only (cl_put C ep ps)"
    and del_connection: "connection_only (cl_del C ep ps)"

lemma performRequest_connection: "connection_only (performRequest n meth ep ps)"
  unfolding connection_only_def
proof (intro allI impI)
  fix w e w' assume call: "performRequest n meth ep ps w = Some (Inl e, w')"
  show "\<exists>msg. e = ConnectionError msg"
  proof (cases "0 \<le> retryLimit (http w)")
    case True
    then show ?thesis using performRequest_steps [OF call] by (auto simp: request_steps_def)
  next
    case False
    then show ?thesis using performRequest_negative [OF _ call] by simp
  qed
qed

interpretation tc: api_client "tradierClient n" for n
  by unfold_locales
    (simp_all add: tradierClient_def http_get_def http_post_def http_put_def http_del_def
      performRequest_connection)

section \<open>The contract of a service operation\<close>

text \<open>
  The abstract operation: \<open>check\<close> decides on the arguments and yields what to send, \<open>call\<close> sends it,
  \<open>interp\<close> makes the value or the exception from the response; the result is wrapped by \<open>tryExecute\<close>.
\<close>

definition endpoint_spec ::
  "'p fallible \<Rightarrow> ('p \<Rightarrow> ('w, exn, Response) io) \<Rightarrow> (Response \<Rightarrow> 'a fallible) \<Rightarrow> string \<Rightarrow>
     ('w, 'e, 'a ApiResult) io" where
  "endpoint_spec check call interp operation w =
     (case check of
        Inl e \<Rightarrow> Some (Inr (tryExecute (Inl e) operation), w)
      | Inr p \<Rightarrow>
          (case call p w of
             None \<Rightarrow> None
           | Some (r, w') \<Rightarrow> Some (Inr (tryExecute (bindE r interp) operation), w')))"

text \<open>The usual interpretation: a non-2xx status is an \<open>ApiError\<close>, an unparsable body
  the exception \<open>parseFailure\<close>.\<close>

definition expectParsed ::
  "'j json_api \<Rightarrow> string \<Rightarrow> exn \<Rightarrow> ('j \<Rightarrow> 'a fallible) \<Rightarrow> Response \<Rightarrow> 'a fallible" where
  "expectParsed J failure parseFailure parser response =
     (if \<not> success response then throwApi (status response) (failure @ body response)
      else (case parseResponse J response parser of
              None \<Rightarrow> Inl parseFailure
            | Some v \<Rightarrow> Inr v))"

definition reports_status :: "(Response \<Rightarrow> 'a fallible) \<Rightarrow> bool" where
  "reports_status interp \<longleftrightarrow>
     (\<forall>r. \<not> success r \<longrightarrow> (\<exists>m. interp r = Inl (ApiError (ApiErr (status r) m []))))"

lemma expectParsed_reports: "reports_status (expectParsed J f p parser)"
  by (simp add: reports_status_def expectParsed_def throwApi_def) blast

text \<open>The result carries the status of a failed response and 0 for every other failure.\<close>

definition failsWith :: "int \<Rightarrow> 'a ApiResult \<Rightarrow> bool" where
  "failsWith code r \<longleftrightarrow> value_opt r = None \<and> (\<exists>e. error_opt r = Some e \<and> statusCode e = code)"

lemma failsWith_tryExecute: "failsWith (exn_status e) (tryExecute (Inl e) operation)"
  by (simp add: failsWith_def tryExecute_def)

locale service_call =
  fixes run :: "('w, 'e, 'a ApiResult) io"
    and check :: "'p fallible"
    and call :: "'p \<Rightarrow> ('w, exn, Response) io"
    and interp :: "Response \<Rightarrow> 'a fallible"
    and operation :: string
  assumes refines: "run = endpoint_spec check call interp operation"
    and check_validates: "only_validation check"
    and interp_status: "reports_status interp"
begin

lemma never_throws:
  assumes "run w = Some (r, w')"
  obtains res where "r = Inr res" "result_ok res"
proof -
  have "result_ok (tryExecute q operation)" for q :: "'a fallible" by (simp add: tryExecute_def)
  then show thesis
    using assms that unfolding refines endpoint_spec_def by (auto split: sum.splits option.splits)
qed

lemma rejects:
  assumes "check = Inl e"
  shows "\<exists>res. run w = Some (Inr res, w) \<and> failsWith 0 res"
proof -
  obtain m where "e = ValidationError m" using check_validates assms by (auto simp: only_validation_def)
  then show ?thesis
    using failsWith_tryExecute [of e operation] assms by (simp add: refines endpoint_spec_def)
qed

lemma sends_once:
  assumes "check = Inr p"
  shows "run w = (case call p w of
     None \<Rightarrow> None | Some (r, w') \<Rightarrow> Some (Inr (tryExecute (bindE r interp) operation), w'))"
  by (simp add: refines endpoint_spec_def assms)

lemma reports_failure:
  assumes "check = Inr p" "call p w = Some (Inr resp, w')" "\<not> success resp"
  shows "\<exists>res. run w = Some (Inr res, w') \<and> failsWith (status resp) res"
proof -
  obtain m where m: "interp resp = Inl (ApiError (ApiErr (status resp) m []))"
    using interp_status assms(3) unfolding reports_status_def by blast
  have "failsWith (status resp) (tryExecute (Inl (ApiError (ApiErr (status resp) m [])) :: 'a fallible) operation)"
    using failsWith_tryExecute [of "ApiError (ApiErr (status resp) m [])" operation] by simp
  then show ?thesis using assms(2) m by (simp add: sends_once [OF assms(1)])
qed

lemma reports_exception:
  assumes "check = Inr p" "call p w = Some (Inl (ConnectionError m), w')"
  shows "\<exists>res. run w = Some (Inr res, w') \<and> failsWith 0 res"
  using failsWith_tryExecute [of "ConnectionError m" operation] assms
  by (simp add: sends_once [OF assms(1)])

lemma reports_value:
  assumes "check = Inr p" "call p w = Some (Inr resp, w')" "interp resp = Inr v"
  shows "run w = Some (Inr (ofValue v), w')"
  using assms by (simp add: sends_once [OF assms(1)])

lemma returns:
  assumes "\<And>p. check = Inr p \<Longrightarrow> call p w \<noteq> None"
  shows "run w \<noteq> None"
  using assms by (auto simp: refines endpoint_spec_def split: sum.splits option.splits)

text \<open>A success means that the request was valid, answered with 2xx and understood.\<close>

lemma success_means:
  assumes "run w = Some (Inr (ofValue v), w')"
  obtains p resp where "check = Inr p" "call p w = Some (Inr resp, w')" "success resp" "interp resp = Inr v"
proof (cases check)
  case (Inl e)
  then show thesis using rejects [of e w] assms by (auto simp: failsWith_def)
next
  case (Inr p)
  then obtain r where r: "call p w = Some (r, w')" "tryExecute (bindE r interp) operation = ofValue v"
    using assms by (auto simp: sends_once split: option.splits)
  have "bindE r interp = Inr v"
  proof (cases "bindE r interp")
    case (Inl e)
    have "value_opt (tryExecute (bindE r interp) operation) = None" unfolding Inl by (simp add: tryExecute_def)
    then show ?thesis using r(2) by simp
  next
    case (Inr u)
    then show ?thesis using r(2) by (simp add: ofValue_def)
  qed
  then obtain resp where resp: "r = Inr resp" "interp resp = Inr v" by (auto simp: bindE_eq_Inr)
  then have "success resp" using interp_status by (auto simp: reports_status_def)
  then show thesis using that Inr r(1) resp by blast
qed

end

text \<open>The forms in which the operations write the contract.\<close>

lemma liftIO_bindE: "bindIO (liftIO (bindE m f)) g = bindIO (liftIO m) (\<lambda>x. bindIO (liftIO (f x)) g)"
  by (cases m) simp_all

lemma liftIO_expectParsed:
  "liftIO (expectParsed J failure parseFailure parser response) =
     (if \<not> success response
      then throwIO (ApiError (ApiErr (status response) (failure @ body response) []))
      else case parseResponse J response parser of
             None \<Rightarrow> throwIO parseFailure
           | Some parsed \<Rightarrow> returnIO parsed)"
  by (auto simp: fun_eq_iff expectParsed_def throwApi_def io_prims split: option.splits)

lemma endpoint_specI:
  assumes "m = bindIO (liftIO check) (\<lambda>p. bindIO (call p) (\<lambda>r. liftIO (interp r)))"
  shows "tryExecuteIO m operation = endpoint_spec check call interp operation"
proof
  fix w
  show "tryExecuteIO m operation w = endpoint_spec check call interp operation w"
    unfolding endpoint_spec_def tryExecuteIO_def assms
    by (cases check) (auto simp: bindIO_def io_prims split: option.splits sum.splits)
qed

lemma service_callI:
  assumes "r = tryExecuteIO m operation"
    and "m = bindIO (liftIO check) (\<lambda>p. bindIO (call p) (\<lambda>r. liftIO (expectParsed J failure parseFailure parser r)))"
    and "only_validation check"
  shows "service_call r check call (expectParsed J failure parseFailure parser) operation"
  using assms by unfold_locales (auto intro: endpoint_specI expectParsed_reports)

text \<open>A guard of an operation: \<open>if (!ok) throw ValidationError(message)\<close>.\<close>

definition demand :: "string \<Rightarrow> bool \<Rightarrow> unit fallible" where
  "demand message ok = whenE (\<not> ok) (Inl (ValidationError message))"

lemma demand_validates: "only_validation (demand message ok)"
  by (auto simp: demand_def)

lemma demand_ok: "demand message ok = Inr () \<longleftrightarrow> ok"
  by (simp add: demand_def whenE_def)

lemma demand_not_ok: "\<not> ok \<Longrightarrow> demand message ok = Inl (ValidationError message)"
  by (simp add: demand_def whenE_def)

end
