(* ===== verification/Trading.thy ===== *)
theory Trading
  imports Client
begin

text \<open>
  \<^verbatim>\<open>trading.hpp\<close>, \<^verbatim>\<open>trading.cpp\<close> and \<^verbatim>\<open>json/trading.cpp\<close>: \<open>TradingService\<close>, which places, previews, changes
  and cancels orders. Enumerators keep their source names (those of \<open>OptionAction\<close>, which repeat
  those of \<open>OrderSide\<close>, carry a prefix); the fields of the structs that share names carry the prefixes
  \<open>leg\<close>, \<open>bracket\<close>, \<open>multi\<close>, \<open>mod\<close> and \<open>preview\<close>.
\<close>

section \<open>Data\<close>

datatype OrderType = MARKET | LIMIT | STOP | STOP_LIMIT | DEBIT | CREDIT

datatype OrderSide = BUY | SELL | BUY_TO_OPEN | BUY_TO_CLOSE | SELL_TO_OPEN | SELL_TO_CLOSE

datatype OrderDuration = DAY | GTC | PRE | POST

datatype OrderClass = EQUITY | OPTION | MULTILEG | COMBO

datatype OptionAction =
  ACTION_BUY_TO_OPEN | ACTION_BUY_TO_CLOSE | ACTION_SELL_TO_OPEN | ACTION_SELL_TO_CLOSE

datatype OrderStatus = OPEN | PARTIALLY_FILLED | FILLED | EXPIRED | CANCELED | PENDING | REJECTED | ERROR

record OptionLeg =
  legOptionSymbol :: string
  legAction :: OptionAction
  legQuantity :: double

record BracketOrder =
  bracketSymbol :: string
  bracketSide :: OrderSide
  bracketQuantity :: double
  entryPrice :: double
  takeProfitPrice :: double
  stopLossPrice :: double
  bracketDuration :: OrderDuration
  bracketTag :: "string option"

record MultiLegOrder =
  legs :: "OptionLeg list"
  multiType :: OrderType
  multiDuration :: OrderDuration
  netDebit :: "double option"
  netCredit :: "double option"
  multiTag :: "string option"

record OrderRequest =
  symbol :: string
  side :: OrderSide
  quantity :: double
  orderType :: OrderType
  duration :: OrderDuration
  price :: "double option"
  stop :: "double option"
  optionSymbol :: "string option"
  tag :: "string option"

record OrderResponse =
  orderId :: int
  orderStatus :: string
  partnerId :: "string option"

record OrderModification =
  modType :: "OrderType option"
  modPrice :: "double option"
  modStop :: "double option"
  modQuantity :: "double option"
  modDuration :: "OrderDuration option"

record OrderPreview =
  previewStatus :: string
  commission :: double
  cost :: double
  fees :: double
  previewSymbol :: string
  previewQuantity :: double
  previewResult :: bool
  orderCost :: double
  marginChange :: double
  requestDate :: string
  extendedHours :: bool
  strategy :: string
  dayTrades :: int
  previewSide :: OrderSide
  previewType :: OrderType
  previewDuration :: OrderDuration
  previewClass :: OrderClass

section \<open>Names\<close>

fun typeString :: "OrderType \<Rightarrow> string" where
  "typeString MARKET = ''market''"
| "typeString LIMIT = ''limit''"
| "typeString STOP = ''stop''"
| "typeString STOP_LIMIT = ''stop_limit''"
| "typeString DEBIT = ''debit''"
| "typeString CREDIT = ''credit''"

fun sideString :: "OrderSide \<Rightarrow> string" where
  "sideString BUY = ''buy''"
| "sideString SELL = ''sell''"
| "sideString BUY_TO_OPEN = ''buy_to_open''"
| "sideString BUY_TO_CLOSE = ''buy_to_close''"
| "sideString SELL_TO_OPEN = ''sell_to_open''"
| "sideString SELL_TO_CLOSE = ''sell_to_close''"

fun durationString :: "OrderDuration \<Rightarrow> string" where
  "durationString DAY = ''day''"
| "durationString GTC = ''gtc''"
| "durationString PRE = ''pre''"
| "durationString POST = ''post''"

fun actionString :: "OptionAction \<Rightarrow> string" where
  "actionString ACTION_BUY_TO_OPEN = ''buy_to_open''"
| "actionString ACTION_BUY_TO_CLOSE = ''buy_to_close''"
| "actionString ACTION_SELL_TO_OPEN = ''sell_to_open''"
| "actionString ACTION_SELL_TO_CLOSE = ''sell_to_close''"

definition parseOrderStatus :: "string \<Rightarrow> OrderStatus" where
  "parseOrderStatus s =
     (if s = ''open'' then OPEN
      else if s = ''partially_filled'' then PARTIALLY_FILLED
      else if s = ''filled'' then FILLED
      else if s = ''expired'' then EXPIRED
      else if s = ''canceled'' then CANCELED
      else if s = ''pending'' then PENDING
      else if s = ''rejected'' then REJECTED
      else if s = ''error'' then ERROR
      else PENDING)"

text \<open>\<open>static_cast<OrderSide>(leg.action)\<close>: the enumerator with the same number.\<close>

fun actionNumber :: "OptionAction \<Rightarrow> nat" where
  "actionNumber ACTION_BUY_TO_OPEN = 0"
| "actionNumber ACTION_BUY_TO_CLOSE = 1"
| "actionNumber ACTION_SELL_TO_OPEN = 2"
| "actionNumber ACTION_SELL_TO_CLOSE = 3"

definition sideOfNumber :: "nat \<Rightarrow> OrderSide" where
  "sideOfNumber i =
     (if i = 0 then BUY else if i = 1 then SELL else if i = 2 then BUY_TO_OPEN
      else if i = 3 then BUY_TO_CLOSE else if i = 4 then SELL_TO_OPEN else SELL_TO_CLOSE)"

section \<open>Parsing responses\<close>

definition emptyOrderResponse :: OrderResponse where
  "emptyOrderResponse = \<lparr>orderId = 0, orderStatus = [], partnerId = None\<rparr>"

definition parseOrderResponse :: "'j json_api \<Rightarrow> 'j \<Rightarrow> OrderResponse fallible" where
  "parseOrderResponse J json =
     (if \<not> j_is_null J json \<and> j_is_object J json then
        ifE (present J (j_is_object J) json ''order'')
          (bindE (atE J json ''order'') (\<lambda>order.
             run [
               assign orderId_update (jx (j_value_int J order ''id'' 0)),
               assign orderStatus_update (jx (j_value_string J order ''status'' [])),
               onlyIfE (present J (j_is_string J) order ''partner_id'')
                 (assign partnerId_update
                    (bindE (atE J order ''partner_id'') (\<lambda>x. map_sum id Some (jx (j_string J x)))))]
               emptyOrderResponse))
          (Inr emptyOrderResponse)
      else Inr emptyOrderResponse)"

definition previewSideOf :: "string \<Rightarrow> OrderSide" where
  "previewSideOf s =
     (if s = ''buy'' then BUY
      else if s = ''sell'' then SELL
      else if s = ''buy_to_open'' then BUY_TO_OPEN
      else if s = ''buy_to_close'' then BUY_TO_CLOSE
      else if s = ''sell_to_open'' then SELL_TO_OPEN
      else if s = ''sell_to_close'' then SELL_TO_CLOSE
      else BUY)"

definition previewTypeOf :: "string \<Rightarrow> OrderType" where
  "previewTypeOf s =
     (if s = ''market'' then MARKET
      else if s = ''limit'' then LIMIT
      else if s = ''stop'' then STOP
      else if s = ''stop_limit'' then STOP_LIMIT
      else if s = ''debit'' then DEBIT
      else if s = ''credit'' then CREDIT
      else MARKET)"

definition previewDurationOf :: "string \<Rightarrow> OrderDuration" where
  "previewDurationOf s =
     (if s = ''day'' then DAY
      else if s = ''gtc'' then GTC
      else if s = ''pre'' then PRE
      else if s = ''post'' then POST
      else DAY)"

definition previewClassOf :: "string \<Rightarrow> OrderClass" where
  "previewClassOf s =
     (if s = ''equity'' then EQUITY
      else if s = ''option'' then OPTION
      else if s = ''multileg'' then MULTILEG
      else if s = ''combo'' then COMBO
      else EQUITY)"

definition emptyOrderPreview :: OrderPreview where
  "emptyOrderPreview = \<lparr>previewStatus = [], commission = DFin 0, cost = DFin 0, fees = DFin 0,
     previewSymbol = [], previewQuantity = DFin 0, previewResult = False, orderCost = DFin 0,
     marginChange = DFin 0, requestDate = [], extendedHours = False, strategy = [], dayTrades = 0,
     previewSide = BUY, previewType = MARKET, previewDuration = DAY, previewClass = EQUITY\<rparr>"

definition parseOrderPreview :: "'j json_api \<Rightarrow> 'j \<Rightarrow> OrderPreview fallible" where
  "parseOrderPreview J json =
     (if \<not> j_is_null J json \<and> j_is_object J json then
        ifE (present J (j_is_object J) json ''order'')
          (bindE (atE J json ''order'') (\<lambda>order.
             let str = (\<lambda>k. jx (j_value_string J order k []));
                 dbl = (\<lambda>k. jx (j_value_double J order k (DFin 0)))
             in run [
               assign previewStatus_update (str ''status''),
               assign commission_update (dbl ''commission''),
               assign cost_update (dbl ''cost''),
               assign fees_update (dbl ''fees''),
               assign previewSymbol_update (str ''symbol''),
               assign previewQuantity_update (dbl ''quantity''),
               assign previewResult_update (jx (j_value_bool J order ''result'' False)),
               assign orderCost_update (dbl ''order_cost''),
               assign marginChange_update (dbl ''margin_change''),
               assign requestDate_update (str ''request_date''),
               assign extendedHours_update (jx (j_value_bool J order ''extended_hours'' False)),
               assign strategy_update (str ''strategy''),
               assign dayTrades_update (jx (j_value_int J order ''day_trades'' 0)),
               assign previewSide_update (map_sum id previewSideOf (str ''side'')),
               assign previewType_update (map_sum id previewTypeOf (str ''type'')),
               assign previewDuration_update (map_sum id previewDurationOf (str ''duration'')),
               assign previewClass_update (map_sum id previewClassOf (str ''class''))]
               emptyOrderPreview))
          (Inr emptyOrderPreview)
      else Inr emptyOrderPreview)"

section \<open>Operations\<close>

fun requireIf :: "('a \<Rightarrow> unit fallible) \<Rightarrow> 'a option \<Rightarrow> unit fallible" where
  "requireIf check None = Inr ()"
| "requireIf check (Some x) = check x"

definition buildParams :: "OrderRequest \<Rightarrow> params fallible" where
  "buildParams request =
     bindE (validateInContext ''buildParams''
       (bindE (requireValidSymbol (symbol request)) (\<lambda>_.
        bindE (requireValidQuantity (quantity request)) (\<lambda>_.
        bindE (requireIf requireValidPrice (price request)) (\<lambda>_.
        bindE (requireIf requireValidPrice (stop request)) (\<lambda>_.
        requireIf requireValidSymbol (optionSymbol request))))))) (\<lambda>_.
     let params = [];
         params = map_put ''class'' (if optionSymbol request \<noteq> None then ''option'' else ''equity'') params;
         params = map_put ''symbol'' (symbol request) params;
         params = map_put ''side'' (sideString (side request)) params;
         params = map_put ''quantity'' (to_string_double (quantity request)) params;
         params = map_put ''type'' (typeString (orderType request)) params;
         params = map_put ''duration'' (durationString (duration request)) params;
         params = putOpt ''price'' (map_option to_string_double (price request)) params;
         params = putOpt ''stop'' (map_option to_string_double (stop request)) params;
         params = putOpt ''option_symbol'' (optionSymbol request) params
     in Inr (putOpt ''tag'' (tag request) params))"

definition placeOrder ::
  "'j json_api \<Rightarrow> 'w client_ops \<Rightarrow> string \<Rightarrow> OrderRequest \<Rightarrow> ('w, exn, OrderResponse ApiResult) io" where
  "placeOrder J C account request =
     tryExecuteIO (
       bindIO (liftIO (requireValidAccountNumber account)) (\<lambda>_.
       bindIO (liftIO (buildParams request)) (\<lambda>params.
       bindIO (cl_post C (''/accounts/'' @ account @ ''/orders'') params) (\<lambda>response.
       if \<not> success response
       then throwIO (ApiError (ApiErr (status response) (''Failed to place order: '' @ body response) []))
       else case parseResponse J response (parseOrderResponse J) of
              None \<Rightarrow> throwIO (ParseError ''Failed to parse order response'')
            | Some parsed \<Rightarrow> returnIO parsed)))) ''placeOrder''"

definition cancelOrder ::
  "'j json_api \<Rightarrow> 'w client_ops \<Rightarrow> string \<Rightarrow> int \<Rightarrow> ('w, exn, OrderResponse ApiResult) io" where
  "cancelOrder J C account oid =
     tryExecuteIO (
       bindIO (liftIO (requireValidAccountNumber account)) (\<lambda>_.
       bindIO (liftIO (requireValidOrderId oid)) (\<lambda>_.
       bindIO (cl_del C (''/accounts/'' @ account @ ''/orders/'' @ to_string oid) []) (\<lambda>response.
       if \<not> success response
       then throwIO (ApiError (ApiErr (status response) (''Failed to cancel order: '' @ body response) []))
       else case parseResponse J response (parseOrderResponse J) of
              None \<Rightarrow> throwIO (ParseError ''Failed to parse cancel order response'')
            | Some parsed \<Rightarrow> returnIO parsed)))) ''cancelOrder''"

definition modifyOrder ::
  "'j json_api \<Rightarrow> 'w client_ops \<Rightarrow> string \<Rightarrow> int \<Rightarrow> OrderRequest \<Rightarrow> ('w, exn, OrderResponse ApiResult) io" where
  "modifyOrder J C account oid changes =
     tryExecuteIO (
       bindIO (liftIO (requireValidAccountNumber account)) (\<lambda>_.
       bindIO (liftIO (requireValidOrderId oid)) (\<lambda>_.
       let params = [];
           params = map_put ''type'' (typeString (orderType changes)) params;
           params = map_put ''duration'' (durationString (duration changes)) params;
           params = putOpt ''price'' (map_option to_string_double (price changes)) params;
           params = putOpt ''stop'' (map_option to_string_double (stop changes)) params
       in bindIO (cl_put C (''/accounts/'' @ account @ ''/orders/'' @ to_string oid) params) (\<lambda>response.
       if \<not> success response
       then throwIO (ApiError (ApiErr (status response) (''Failed to modify order: '' @ body response) []))
       else case parseResponse J response (parseOrderResponse J) of
              None \<Rightarrow> throwIO (ParseError ''Failed to parse modify order response'')
            | Some parsed \<Rightarrow> returnIO parsed)))) ''modifyOrder''"

text \<open>
  The helpers fill a default \<open>OrderRequest\<close>: \<open>newOrderRequest\<close> has the default member values (the two
  members without one are set by every helper).
\<close>

definition newOrderRequest :: "OrderSide \<Rightarrow> OrderType \<Rightarrow> OrderRequest" where
  "newOrderRequest s t = \<lparr>symbol = [], side = s, quantity = DFin 0, orderType = t, duration = DAY,
     price = None, stop = None, optionSymbol = None, tag = None\<rparr>"

definition buyStock ::
  "'j json_api \<Rightarrow> 'w client_ops \<Rightarrow> string \<Rightarrow> string \<Rightarrow> double \<Rightarrow> double option \<Rightarrow> ('w, exn, OrderResponse ApiResult) io" where
  "buyStock J C account stockSymbol qty p =
     placeOrder J C account ((newOrderRequest BUY (if p \<noteq> None then LIMIT else MARKET))
       \<lparr>symbol := stockSymbol, quantity := qty, price := p\<rparr>)"

definition sellStock ::
  "'j json_api \<Rightarrow> 'w client_ops \<Rightarrow> string \<Rightarrow> string \<Rightarrow> double \<Rightarrow> double option \<Rightarrow> ('w, exn, OrderResponse ApiResult) io" where
  "sellStock J C account stockSymbol qty p =
     placeOrder J C account ((newOrderRequest SELL (if p \<noteq> None then LIMIT else MARKET))
       \<lparr>symbol := stockSymbol, quantity := qty, price := p\<rparr>)"

definition previewOrder ::
  "'j json_api \<Rightarrow> 'w client_ops \<Rightarrow> string \<Rightarrow> OrderRequest \<Rightarrow> ('w, exn, OrderPreview ApiResult) io" where
  "previewOrder J C account request =
     tryExecuteIO (
       bindIO (liftIO (requireValidAccountNumber account)) (\<lambda>_.
       bindIO (liftIO (buildParams request)) (\<lambda>params.
       bindIO (cl_post C (''/accounts/'' @ account @ ''/orders/preview'') params) (\<lambda>response.
       if \<not> success response
       then throwIO (ApiError (ApiErr (status response) (''Failed to preview order: '' @ body response) []))
       else case parseResponse J response (parseOrderPreview J) of
              None \<Rightarrow> throwIO (ParseError ''Failed to parse order preview response'')
            | Some parsed \<Rightarrow> returnIO parsed)))) ''previewOrder''"

definition bracketParams :: "BracketOrder \<Rightarrow> params" where
  "bracketParams b =
     (let params = [];
          params = map_put ''class'' ''oto'' params;
          params = map_put ''symbol'' (bracketSymbol b) params;
          params = map_put ''side'' (sideString (bracketSide b)) params;
          params = map_put ''quantity'' (to_string_double (bracketQuantity b)) params;
          params = map_put ''type'' ''limit'' params;
          params = map_put ''price'' (to_string_double (entryPrice b)) params;
          params = map_put ''duration'' (durationString (bracketDuration b)) params;
          params = map_put ''oto[0][instrument]'' ''equity'' params;
          params = map_put ''oto[0][symbol]'' (bracketSymbol b) params;
          params = map_put ''oto[0][side]'' (if bracketSide b = BUY then ''sell'' else ''buy'') params;
          params = map_put ''oto[0][quantity]'' (to_string_double (bracketQuantity b)) params;
          params = map_put ''oto[0][type]'' ''limit'' params;
          params = map_put ''oto[0][price]'' (to_string_double (takeProfitPrice b)) params;
          params = map_put ''oto[1][instrument]'' ''equity'' params;
          params = map_put ''oto[1][symbol]'' (bracketSymbol b) params;
          params = map_put ''oto[1][side]'' (if bracketSide b = BUY then ''sell'' else ''buy'') params;
          params = map_put ''oto[1][quantity]'' (to_string_double (bracketQuantity b)) params;
          params = map_put ''oto[1][type]'' ''stop'' params;
          params = map_put ''oto[1][stop]'' (to_string_double (stopLossPrice b)) params
      in putOpt ''tag'' (bracketTag b) params)"

definition placeBracketOrder ::
  "'j json_api \<Rightarrow> 'w client_ops \<Rightarrow> string \<Rightarrow> BracketOrder \<Rightarrow> ('w, exn, OrderResponse ApiResult) io" where
  "placeBracketOrder J C account bracketOrder =
     tryExecuteIO (
       bindIO (liftIO (requireValidAccountNumber account)) (\<lambda>_.
       bindIO (cl_post C (''/accounts/'' @ account @ ''/orders'') (bracketParams bracketOrder)) (\<lambda>response.
       if \<not> success response
       then throwIO (ApiError (ApiErr (status response) (''Failed to place bracket order: '' @ body response) []))
       else case parseResponse J response (parseOrderResponse J) of
              None \<Rightarrow> throwIO (ParseError ''Failed to parse bracket order response'')
            | Some parsed \<Rightarrow> returnIO parsed))) ''placeBracketOrder''"

text \<open>The loop over the legs; \<open>i\<close> is the index of the first leg of the list.\<close>

fun legParams :: "nat \<Rightarrow> OptionLeg list \<Rightarrow> params \<Rightarrow> params" where
  "legParams i [] params = params"
| "legParams i (leg # rest) params =
     (let prefix = ''option['' @ to_string (int i) @ '']'';
          params = map_put (prefix @ ''[option_symbol]'') (legOptionSymbol leg) params;
          params = map_put (prefix @ ''[side]'') (sideString (sideOfNumber (actionNumber (legAction leg)))) params;
          params = map_put (prefix @ ''[quantity]'') (to_string_double (legQuantity leg)) params
      in legParams (Suc i) rest params)"

definition multiLegParams :: "MultiLegOrder \<Rightarrow> params" where
  "multiLegParams m =
     (let params = [];
          params = map_put ''class'' ''multileg'' params;
          params = map_put ''type'' (typeString (multiType m)) params;
          params = map_put ''duration'' (durationString (multiDuration m)) params;
          params = putOpt ''price'' (map_option to_string_double (netDebit m)) params;
          params = putOpt ''price'' (map_option to_string_double (netCredit m)) params;
          params = legParams 0 (legs m) params
      in putOpt ''tag'' (multiTag m) params)"

definition placeMultiLegOrder ::
  "'j json_api \<Rightarrow> 'w client_ops \<Rightarrow> string \<Rightarrow> MultiLegOrder \<Rightarrow> ('w, exn, OrderResponse ApiResult) io" where
  "placeMultiLegOrder J C account multiLegOrder =
     tryExecuteIO (
       bindIO (liftIO (requireValidAccountNumber account)) (\<lambda>_.
       bindIO (liftIO (whenE (legs multiLegOrder = [])
                 (Inl (ValidationError ''Multi-leg order must have at least one leg'')))) (\<lambda>_.
       bindIO (cl_post C (''/accounts/'' @ account @ ''/orders'') (multiLegParams multiLegOrder)) (\<lambda>response.
       if \<not> success response
       then throwIO (ApiError (ApiErr (status response) (''Failed to place multi-leg order: '' @ body response) []))
       else case parseResponse J response (parseOrderResponse J) of
              None \<Rightarrow> throwIO (ParseError ''Failed to parse multi-leg order response'')
            | Some parsed \<Rightarrow> returnIO parsed)))) ''placeMultiLegOrder''"

definition modificationParams :: "OrderModification \<Rightarrow> params" where
  "modificationParams m =
     (let params = [];
          params = putOpt ''type'' (map_option typeString (modType m)) params;
          params = putOpt ''price'' (map_option to_string_double (modPrice m)) params;
          params = putOpt ''stop'' (map_option to_string_double (modStop m)) params;
          params = putOpt ''quantity'' (map_option to_string_double (modQuantity m)) params
      in putOpt ''duration'' (map_option durationString (modDuration m)) params)"

definition modifyOrderAdvanced ::
  "'j json_api \<Rightarrow> 'w client_ops \<Rightarrow> string \<Rightarrow> int \<Rightarrow> OrderModification \<Rightarrow> ('w, exn, OrderResponse ApiResult) io" where
  "modifyOrderAdvanced J C account oid modification =
     tryExecuteIO (
       bindIO (liftIO (requireValidAccountNumber account)) (\<lambda>_.
       bindIO (liftIO (requireValidOrderId oid)) (\<lambda>_.
       bindIO (cl_put C (''/accounts/'' @ account @ ''/orders/'' @ to_string oid)
                 (modificationParams modification)) (\<lambda>response.
       if \<not> success response
       then throwIO (ApiError (ApiErr (status response) (''Failed to modify order: '' @ body response) []))
       else case parseResponse J response (parseOrderResponse J) of
              None \<Rightarrow> throwIO (ParseError ''Failed to parse order modification response'')
            | Some parsed \<Rightarrow> returnIO parsed)))) ''modifyOrderAdvanced''"

definition buyToOpenOption ::
  "'j json_api \<Rightarrow> 'w client_ops \<Rightarrow> string \<Rightarrow> string \<Rightarrow> double \<Rightarrow> double option \<Rightarrow> ('w, exn, OrderResponse ApiResult) io" where
  "buyToOpenOption J C account optSym qty p =
     placeOrder J C account ((newOrderRequest BUY_TO_OPEN (if p \<noteq> None then LIMIT else MARKET))
       \<lparr>optionSymbol := Some optSym, quantity := qty, price := p\<rparr>)"

definition sellToOpenOption ::
  "'j json_api \<Rightarrow> 'w client_ops \<Rightarrow> string \<Rightarrow> string \<Rightarrow> double \<Rightarrow> double option \<Rightarrow> ('w, exn, OrderResponse ApiResult) io" where
  "sellToOpenOption J C account optSym qty p =
     placeOrder J C account ((newOrderRequest SELL_TO_OPEN (if p \<noteq> None then LIMIT else MARKET))
       \<lparr>optionSymbol := Some optSym, quantity := qty, price := p\<rparr>)"

definition buyToCloseOption ::
  "'j json_api \<Rightarrow> 'w client_ops \<Rightarrow> string \<Rightarrow> string \<Rightarrow> double \<Rightarrow> double option \<Rightarrow> ('w, exn, OrderResponse ApiResult) io" where
  "buyToCloseOption J C account optSym qty p =
     placeOrder J C account ((newOrderRequest BUY_TO_CLOSE (if p \<noteq> None then LIMIT else MARKET))
       \<lparr>optionSymbol := Some optSym, quantity := qty, price := p\<rparr>)"

definition sellToCloseOption ::
  "'j json_api \<Rightarrow> 'w client_ops \<Rightarrow> string \<Rightarrow> string \<Rightarrow> double \<Rightarrow> double option \<Rightarrow> ('w, exn, OrderResponse ApiResult) io" where
  "sellToCloseOption J C account optSym qty p =
     placeOrder J C account ((newOrderRequest SELL_TO_CLOSE (if p \<noteq> None then LIMIT else MARKET))
       \<lparr>optionSymbol := Some optSym, quantity := qty, price := p\<rparr>)"

definition parseCanceledOrders :: "'j json_api \<Rightarrow> 'j \<Rightarrow> OrderResponse list fallible" where
  "parseCanceledOrders J json =
     ifE (contains2 J json ''orders'' ''order'')
       (bindE (atE J json ''orders'') (\<lambda>os.
        bindE (atE J os ''order'') (\<lambda>orders.
          if j_is_array J orders then traverseE (parseOrderResponse J) (j_elems J orders)
          else if j_is_object J orders then map_sum id (\<lambda>r. [r]) (parseOrderResponse J orders)
          else Inr [])))
       (Inr [])"

definition cancelAllOrders ::
  "'j json_api \<Rightarrow> 'w client_ops \<Rightarrow> string \<Rightarrow> ('w, exn, OrderResponse list ApiResult) io" where
  "cancelAllOrders J C account =
     tryExecuteIO (
       bindIO (liftIO (requireValidAccountNumber account)) (\<lambda>_.
       bindIO (cl_del C (''/accounts/'' @ account @ ''/orders'') []) (\<lambda>response.
       if \<not> success response
       then throwIO (ApiError (ApiErr (status response) (''Failed to cancel all orders: '' @ body response) []))
       else case parseResponse J response (parseCanceledOrders J) of
              None \<Rightarrow> throwIO (ParseError ''Failed to parse cancel all orders response'')
            | Some parsed \<Rightarrow> returnIO parsed))) ''cancelAllOrders''"

section \<open>The operations meet the contract of a service call\<close>

lemma buildParams_validates: "only_validation (buildParams request)"
proof -
  have opt: "only_validation (requireIf c x)" if "\<And>y. only_validation (c y)" for c x
    using that by (cases x) auto
  show ?thesis
    unfolding buildParams_def by (intro only_validation_intros only_validation_inContext opt) (auto simp: Let_def)
qed

interpretation placeOrder: service_call "placeOrder J C account request"
  "bindE (requireValidAccountNumber account) (\<lambda>_. buildParams request)"
  "cl_post C (''/accounts/'' @ account @ ''/orders'')"
  "expectParsed J ''Failed to place order: '' (ParseError ''Failed to parse order response'') (parseOrderResponse J)"
  "''placeOrder''" for J C account request
  by (rule service_callI [OF placeOrder_def])
    (auto simp: liftIO_bindE liftIO_expectParsed buildParams_validates)

interpretation cancelOrder: service_call "cancelOrder J C account oid"
  "bindE (requireValidAccountNumber account) (\<lambda>_. requireValidOrderId oid)"
  "\<lambda>_. cl_del C (''/accounts/'' @ account @ ''/orders/'' @ to_string oid) []"
  "expectParsed J ''Failed to cancel order: '' (ParseError ''Failed to parse cancel order response'') (parseOrderResponse J)"
  "''cancelOrder''" for J C account oid
  by (rule service_callI [OF cancelOrder_def]) (auto simp: liftIO_bindE liftIO_expectParsed)

definition changeParams :: "OrderRequest \<Rightarrow> params" where
  "changeParams changes =
     putOpt ''stop'' (map_option to_string_double (stop changes))
       (putOpt ''price'' (map_option to_string_double (price changes))
         (map_put ''duration'' (durationString (duration changes))
           [(''type'', typeString (orderType changes))]))"

interpretation modifyOrder: service_call "modifyOrder J C account oid changes"
  "bindE (requireValidAccountNumber account) (\<lambda>_. requireValidOrderId oid)"
  "\<lambda>_. cl_put C (''/accounts/'' @ account @ ''/orders/'' @ to_string oid) (changeParams changes)"
  "expectParsed J ''Failed to modify order: '' (ParseError ''Failed to parse modify order response'') (parseOrderResponse J)"
  "''modifyOrder''" for J C account oid changes
  by (rule service_callI [OF modifyOrder_def])
    (auto simp: liftIO_bindE liftIO_expectParsed changeParams_def Let_def)

interpretation previewOrder: service_call "previewOrder J C account request"
  "bindE (requireValidAccountNumber account) (\<lambda>_. buildParams request)"
  "cl_post C (''/accounts/'' @ account @ ''/orders/preview'')"
  "expectParsed J ''Failed to preview order: '' (ParseError ''Failed to parse order preview response'') (parseOrderPreview J)"
  "''previewOrder''" for J C account request
  by (rule service_callI [OF previewOrder_def])
    (auto simp: liftIO_bindE liftIO_expectParsed buildParams_validates)

interpretation placeBracketOrder: service_call "placeBracketOrder J C account b"
  "requireValidAccountNumber account"
  "\<lambda>_. cl_post C (''/accounts/'' @ account @ ''/orders'') (bracketParams b)"
  "expectParsed J ''Failed to place bracket order: '' (ParseError ''Failed to parse bracket order response'') (parseOrderResponse J)"
  "''placeBracketOrder''" for J C account b
  by (rule service_callI [OF placeBracketOrder_def]) (auto simp: liftIO_expectParsed)

interpretation placeMultiLegOrder: service_call "placeMultiLegOrder J C account m"
  "bindE (requireValidAccountNumber account) (\<lambda>_. whenE (legs m = [])
     (Inl (ValidationError ''Multi-leg order must have at least one leg'')))"
  "\<lambda>_. cl_post C (''/accounts/'' @ account @ ''/orders'') (multiLegParams m)"
  "expectParsed J ''Failed to place multi-leg order: '' (ParseError ''Failed to parse multi-leg order response'') (parseOrderResponse J)"
  "''placeMultiLegOrder''" for J C account m
  by (rule service_callI [OF placeMultiLegOrder_def])
    (auto simp: liftIO_bindE liftIO_expectParsed intro!: only_validation_intros)

interpretation modifyOrderAdvanced: service_call "modifyOrderAdvanced J C account oid m"
  "bindE (requireValidAccountNumber account) (\<lambda>_. requireValidOrderId oid)"
  "\<lambda>_. cl_put C (''/accounts/'' @ account @ ''/orders/'' @ to_string oid) (modificationParams m)"
  "expectParsed J ''Failed to modify order: '' (ParseError ''Failed to parse order modification response'') (parseOrderResponse J)"
  "''modifyOrderAdvanced''" for J C account oid m
  by (rule service_callI [OF modifyOrderAdvanced_def]) (auto simp: liftIO_bindE liftIO_expectParsed)

interpretation cancelAllOrders: service_call "cancelAllOrders J C account"
  "requireValidAccountNumber account"
  "\<lambda>_. cl_del C (''/accounts/'' @ account @ ''/orders'') []"
  "expectParsed J ''Failed to cancel all orders: '' (ParseError ''Failed to parse cancel all orders response'') (parseCanceledOrders J)"
  "''cancelAllOrders''" for J C account
  by (rule service_callI [OF cancelAllOrders_def]) (auto simp: liftIO_expectParsed)

end
