(* ===== verification/Trading_Properties.thy ===== *)
theory Trading_Properties
  imports Trading
begin

text \<open>
  What \<open>TradingService\<close> guarantees: which orders are accepted, what reaches the client and the wire,
  what the caller learns, and where the order helpers fall short.
\<close>

section \<open>Which orders are accepted\<close>

definition symbolOk :: "string \<Rightarrow> bool" where
  "symbolOk s \<longleftrightarrow> s \<noteq> [] \<and> length s \<le> 10 \<and> list_all (\<lambda>c. is_alnum c \<or> c = CHR ''.'' \<or> c = CHR ''-'') s"

definition priceOk :: "double \<Rightarrow> bool" where
  "priceOk p \<longleftrightarrow> d_is_nan p \<or> (d_finite p \<and> 0 \<le> d_val p \<and> d_val p \<le> 1000000)"

definition orderOk :: "OrderRequest \<Rightarrow> bool" where
  "orderOk r \<longleftrightarrow>
     symbolOk (symbol r) \<and>
     (d_is_nan (quantity r) \<or> (d_finite (quantity r) \<and> 0 < d_val (quantity r) \<and> d_val (quantity r) \<le> 1000000)) \<and>
     pred_option priceOk (price r) \<and> pred_option priceOk (stop r) \<and> pred_option symbolOk (optionSymbol r)"

definition accountOk :: "string \<Rightarrow> bool" where
  "accountOk a \<longleftrightarrow> 8 \<le> length a \<and> length a \<le> 20"

text \<open>The form of an accepted order, as a map.\<close>

definition orderForm :: "OrderRequest \<Rightarrow> string \<Rightarrow> string option" where
  "orderForm r = (\<lambda>k.
     if k = ''class'' then Some (if optionSymbol r = None then ''equity'' else ''option'')
     else if k = ''symbol'' then Some (symbol r)
     else if k = ''side'' then Some (sideString (side r))
     else if k = ''quantity'' then Some (to_string_double (quantity r))
     else if k = ''type'' then Some (typeString (orderType r))
     else if k = ''duration'' then Some (durationString (duration r))
     else if k = ''price'' then map_option to_string_double (price r)
     else if k = ''stop'' then map_option to_string_double (stop r)
     else if k = ''option_symbol'' then optionSymbol r
     else if k = ''tag'' then tag r
     else None)"

lemma lookup_putOpt:
  "map_ok m \<Longrightarrow> map_of (putOpt k v m) l = (if l = k \<and> v \<noteq> None then v else map_of m l)"
  by (auto simp: putOpt_def sm.lookup_put split: option.splits)

lemmas form_simps = sm.lookup_put lookup_putOpt sm.ok_put map_ok_putOpt

lemma requireIf_ok: "requireIf c x = Inr () \<longleftrightarrow> pred_option (\<lambda>y. c y = Inr ()) x"
  by (cases x) auto

lemma checks_ok:
  "requireValidSymbol s = Inr () \<longleftrightarrow> symbolOk s" "requireValidPrice p = Inr () \<longleftrightarrow> priceOk p"
  "requireValidAccountNumber a = Inr () \<longleftrightarrow> accountOk a"
  by (simp_all add: requireValidSymbol_ok requireValidPrice_ok requireValidAccountNumber_ok
      symbolOk_def priceOk_def accountOk_def)

definition orderParams :: "OrderRequest \<Rightarrow> params" where
  "orderParams r = putOpt ''tag'' (tag r) (putOpt ''option_symbol'' (optionSymbol r)
    (putOpt ''stop'' (map_option to_string_double (stop r))
    (putOpt ''price'' (map_option to_string_double (price r))
    (map_put ''duration'' (durationString (duration r))
    (map_put ''type'' (typeString (orderType r))
    (map_put ''quantity'' (to_string_double (quantity r))
    (map_put ''side'' (sideString (side r))
    (map_put ''symbol'' (symbol r)
    (map_put ''class'' (if optionSymbol r \<noteq> None then ''option'' else ''equity'') [])))))))))"

lemma orderParams_ok: "map_ok (orderParams r)"
  by (simp add: orderParams_def form_simps del: map_put.simps)

lemma orderParams_form: "map_of (orderParams r) = orderForm r"
  by (rule ext) (simp add: orderParams_def orderForm_def form_simps del: map_put.simps)

lemma buildParams_accepts: "buildParams r = Inr ps \<longleftrightarrow> orderOk r \<and> ps = orderParams r"
  unfolding buildParams_def Let_def orderParams_def [symmetric]
  by (auto simp: bindE_eq_Inr requireIf_ok checks_ok requireValidQuantity_ok orderOk_def)

lemma order_check_accepts:
  "bindE (requireValidAccountNumber account) (\<lambda>_. buildParams r) = Inr ps \<longleftrightarrow>
     accountOk account \<and> orderOk r \<and> ps = orderParams r"
  by (auto simp: bindE_eq_Inr buildParams_accepts checks_ok)

lemma not_Inr: "(\<And>x. m \<noteq> Inr x) \<Longrightarrow> \<exists>e. m = Inl e"
  by (cases m) auto

text \<open>
  C2: \<open>placeOrder\<close> accepts exactly the orders with a well-formed account number, symbol, quantity and
  prices. An accepted order makes exactly one client call, a POST to the account's orders with
  exactly the fields of the order, and its result is what the response means. A rejected order
  leaves the world untouched, so nothing is sent, and is reported as an error with status 0.
\<close>

theorem placeOrder_contract:
  "(if accountOk account \<and> orderOk request
    then \<exists>form. map_ok form \<and> map_of form = orderForm request \<and>
      placeOrder J C account request w =
        (case cl_post C (''/accounts/'' @ account @ ''/orders'') form w of
           None \<Rightarrow> None
         | Some (r, w') \<Rightarrow>
             Some (Inr (tryExecute (bindE r (expectParsed J ''Failed to place order: ''
               (ParseError ''Failed to parse order response'') (parseOrderResponse J))) ''placeOrder''), w'))
    else \<exists>res. placeOrder J C account request w = Some (Inr res, w) \<and> failsWith 0 res)"
proof (cases "accountOk account \<and> orderOk request")
  case True
  then have "bindE (requireValidAccountNumber account) (\<lambda>_. buildParams request) = Inr (orderParams request)"
    by (simp add: order_check_accepts)
  from placeOrder.sends_once [OF this] show ?thesis
    unfolding if_P [OF True]
    by (intro exI [of _ "orderParams request"] conjI orderParams_ok orderParams_form)
next
  case False
  then have "\<exists>e. bindE (requireValidAccountNumber account) (\<lambda>_. buildParams request) = Inl e"
    by (intro not_Inr) (auto simp: order_check_accepts)
  then show ?thesis using False placeOrder.rejects by auto
qed

text \<open>
  Every operation of the service that changes orders passes the server's verdict on: when the
  arguments are valid and the server answers with a status other than 2xx, the result is an error
  that carries this very status, for all eight operations.
\<close>

theorem trading_error_status:
  assumes post: "\<forall>ep ps. cl_post C ep ps w = Some (Inr resp, w')"
    and put: "\<forall>ep ps. cl_put C ep ps w = Some (Inr resp, w')"
    and del: "\<forall>ep ps. cl_del C ep ps w = Some (Inr resp, w')"
    and bad: "\<not> success resp"
    and args: "accountOk account" "orderOk request" "0 < oid" "oid < 2 ^ 31" "legs m \<noteq> []"
  shows "(\<exists>r. placeOrder J C account request w = Some (Inr r, w') \<and> failsWith (status resp) r) \<and>
    (\<exists>r. previewOrder J C account request w = Some (Inr r, w') \<and> failsWith (status resp) r) \<and>
    (\<exists>r. placeBracketOrder J C account b w = Some (Inr r, w') \<and> failsWith (status resp) r) \<and>
    (\<exists>r. placeMultiLegOrder J C account m w = Some (Inr r, w') \<and> failsWith (status resp) r) \<and>
    (\<exists>r. cancelOrder J C account oid w = Some (Inr r, w') \<and> failsWith (status resp) r) \<and>
    (\<exists>r. modifyOrder J C account oid request w = Some (Inr r, w') \<and> failsWith (status resp) r) \<and>
    (\<exists>r. modifyOrderAdvanced J C account oid mo w = Some (Inr r, w') \<and> failsWith (status resp) r) \<and>
    (\<exists>r. cancelAllOrders J C account w = Some (Inr r, w') \<and> failsWith (status resp) r)"
proof -
  have acc: "requireValidAccountNumber account = Inr ()" using args(1) checks_ok by simp
  have ord: "bindE (requireValidAccountNumber account) (\<lambda>_. buildParams request) = Inr (orderParams request)"
    using args by (simp add: order_check_accepts)
  have oid: "bindE (requireValidAccountNumber account) (\<lambda>_. requireValidOrderId oid) = Inr ()"
    using args by (simp add: acc requireValidOrderId_ok)
  have leg: "bindE (requireValidAccountNumber account) (\<lambda>_. whenE (legs m = [])
      (Inl (ValidationError ''Multi-leg order must have at least one leg''))) = Inr ()"
    using args by (simp add: acc whenE_def)
  note call = post [rule_format] put [rule_format] del [rule_format]
  show ?thesis
    by (intro conjI)
      (rule placeOrder.reports_failure [OF ord call(1) bad] previewOrder.reports_failure [OF ord call(1) bad]
        placeBracketOrder.reports_failure [OF acc call(1) bad]
        placeMultiLegOrder.reports_failure [OF leg call(1) bad]
        cancelOrder.reports_failure [OF oid call(3) bad] modifyOrder.reports_failure [OF oid call(2) bad]
        modifyOrderAdvanced.reports_failure [OF oid call(2) bad]
        cancelAllOrders.reports_failure [OF acc call(3) bad])+
qed

text \<open>Witness: a server that answers 403 to a client of a one-point state.\<close>

definition refusingClient :: "unit client_ops" where
  "refusingClient = (let answer = (\<lambda>ep ps w. Some (Inr \<lparr>status = 403, body = ''no'', headers = []\<rparr>, w))
     in \<lparr>cl_get = answer, cl_post = answer, cl_put = answer, cl_del = answer\<rparr>)"

definition sampleOrder :: OrderRequest where
  "sampleOrder = (newOrderRequest BUY LIMIT)\<lparr>symbol := ''AAPL'', quantity := DFin 10, price := Some (DFin 150)\<rparr>"

theorem trading_error_status_witness:
  "\<exists>r. placeOrder (jref (\<lambda>s. Inl [])) refusingClient ''VA000001'' sampleOrder () = Some (Inr r, ()) \<and>
     failsWith 403 r"
proof -
  have "orderOk sampleOrder" "accountOk ''VA000001''"
    by (simp_all add: orderOk_def sampleOrder_def newOrderRequest_def symbolOk_def priceOk_def accountOk_def
        is_alnum_def Let_def)
  moreover have "\<forall>ep ps. cl_post refusingClient ep ps () = Some (Inr \<lparr>status = 403, body = ''no'', headers = []\<rparr>, ())"
    "\<forall>ep ps. cl_put refusingClient ep ps () = Some (Inr \<lparr>status = 403, body = ''no'', headers = []\<rparr>, ())"
    "\<forall>ep ps. cl_del refusingClient ep ps () = Some (Inr \<lparr>status = 403, body = ''no'', headers = []\<rparr>, ())"
    by (simp_all add: refusingClient_def Let_def)
  ultimately show ?thesis
    using trading_error_status [of refusingClient "()" "\<lparr>status = 403, body = ''no'', headers = []\<rparr>" "()"
        "''VA000001''" sampleOrder 1
        "\<lparr>legs = [\<lparr>legOptionSymbol = [], legAction = ACTION_BUY_TO_OPEN, legQuantity = DFin 1\<rparr>],
          multiType = MARKET, multiDuration = DAY, netDebit = None, netCredit = None, multiTag = None\<rparr>"
        "jref (\<lambda>s. Inl [])"
        "\<lparr>bracketSymbol = [], bracketSide = BUY, bracketQuantity = DFin 1, entryPrice = DFin 1, takeProfitPrice = DFin 2,
          stopLossPrice = DFin 1, bracketDuration = DAY, bracketTag = None\<rparr>"
        "\<lparr>modType = None, modPrice = None, modStop = None, modQuantity = None, modDuration = None\<rparr>"]
    by (simp add: success_def)
qed

lemma placeOrder_without_symbol:
  assumes "symbol req = []"
  shows "\<exists>r. placeOrder J C account req w = Some (Inr r, w) \<and> failsWith 0 r"
proof -
  have "\<exists>e. bindE (requireValidAccountNumber account) (\<lambda>_. buildParams req) = Inl e"
    using assms by (intro not_Inr) (auto simp: order_check_accepts orderOk_def symbolOk_def)
  then obtain e where "bindE (requireValidAccountNumber account) (\<lambda>_. buildParams req) = Inl e" ..
  then show ?thesis by (rule placeOrder.rejects)
qed

text \<open>
  The option helpers \<open>buyToOpenOption\<close>, \<open>sellToOpenOption\<close>, \<open>buyToCloseOption\<close> and
  \<open>sellToCloseOption\<close> can never place an order: they leave the request's \<open>symbol\<close> empty, which
  \<open>buildParams\<close> rejects, so that for all arguments nothing is sent and the result is an error.
\<close>

theorem option_helpers_always_rejected:
  "(\<exists>r. buyToOpenOption J C account optSym qty p w = Some (Inr r, w) \<and> failsWith 0 r) \<and>
   (\<exists>r. sellToOpenOption J C account optSym qty p w = Some (Inr r, w) \<and> failsWith 0 r) \<and>
   (\<exists>r. buyToCloseOption J C account optSym qty p w = Some (Inr r, w) \<and> failsWith 0 r) \<and>
   (\<exists>r. sellToCloseOption J C account optSym qty p w = Some (Inr r, w) \<and> failsWith 0 r)"
  unfolding buyToOpenOption_def sellToOpenOption_def buyToCloseOption_def sellToCloseOption_def
  by (intro conjI placeOrder_without_symbol) (simp_all add: newOrderRequest_def)

section \<open>Multi-leg orders\<close>

definition legKey :: "nat \<Rightarrow> string \<Rightarrow> string" where
  "legKey i field = ''option['' @ to_string (int i) @ '']['' @ field @ '']''"

lemma to_string_no_bracket: "CHR '']'' \<notin> set (to_string (int i))"
proof -
  have "\<not> is_digit (CHR '']'')" by (simp add: is_digit_def)
  then show ?thesis
    using to_string_nat_digits [of i] by (auto simp: to_string_def list_all_iff)
qed

lemma legKey_inject: "legKey i f = legKey j g \<longleftrightarrow> i = j \<and> f = g"
proof
  assume eq: "legKey i f = legKey j g"
  have split: "takeWhile (\<lambda>c. c \<noteq> CHR '']'') (to_string (int k) @ '']['' @ h @ '']'') = to_string (int k)" for k h
    using to_string_no_bracket [of k] by (subst takeWhile_append2) auto
  have "to_string (int i) @ '']['' @ f @ '']'' = to_string (int j) @ '']['' @ g @ '']''"
    using eq by (simp add: legKey_def)
  then have "to_string (int i) = to_string (int j)" using split by metis
  then show "i = j \<and> f = g" using eq by (simp add: legKey_def)
qed simp

lemma legParams_ok: "map_ok ps \<Longrightarrow> map_ok (legParams i ls ps)"
  by (induction ls arbitrary: i ps) (simp_all add: Let_def sm.ok_put del: map_put.simps)

lemma legParams_step:
  "legParams i (leg # rest) params =
     legParams (Suc i) rest (map_put (legKey i ''quantity'') (to_string_double (legQuantity leg))
       (map_put (legKey i ''side'') (sideString (sideOfNumber (actionNumber (legAction leg))))
         (map_put (legKey i ''option_symbol'') (legOptionSymbol leg) params)))"
  by (simp add: Let_def legKey_def del: map_put.simps)

lemma legParams_other:
  assumes "map_ok ps" "\<And>j f. i \<le> j \<Longrightarrow> k \<noteq> legKey j f"
  shows "map_of (legParams i ls ps) k = map_of ps k"
  using assms
proof (induction ls arbitrary: i ps)
  case (Cons leg rest)
  let ?ps = "map_put (legKey i ''quantity'') (to_string_double (legQuantity leg))
       (map_put (legKey i ''side'') (sideString (sideOfNumber (actionNumber (legAction leg))))
         (map_put (legKey i ''option_symbol'') (legOptionSymbol leg) ps))"
  have "map_of (legParams (Suc i) rest ?ps) k = map_of ?ps k"
    using Cons by (intro Cons.IH) (simp_all add: sm.ok_put del: map_put.simps)
  then show ?case
    using Cons.prems by (simp only: legParams_step) (simp add: sm.lookup_put sm.ok_put del: map_put.simps)
qed simp

lemma legParams_lookup:
  assumes "map_ok ps" "j < length ls"
  shows "map_of (legParams i ls ps) (legKey (i + j) ''side'') =
           Some (sideString (sideOfNumber (actionNumber (legAction (ls ! j)))))"
    and "map_of (legParams i ls ps) (legKey (i + j) ''option_symbol'') = Some (legOptionSymbol (ls ! j))"
    and "map_of (legParams i ls ps) (legKey (i + j) ''quantity'') = Some (to_string_double (legQuantity (ls ! j)))"
proof -
  have "map_of (legParams i ls ps) (legKey (i + j) ''side'') =
           Some (sideString (sideOfNumber (actionNumber (legAction (ls ! j))))) \<and>
    map_of (legParams i ls ps) (legKey (i + j) ''option_symbol'') = Some (legOptionSymbol (ls ! j)) \<and>
    map_of (legParams i ls ps) (legKey (i + j) ''quantity'') = Some (to_string_double (legQuantity (ls ! j)))"
    using assms
  proof (induction ls arbitrary: i j ps)
    case (Cons leg rest)
    let ?ps = "map_put (legKey i ''quantity'') (to_string_double (legQuantity leg))
       (map_put (legKey i ''side'') (sideString (sideOfNumber (actionNumber (legAction leg))))
         (map_put (legKey i ''option_symbol'') (legOptionSymbol leg) ps))"
    have ok: "map_ok ?ps" using Cons.prems by (simp add: sm.ok_put del: map_put.simps)
    show ?case
    proof (cases j)
      case 0
      have "map_of (legParams (Suc i) rest ?ps) (legKey i f) = map_of ?ps (legKey i f)" for f
        by (rule legParams_other [OF ok]) (simp add: legKey_inject)
      then show ?thesis
        using Cons.prems 0 by (simp only: legParams_step)
          (simp add: sm.lookup_put sm.ok_put legKey_inject del: map_put.simps)
    next
      case (Suc j')
      then show ?thesis
        using Cons.IH [OF ok, of j' "Suc i"] Cons.prems by (simp only: legParams_step) simp
    qed
  qed simp
  then show "map_of (legParams i ls ps) (legKey (i + j) ''side'') =
           Some (sideString (sideOfNumber (actionNumber (legAction (ls ! j)))))"
    "map_of (legParams i ls ps) (legKey (i + j) ''option_symbol'') = Some (legOptionSymbol (ls ! j))"
    "map_of (legParams i ls ps) (legKey (i + j) ''quantity'') = Some (to_string_double (legQuantity (ls ! j)))"
    by blast+
qed

lemma multiLegParams_leg:
  assumes "i < length (legs m)"
  shows "map_of (multiLegParams m) (legKey i ''side'') =
           Some (sideString (sideOfNumber (actionNumber (legAction (legs m ! i)))))"
    and "map_of (multiLegParams m) (legKey i ''option_symbol'') = Some (legOptionSymbol (legs m ! i))"
    and "map_of (multiLegParams m) (legKey i ''quantity'') = Some (to_string_double (legQuantity (legs m ! i)))"
proof -
  define base where "base = putOpt ''price'' (map_option to_string_double (netCredit m))
      (putOpt ''price'' (map_option to_string_double (netDebit m))
        (map_put ''duration'' (durationString (multiDuration m))
          (map_put ''type'' (typeString (multiType m)) (map_put ''class'' ''multileg'' []))))"
  have ok: "map_ok base" by (simp add: base_def sm.ok_put del: map_put.simps)
  have "legKey i f \<noteq> ''tag''" for f by (simp add: legKey_def)
  then have "map_of (multiLegParams m) (legKey i f) = map_of (legParams 0 (legs m) base) (legKey i f)" for f
    by (simp add: multiLegParams_def base_def [symmetric] Let_def lookup_putOpt legParams_ok ok del: map_put.simps)
  then show "map_of (multiLegParams m) (legKey i ''side'') =
           Some (sideString (sideOfNumber (actionNumber (legAction (legs m ! i)))))"
    "map_of (multiLegParams m) (legKey i ''option_symbol'') = Some (legOptionSymbol (legs m ! i))"
    "map_of (multiLegParams m) (legKey i ''quantity'') = Some (to_string_double (legQuantity (legs m ! i)))"
    using legParams_lookup [OF ok assms, of 0] by simp_all
qed

text \<open>
  C39: Every leg of a multi-leg order is sent with its symbol and quantity under its own index, and
  with the wrong side, because the cast to \<open>OrderSide\<close> keeps the number of the enumerator and not its
  name: buy to open goes out as a plain buy, buy to close as a plain sell, sell to open as a buy to open
  and sell to close as a buy to close. The side sent is never the name of the leg's action.
\<close>

theorem multi_leg_sides_wrong:
  assumes "i < length (legs m)"
  shows "map_of (multiLegParams m) (legKey i ''option_symbol'') = Some (legOptionSymbol (legs m ! i)) \<and>
    map_of (multiLegParams m) (legKey i ''quantity'') = Some (to_string_double (legQuantity (legs m ! i))) \<and>
    map_of (multiLegParams m) (legKey i ''side'') = Some
      (case legAction (legs m ! i) of
         ACTION_BUY_TO_OPEN \<Rightarrow> ''buy'' | ACTION_BUY_TO_CLOSE \<Rightarrow> ''sell''
       | ACTION_SELL_TO_OPEN \<Rightarrow> ''buy_to_open'' | ACTION_SELL_TO_CLOSE \<Rightarrow> ''buy_to_close'') \<and>
    (\<exists>s. map_of (multiLegParams m) (legKey i ''side'') = Some s \<and> s \<noteq> actionString (legAction (legs m ! i)))"
  by (cases "legAction (legs m ! i)") (simp_all add: multiLegParams_leg [OF assms] sideOfNumber_def)

text \<open>Witness: a single leg that buys to close is sent as a sell.\<close>

theorem multi_leg_sides_wrong_witness:
  "(let m = \<lparr>legs = [\<lparr>legOptionSymbol = ''X'', legAction = ACTION_BUY_TO_CLOSE, legQuantity = DFin 1\<rparr>],
        multiType = MARKET, multiDuration = DAY, netDebit = None, netCredit = None, multiTag = None\<rparr>
    in map_of (multiLegParams m) (legKey 0 ''side'') = Some ''sell'' \<and>
       (\<exists>s. map_of (multiLegParams m) (legKey 0 ''side'') = Some s \<and> s \<noteq> ''buy_to_close''))"
proof -
  define m where "m = \<lparr>legs = [\<lparr>legOptionSymbol = ''X'', legAction = ACTION_BUY_TO_CLOSE, legQuantity = DFin 1\<rparr>],
        multiType = MARKET, multiDuration = DAY, netDebit = None, netCredit = None, multiTag = None\<rparr>"
  have "map_of (multiLegParams m) (legKey 0 ''side'') = Some ''sell''"
    using multiLegParams_leg(1) [of 0 m] by (simp add: m_def sideOfNumber_def)
  then show ?thesis
    using multi_leg_sides_wrong [of 0 m] unfolding m_def Let_def by simp
qed

section \<open>Bracket orders\<close>

text \<open>
  A bracket order sends one form with three linked parts over the same symbol and quantity: the
  limit entry at the entry price, a limit exit at the take-profit price and a stop exit at the
  stop-loss price. Both exits are on the opposite side of a buy or a sell entry; for the option
  sides the exit is a plain \<open>buy\<close>, whatever the entry was.
\<close>

theorem bracket_exits:
  "(let form = map_of (bracketParams b) in
     form ''class'' = Some ''oto'' \<and> form ''type'' = Some ''limit'' \<and>
     form ''side'' = Some (sideString (bracketSide b)) \<and>
     form ''price'' = Some (to_string_double (entryPrice b)) \<and>
     form ''oto[0][price]'' = Some (to_string_double (takeProfitPrice b)) \<and>
     form ''oto[0][type]'' = Some ''limit'' \<and>
     form ''oto[1][stop]'' = Some (to_string_double (stopLossPrice b)) \<and>
     form ''oto[1][type]'' = Some ''stop'' \<and>
     form ''symbol'' = Some (bracketSymbol b) \<and>
     form ''oto[0][symbol]'' = form ''symbol'' \<and> form ''oto[1][symbol]'' = form ''symbol'' \<and>
     form ''quantity'' = Some (to_string_double (bracketQuantity b)) \<and>
     form ''oto[0][quantity]'' = form ''quantity'' \<and> form ''oto[1][quantity]'' = form ''quantity'' \<and>
     form ''oto[0][side]'' = Some (if bracketSide b = BUY then ''sell'' else ''buy'') \<and>
     form ''oto[1][side]'' = form ''oto[0][side]'' \<and>
     form ''tag'' = bracketTag b)"
  unfolding bracketParams_def Let_def
  by (simp add: form_simps del: map_put.simps)

section \<open>Numbers\<close>

text \<open>
  The quantity of an accepted order reaches the form within half a millionth: the digits sent
  denote a number that differs from the quantity by at most 0.0000005. (A quantity below that is
  accepted as positive and sent as \<open>0.000000\<close>.)
\<close>

theorem quantity_precision:
  assumes "orderOk r" "\<not> d_is_nan (quantity r)"
  shows "\<exists>s. orderForm r ''quantity'' = Some s \<and>
           \<bar>read_fixed s - d_val (quantity r)\<bar> \<le> 1 / 2000000"
proof -
  obtain q where q: "quantity r = DFin q" "0 < q"
    using assms by (cases "quantity r") (auto simp: orderOk_def)
  have "read_fixed (to_string_double (DFin q)) = of_nat (micros q) / 1000000"
    using q(2) by (simp add: read_fixed6)
  then have "\<bar>read_fixed (to_string_double (DFin q)) - q\<bar> \<le> 1 / 2000000"
    using micros_error [of q] q(2) by (simp only: abs_of_pos)
  then show ?thesis using q(1) by (simp add: orderForm_def del: to_string_double.simps)
qed

text \<open>Witness: a quarter of a millionth of a share is an accepted quantity, and zero on the wire.\<close>

theorem quantity_precision_witness:
  "(let r = sampleOrder\<lparr>quantity := DFin (1 / 4000000)\<rparr>
    in orderOk r \<and> orderForm r ''quantity'' = Some ''0.000000'' \<and>
       (\<exists>s. orderForm r ''quantity'' = Some s \<and> \<bar>read_fixed s - 1 / 4000000\<bar> \<le> 1 / 2000000))"
proof -
  let ?r = "sampleOrder\<lparr>quantity := DFin (1 / 4000000)\<rparr>"
  have ok: "orderOk ?r"
    by (simp add: orderOk_def sampleOrder_def newOrderRequest_def symbolOk_def priceOk_def is_alnum_def Let_def)
  have "micros (1 / 4000000) = 0" by (simp add: micros_def round_half_even_def Let_def)
  moreover have "to_string_nat 0 = ''0''" by code_simp
  moreover have "pad0 6 ''0'' = ''000000''" by code_simp
  ultimately have "micros (1 / 4000000) = 0" "fixed6 0 = ''0.000000''" by (simp_all add: fixed6_def)
  then have "orderForm ?r ''quantity'' = Some ''0.000000''" by (simp add: orderForm_def)
  then show ?thesis using quantity_precision [OF ok] ok unfolding Let_def by simp
qed

section \<open>Responses\<close>

text \<open>
  The names of sides, types and durations are unambiguous and are read back from a preview as
  they were sent; unknown names fall back to the first enumerator.
\<close>

theorem preview_names_roundtrip:
  "previewSideOf (sideString s) = s \<and> previewTypeOf (typeString t) = t \<and>
   previewDurationOf (durationString d) = d \<and>
   (if x \<in> range sideString then True else previewSideOf x = BUY) \<and>
   (if x \<in> range typeString then True else previewTypeOf x = MARKET) \<and>
   (if x \<in> range durationString then True else previewDurationOf x = DAY)"
proof -
  have "sideString y \<in> range sideString" "typeString z \<in> range typeString"
    "durationString u \<in> range durationString" for y z u by simp_all
  from this(1) [of SELL] this(1) [of BUY_TO_OPEN] this(1) [of BUY_TO_CLOSE] this(1) [of SELL_TO_OPEN]
    this(1) [of SELL_TO_CLOSE] this(2) [of LIMIT] this(2) [of STOP] this(2) [of STOP_LIMIT] this(2) [of DEBIT]
    this(2) [of CREDIT] this(3) [of GTC] this(3) [of PRE] this(3) [of POST]
  have "(if x \<in> range sideString then True else previewSideOf x = BUY)"
    "(if x \<in> range typeString then True else previewTypeOf x = MARKET)"
    "(if x \<in> range durationString then True else previewDurationOf x = DAY)"
    unfolding previewSideOf_def previewTypeOf_def previewDurationOf_def by auto
  then show ?thesis
    by (cases s; cases t; cases d; simp add: previewSideOf_def previewTypeOf_def previewDurationOf_def)
qed

end
