(* ===== verification/Order_Flow.thy ===== *)
theory Order_Flow
  imports Trading_Properties
begin

text \<open>
  Orders from end to end: \<open>TradingService\<close> on the real \<open>TradierClient\<close> and its HTTP client, down to what
  libcurl is asked to send, and back from the response to the caller.
\<close>

lemma tradierClient_ops [simp]:
  "cl_get (tradierClient n) = performRequest n ''GET''"
  "cl_post (tradierClient n) = performRequest n ''POST''"
  "cl_put (tradierClient n) = performRequest n ''PUT''"
  "cl_del (tradierClient n) = performRequest n ''DELETE''"
  by (simp_all add: fun_eq_iff tradierClient_def http_get_def http_post_def http_put_def http_del_def)

lemma preparedRequest_post:
  assumes "ps \<noteq> []" "escape_documented n" "ep \<noteq> []" "hd ep = CHR ''/''"
  shows "CURLOPT_URL (preparedRequest n cfg ''POST'' ep ps) = baseUrl cfg @ ep"
    "CURLOPT_VERB (preparedRequest n cfg ''POST'' ep ps) = HTTPPOST"
    "\<exists>form. CURLOPT_POSTFIELDS (preparedRequest n cfg ''POST'' ep ps) = Some form \<and> decodePairs form = ps"
proof -
  have "decodePairs (encodePairs (escaped n) ps) = ps"
    by (rule decodePairs_encodePairs) (simp_all add: escaped_decodes [OF assms(2)] assms(1))
  then show "CURLOPT_URL (preparedRequest n cfg ''POST'' ep ps) = baseUrl cfg @ ep"
    "CURLOPT_VERB (preparedRequest n cfg ''POST'' ep ps) = HTTPPOST"
    "\<exists>form. CURLOPT_POSTFIELDS (preparedRequest n cfg ''POST'' ep ps) = Some form \<and> decodePairs form = ps"
    using assms by (simp_all add: preparedRequest_def curlRequest_def requestUrl_def formMethod_def buildUrl_def)
qed

lemma orderParams_nonempty: "orderParams r \<noteq> []"
proof
  assume "orderParams r = []"
  then have "orderForm r ''symbol'' = None" by (simp flip: orderParams_form)
  then show False by (simp add: orderForm_def)
qed

text \<open>
  C1: A successful \<open>placeOrder\<close> means that the order went out as written and was acknowledged: libcurl
  was handed a POST to the account's orders at the configured brokerage, once plus at most the
  configured retries, whose form decodes to exactly the fields of the order; the server answered
  this request with 2xx; and the value returned is what its body says.
\<close>

theorem order_on_the_wire:
  assumes "placeOrder J (tradierClient n) account request w = Some (Inr (ofValue v), w')"
    and "escape_documented n" "0 \<le> retryLimit (http w)"
  shows "\<exists>k req form resp. 0 < k \<and> int k \<le> retryLimit (http w) + 1 \<and> sent w' = sent w @ replicate k req \<and>
     CURLOPT_URL req = baseUrl (config (http w)) @ ''/accounts/'' @ account @ ''/orders'' \<and>
     CURLOPT_VERB req = HTTPPOST \<and> CURLOPT_POSTFIELDS req = Some form \<and>
     map_of (decodePairs form) = orderForm request \<and>
     isReply n req resp \<and> success resp \<and> parseResponse J resp (parseOrderResponse J) = Some v"
proof -
  let ?ep = "''/accounts/'' @ account @ ''/orders''"
  let ?req = "preparedRequest n (config (http w)) ''POST'' ?ep (orderParams request)"
  obtain p resp where p: "bindE (requireValidAccountNumber account) (\<lambda>_. buildParams request) = Inr p"
    and call: "cl_post (tradierClient n) ?ep p w = Some (Inr resp, w')"
    and ok: "success resp"
    and v: "expectParsed J ''Failed to place order: '' (ParseError ''Failed to parse order response'') (parseOrderResponse J) resp = Inr v"
    using placeOrder.success_means [OF assms(1)] by metis
  have ps: "p = orderParams request" using p by (simp add: order_check_accepts)
  have "performRequest n ''POST'' ?ep (orderParams request) w = Some (Inr resp, w')"
    using call ps by simp
  from performRequest_steps [OF this assms(3)] obtain j k where
    jk: "int j \<le> retryLimit (http w)" "k \<le> Suc j" "0 < k" "sent w' = sent w @ replicate k ?req"
      "isReply n ?req resp"
    unfolding request_steps_def by auto
  have k: "int k \<le> retryLimit (http w) + 1" using jk(1,2) by linarith
  obtain form where form: "CURLOPT_POSTFIELDS ?req = Some form" "decodePairs form = orderParams request"
    using preparedRequest_post(3) [OF orderParams_nonempty assms(2), of ?ep] by auto
  have url: "CURLOPT_URL ?req = baseUrl (config (http w)) @ ?ep" "CURLOPT_VERB ?req = HTTPPOST"
    by (intro preparedRequest_post orderParams_nonempty assms(2); simp)+
  have "parseResponse J resp (parseOrderResponse J) = Some v"
    using v ok by (auto simp: expectParsed_def split: option.splits)
  moreover have "map_of (decodePairs form) = orderForm request"
    using form(2) by (simp add: orderParams_form)
  ultimately show ?thesis using jk k url form ok by blast
qed

text \<open>Witness: the sample order on a server that acknowledges it as order 17.\<close>

definition ackNet :: net where
  "ackNet = sampleNet (\<lambda>i q. Inr \<lparr>responseCode = 200, headerLines = [], bodyChunks = [''ack'']\<rparr>)"

definition ackJson :: "jval json_api" where
  "ackJson = jref (\<lambda>s. if s = ''ack'' then Inr (JObj [(''order'', JObj [(''id'', JNum (DFin 17)), (''status'', JStr ''ok'')])])
     else Inl ''parse_error'')"

definition ackResponse :: OrderResponse where
  "ackResponse = \<lparr>orderId = 17, orderStatus = ''ok'', partnerId = None\<rparr>"

lemma ackRun_delivers:
  "\<exists>w'. performRequest ackNet ''POST'' ep ps (sampleClient 0) =
     Some (Inr \<lparr>status = 200, body = ''ack'', headers = []\<rparr>, w')"
proof -
  define t where "t = \<lparr>responseCode = 200, headerLines = [], bodyChunks = [''ack'']\<rparr>"
  have r: "receive t = \<lparr>status = 200, body = ''ack'', headers = []\<rparr>"
    by (simp add: receive_def t_def writeCallback_def)
  have "\<exists>w'. performRequest ackNet ''POST'' ep ps (sampleClient 0) = Some (Inr (receive t), w') \<and>
      sent w' = sent (sampleClient 0) @ [preparedRequest ackNet (config (http (sampleClient 0))) ''POST'' ep ps]"
  proof (rule performRequest_delivers)
    show "reliable ackNet" "clock_monotone ackNet" "clock_progresses ackNet"
      by (simp_all add: ackNet_def sampleNet_reliable sampleNet_clock)
    show "0 \<le> retryLimit (http (sampleClient 0))" by (simp add: sampleClient_def retryLimit_def)
    show "rateLimitEnabled (http (sampleClient 0)) \<longrightarrow> 0 < maxRequests (rateLimiter (http (sampleClient 0)))"
      by (simp add: sampleClient_def newRateLimiter_def)
    show "\<forall>i. curl_easy_perform ackNet i (preparedRequest ackNet (config (http (sampleClient 0))) ''POST'' ep ps) = Inr t"
      by (simp add: ackNet_def sampleNet_def t_def)
    show "\<not> retryable (receive t)" by (simp add: retryable_def r)
  qed
  then show ?thesis unfolding r by blast
qed

lemma sampleOrder_accepted:
  "bindE (requireValidAccountNumber ''VA000001'') (\<lambda>_. buildParams sampleOrder) = Inr (orderParams sampleOrder)"
  by (simp add: order_check_accepts accountOk_def orderOk_def sampleOrder_def newOrderRequest_def symbolOk_def
      priceOk_def is_alnum_def Let_def)

lemma ackRun_value:
  "\<exists>w'. placeOrder ackJson (tradierClient ackNet) ''VA000001'' sampleOrder (sampleClient 0) =
     Some (Inr (ofValue ackResponse), w')"
proof -
  obtain w' where call: "cl_post (tradierClient ackNet) (''/accounts/'' @ ''VA000001'' @ ''/orders'')
      (orderParams sampleOrder) (sampleClient 0) = Some (Inr \<lparr>status = 200, body = ''ack'', headers = []\<rparr>, w')"
    using ackRun_delivers by (metis tradierClient_ops(2))
  have parsed: "expectParsed ackJson ''Failed to place order: '' (ParseError ''Failed to parse order response'')
      (parseOrderResponse ackJson) \<lparr>status = 200, body = ''ack'', headers = []\<rparr> = Inr ackResponse"
    by code_simp
  from placeOrder.reports_value [OF sampleOrder_accepted call parsed] show ?thesis by blast
qed

theorem order_on_the_wire_witness:
  "\<exists>w' k req form. placeOrder ackJson (tradierClient ackNet) ''VA000001'' sampleOrder (sampleClient 0) =
       Some (Inr (ofValue ackResponse), w') \<and>
     0 < k \<and> int k \<le> 1 \<and> sent w' = replicate k req \<and>
     CURLOPT_URL req = ''https://sandbox.tradier.com/v1/accounts/VA000001/orders'' \<and>
     CURLOPT_POSTFIELDS req = Some form \<and> map_of (decodePairs form) = orderForm sampleOrder"
proof -
  obtain w' where run: "placeOrder ackJson (tradierClient ackNet) ''VA000001'' sampleOrder (sampleClient 0) =
      Some (Inr (ofValue ackResponse), w')"
    using ackRun_value by blast
  have "escape_documented ackNet" by (simp add: ackNet_def sampleNet_escape)
  moreover have lim: "retryLimit (http (sampleClient 0)) = 0" "sent (sampleClient 0) = []"
      "baseUrl (config (http (sampleClient 0))) = ''https://sandbox.tradier.com/v1''"
    by (simp_all add: sampleClient_def retryLimit_def baseUrl_def)
  ultimately obtain k req form where "0 < k" "int k \<le> 1" "sent w' = replicate k req"
      "CURLOPT_URL req = ''https://sandbox.tradier.com/v1'' @ ''/accounts/'' @ ''VA000001'' @ ''/orders''"
      "CURLOPT_POSTFIELDS req = Some form" "map_of (decodePairs form) = orderForm sampleOrder"
    using order_on_the_wire [OF run] by auto
  then show ?thesis using run by auto
qed

text \<open>
  C7: With retries off, the default, an order is handed to libcurl at most once, and not at all unless
  it is valid: whatever the outcome of \<open>placeOrder\<close>, no order is submitted twice.
\<close>

theorem order_at_most_once:
  assumes "\<not> retriesEnabled (http w)"
    and "placeOrder J (tradierClient n) account request w = Some (r, w')"
  shows "\<exists>k \<le> (if accountOk account \<and> orderOk request then 1 else 0). \<exists>req. sent w' = sent w @ replicate k req"
proof (cases "bindE (requireValidAccountNumber account) (\<lambda>_. buildParams request)")
  case (Inl e)
  then have "w' = w" using placeOrder.rejects [OF Inl, of J "tradierClient n" w] assms(2) by auto
  then show ?thesis by (intro exI [of _ 0]) simp
next
  case (Inr p)
  then have valid: "accountOk account \<and> orderOk request" by (simp add: order_check_accepts)
  obtain q where "performRequest n ''POST'' (''/accounts/'' @ account @ ''/orders'') p w = Some (q, w')"
    using assms(2) placeOrder.sends_once [OF Inr, of J "tradierClient n" w] by (auto split: option.splits)
  moreover have "0 \<le> retryLimit (http w)" using assms(1) by (simp add: retryLimit_def)
  ultimately obtain j k where jk: "int j \<le> retryLimit (http w)" "k \<le> Suc j" and
      s: "sent w' = sent w @ replicate k (preparedRequest n (config (http w)) ''POST'' (''/accounts/'' @ account @ ''/orders'') p)"
    using performRequest_steps unfolding request_steps_def by blast
  have "k \<le> 1" using jk assms(1) by (simp add: retryLimit_def)
  then show ?thesis using s valid by auto
qed

text \<open>Witness: the sample order with retries off.\<close>

definition quietClient :: http_world where
  "quietClient = onHttp (enableRetries False) (sampleClient 3)"

theorem order_at_most_once_witness:
  "\<exists>r w'. placeOrder ackJson (tradierClient ackNet) ''VA000001'' sampleOrder quietClient = Some (r, w') \<and>
     (\<exists>k \<le> (1 :: nat). \<exists>req. sent w' = replicate k req)"
proof -
  have q: "\<not> retriesEnabled (http quietClient)" "sent quietClient = []"
    by (simp_all add: quietClient_def onHttp_def enableRetries_def sampleClient_def)
  have lim: "rateLimitEnabled (http quietClient) \<Longrightarrow> 0 < maxRequests (rateLimiter (http quietClient))"
    by (simp add: quietClient_def onHttp_def enableRetries_def sampleClient_def newRateLimiter_def)
  have "\<exists>y. performRequest ackNet ''POST'' ep ps quietClient = Some y" for ep ps
    by (rule performRequest_returns [OF lim]) (simp_all add: ackNet_def sampleNet_clock)
  then have "placeOrder ackJson (tradierClient ackNet) ''VA000001'' sampleOrder quietClient \<noteq> None"
    by (intro placeOrder.returns) (simp del: append.simps)
  then obtain r w' where run: "placeOrder ackJson (tradierClient ackNet) ''VA000001'' sampleOrder quietClient = Some (r, w')"
    by fastforce
  then show ?thesis
    using order_at_most_once [OF q(1) run] q(2) by (auto split: if_splits)
qed

section \<open>The service never throws\<close>

definition settles :: "('w, exn, 'a ApiResult) io \<Rightarrow> 'w \<Rightarrow> bool" where
  "settles m w \<longleftrightarrow> (\<exists>r w'. m w = Some (Inr r, w') \<and> result_ok r)"

lemma service_call_settles:
  assumes "service_call m check call interp operation" "\<And>p. call p w \<noteq> None"
  shows "settles m w"
proof -
  have "m w \<noteq> None" by (rule service_call.returns [OF assms(1)]) (rule assms(2))
  then obtain r w' where run: "m w = Some (r, w')" by fastforce
  from service_call.never_throws [OF assms(1) run] show ?thesis
    using run unfolding settles_def by metis
qed

text \<open>
  C21: Given a steady clock that goes on and a rate limiter that is off or has a positive limit, every
  operation of \<open>TradingService\<close> on the real client, the helpers for stocks and options included, comes back
  with a result: for all arguments, valid or not, and whatever the network and the server do, it
  returns an \<open>ApiResult\<close> that holds exactly one of a value and an error, and no exception leaves it. With
  a limit of zero or less an operation that meets the limiter never returns.
\<close>

theorem trading_always_settles:
  assumes "rateLimitEnabled (http w) \<longrightarrow> 0 < maxRequests (rateLimiter (http w))"
    and "clock_monotone n" "clock_progresses n"
  shows "settles (placeOrder J (tradierClient n) account request) w \<and>
    settles (previewOrder J (tradierClient n) account request) w \<and>
    settles (placeBracketOrder J (tradierClient n) account b) w \<and>
    settles (placeMultiLegOrder J (tradierClient n) account m) w \<and>
    settles (cancelOrder J (tradierClient n) account oid) w \<and>
    settles (modifyOrder J (tradierClient n) account oid request) w \<and>
    settles (modifyOrderAdvanced J (tradierClient n) account oid mo) w \<and>
    settles (cancelAllOrders J (tradierClient n) account) w \<and>
    settles (buyStock J (tradierClient n) account stockSymbol qty limit) w \<and>
    settles (sellStock J (tradierClient n) account stockSymbol qty limit) w \<and>
    settles (buyToOpenOption J (tradierClient n) account optSym qty limit) w \<and>
    settles (sellToOpenOption J (tradierClient n) account optSym qty limit) w \<and>
    settles (buyToCloseOption J (tradierClient n) account optSym qty limit) w \<and>
    settles (sellToCloseOption J (tradierClient n) account optSym qty limit) w"
proof -
  have "performRequest n meth ep ps w \<noteq> None" for meth ep ps
    using performRequest_returns [of w n meth ep ps] assms by auto
  then have calls: "cl_post (tradierClient n) ep ps w \<noteq> None" "cl_put (tradierClient n) ep ps w \<noteq> None"
      "cl_del (tradierClient n) ep ps w \<noteq> None" for ep ps
    by simp_all
  show ?thesis
    unfolding buyStock_def sellStock_def buyToOpenOption_def sellToOpenOption_def buyToCloseOption_def sellToCloseOption_def
    by (intro conjI)
      (rule service_call_settles [OF placeOrder.service_call_axioms]
        service_call_settles [OF previewOrder.service_call_axioms]
        service_call_settles [OF placeBracketOrder.service_call_axioms]
        service_call_settles [OF placeMultiLegOrder.service_call_axioms]
        service_call_settles [OF cancelOrder.service_call_axioms]
        service_call_settles [OF modifyOrder.service_call_axioms]
        service_call_settles [OF modifyOrderAdvanced.service_call_axioms]
        service_call_settles [OF cancelAllOrders.service_call_axioms], rule calls)+
qed

text \<open>Witness: the sample client, on a network where every transfer fails.\<close>

theorem trading_always_settles_witness:
  "settles (cancelAllOrders ackJson (tradierClient (sampleNet (\<lambda>i q. Inl ''down''))) ''VA000001'') (sampleClient 2)"
proof -
  have "0 < maxRequests (rateLimiter (http (sampleClient 2)))" by (simp add: sampleClient_def newRateLimiter_def)
  then show ?thesis
    using trading_always_settles [of "sampleClient 2" "sampleNet (\<lambda>i q. Inl ''down'')"] sampleNet_clock by blast
qed

section \<open>Cancelling all orders\<close>

text \<open>
  \<open>cancelAllOrders\<close> loses what the server reports: it parses every element of \<open>orders.order\<close> as if it
  were wrapped in another \<open>order\<close> object, so that elements with \<open>id\<close> and \<open>status\<close> of their own come back
  as order 0 with an empty status, one for every element.
\<close>

theorem cancel_all_loses_orders:
  assumes "j_contains J doc ''orders''" "j_at J doc ''orders'' = Inr os"
    and "j_contains J os ''order''" "j_at J os ''order'' = Inr arr" "j_is_array J arr"
    and "\<forall>x \<in> set (j_elems J arr). \<not> j_contains J x ''order''"
  shows "parseCanceledOrders J doc = Inr (replicate (length (j_elems J arr)) emptyOrderResponse)"
proof -
  have "parseOrderResponse J x = Inr emptyOrderResponse" if "x \<in> set (j_elems J arr)" for x
    using assms(6) that by (simp add: parseOrderResponse_def ifE_def present_def)
  then have "traverseE (parseOrderResponse J) (j_elems J arr) = Inr (map (\<lambda>_. emptyOrderResponse) (j_elems J arr))"
    by (rule traverseE_total)
  then show ?thesis
    using assms(1-5) by (simp add: parseCanceledOrders_def ifE_def contains2_def atE_def jx_def map_replicate_const)
qed

text \<open>Witness: two cancelled orders, 17 and 18.\<close>

theorem cancel_all_loses_orders_witness:
  "(let order = (\<lambda>i. JObj [(''id'', JNum (DFin i)), (''status'', JStr ''ok'')]);
        doc = JObj [(''orders'', JObj [(''order'', JArr [order 17, order 18])])]
    in parseCanceledOrders (jref (\<lambda>s. Inl [])) doc = Inr [emptyOrderResponse, emptyOrderResponse])"
proof -
  let ?order = "\<lambda>i :: rat. JObj [(''id'', JNum (DFin i)), (''status'', JStr ''ok'')]"
  let ?J = "jref (\<lambda>s. Inl [])"
  have "parseCanceledOrders ?J (JObj [(''orders'', JObj [(''order'', JArr [?order 17, ?order 18])])]) =
      Inr (replicate (length (j_elems ?J (JArr [?order 17, ?order 18]))) emptyOrderResponse)"
    by (rule cancel_all_loses_orders [where os = "JObj [(''order'', JArr [?order 17, ?order 18])]"])
      (simp_all add: jref_def)
  then show ?thesis by (simp add: jref_def numeral_2_eq_2)
qed

end
