(* ===== verification/Watchlist.thy ===== *)
theory Watchlist
  imports Client
begin

text \<open>
  \<^verbatim>\<open>watchlist.hpp\<close> and \<^verbatim>\<open>watchlist.cpp\<close>: \<open>WatchlistService\<close>. The lambdas that read a watchlist or a list of
  summaries are written out in every operation of the source; here they are \<open>parseWatchlist\<close> (with
  the message of its format error) and \<open>parseWatchlistSummaries\<close>.
\<close>

section \<open>Data and parsing\<close>

record WatchlistItem =
  itemSymbol :: string
  itemId :: string

record Watchlist =
  watchlistName :: string
  watchlistId :: string
  watchlistPublicId :: string
  items :: "WatchlistItem list"

record WatchlistSummary =
  summaryName :: string
  summaryId :: string
  summaryPublicId :: string

definition parseSummary :: "'j json_api \<Rightarrow> 'j \<Rightarrow> WatchlistSummary fallible" where
  "parseSummary J item =
     run [
       assign summaryName_update (jx (j_value_string J item ''name'' [])),
       assign summaryId_update (jx (j_value_string J item ''id'' [])),
       assign summaryPublicId_update (jx (j_value_string J item ''public_id'' []))]
       \<lparr>summaryName = [], summaryId = [], summaryPublicId = []\<rparr>"

definition parseWatchlistSummaries :: "'j json_api \<Rightarrow> 'j \<Rightarrow> WatchlistSummary list fallible" where
  "parseWatchlistSummaries J json =
     ifE (contains2 J json ''watchlists'' ''watchlist'')
       (bindE (atE J json ''watchlists'') (\<lambda>ws.
        bindE (atE J ws ''watchlist'') (\<lambda>watchlistsJson.
          if j_is_array J watchlistsJson then traverseE (parseSummary J) (j_elems J watchlistsJson)
          else if j_is_object J watchlistsJson then map_sum id (\<lambda>s. [s]) (parseSummary J watchlistsJson)
          else Inr [])))
       (Inr [])"

definition parseItem :: "'j json_api \<Rightarrow> 'j \<Rightarrow> WatchlistItem fallible" where
  "parseItem J item =
     run [
       assign itemSymbol_update (jx (j_value_string J item ''symbol'' [])),
       assign itemId_update (jx (j_value_string J item ''id'' []))]
       \<lparr>itemSymbol = [], itemId = []\<rparr>"

definition parseItems :: "'j json_api \<Rightarrow> 'j \<Rightarrow> WatchlistItem list fallible" where
  "parseItems J watchlistJson =
     ifE (contains2 J watchlistJson ''items'' ''item'')
       (bindE (atE J watchlistJson ''items'') (\<lambda>is.
        bindE (atE J is ''item'') (\<lambda>itemsJson.
          if j_is_array J itemsJson then traverseE (parseItem J) (j_elems J itemsJson)
          else if j_is_object J itemsJson then map_sum id (\<lambda>i. [i]) (parseItem J itemsJson)
          else Inr [])))
       (Inr [])"

definition parseWatchlist :: "'j json_api \<Rightarrow> string \<Rightarrow> 'j \<Rightarrow> Watchlist fallible" where
  "parseWatchlist J formatError json =
     (if \<not> j_contains J json ''watchlist'' then throwApi 400 formatError
      else bindE (atE J json ''watchlist'') (\<lambda>watchlistJson.
        run [
          assign watchlistName_update (jx (j_value_string J watchlistJson ''name'' [])),
          assign watchlistId_update (jx (j_value_string J watchlistJson ''id'' [])),
          assign watchlistPublicId_update (jx (j_value_string J watchlistJson ''public_id'' [])),
          assign items_update (parseItems J watchlistJson)]
          \<lparr>watchlistName = [], watchlistId = [], watchlistPublicId = [], items = []\<rparr>))"

section \<open>Operations\<close>

definition getWatchlists :: "'j json_api \<Rightarrow> 'w client_ops \<Rightarrow> ('w, exn, WatchlistSummary list ApiResult) io" where
  "getWatchlists J C =
     tryExecuteIO (
       bindIO (cl_get C ''/watchlists'' []) (\<lambda>response.
       if \<not> success response
       then throwIO (ApiError (ApiErr (status response) (''Failed to get watchlists: '' @ body response) []))
       else case parseResponse J response (parseWatchlistSummaries J) of
              None \<Rightarrow> throwIO (RuntimeError ''Failed to parse watchlists response'')
            | Some parsed \<Rightarrow> returnIO parsed)) ''getWatchlists''"

definition getWatchlist :: "'j json_api \<Rightarrow> 'w client_ops \<Rightarrow> string \<Rightarrow> ('w, exn, Watchlist ApiResult) io" where
  "getWatchlist J C wid =
     tryExecuteIO (
       bindIO (liftIO (whenE (wid = []) (Inl (ValidationError ''Watchlist ID cannot be empty'')))) (\<lambda>_.
       bindIO (cl_get C (''/watchlists/'' @ wid) []) (\<lambda>response.
       if \<not> success response
       then throwIO (ApiError (ApiErr (status response) (''Failed to get watchlist: '' @ body response) []))
       else case parseResponse J response (parseWatchlist J ''Invalid watchlist response format'') of
              None \<Rightarrow> throwIO (RuntimeError ''Failed to parse watchlist response'')
            | Some parsed \<Rightarrow> returnIO parsed))) ''getWatchlist''"

definition createWatchlist ::
  "'j json_api \<Rightarrow> 'w client_ops \<Rightarrow> string \<Rightarrow> string list \<Rightarrow> ('w, exn, Watchlist ApiResult) io" where
  "createWatchlist J C name symbols =
     tryExecuteIO (
       bindIO (liftIO (whenE (name = []) (Inl (ValidationError ''Watchlist name cannot be empty'')))) (\<lambda>_.
       let params = map_put ''name'' name [];
           params = putIf (symbols \<noteq> []) ''symbols'' (joinS '','' symbols) params
       in bindIO (cl_post C ''/watchlists'' params) (\<lambda>response.
       if \<not> success response
       then throwIO (ApiError (ApiErr (status response) (''Failed to create watchlist: '' @ body response) []))
       else case parseResponse J response (parseWatchlist J ''Invalid watchlist creation response format'') of
              None \<Rightarrow> throwIO (RuntimeError ''Failed to parse create watchlist response'')
            | Some parsed \<Rightarrow> returnIO parsed))) ''createWatchlist''"

definition updateWatchlist ::
  "'j json_api \<Rightarrow> 'w client_ops \<Rightarrow> string \<Rightarrow> string \<Rightarrow> string list \<Rightarrow> ('w, exn, Watchlist ApiResult) io" where
  "updateWatchlist J C wid name symbols =
     tryExecuteIO (
       bindIO (liftIO (whenE (wid = []) (Inl (ValidationError ''Watchlist ID cannot be empty'')))) (\<lambda>_.
       bindIO (liftIO (whenE (name = []) (Inl (ValidationError ''Watchlist name cannot be empty'')))) (\<lambda>_.
       let params = map_put ''name'' name [];
           params = putIf (symbols \<noteq> []) ''symbols'' (joinS '','' symbols) params
       in bindIO (cl_put C (''/watchlists/'' @ wid) params) (\<lambda>response.
       if \<not> success response
       then throwIO (ApiError (ApiErr (status response) (''Failed to update watchlist: '' @ body response) []))
       else case parseResponse J response (parseWatchlist J ''Invalid watchlist update response format'') of
              None \<Rightarrow> throwIO (RuntimeError ''Failed to parse update watchlist response'')
            | Some parsed \<Rightarrow> returnIO parsed)))) ''updateWatchlist''"

definition deleteWatchlist ::
  "'j json_api \<Rightarrow> 'w client_ops \<Rightarrow> string \<Rightarrow> ('w, exn, WatchlistSummary list ApiResult) io" where
  "deleteWatchlist J C wid =
     tryExecuteIO (
       bindIO (liftIO (whenE (wid = []) (Inl (ValidationError ''Watchlist ID cannot be empty'')))) (\<lambda>_.
       bindIO (cl_del C (''/watchlists/'' @ wid) []) (\<lambda>response.
       if \<not> success response
       then throwIO (ApiError (ApiErr (status response) (''Failed to delete watchlist: '' @ body response) []))
       else case parseResponse J response (parseWatchlistSummaries J) of
              None \<Rightarrow> throwIO (RuntimeError ''Failed to parse delete watchlist response'')
            | Some parsed \<Rightarrow> returnIO parsed))) ''deleteWatchlist''"

definition addSymbols ::
  "'j json_api \<Rightarrow> 'w client_ops \<Rightarrow> string \<Rightarrow> string list \<Rightarrow> ('w, exn, Watchlist ApiResult) io" where
  "addSymbols J C wid symbols =
     tryExecuteIO (
       bindIO (liftIO (whenE (wid = []) (Inl (ValidationError ''Watchlist ID cannot be empty'')))) (\<lambda>_.
       bindIO (liftIO (whenE (symbols = []) (Inl (ValidationError ''Symbols list cannot be empty'')))) (\<lambda>_.
       bindIO (cl_post C (''/watchlists/'' @ wid @ ''/symbols'') (map_put ''symbols'' (joinS '','' symbols) [])) (\<lambda>response.
       if \<not> success response
       then throwIO (ApiError (ApiErr (status response) (''Failed to add symbols to watchlist: '' @ body response) []))
       else case parseResponse J response (parseWatchlist J ''Invalid add symbols response format'') of
              None \<Rightarrow> throwIO (RuntimeError ''Failed to parse add symbols response'')
            | Some parsed \<Rightarrow> returnIO parsed)))) ''addSymbols''"

definition removeSymbol ::
  "'j json_api \<Rightarrow> 'w client_ops \<Rightarrow> string \<Rightarrow> string \<Rightarrow> ('w, exn, Watchlist ApiResult) io" where
  "removeSymbol J C wid sy =
     tryExecuteIO (
       bindIO (liftIO (whenE (wid = []) (Inl (ValidationError ''Watchlist ID cannot be empty'')))) (\<lambda>_.
       bindIO (liftIO (whenE (sy = []) (Inl (ValidationError ''Symbol cannot be empty'')))) (\<lambda>_.
       bindIO (cl_del C (''/watchlists/'' @ wid @ ''/symbols/'' @ sy) []) (\<lambda>response.
       if \<not> success response
       then throwIO (ApiError (ApiErr (status response) (''Failed to remove symbol from watchlist: '' @ body response) []))
       else case parseResponse J response (parseWatchlist J ''Invalid remove symbol response format'') of
              None \<Rightarrow> throwIO (RuntimeError ''Failed to parse remove symbol response'')
            | Some parsed \<Rightarrow> returnIO parsed)))) ''removeSymbol''"

section \<open>The operations meet the contract of a service call\<close>

definition watchlistForm :: "string \<Rightarrow> string list \<Rightarrow> params" where
  "watchlistForm name symbols =
     putIf (symbols \<noteq> []) ''symbols'' (joinS '','' symbols) (map_put ''name'' name [])"

interpretation getWatchlists: service_call "getWatchlists J C" "Inr ()" "\<lambda>_. cl_get C ''/watchlists'' []"
  "expectParsed J ''Failed to get watchlists: '' (RuntimeError ''Failed to parse watchlists response'') (parseWatchlistSummaries J)"
  "''getWatchlists''" for J C
  by (rule service_callI [OF getWatchlists_def]) (auto simp: liftIO_expectParsed)

interpretation getWatchlist: service_call "getWatchlist J C wid"
  "demand ''Watchlist ID cannot be empty'' (wid \<noteq> [])" "\<lambda>_. cl_get C (''/watchlists/'' @ wid) []"
  "expectParsed J ''Failed to get watchlist: '' (RuntimeError ''Failed to parse watchlist response'')
     (parseWatchlist J ''Invalid watchlist response format'')"
  "''getWatchlist''" for J C wid
  by (rule service_callI [OF getWatchlist_def], auto simp: liftIO_expectParsed demand_def intro!: only_validation_intros)

interpretation createWatchlist: service_call "createWatchlist J C name symbols"
  "demand ''Watchlist name cannot be empty'' (name \<noteq> [])" "\<lambda>_. cl_post C ''/watchlists'' (watchlistForm name symbols)"
  "expectParsed J ''Failed to create watchlist: '' (RuntimeError ''Failed to parse create watchlist response'')
     (parseWatchlist J ''Invalid watchlist creation response format'')"
  "''createWatchlist''" for J C name symbols
  by (rule service_callI [OF createWatchlist_def],
      auto simp: liftIO_expectParsed demand_def watchlistForm_def Let_def intro!: only_validation_intros)

interpretation updateWatchlist: service_call "updateWatchlist J C wid name symbols"
  "bindE (demand ''Watchlist ID cannot be empty'' (wid \<noteq> [])) (\<lambda>_. demand ''Watchlist name cannot be empty'' (name \<noteq> []))"
  "\<lambda>_. cl_put C (''/watchlists/'' @ wid) (watchlistForm name symbols)"
  "expectParsed J ''Failed to update watchlist: '' (RuntimeError ''Failed to parse update watchlist response'')
     (parseWatchlist J ''Invalid watchlist update response format'')"
  "''updateWatchlist''" for J C wid name symbols
  by (rule service_callI [OF updateWatchlist_def],
      auto simp: liftIO_bindE liftIO_expectParsed demand_def watchlistForm_def Let_def intro!: only_validation_intros)

interpretation deleteWatchlist: service_call "deleteWatchlist J C wid"
  "demand ''Watchlist ID cannot be empty'' (wid \<noteq> [])" "\<lambda>_. cl_del C (''/watchlists/'' @ wid) []"
  "expectParsed J ''Failed to delete watchlist: '' (RuntimeError ''Failed to parse delete watchlist response'')
     (parseWatchlistSummaries J)"
  "''deleteWatchlist''" for J C wid
  by (rule service_callI [OF deleteWatchlist_def], auto simp: liftIO_expectParsed demand_def intro!: only_validation_intros)

interpretation addSymbols: service_call "addSymbols J C wid symbols"
  "bindE (demand ''Watchlist ID cannot be empty'' (wid \<noteq> [])) (\<lambda>_. demand ''Symbols list cannot be empty'' (symbols \<noteq> []))"
  "\<lambda>_. cl_post C (''/watchlists/'' @ wid @ ''/symbols'') [(''symbols'', joinS '','' symbols)]"
  "expectParsed J ''Failed to add symbols to watchlist: '' (RuntimeError ''Failed to parse add symbols response'')
     (parseWatchlist J ''Invalid add symbols response format'')"
  "''addSymbols''" for J C wid symbols
  by (rule service_callI [OF addSymbols_def],
      auto simp: liftIO_bindE liftIO_expectParsed demand_def intro!: only_validation_intros)

interpretation removeSymbol: service_call "removeSymbol J C wid sy"
  "bindE (demand ''Watchlist ID cannot be empty'' (wid \<noteq> [])) (\<lambda>_. demand ''Symbol cannot be empty'' (sy \<noteq> []))"
  "\<lambda>_. cl_del C (''/watchlists/'' @ wid @ ''/symbols/'' @ sy) []"
  "expectParsed J ''Failed to remove symbol from watchlist: '' (RuntimeError ''Failed to parse remove symbol response'')
     (parseWatchlist J ''Invalid remove symbol response format'')"
  "''removeSymbol''" for J C wid sy
  by (rule service_callI [OF removeSymbol_def],
      auto simp: liftIO_bindE liftIO_expectParsed demand_def intro!: only_validation_intros)

section \<open>Properties\<close>

text \<open>
  Requests with a missing argument never leave the client: with an empty watchlist id, an empty
  name, an empty symbol or no symbols, the operations of \<open>WatchlistService\<close> return an error with
  status 0 and the world is as before.
\<close>

theorem watchlist_validation_is_local:
  "(\<exists>r. getWatchlist J C [] w = Some (Inr r, w) \<and> failsWith 0 r) \<and>
   (\<exists>r. createWatchlist J C [] symbols w = Some (Inr r, w) \<and> failsWith 0 r) \<and>
   (\<exists>r. updateWatchlist J C [] name symbols w = Some (Inr r, w) \<and> failsWith 0 r) \<and>
   (\<exists>r. updateWatchlist J C wid [] symbols w = Some (Inr r, w) \<and> failsWith 0 r) \<and>
   (\<exists>r. deleteWatchlist J C [] w = Some (Inr r, w) \<and> failsWith 0 r) \<and>
   (\<exists>r. addSymbols J C wid [] w = Some (Inr r, w) \<and> failsWith 0 r) \<and>
   (\<exists>r. removeSymbol J C wid [] w = Some (Inr r, w) \<and> failsWith 0 r)"
proof -
  have "\<exists>e. bindE (demand m (x \<noteq> [])) (\<lambda>_. demand m' False) = Inl e" for m m' and x :: string
    by (cases "x = []") (simp_all add: demand_def whenE_def)
  note two = this
  have one: "demand m False = Inl (ValidationError m)" for m by (simp add: demand_not_ok)
  show ?thesis
    using getWatchlist.rejects [of "[]" _ J C w] createWatchlist.rejects [of "[]" _ J C symbols w]
      updateWatchlist.rejects [of "[]" name _ J C symbols w] updateWatchlist.rejects [of wid "[]" _ J C symbols w]
      deleteWatchlist.rejects [of "[]" _ J C w] addSymbols.rejects [of wid "[]" _ J C w]
      removeSymbol.rejects [of wid "[]" _ J C w] two one by simp metis
qed

text \<open>
  The list of symbols arrives as it was given: the \<open>symbols\<close> field of the form splits at commas into
  exactly the symbols of the call, in order, when no symbol contains a comma.
\<close>

theorem watchlist_symbols_roundtrip:
  assumes "symbols \<noteq> []" "\<forall>s \<in> set symbols. CHR '','' \<notin> set s"
  shows "map_option (splitOn (CHR '','')) (map_of (watchlistForm name symbols) ''symbols'') = Some symbols \<and>
         map_of (watchlistForm name symbols) ''name'' = Some name"
proof -
  have "splitOn (CHR '','') (joinS '','' symbols) = symbols"
    using assms by (intro splitOn_joinS) auto
  then show ?thesis
    using assms(1) by (simp add: watchlistForm_def putIf_def)
qed

text \<open>Witness: two symbols.\<close>

theorem watchlist_symbols_roundtrip_witness:
  "map_option (splitOn (CHR '','')) (map_of (watchlistForm ''tech'' [''AAPL'', ''MSFT'']) ''symbols'') = Some [''AAPL'', ''MSFT''] \<and>
   map_of (watchlistForm ''tech'' [''AAPL'', ''MSFT'']) ''name'' = Some ''tech''"
  by (rule watchlist_symbols_roundtrip) simp_all

text \<open>
  A document without a \<open>watchlist\<close> member is an error, but not the one the code throws: the
  \<open>ApiError\<close> of status 400 is swallowed by \<open>parseResponse\<close>, and the caller who reads or creates
  a watchlist gets an internal error with status 0.
\<close>

theorem watchlist_format_error_is_internal:
  assumes "success resp" "j_parse J (body resp) = Inr doc" "\<not> j_contains J doc ''watchlist''"
    and "\<forall>ep ps. cl_get C ep ps w = Some (Inr resp, w')" "\<forall>ep ps. cl_post C ep ps w = Some (Inr resp, w')"
    and "wid \<noteq> []" "name \<noteq> []"
  shows "parseWatchlist J msg doc = throwApi 400 msg \<and>
    (\<exists>r. getWatchlist J C wid w = Some (Inr r, w') \<and> failsWith 0 r) \<and>
    (\<exists>r. createWatchlist J C name symbols w = Some (Inr r, w') \<and> failsWith 0 r)"
proof -
  have parse: "parseWatchlist J m doc = throwApi 400 m" for m
    using assms(3) by (simp add: parseWatchlist_def)
  then have none: "expectParsed J f (RuntimeError e) (parseWatchlist J m) resp = Inl (RuntimeError e)" for f e m
    using assms(1,2) by (simp add: expectParsed_def parseResponse_def jx_def throwApi_def)
  have fails: "failsWith 0 (tryExecute (Inl (RuntimeError e)) op :: Watchlist ApiResult)" for e op
    using failsWith_tryExecute [of "RuntimeError e" op] by simp
  have "demand m (wid \<noteq> []) = Inr ()" "demand m (name \<noteq> []) = Inr ()" for m
    using assms(6,7) by (simp_all add: demand_ok)
  then show ?thesis
    using parse none fails assms(4,5)
      getWatchlist.sends_once [of wid "()" J C w] createWatchlist.sends_once [of name "()" J C symbols w] by simp
qed

text \<open>Witness: a server that answers every request with an empty object.\<close>

definition emptyDocClient :: "unit client_ops" where
  "emptyDocClient = (let answer = (\<lambda>ep ps w. Some (Inr \<lparr>status = 200, body = ''{}'', headers = []\<rparr>, w))
     in \<lparr>cl_get = answer, cl_post = answer, cl_put = answer, cl_del = answer\<rparr>)"

theorem watchlist_format_error_is_internal_witness:
  "\<exists>r. getWatchlist (jref (\<lambda>s. Inr (JObj []))) emptyDocClient ''w1'' () = Some (Inr r, ()) \<and> failsWith 0 r"
  using watchlist_format_error_is_internal [of "\<lparr>status = 200, body = ''{}'', headers = []\<rparr>"
      "jref (\<lambda>s. Inr (JObj []))" "JObj []" emptyDocClient "()" "()" "''w1''" "''n''" "[]" "[]"]
  by (simp add: success_def jref_def emptyDocClient_def Let_def)

end
