(* ===== verification/Auth.thy ===== *)
theory Auth
  imports Client
begin

text \<open>
  \<^verbatim>\<open>auth.hpp\<close> and \<^verbatim>\<open>auth.cpp\<close>: \<open>AuthService\<close>, the OAuth 2 flow with PKCE and anti-forgery states, and the
  token helpers of the namespace \<open>auth\<close>. The state of the service is the record \<open>AuthService\<close>, kept in
  the field \<open>auth\<close> of the world; times are nanoseconds of the system clock. Callbacks may throw; their
  calls are logged in \<open>tokenEvents\<close> and \<open>errorEvents\<close>, and they do not call back into the service. The
  service talks to libcurl itself, not through the HTTP client.
\<close>

section \<open>Data\<close>

datatype TokenType = ACCESS_TOKEN | REFRESH_TOKEN

datatype TokenScope = READ | WRITE | SCOPE_MARKET | TRADE | STREAM

record TokenInfo =
  tokenAccess :: string
  tokenRefresh :: string
  tokenType :: string
  expiresAt :: int
  issuedAt :: int
  scopes :: "TokenScope list"
  isValid :: bool

definition emptyToken :: TokenInfo where
  "emptyToken = \<lparr>tokenAccess = [], tokenRefresh = [], tokenType = ''Bearer'', expiresAt = 0, issuedAt = 0,
     scopes = [], isValid = False\<rparr>"

record AuthEndpoints =
  authorizationUrl :: string
  accessTokenUrl :: string
  refreshTokenUrl :: string
  revokeTokenUrl :: string
  userProfileUrl :: string

record AuthConfig =
  clientId :: string
  clientSecret :: string
  redirectUri :: string
  requestedScopes :: "TokenScope list"
  usePKCE :: bool
  stateExpiration :: int
  autoRefresh :: bool
  refreshThreshold :: int

record AuthService =
  authConfig :: AuthConfig
  endpoints :: AuthEndpoints
  stateCache :: "(string, int) smap"
  currentState :: string
  codeVerifier :: string
  codeChallenge :: string
  tokenRefreshCallback :: "(TokenInfo \<Rightarrow> unit fallible) option"
  errorCallback :: "(string \<Rightarrow> unit fallible) option"

record auth_world = world +
  auth :: AuthService
  tokenEvents :: "TokenInfo list"
  errorEvents :: "string list"

type_synonym ('z, 'a) auth_io = "('z auth_world_scheme, exn, 'a) io"

definition onAuth :: "(AuthService \<Rightarrow> AuthService) \<Rightarrow> 'z auth_world_scheme \<Rightarrow> 'z auth_world_scheme" where
  "onAuth f w = w\<lparr>auth := f (auth w)\<rparr>"

section \<open>Scopes\<close>

fun scopeToString :: "TokenScope \<Rightarrow> string" where
  "scopeToString READ = ''read''"
| "scopeToString WRITE = ''write''"
| "scopeToString SCOPE_MARKET = ''market''"
| "scopeToString TRADE = ''trade''"
| "scopeToString STREAM = ''stream''"

definition scopesToString :: "TokenScope list \<Rightarrow> string" where
  "scopesToString ss = joinS '' '' (map scopeToString ss)"

definition scopeOfString :: "string \<Rightarrow> TokenScope option" where
  "scopeOfString s =
     (if s = ''read'' then Some READ
      else if s = ''write'' then Some WRITE
      else if s = ''market'' then Some SCOPE_MARKET
      else if s = ''trade'' then Some TRADE
      else if s = ''stream'' then Some STREAM
      else None)"

text \<open>Empty pieces, which \<open>std::getline\<close> may or may not deliver at the end, name no scope.\<close>

definition parseScopeString :: "string \<Rightarrow> TokenScope list" where
  "parseScopeString s = List.map_filter scopeOfString (splitOn (CHR '' '') s)"

section \<open>TokenInfo\<close>

definition hasScope :: "TokenInfo \<Rightarrow> TokenScope \<Rightarrow> bool" where
  "hasScope t s \<longleftrightarrow> s \<in> set (scopes t)"

definition isExpired :: "net \<Rightarrow> TokenInfo \<Rightarrow> ('z world_scheme, exn, bool) io" where
  "isExpired n t = bindIO (systemNow n) (\<lambda>now. returnIO (expiresAt t \<le> now))"

definition isExpiringSoon :: "net \<Rightarrow> TokenInfo \<Rightarrow> int \<Rightarrow> ('z world_scheme, exn, bool) io" where
  "isExpiringSoon n t threshold =
     bindIO (systemNow n) (\<lambda>now. returnIO (expiresAt t - seconds (60 * threshold) \<le> now))"

definition getScopeString :: "TokenInfo \<Rightarrow> string" where
  "getScopeString t = scopesToString (scopes t)"

definition getSecondsUntilExpiry :: "net \<Rightarrow> TokenInfo \<Rightarrow> ('z world_scheme, exn, int) io" where
  "getSecondsUntilExpiry n t =
     bindIO (systemNow n) (\<lambda>now.
       if expiresAt t \<le> now then returnIO 0 else returnIO ((expiresAt t - now) div 1000000000))"

section \<open>Construction and configuration\<close>

definition forEnvironment :: "bool \<Rightarrow> AuthEndpoints" where
  "forEnvironment sandbox =
     (if sandbox then
        \<lparr>authorizationUrl = ''https://sandbox.tradier.com/oauth/authorize'',
         accessTokenUrl = ''https://sandbox.tradier.com/oauth/accesstoken'',
         refreshTokenUrl = ''https://sandbox.tradier.com/oauth/accesstoken'',
         revokeTokenUrl = ''https://sandbox.tradier.com/oauth/revoke'',
         userProfileUrl = ''https://sandbox.tradier.com/v1/user/profile''\<rparr>
      else
        \<lparr>authorizationUrl = ''https://api.tradier.com/oauth/authorize'',
         accessTokenUrl = ''https://api.tradier.com/oauth/accesstoken'',
         refreshTokenUrl = ''https://api.tradier.com/oauth/accesstoken'',
         revokeTokenUrl = ''https://api.tradier.com/oauth/revoke'',
         userProfileUrl = ''https://api.tradier.com/v1/user/profile''\<rparr>)"

definition newAuthService :: "Config \<Rightarrow> AuthConfig \<Rightarrow> AuthService" where
  "newAuthService clientConfig cfg =
     \<lparr>authConfig = cfg, endpoints = forEnvironment (sandboxMode clientConfig), stateCache = [],
      currentState = [], codeVerifier = [], codeChallenge = [],
      tokenRefreshCallback = None, errorCallback = None\<rparr>"

definition createConfig :: "string \<Rightarrow> string \<Rightarrow> string \<Rightarrow> AuthConfig" where
  "createConfig cid secret uri =
     \<lparr>clientId = cid, clientSecret = secret,
      redirectUri = (if uri = [] then ''http://localhost:8080/callback'' else uri),
      requestedScopes = [READ, WRITE, TRADE, SCOPE_MARKET], usePKCE = True,
      stateExpiration = 600, autoRefresh = True, refreshThreshold = 5\<rparr>"

definition setConfig :: "AuthConfig \<Rightarrow> AuthService \<Rightarrow> AuthService" where
  "setConfig cfg s = s\<lparr>authConfig := cfg\<rparr>"

definition setTokenRefreshCallback :: "(TokenInfo \<Rightarrow> unit fallible) option \<Rightarrow> AuthService \<Rightarrow> AuthService" where
  "setTokenRefreshCallback cb s = s\<lparr>tokenRefreshCallback := cb\<rparr>"

definition setErrorCallback :: "(string \<Rightarrow> unit fallible) option \<Rightarrow> AuthService \<Rightarrow> AuthService" where
  "setErrorCallback cb s = s\<lparr>errorCallback := cb\<rparr>"

definition clearState :: "AuthService \<Rightarrow> AuthService" where
  "clearState s = s\<lparr>stateCache := [], currentState := [], codeVerifier := [], codeChallenge := []\<rparr>"

section \<open>Random strings and the code challenge\<close>

definition charset :: string where
  "charset = ''ABCDEFGHIJKLMNOPQRSTUVWXYZabcdefghijklmnopqrstuvwxyz0123456789-._~''"

definition generateRandomString :: "net \<Rightarrow> nat \<Rightarrow> ('z world_scheme, exn, string) io" where
  "generateRandomString n len w =
     (case RAND_bytes n (calls w) len of
        None \<Rightarrow> Some (Inl (RuntimeError ''Failed to generate random bytes''), tick w)
      | Some randomBytes \<Rightarrow>
          Some (Inr (map (\<lambda>i. charset ! (unat (randomBytes ! i) mod length charset)) [0..<len]), tick w))"

definition generateCodeVerifier :: "net \<Rightarrow> ('z world_scheme, exn, string) io" where
  "generateCodeVerifier n = generateRandomString n 128"

definition sha256 :: "net \<Rightarrow> string \<Rightarrow> ('z world_scheme, exn, string) io" where
  "sha256 n input w = Some (map_sum RuntimeError id (EVP_sha256 n (calls w) input), tick w)"

definition generateCodeChallenge :: "net \<Rightarrow> string \<Rightarrow> ('z world_scheme, exn, string) io" where
  "generateCodeChallenge n verifier = bindIO (sha256 n verifier) (\<lambda>hash. returnIO (base64UrlEncode hash))"

section \<open>States\<close>

definition cleanupExpiredStates :: "net \<Rightarrow> ('z, unit) auth_io" where
  "cleanupExpiredStates n =
     bindIO (systemNow n) (\<lambda>now.
       modifyIO (onAuth (\<lambda>s. s\<lparr>stateCache := filter (\<lambda>(k, t).
         \<not> (t + seconds (stateExpiration (authConfig s)) < now)) (stateCache s)\<rparr>)))"

definition validateState :: "net \<Rightarrow> string \<Rightarrow> ('z, bool) auth_io" where
  "validateState n state =
     bindIO (cleanupExpiredStates n) (\<lambda>_.
     bindIO (getIO auth) (\<lambda>s.
       case map_of (stateCache s) state of
         None \<Rightarrow> returnIO False
       | Some t \<Rightarrow>
           bindIO (systemNow n) (\<lambda>now.
           bindIO (modifyIO (onAuth (stateCache_update (map_erase state)))) (\<lambda>_.
             returnIO (now \<le> t + seconds (stateExpiration (authConfig s)))))))"

text \<open>The \<open>std::ostringstream\<close> of \<open>getAuthorizationUrl\<close>.\<close>

definition authorizationText :: "TokenScope list \<Rightarrow> AuthService \<Rightarrow> string" where
  "authorizationText ss s =
     authorizationUrl (endpoints s) @ ''?response_type=code'' @
     ''&client_id='' @ urlEncode (clientId (authConfig s)) @
     ''&redirect_uri='' @ urlEncode (redirectUri (authConfig s)) @
     ''&scope='' @ urlEncode (scopesToString ss) @
     ''&state='' @ urlEncode (currentState s) @
     (if usePKCE (authConfig s)
      then ''&code_challenge='' @ urlEncode (codeChallenge s) @ ''&code_challenge_method=S256'' else [])"

definition getAuthorizationUrl :: "net \<Rightarrow> TokenScope list \<Rightarrow> ('z, string) auth_io" where
  "getAuthorizationUrl n ss =
     bindIO (cleanupExpiredStates n) (\<lambda>_.
     bindIO (generateRandomString n 32) (\<lambda>st.
     bindIO (modifyIO (onAuth (currentState_update (\<lambda>_. st)))) (\<lambda>_.
     bindIO (systemNow n) (\<lambda>now.
     bindIO (modifyIO (onAuth (stateCache_update (map_put st now)))) (\<lambda>_.
     bindIO (getIO auth) (\<lambda>s.
     bindIO (if usePKCE (authConfig s) then
               bindIO (generateCodeVerifier n) (\<lambda>v.
               bindIO (modifyIO (onAuth (codeVerifier_update (\<lambda>_. v)))) (\<lambda>_.
               bindIO (generateCodeChallenge n v) (\<lambda>c.
               modifyIO (onAuth (codeChallenge_update (\<lambda>_. c))))))
             else returnIO ()) (\<lambda>_.
     getIO (\<lambda>w. authorizationText ss (auth w)))))))))"

definition getDefaultAuthorizationUrl :: "net \<Rightarrow> ('z, string) auth_io" where
  "getDefaultAuthorizationUrl n =
     bindIO (getIO (\<lambda>w. requestedScopes (authConfig (auth w)))) (getAuthorizationUrl n)"

section \<open>Token requests\<close>

fun plainLoop :: "params \<Rightarrow> bool \<Rightarrow> string \<Rightarrow> string" where
  "plainLoop [] first postData = postData"
| "plainLoop ((key, val) # ps) first postData =
     plainLoop ps False ((if \<not> first then postData @ ''&'' else postData) @ key @ ''='' @ val)"

definition authRequest :: "string \<Rightarrow> string option \<Rightarrow> string list \<Rightarrow> request" where
  "authRequest url postData hl =
     \<lparr>CURLOPT_URL = url, CURLOPT_VERB = (if postData = None then HTTPGET else HTTPPOST),
      CURLOPT_POSTFIELDS = postData, CURLOPT_HTTPHEADER = hl, CURLOPT_TIMEOUT = 0\<rparr>"

definition authCurlInit :: "net \<Rightarrow> ('z world_scheme, exn, unit) io" where
  "authCurlInit n w =
     Some (if curl_easy_init n (calls w) then Inr ()
           else Inl (ConnectionError ''Failed to initialize CURL for auth''), tick w)"

text \<open>The transfer: the error of libcurl, or the status and the body.\<close>

definition authPerform :: "net \<Rightarrow> request \<Rightarrow> ('z world_scheme, exn, string + int \<times> string) io" where
  "authPerform n req w =
     Some (Inr (map_sum id (\<lambda>t. (responseCode t, concat (bodyChunks t))) (curl_easy_perform n (calls w) req)),
       (tick w)\<lparr>sent := sent w @ [req]\<rparr>)"

definition ok2xx :: "int \<Rightarrow> bool" where
  "ok2xx code \<longleftrightarrow> 200 \<le> code \<and> code < 300"

text \<open>The call of an optional callback, in which exceptions thrown by it continue.\<close>

definition notifyToken :: "TokenInfo \<Rightarrow> ('z, unit) auth_io" where
  "notifyToken t w =
     (case tokenRefreshCallback (auth w) of
        None \<Rightarrow> Some (Inr (), w)
      | Some cb \<Rightarrow> Some (cb t, w\<lparr>tokenEvents := tokenEvents w @ [t]\<rparr>))"

definition notifyError :: "string \<Rightarrow> ('z, unit) auth_io" where
  "notifyError m w =
     (case errorCallback (auth w) of
        None \<Rightarrow> Some (Inr (), w)
      | Some cb \<Rightarrow> Some (cb m, w\<lparr>errorEvents := errorEvents w @ [m]\<rparr>))"

text \<open>
  The part that the exchange and the refresh share: the fields of the token response. \<open>keep\<close> is the
  refresh token used when the response has none.
\<close>

definition readToken :: "'j json_api \<Rightarrow> net \<Rightarrow> string \<Rightarrow> 'j \<Rightarrow> ('z world_scheme, exn, TokenInfo) io" where
  "readToken J n keep json =
     bindIO (liftIO (jx (j_value_string J json ''access_token'' []))) (\<lambda>access.
     bindIO (liftIO (jx (j_value_string J json ''refresh_token'' keep))) (\<lambda>refresh.
     bindIO (liftIO (jx (j_value_string J json ''token_type'' ''Bearer''))) (\<lambda>typ.
     bindIO (liftIO (jx (j_value_int J json ''expires_in'' 86400))) (\<lambda>expiresIn.
     bindIO (systemNow n) (\<lambda>now.
     bindIO (liftIO (jx (j_value_string J json ''scope'' []))) (\<lambda>scopeString.
     returnIO \<lparr>tokenAccess = access, tokenRefresh = refresh, tokenType = typ,
       expiresAt = now + seconds expiresIn, issuedAt = now,
       scopes = parseScopeString scopeString, isValid = (access \<noteq> [])\<rparr>))))))"

definition tokenRequest ::
  "'j json_api \<Rightarrow> net \<Rightarrow> string \<Rightarrow> params \<Rightarrow> string \<Rightarrow> string \<Rightarrow> ('z, TokenInfo) auth_io" where
  "tokenRequest J n url ps failure keep =
     bindIO (authCurlInit n) (\<lambda>_.
     bindIO (authPerform n (authRequest url (Some (plainLoop ps True [])) [])) (\<lambda>res.
     case res of
       Inl m \<Rightarrow> throwIO (ConnectionError (''CURL error: '' @ m))
     | Inr (code, responseBody) \<Rightarrow>
         if \<not> ok2xx code then throwIO (ApiError (ApiErr code (failure @ responseBody) []))
         else bindIO (liftIO (jx (j_parse J responseBody))) (\<lambda>json.
              bindIO (readToken J n keep json) (\<lambda>tokenInfo.
              bindIO (notifyToken tokenInfo) (\<lambda>_. returnIO tokenInfo)))))"

text \<open>The two \<open>catch\<close> clauses.\<close>

definition tokenHandler :: "string \<Rightarrow> string \<Rightarrow> exn \<Rightarrow> ('z, 'a) auth_io" where
  "tokenHandler invalid context e =
     (case e of
        JsonException m \<Rightarrow> throwIO (ApiError (ApiErr 400 (invalid @ m) []))
      | _ \<Rightarrow> bindIO (notifyError (context @ what e)) (\<lambda>_. throwIO e))"

definition exchangeParams :: "AuthService \<Rightarrow> string \<Rightarrow> params" where
  "exchangeParams s authCode =
     (let ps = map_put ''grant_type'' ''authorization_code'' [];
          ps = map_put ''code'' authCode ps;
          ps = map_put ''client_id'' (clientId (authConfig s)) ps;
          ps = map_put ''client_secret'' (clientSecret (authConfig s)) ps;
          ps = map_put ''redirect_uri'' (redirectUri (authConfig s)) ps
      in putIf (usePKCE (authConfig s) \<and> codeVerifier s \<noteq> []) ''code_verifier'' (codeVerifier s) ps)"

definition exchangeAuthorizationCode ::
  "'j json_api \<Rightarrow> net \<Rightarrow> string \<Rightarrow> string \<Rightarrow> ('z, TokenInfo) auth_io" where
  "exchangeAuthorizationCode J n authCode state =
     bindIO (liftIO (whenE (authCode = []) (Inl (ValidationError ''Authorization code cannot be empty'')))) (\<lambda>_.
     bindIO (if state \<noteq> [] then
               bindIO (validateState n state) (\<lambda>ok.
                 if \<not> ok then throwIO (ValidationError ''Invalid or expired state parameter'') else returnIO ())
             else returnIO ()) (\<lambda>_.
     bindIO (getIO auth) (\<lambda>s.
     catchIO
       (bindIO (tokenRequest J n (accessTokenUrl (endpoints s)) (exchangeParams s authCode)
                  ''Token exchange failed: '' []) (\<lambda>tokenInfo.
        bindIO (modifyIO (onAuth clearState)) (\<lambda>_. returnIO tokenInfo)))
       (tokenHandler ''Invalid token response: '' ''Token exchange error: ''))))"

definition refreshParams :: "AuthService \<Rightarrow> string \<Rightarrow> params" where
  "refreshParams s refresh =
     (let ps = map_put ''grant_type'' ''refresh_token'' [];
          ps = map_put ''refresh_token'' refresh ps;
          ps = map_put ''client_id'' (clientId (authConfig s)) ps
      in map_put ''client_secret'' (clientSecret (authConfig s)) ps)"

definition refreshAccessToken :: "'j json_api \<Rightarrow> net \<Rightarrow> string \<Rightarrow> ('z, TokenInfo) auth_io" where
  "refreshAccessToken J n refresh =
     bindIO (liftIO (whenE (refresh = []) (Inl (ValidationError ''Refresh token cannot be empty'')))) (\<lambda>_.
     bindIO (getIO auth) (\<lambda>s.
     catchIO
       (tokenRequest J n (refreshTokenUrl (endpoints s)) (refreshParams s refresh)
          ''Token refresh failed: '' refresh)
       (tokenHandler ''Invalid refresh response: '' ''Token refresh error: '')))"

definition revokeParams :: "AuthService \<Rightarrow> string \<Rightarrow> TokenType \<Rightarrow> params" where
  "revokeParams s token typ =
     (let ps = map_put ''token'' token [];
          ps = map_put ''token_type_hint'' (if typ = REFRESH_TOKEN then ''refresh_token'' else ''access_token'') ps;
          ps = map_put ''client_id'' (clientId (authConfig s)) ps
      in map_put ''client_secret'' (clientSecret (authConfig s)) ps)"

definition revokeToken :: "net \<Rightarrow> string \<Rightarrow> TokenType \<Rightarrow> ('z, bool) auth_io" where
  "revokeToken n token typ =
     bindIO (liftIO (whenE (token = []) (Inl (ValidationError ''Token cannot be empty'')))) (\<lambda>_.
     bindIO (getIO auth) (\<lambda>s.
     catchIO
       (bindIO (authCurlInit n) (\<lambda>_.
        bindIO (authPerform n (authRequest (revokeTokenUrl (endpoints s))
                  (Some (plainLoop (revokeParams s token typ) True [])) [])) (\<lambda>res.
        returnIO (case res of Inl m \<Rightarrow> False | Inr (code, _) \<Rightarrow> ok2xx code))))
       (\<lambda>e. returnIO False)))"

definition authHeader :: "net \<Rightarrow> string \<Rightarrow> ('z world_scheme, exn, string list) io" where
  "authHeader n h w =
     Some (if curl_slist_append n (calls w) then Inr [h]
           else Inl (ConnectionError ''Failed to append CURL header''), tick w)"

definition getTokenInfo :: "'j json_api \<Rightarrow> net \<Rightarrow> string \<Rightarrow> ('z, TokenInfo) auth_io" where
  "getTokenInfo J n token =
     (let info = emptyToken\<lparr>tokenAccess := token, isValid := False\<rparr>
      in if token = [] then returnIO info
         else bindIO (getIO auth) (\<lambda>s.
           catchIO
             (bindIO (authCurlInit n) (\<lambda>_.
              bindIO (authHeader n (''Authorization: Bearer '' @ token)) (\<lambda>hl.
              bindIO (authPerform n (authRequest (userProfileUrl (endpoints s)) None hl)) (\<lambda>res.
              case res of
                Inl m \<Rightarrow> returnIO info
              | Inr (code, responseBody) \<Rightarrow>
                  if \<not> ok2xx code then returnIO info
                  else if (case j_parse J responseBody of
                             Inr json \<Rightarrow> j_contains J json ''profile'' | Inl m \<Rightarrow> True)
                  then bindIO (systemNow n) (\<lambda>now.
                         returnIO (info\<lparr>isValid := True, issuedAt := now, expiresAt := now + seconds 86400\<rparr>))
                  else returnIO (info\<lparr>isValid := True\<rparr>)))))
             (\<lambda>e. returnIO info)))"

definition isTokenValid :: "net \<Rightarrow> TokenInfo \<Rightarrow> ('z world_scheme, exn, bool) io" where
  "isTokenValid n t =
     (if \<not> isValid t then returnIO False
      else bindIO (isExpired n t) (\<lambda>expired. returnIO (\<not> expired \<and> tokenAccess t \<noteq> [])))"

definition autoRefreshIfNeeded :: "'j json_api \<Rightarrow> net \<Rightarrow> TokenInfo \<Rightarrow> ('z, TokenInfo) auth_io" where
  "autoRefreshIfNeeded J n t =
     bindIO (getIO auth) (\<lambda>s.
     if \<not> autoRefresh (authConfig s) \<or> tokenRefresh t = [] then returnIO t
     else bindIO (isExpiringSoon n t (refreshThreshold (authConfig s))) (\<lambda>soon.
       if soon then
         catchIO (refreshAccessToken J n (tokenRefresh t))
           (\<lambda>e. bindIO (notifyError (''Auto-refresh failed: '' @ what e)) (\<lambda>_. returnIO t))
       else returnIO t))"

definition validateToken :: "'j json_api \<Rightarrow> net \<Rightarrow> string \<Rightarrow> ('z, bool) auth_io" where
  "validateToken J n token =
     (if token = [] then returnIO False
      else bindIO (getTokenInfo J n token) (isTokenValid n))"

section \<open>Redirect URLs\<close>

definition hostChar :: "char \<Rightarrow> bool" where
  "hostChar c \<longleftrightarrow> is_alnum c \<or> c = CHR ''.'' \<or> c = CHR ''-''"

definition lineEnd :: "char \<Rightarrow> bool" where
  "lineEnd c \<longleftrightarrow> (of_char c :: nat) = 10 \<or> (of_char c :: nat) = 13"

text \<open>The pattern \<open>^https?://[a-zA-Z0-9.-]+(?:\:[0-9]+)?(?:/.*)?$\<close>.\<close>

definition isValidRedirectUri :: "string \<Rightarrow> bool" where
  "isValidRedirectUri uri =
     (let afterScheme =
        (if is_prefix ''https://'' uri then Some (drop 8 uri)
         else if is_prefix ''http://'' uri then Some (drop 7 uri) else None)
      in case afterScheme of
           None \<Rightarrow> False
         | Some r \<Rightarrow>
             (let host = takeWhile hostChar r; rest = dropWhile hostChar r;
                  port = takeWhile is_digit (tl rest);
                  path = (if rest \<noteq> [] \<and> hd rest = CHR '':'' then dropWhile is_digit (tl rest) else rest)
              in host \<noteq> [] \<and>
                 (if rest \<noteq> [] \<and> hd rest = CHR '':'' then port \<noteq> [] else True) \<and>
                 (path = [] \<or> (hd path = CHR ''/'' \<and> list_all (\<lambda>c. \<not> lineEnd c) (tl path)))))"

text \<open>The first match of \<open>[?&]name=([^&]+)\<close>.\<close>

fun findParam :: "string \<Rightarrow> string \<Rightarrow> string" where
  "findParam name [] = []"
| "findParam name (c # s) =
     (let v = takeWhile (\<lambda>x. x \<noteq> CHR ''&'') (drop (length name + 1) s)
      in if (c = CHR ''?'' \<or> c = CHR ''&'') \<and> is_prefix (name @ ''='') s \<and> v \<noteq> [] then v
         else findParam name s)"

definition extractAuthCodeFromUrl :: "string \<Rightarrow> string" where
  "extractAuthCodeFromUrl url = findParam ''code'' url"

definition extractStateFromUrl :: "string \<Rightarrow> string" where
  "extractStateFromUrl url = findParam ''state'' url"

definition extractErrorFromUrl :: "string \<Rightarrow> string" where
  "extractErrorFromUrl url = findParam ''error'' url"

section \<open>Token files\<close>

text \<open>
  The files are a map from paths to contents; opening and writing are the parameter \<open>F\<close>. The members
  that \<open>saveTokenToFile\<close> puts into a JSON object are a list of named fields, and \<open>dump\<close> is \<open>j.dump(4)\<close> of
  that object, which throws for strings that are not UTF-8.
\<close>

record file_ops =
  can_open :: "string \<Rightarrow> bool"
  written :: "string \<Rightarrow> string \<Rightarrow> string \<times> bool"
  can_remove :: "string \<Rightarrow> bool"

definition tokenFields :: "TokenInfo \<Rightarrow> (string \<times> jfield) list" where
  "tokenFields t =
     [(''access_token'', FStr (tokenAccess t)),
      (''refresh_token'', FStr (tokenRefresh t)),
      (''token_type'', FStr (tokenType t)),
      (''expires_at'', FInt (truncSeconds (expiresAt t))),
      (''issued_at'', FInt (truncSeconds (issuedAt t))),
      (''is_valid'', FBool (isValid t)),
      (''scopes'', FStrs (map scopeToString (scopes t)))]"

definition saveTokenToFile ::
  "file_ops \<Rightarrow> ((string \<times> jfield) list \<Rightarrow> string + string) \<Rightarrow> TokenInfo \<Rightarrow> string \<Rightarrow> (string \<rightharpoonup> string) \<Rightarrow>
     bool \<times> (string \<rightharpoonup> string)" where
  "saveTokenToFile F dump token filepath files =
     (if \<not> can_open F filepath then (False, files)
      else case dump (tokenFields token) of
             Inl m \<Rightarrow> (False, files(filepath \<mapsto> []))
           | Inr text \<Rightarrow>
               (case written F filepath text of (content, good) \<Rightarrow> (good, files(filepath \<mapsto> content))))"

definition loadScopes :: "'j json_api \<Rightarrow> 'j \<Rightarrow> TokenScope list fallible" where
  "loadScopes J json =
     ifE (if j_contains J json ''scopes'' then map_sum id (j_is_array J) (atE J json ''scopes'') else Inr False)
       (bindE (atE J json ''scopes'') (\<lambda>ss.
          map_sum id (List.map_filter scopeOfString) (traverseE (\<lambda>x. jx (j_string J x)) (j_elems J ss))))
       (Inr [])"

text \<open>
  The file is read with \<open>operator>>\<close>, which stops at the end of the document; \<open>j_parse\<close> also wants the
  document to end there, so the model is exact for files that hold one document and nothing behind it, as
  \<open>saveTokenToFile\<close> writes them.
\<close>

definition loadTokenFromFile :: "'j json_api \<Rightarrow> string \<Rightarrow> (string \<rightharpoonup> string) \<Rightarrow> TokenInfo" where
  "loadTokenFromFile J filepath files =
     (case files filepath of
        None \<Rightarrow> emptyToken
      | Some text \<Rightarrow>
          (case bindE (jx (j_parse J text)) (\<lambda>j.
             let time = (\<lambda>k. bindE (atE J j k) (\<lambda>x. map_sum id seconds (jx (j_long J x))))
             in run [
               assign tokenAccess_update (jx (j_value_string J j ''access_token'' [])),
               assign tokenRefresh_update (jx (j_value_string J j ''refresh_token'' [])),
               assign tokenType_update (jx (j_value_string J j ''token_type'' ''Bearer'')),
               assign isValid_update (jx (j_value_bool J j ''is_valid'' False)),
               onlyIf (j_contains J j ''expires_at'') (assign expiresAt_update (time ''expires_at'')),
               onlyIf (j_contains J j ''issued_at'') (assign issuedAt_update (time ''issued_at'')),
               assign scopes_update (loadScopes J j)]
               emptyToken) of
             Inr token \<Rightarrow> token
           | Inl e \<Rightarrow> emptyToken))"

definition deleteTokenFile :: "file_ops \<Rightarrow> string \<Rightarrow> (string \<rightharpoonup> string) \<Rightarrow> bool \<times> (string \<rightharpoonup> string)" where
  "deleteTokenFile F filepath files =
     (if files filepath \<noteq> None \<and> can_remove F filepath then (True, files(filepath := None)) else (False, files))"

end
