(* ===== verification/Auth_Properties.thy ===== *)
theory Auth_Properties
  imports Auth
begin

text \<open>
  What \<open>AuthService\<close> guarantees: anti-forgery states are single-use and expire, the authorization URL
  carries what was asked for, tokens are read and stored faithfully, and where the token requests
  fall short.
\<close>

section \<open>Running the steps\<close>

lemma onAuth_fields [simp]:
  "auth (onAuth f w) = f (auth w)" "calls (onAuth f w) = calls w" "sent (onAuth f w) = sent w"
  "tokenEvents (onAuth f w) = tokenEvents w" "errorEvents (onAuth f w) = errorEvents w"
  by (simp_all add: onAuth_def)

lemma auth_tick [simp]:
  "auth (tick w) = auth w" "tokenEvents (tick w) = tokenEvents w" "errorEvents (tick w) = errorEvents w"
  by (simp_all add: tick_def)

definition expiry :: "AuthService \<Rightarrow> int" where
  "expiry s = seconds (stateExpiration (authConfig s))"

definition live :: "int \<Rightarrow> AuthService \<Rightarrow> AuthService" where
  "live now s = s\<lparr>stateCache := filter (\<lambda>(k, t). \<not> (t + expiry s < now)) (stateCache s)\<rparr>"

lemma live_fields [simp]:
  "authConfig (live now s) = authConfig s" "endpoints (live now s) = endpoints s"
  "codeVerifier (live now s) = codeVerifier s" "expiry (live now s) = expiry s"
  "tokenRefreshCallback (live now s) = tokenRefreshCallback s" "errorCallback (live now s) = errorCallback s"
  by (simp_all add: live_def expiry_def)

lemma cleanup_run: "cleanupExpiredStates n w = Some (Inr (), onAuth (live (system_now n (calls w))) (tick w))"
  by (simp add: cleanupExpiredStates_def bindIO_def systemNow_def modifyIO_def live_def [abs_def] onAuth_def
      expiry_def)

lemma validateState_run:
  "validateState n state w =
     (let s = live (system_now n (calls w)) (auth w); w1 = onAuth (live (system_now n (calls w))) (tick w)
      in case map_of (stateCache s) state of
           None \<Rightarrow> Some (Inr False, w1)
         | Some t \<Rightarrow>
             Some (Inr (system_now n (calls w1) \<le> t + expiry (auth w)),
               onAuth (stateCache_update (map_erase state)) (tick w1)))"
  by (simp add: validateState_def bindIO_def cleanup_run getIO_def systemNow_def modifyIO_def returnIO_def
      Let_def expiry_def split: option.splits)

lemma validateState_settles: "\<exists>b w'. validateState n state w = Some (Inr b, w')"
  unfolding validateState_run Let_def by (split option.split) blast

lemma live_lookup:
  "map_ok (stateCache s) \<Longrightarrow> map_of (stateCache (live now s)) k =
     (case map_of (stateCache s) k of
        None \<Rightarrow> None | Some t \<Rightarrow> if t + expiry s < now then None else Some t)"
  by (simp add: live_def map_of_filter split: option.splits)

lemma live_absent:
  "map_of (stateCache s) k = None \<Longrightarrow> map_of (stateCache (live now s)) k = None"
  by (auto simp: live_def map_of_eq_None_iff)

section \<open>The reachable states of the service\<close>

text \<open>
  The service is used by any sequence of calls of its public operations, including ones that throw.
\<close>

inductive auth_step :: "'j json_api \<Rightarrow> net \<Rightarrow> 'z auth_world_scheme \<Rightarrow> 'z auth_world_scheme \<Rightarrow> bool"
  for J :: "'j json_api" and n :: net where
  authorize: "getAuthorizationUrl n ss w = Some (r, w') \<Longrightarrow> auth_step J n w w'"
| exchange: "exchangeAuthorizationCode J n authCode state w = Some (r2, w') \<Longrightarrow> auth_step J n w w'"
| refresh: "refreshAccessToken J n token w = Some (r2, w') \<Longrightarrow> auth_step J n w w'"
| revoke: "revokeToken n token typ w = Some (r3, w') \<Longrightarrow> auth_step J n w w'"
| info: "getTokenInfo J n token w = Some (r2, w') \<Longrightarrow> auth_step J n w w'"
| auto_refresh: "autoRefreshIfNeeded J n t w = Some (r2, w') \<Longrightarrow> auth_step J n w w'"
| check_state: "validateState n state w = Some (r3, w') \<Longrightarrow> auth_step J n w w'"
| check_token: "validateToken J n token w = Some (r3, w') \<Longrightarrow> auth_step J n w w'"
| clear: "auth_step J n w (onAuth clearState w)"
| configure: "auth_step J n w (onAuth (setConfig cfg) w)"
| on_token: "auth_step J n w (onAuth (setTokenRefreshCallback tcb) w)"
| on_error: "auth_step J n w (onAuth (setErrorCallback ecb) w)"

inductive auth_reachable :: "'j json_api \<Rightarrow> net \<Rightarrow> Config \<Rightarrow> 'z auth_world_scheme \<Rightarrow> bool"
  for J :: "'j json_api" and n :: net and clientConfig :: Config where
  start: "auth w = newAuthService clientConfig cfg \<Longrightarrow> sent w = [] \<Longrightarrow> auth_reachable J n clientConfig w"
| step: "auth_reachable J n clientConfig w \<Longrightarrow> auth_step J n w w' \<Longrightarrow> auth_reachable J n clientConfig w'"

definition random_text :: "nat \<Rightarrow> string \<Rightarrow> bool" where
  "random_text k s \<longleftrightarrow> length s = k \<and> set s \<subseteq> set charset"

definition token_urls :: "AuthEndpoints \<Rightarrow> string list" where
  "token_urls e = [accessTokenUrl e, refreshTokenUrl e, revokeTokenUrl e, userProfileUrl e]"

definition auth_ok :: "bool \<Rightarrow> 'z auth_world_scheme \<Rightarrow> bool" where
  "auth_ok sandbox w \<longleftrightarrow>
     endpoints (auth w) = forEnvironment sandbox \<and>
     map_ok (stateCache (auth w)) \<and>
     list_all (random_text 32) (map fst (stateCache (auth w))) \<and>
     (codeVerifier (auth w) = [] \<or> random_text 128 (codeVerifier (auth w))) \<and>
     list_all (\<lambda>r. CURLOPT_URL r \<in> set (token_urls (forEnvironment sandbox))) (sent w)"

subsection \<open>Every operation keeps the invariant\<close>

lemma length_charset: "length charset = 66"
  by (simp add: charset_def)

lemma auth_ok_tick [simp]: "auth_ok b (tick w) = auth_ok b w"
  by (simp add: auth_ok_def)

lemma auth_ok_live [simp]: "auth_ok b w \<Longrightarrow> auth_ok b (onAuth (live now) w)"
  by (auto simp: auth_ok_def live_def list_all_iff)

lemma auth_ok_put [simp]:
  "auth_ok b w \<Longrightarrow> random_text 32 st \<Longrightarrow> auth_ok b (onAuth (stateCache_update (map_put st t)) w)"
  using fst_map_put [of st t "stateCache (auth w)"] by (auto simp: auth_ok_def list_all_iff)

lemma auth_ok_erase [simp]: "auth_ok b w \<Longrightarrow> auth_ok b (onAuth (stateCache_update (map_erase st)) w)"
  by (auto simp: auth_ok_def list_all_iff map_erase_def [of st] map_ok_erase [unfolded map_erase_def])

lemma auth_ok_updates [simp]:
  "auth_ok b (onAuth (currentState_update f) w) = auth_ok b w"
  "auth_ok b (onAuth (codeChallenge_update f) w) = auth_ok b w"
  "random_text 128 v \<Longrightarrow> auth_ok b w \<Longrightarrow> auth_ok b (onAuth (codeVerifier_update (\<lambda>_. v)) w)"
  "auth_ok b w \<Longrightarrow> auth_ok b (onAuth clearState w)"
  "auth_ok b (onAuth (setConfig cfg) w) = auth_ok b w"
  "auth_ok b (onAuth (setTokenRefreshCallback tcb) w) = auth_ok b w"
  "auth_ok b (onAuth (setErrorCallback ecb) w) = auth_ok b w"
  by (auto simp: auth_ok_def clearState_def setConfig_def setTokenRefreshCallback_def setErrorCallback_def)

lemma keeps_clock [keeps_intros]: "keeps (auth_ok b) (systemNow n)"
  by (simp add: keepsIO_def systemNow_def)

lemma keeps_cleanup [keeps_intros]: "keeps (auth_ok b) (cleanupExpiredStates n)"
  by (simp add: keepsIO_def cleanup_run)

lemma random_text_generated: "random_text k (map (\<lambda>i. charset ! (f i mod length charset)) [0..<k])"
  by (auto simp: random_text_def length_charset intro!: nth_mem)

lemma keeps_random: "keepsIO (auth_ok b) (generateRandomString n k) (random_text k)"
  using random_text_generated [of k]
  by (auto simp: keepsIO_def generateRandomString_def split: option.splits)

lemma keeps_verifier: "keepsIO (auth_ok b) (generateCodeVerifier n) (random_text 128)"
  unfolding generateCodeVerifier_def by (rule keeps_random)

lemma keeps_challenge [keeps_intros]: "keeps (auth_ok b) (generateCodeChallenge n v)"
  by (auto simp: keepsIO_def generateCodeChallenge_def sha256_def bindIO_def returnIO_def
      split: sum.splits option.splits)

lemma keeps_validateState [keeps_intros]: "keeps (auth_ok b) (validateState n st)"
  by (auto simp: keepsIO_def validateState_run Let_def split: option.splits)

lemma keeps_getAuthorizationUrl: "keeps (auth_ok b) (getAuthorizationUrl n ss)"
  unfolding getAuthorizationUrl_def
  by (rule keepsIO_bind [OF keeps_random] keepsIO_bind [OF keeps_verifier] keeps_intros | simp)+

lemma keeps_getAuth [keeps_intros]:
  assumes "\<And>s. endpoints s = forEnvironment b \<Longrightarrow> keeps (auth_ok b) (f s)"
  shows "keeps (auth_ok b) (bindIO (getIO auth) f)"
proof (rule keepsIO_bind)
  show "keepsIO (auth_ok b) (getIO auth) (\<lambda>s. endpoints s = forEnvironment b)"
    by (simp add: keepsIO_def getIO_def auth_ok_def)
qed (rule assms)

lemma keeps_callbacks [keeps_intros]:
  "keeps (auth_ok b) (notifyToken t)" "keeps (auth_ok b) (notifyError m)"
  "keeps (auth_ok b) (authCurlInit n)" "keeps (auth_ok b) (authHeader n h)"
  by (auto simp: keepsIO_def notifyToken_def notifyError_def authCurlInit_def authHeader_def auth_ok_def
      split: option.splits)

lemma keeps_authPerform [keeps_intros]:
  "url \<in> set (token_urls (forEnvironment b)) \<Longrightarrow> keeps (auth_ok b) (authPerform n (authRequest url form hl))"
  by (auto simp: keepsIO_def authPerform_def auth_ok_def authRequest_def)

lemma keeps_case [keeps_intros]:
  "(\<And>m. keeps I (f m)) \<Longrightarrow> (\<And>c t. keeps I (g c t)) \<Longrightarrow>
     keeps I (case res of Inl m \<Rightarrow> f m | Inr (c, t) \<Rightarrow> g c t)"
  by (auto split: sum.splits)

lemma keeps_readToken [keeps_intros]: "keeps (auth_ok b) (readToken J n refresh json)"
  unfolding readToken_def by (rule keeps_intros)+

lemma keeps_tokenRequest [keeps_intros]:
  "url \<in> set (token_urls (forEnvironment b)) \<Longrightarrow> keeps (auth_ok b) (tokenRequest J n url ps failure refresh)"
  unfolding tokenRequest_def by (rule keeps_intros | assumption)+

lemma keeps_tokenHandler [keeps_intros]: "keeps (auth_ok b) (tokenHandler invalid context e)"
  unfolding tokenHandler_def by (cases e) (auto intro!: keeps_intros)

lemma keeps_exchange: "keeps (auth_ok b) (exchangeAuthorizationCode J n authCode st)"
  unfolding exchangeAuthorizationCode_def by (rule keeps_intros | simp add: token_urls_def)+

lemma keeps_refresh [keeps_intros]: "keeps (auth_ok b) (refreshAccessToken J n refresh)"
  unfolding refreshAccessToken_def by (rule keeps_intros | simp add: token_urls_def)+

lemma keeps_revoke: "keeps (auth_ok b) (revokeToken n token typ)"
  unfolding revokeToken_def by (rule keeps_intros | simp add: token_urls_def)+

lemma keeps_getTokenInfo [keeps_intros]: "keeps (auth_ok b) (getTokenInfo J n token)"
  unfolding getTokenInfo_def Let_def by (rule keeps_intros | simp add: token_urls_def)+

lemma keeps_isTokenValid [keeps_intros]: "keeps (auth_ok b) (isTokenValid n t)"
  unfolding isTokenValid_def isExpired_def by (rule keeps_intros)+

lemma keeps_autoRefresh: "keeps (auth_ok b) (autoRefreshIfNeeded J n t)"
  unfolding autoRefreshIfNeeded_def isExpiringSoon_def by (rule keeps_intros)+

lemma keeps_validateToken: "keeps (auth_ok b) (validateToken J n token)"
  unfolding validateToken_def by (rule keeps_intros)+

lemmas keeps_operations =
  keeps_getAuthorizationUrl keeps_exchange keeps_refresh keeps_revoke keeps_getTokenInfo
  keeps_autoRefresh keeps_validateState keeps_validateToken

lemma auth_ok_step: "auth_step J n w w' \<Longrightarrow> auth_ok b w \<Longrightarrow> auth_ok b w'"
  by (induction rule: auth_step.induct) (auto intro: keeps_operations [THEN keepsIO_D])

lemma auth_ok_new:
  "auth w = newAuthService clientConfig cfg \<Longrightarrow> sent w = [] \<Longrightarrow> auth_ok (sandboxMode clientConfig) w"
  by (simp add: auth_ok_def newAuthService_def)

lemma reachable_ok: "auth_reachable J n clientConfig w \<Longrightarrow> auth_ok (sandboxMode clientConfig) w"
  by (induction rule: auth_reachable.induct) (auto intro: auth_ok_new auth_ok_step)

section \<open>A sample service\<close>

definition sampleAuth :: auth_world where
  "sampleAuth = \<lparr>calls = 0, sent = [], sleeps = [], waits = [],
     auth = newAuthService (defaultConfig\<lparr>sandboxMode := True\<rparr>) (createConfig ''app'' ''secret'' []),
     tokenEvents = [], errorEvents = []\<rparr>"

lemma sampleAuth_reachable: "auth_reachable J n (defaultConfig\<lparr>sandboxMode := True\<rparr>) sampleAuth"
  by (rule auth_reachable.start) (simp_all add: sampleAuth_def)

definition authNet :: net where
  "authNet = sampleNet (\<lambda>i r. Inr \<lparr>responseCode = 200, headerLines = [], bodyChunks = [''token'']\<rparr>)"

section \<open>A successful authorization\<close>

text \<open>What a call of \<open>getAuthorizationUrl\<close> that returns has done.\<close>

lemma plus_four: "k + 4 = Suc (Suc (Suc (Suc k)))"
  by simp

lemma authorize_success:
  assumes "getAuthorizationUrl n ss w = Some (Inr url, w')"
  shows "url = authorizationText ss (auth w')" "authConfig (auth w') = authConfig (auth w)"
    "endpoints (auth w') = endpoints (auth w)"
    "map_of (stateCache (auth w')) (currentState (auth w')) = Some (system_now n (calls w + 2))"
    "random_text 32 (currentState (auth w'))" "sent w' = sent w"
    "calls w' = calls w + (if usePKCE (authConfig (auth w)) then 5 else 3)"
    "usePKCE (authConfig (auth w)) \<Longrightarrow> random_text 128 (codeVerifier (auth w')) \<and>
       (\<exists>h. EVP_sha256 n (calls w + 4) (codeVerifier (auth w')) = Inr h \<and>
            codeChallenge (auth w') = base64UrlEncode h)"
  using assms random_text_generated [of 32] random_text_generated [of 128]
  by (auto simp: plus_four getAuthorizationUrl_def bindIO_def cleanup_run generateRandomString_def systemNow_def io_prims
      generateCodeVerifier_def generateCodeChallenge_def sha256_def map_sum_eq_Inr
      split: option.splits sum.splits if_splits)

lemma authorize_succeeds:
  assumes "RAND_bytes n = (\<lambda>i k. Some (rb i k))" "EVP_sha256 n = (\<lambda>i s. Inr (h i s))"
  shows "\<exists>url w'. getAuthorizationUrl n ss w = Some (Inr url, w')"
  using assms
  by (auto simp: getAuthorizationUrl_def bindIO_def cleanup_run generateRandomString_def systemNow_def io_prims
      generateCodeVerifier_def generateCodeChallenge_def sha256_def
      split: option.splits sum.splits if_splits)

lemma sample_authorizes: "\<exists>url w'. getAuthorizationUrl authNet [READ, TRADE] sampleAuth = Some (Inr url, w')"
  by (rule authorize_succeeds) (simp_all add: authNet_def sampleNet_def)

lemma sample_reachable:
  "getAuthorizationUrl authNet ss sampleAuth = Some (r, w') \<Longrightarrow>
     auth_reachable J authNet (defaultConfig\<lparr>sandboxMode := True\<rparr>) w'"
  using auth_reachable.step [OF sampleAuth_reachable auth_step.authorize] by blast

section \<open>Properties\<close>

text \<open>
  C10: whatever sequence of operations was called, and whatever they threw, the state cache is a
  proper map whose keys are 32 random unreserved characters, the PKCE verifier is empty or has 128 of
  them, the endpoints are those of the configured environment, and every request that was sent went
  to one of them.
\<close>

theorem auth_invariant:
  assumes "auth_reachable J n clientConfig w"
  shows "auth_ok (sandboxMode clientConfig) w"
  using assms by (rule reachable_ok)

text \<open>Witness: the state after issuing an authorization URL.\<close>

theorem auth_invariant_witness:
  "\<exists>url w'. getAuthorizationUrl authNet [READ, TRADE] sampleAuth = Some (Inr url, w') \<and> auth_ok True w' \<and>
     stateCache (auth w') \<noteq> []"
proof -
  obtain url w' where g: "getAuthorizationUrl authNet [READ, TRADE] sampleAuth = Some (Inr url, w')"
    using sample_authorizes by blast
  have "auth_ok True w'" using auth_invariant [OF sample_reachable [OF g]] by simp
  moreover have "stateCache (auth w') \<noteq> []" using authorize_success(4) [OF g] by auto
  ultimately show ?thesis using g by blast
qed

text \<open>
  C9: \<open>validateState\<close> always answers; the answer is true exactly when the state was issued, is still
  in the cache and has not expired by either of the two clock readings; and a second call with the
  same state answers false. A state authorises at most one exchange.
\<close>

theorem states_single_use:
  assumes "auth_reachable J n clientConfig w"
  shows "\<exists>ok w1 w2. validateState n st w = Some (Inr ok, w1) \<and>
     (ok \<longleftrightarrow> (\<exists>t. map_of (stateCache (auth w)) st = Some t \<and>
               system_now n (calls w) \<le> t + expiry (auth w) \<and>
               system_now n (calls w + 1) \<le> t + expiry (auth w))) \<and>
     sent w1 = sent w \<and> validateState n st w1 = Some (Inr False, w2)"
proof -
  have ok: "map_ok (stateCache (auth w))" using reachable_ok [OF assms] by (simp add: auth_ok_def)
  have gone: "\<exists>w2. validateState n st v = Some (Inr False, w2)"
    if "map_of (stateCache (auth v)) st = None" for v :: "'b auth_world_scheme"
    using live_absent [OF that] by (simp add: validateState_run Let_def)
  obtain b w1 where v: "validateState n st w = Some (Inr b, w1)"
    using validateState_settles by blast
  then have b: "b \<longleftrightarrow> (\<exists>t. map_of (stateCache (auth w)) st = Some t \<and>
               system_now n (calls w) \<le> t + expiry (auth w) \<and>
               system_now n (calls w + 1) \<le> t + expiry (auth w))"
    and s: "sent w1 = sent w" and c: "map_of (stateCache (auth w1)) st = None"
    by (auto simp: validateState_run Let_def live_lookup [OF ok] split: option.splits if_splits)
  from v b s gone [OF c] show ?thesis by blast
qed

text \<open>Witness: the state that \<open>getAuthorizationUrl\<close> issued is accepted once.\<close>

theorem states_single_use_witness:
  "\<exists>url w w1 w2. getAuthorizationUrl authNet [READ, TRADE] sampleAuth = Some (Inr url, w) \<and>
     validateState authNet (currentState (auth w)) w = Some (Inr True, w1) \<and>
     validateState authNet (currentState (auth w)) w1 = Some (Inr False, w2)"
proof -
  obtain url w where g: "getAuthorizationUrl authNet [READ, TRADE] sampleAuth = Some (Inr url, w)"
    using sample_authorizes by blast
  have "expiry (auth w) = 600000000000" "calls w = 5"
    "map_of (stateCache (auth w)) (currentState (auth w)) = Some 1000000000"
    using authorize_success(2,4,7) [OF g]
    by (simp_all add: expiry_def seconds_def sampleAuth_def newAuthService_def createConfig_def authNet_def
        sampleNet_def)
  then show ?thesis
    using states_single_use [OF sample_reachable [OF g], of "currentState (auth w)"] g by (auto simp: authNet_def sampleNet_def)
qed

section \<open>The authorization URL\<close>

lemma splitOn_app: "splitOn c (a @ c # b) = splitOn c a @ splitOn c b"
  by (induction a) (auto split: list.splits)

lemma decodePairs_app: "decodePairs (a @ CHR ''&'' # b) = decodePairs a @ decodePairs b"
  by (simp add: decodePairs_def splitOn_app)

definition queryOf :: "string \<Rightarrow> string" where
  "queryOf url = tl (dropWhile (\<lambda>c. c \<noteq> CHR ''?'') url)"

definition authorizationPairs :: "TokenScope list \<Rightarrow> AuthService \<Rightarrow> params" where
  "authorizationPairs ss s =
     [(''response_type'', ''code''), (''client_id'', clientId (authConfig s)),
      (''redirect_uri'', redirectUri (authConfig s)), (''scope'', scopesToString ss),
      (''state'', currentState s)] @
     (if usePKCE (authConfig s)
      then [(''code_challenge'', codeChallenge s), (''code_challenge_method'', ''S256'')] else [])"

lemma authorizationText_decodes:
  assumes "CHR ''?'' \<notin> set (authorizationUrl (endpoints s))"
  shows "decodePairs (queryOf (authorizationText ss s)) = authorizationPairs ss s"
proof -
  have "\<forall>c \<in> set (authorizationUrl (endpoints s)). c \<noteq> CHR ''?''" using assms by blast
  then have "queryOf (authorizationText ss s) = encodePairs urlEncode (authorizationPairs ss s)"
    by (simp add: queryOf_def authorizationText_def dropWhile_append2 encodePairs_def authorizationPairs_def
        urlEncodeChar_def unreserved_def is_alnum_def)
  then show ?thesis
    using decodePairs_encodePairs [of urlEncode "authorizationPairs ss s"] urlEncode_no_separator
    by (simp add: authorizationPairs_def)
qed

lemma forEnvironment_no_query: "CHR ''?'' \<notin> set (authorizationUrl (forEnvironment b))"
  by (simp add: forEnvironment_def)

text \<open>
  C16: the URL that \<open>getAuthorizationUrl\<close> returns decodes to exactly the OAuth parameters: the client and
  redirect URI of the configuration, the requested scopes, the state that was just put into the cache
  (32 random characters) and, with PKCE, the S256 challenge of a fresh 128 character verifier.
\<close>

theorem authorization_url_decodes:
  assumes "auth_reachable J n clientConfig w"
    and "getAuthorizationUrl n ss w = Some (Inr url, w')"
  shows "decodePairs (queryOf url) = authorizationPairs ss (auth w') \<and>
     random_text 32 (currentState (auth w')) \<and>
     map_of (stateCache (auth w')) (currentState (auth w')) = Some (system_now n (calls w + 2)) \<and>
     (usePKCE (authConfig (auth w)) \<longrightarrow> random_text 128 (codeVerifier (auth w')) \<and>
       (\<exists>h. EVP_sha256 n (calls w + 4) (codeVerifier (auth w')) = Inr h \<and>
            codeChallenge (auth w') = base64UrlEncode h))"
proof -
  have "endpoints (auth w') = forEnvironment (sandboxMode clientConfig)"
    using reachable_ok [OF assms(1)] authorize_success(3) [OF assms(2)] by (simp add: auth_ok_def)
  then have "decodePairs (queryOf url) = authorizationPairs ss (auth w')"
    using authorizationText_decodes forEnvironment_no_query authorize_success(1) [OF assms(2)] by simp
  then show ?thesis using authorize_success(4,5,8) [OF assms(2)] by blast
qed

text \<open>Witness: the sample service.\<close>

theorem authorization_url_decodes_witness:
  "\<exists>url w'. getAuthorizationUrl authNet [READ, TRADE] sampleAuth = Some (Inr url, w') \<and>
     map_of (decodePairs (queryOf url)) ''scope'' = Some ''read trade'' \<and>
     map_of (decodePairs (queryOf url)) ''state'' = Some (currentState (auth w')) \<and>
     length (codeVerifier (auth w')) = 128"
proof -
  obtain url w' where g: "getAuthorizationUrl authNet [READ, TRADE] sampleAuth = Some (Inr url, w')"
    using sample_authorizes by blast
  note url = authorization_url_decodes [OF sampleAuth_reachable g]
  have "usePKCE (authConfig (auth sampleAuth))"
    by (simp add: sampleAuth_def newAuthService_def createConfig_def)
  then have "length (codeVerifier (auth w')) = 128" using url by (simp add: random_text_def)
  then show ?thesis
    using g url by (auto simp: authorizationPairs_def scopesToString_def)
qed

section \<open>Exchanging the code\<close>

lemma authPerform_fields:
  assumes "authPerform n req w = Some (r, w')"
  shows "sent w' = sent w @ [req]" "auth w' = auth w" "tokenEvents w' = tokenEvents w"
    "errorEvents w' = errorEvents w" "calls w' = calls w + 1"
  using assms by (auto simp: authPerform_def tick_def)

text \<open>
  A code is only exchanged for the state of an authorization that this service started. A
  non-empty state that is not in the cache is rejected before anything is sent, and neither
  callback runs.
\<close>

theorem exchange_rejects_unknown_state:
  assumes "authCode \<noteq> []" "state \<noteq> []" "map_of (stateCache (auth w)) state = None"
  shows "\<exists>w'. exchangeAuthorizationCode J n authCode state w =
      Some (Inl (ValidationError ''Invalid or expired state parameter''), w') \<and>
     sent w' = sent w \<and> tokenEvents w' = tokenEvents w \<and> errorEvents w' = errorEvents w"
proof -
  have "validateState n state w = Some (Inr False, onAuth (live (system_now n (calls w))) (tick w))"
    using live_absent [OF assms(3)] by (simp add: validateState_run Let_def)
  then show ?thesis
    using assms(1,2) by (simp add: exchangeAuthorizationCode_def flow_simps)
qed

text \<open>Witness: a forged state against a fresh service.\<close>

theorem exchange_rejects_unknown_state_witness:
  "\<exists>w'. exchangeAuthorizationCode (jref (\<lambda>s. Inl ''syntax'')) authNet ''code'' ''forged'' sampleAuth =
     Some (Inl (ValidationError ''Invalid or expired state parameter''), w') \<and> sent w' = []"
  using exchange_rejects_unknown_state [of "''code''" "''forged''" sampleAuth "jref (\<lambda>s. Inl ''syntax'')" authNet]
  by (auto simp: sampleAuth_def newAuthService_def)

text \<open>
  The request that exchanges a code, written out: the form of the token endpoint with the keys in the
  order of the map and the values as they are, not URL-encoded; and the one that refreshes a token.
\<close>

definition exchangeForm :: "AuthService \<Rightarrow> string \<Rightarrow> string" where
  "exchangeForm s authCode =
     ''client_id='' @ clientId (authConfig s) @ ''&client_secret='' @ clientSecret (authConfig s) @ ''&code='' @ authCode @
     (if usePKCE (authConfig s) \<and> codeVerifier s \<noteq> [] then ''&code_verifier='' @ codeVerifier s else []) @
     ''&grant_type=authorization_code&redirect_uri='' @ redirectUri (authConfig s)"

definition exchangeRequest :: "AuthService \<Rightarrow> string \<Rightarrow> request" where
  "exchangeRequest s authCode =
     \<lparr>CURLOPT_URL = accessTokenUrl (endpoints s), CURLOPT_VERB = HTTPPOST,
      CURLOPT_POSTFIELDS = Some (exchangeForm s authCode), CURLOPT_HTTPHEADER = [], CURLOPT_TIMEOUT = 0\<rparr>"

lemma exchangeParams_form: "plainLoop (exchangeParams s authCode) True [] = exchangeForm s authCode"
proof -
  define pkce where "pkce \<longleftrightarrow> usePKCE (authConfig s) \<and> codeVerifier s \<noteq> []"
  show ?thesis
    unfolding exchangeParams_def exchangeForm_def pkce_def [symmetric] putIf_def Let_def by (cases pkce) simp_all
qed

lemma exchangeRequest_text:
  "authRequest (accessTokenUrl (endpoints s)) (Some (plainLoop (exchangeParams s authCode) True [])) [] = exchangeRequest s authCode"
  by (simp add: authRequest_def exchangeParams_form exchangeRequest_def)

text \<open>The token that a JSON answer holds; \<open>keep\<close> is the refresh token if the answer has none.\<close>

definition tokenIn :: "'j json_api \<Rightarrow> string \<Rightarrow> 'j \<Rightarrow> TokenInfo \<Rightarrow> bool" where
  "tokenIn J keep json tok \<longleftrightarrow>
     j_value_string J json ''access_token'' [] = Inr (tokenAccess tok) \<and>
     j_value_string J json ''refresh_token'' keep = Inr (tokenRefresh tok) \<and>
     j_value_string J json ''token_type'' ''Bearer'' = Inr (tokenType tok) \<and>
     (\<exists>secs. j_value_int J json ''expires_in'' 86400 = Inr secs \<and> expiresAt tok = issuedAt tok + seconds secs) \<and>
     (\<exists>list. j_value_string J json ''scope'' [] = Inr list \<and> scopes tok = parseScopeString list) \<and>
     (isValid tok \<longleftrightarrow> tokenAccess tok \<noteq> [])"

definition refreshRequest :: "AuthService \<Rightarrow> string \<Rightarrow> request" where
  "refreshRequest s refresh =
     authRequest (refreshTokenUrl (endpoints s)) (Some (plainLoop (refreshParams s refresh) True [])) []"

definition announced :: "AuthService \<Rightarrow> TokenInfo \<Rightarrow> TokenInfo list" where
  "announced s t = (if tokenRefreshCallback s = None then [] else [t])"

lemma readToken_success:
  assumes "readToken J n refresh json w = Some (Inr tok, w')"
  shows "w' = tick w \<and> issuedAt tok = system_now n (calls w) \<and> tokenIn J refresh json tok"
  using assms
  by (auto simp: readToken_def tokenIn_def bindIO_def systemNow_def io_prims jx_def map_sum_eq_Inr split: sum.splits option.splits)

lemma readToken_settles: "\<exists>r w'. readToken J n refresh json w = Some (r, w') \<and> sent w' = sent w \<and> auth w' = auth w"
  by (simp add: readToken_def bindIO_def systemNow_def io_prims split: sum.splits)

lemma notifyToken_cases:
  "notifyToken t w = (case tokenRefreshCallback (auth w) of
     None \<Rightarrow> Some (Inr (), w) | Some cb \<Rightarrow> Some (cb t, w\<lparr>tokenEvents := tokenEvents w @ [t]\<rparr>))"
  by (simp add: notifyToken_def)

lemma tokenRequest_success:
  assumes "tokenRequest J n url ps failure refresh w = Some (Inr tok, w')"
  shows "sent w' = sent w @ [authRequest url (Some (plainLoop ps True [])) []]" "auth w' = auth w"
    "tokenEvents w' = tokenEvents w @ announced (auth w) tok" "errorEvents w' = errorEvents w"
    "\<exists>t json. curl_easy_perform n (calls w + 1) (authRequest url (Some (plainLoop ps True [])) []) = Inr t \<and>
       ok2xx (responseCode t) \<and> j_parse J (concat (bodyChunks t)) = Inr json \<and>
       tokenIn J refresh json tok"
  using assms
  by (auto simp: tokenRequest_def bindIO_def authCurlInit_def authPerform_def notifyToken_cases io_prims jx_def
      announced_def map_sum_eq_Inr dest!: readToken_success split: sum.splits option.splits if_splits)

lemma tokenHandler_throws: "tokenHandler invalid context e w \<noteq> Some (Inr x, w')"
  by (auto simp: tokenHandler_def bindIO_def notifyError_def io_prims split: exn.splits option.splits sum.splits)

lemma notify_settles:
  "\<exists>r w'. notifyToken t w = Some (r, w') \<and> sent w' = sent w \<and> auth w' = auth w"
  "\<exists>r w'. notifyError m w = Some (r, w') \<and> sent w' = sent w \<and> auth w' = auth w"
  by (simp_all add: notifyToken_def notifyError_def split: option.splits)

lemma tokenHandler_settles:
  "\<exists>e' w'. tokenHandler invalid context e w = Some (Inl e', w') \<and> sent w' = sent w \<and> auth w' = auth w"
  using notify_settles(2) [of "context @ what e" w]
  by (cases e) (auto simp: tokenHandler_def bindIO_def io_prims split: sum.splits)

lemma tokenRequest_sends:
  assumes "curl_easy_init n (calls w)"
  shows "\<exists>r w'. tokenRequest J n url ps failure refresh w = Some (r, w') \<and> auth w' = auth w \<and>
     sent w' = sent w @ [authRequest url (Some (plainLoop ps True [])) []]"
proof -
  let ?req = "authRequest url (Some (plainLoop ps True [])) []"
  obtain res v where p: "authPerform n ?req (tick w) = Some (Inr res, v)"
    and v: "sent v = sent w @ [?req]" "auth v = auth w"
    by (simp add: authPerform_def)
  have s: "\<exists>r w'. bindIO (readToken J n refresh json) (\<lambda>t. bindIO (notifyToken t) (\<lambda>_. returnIO t)) v = Some (r, w') \<and>
      sent w' = sent v \<and> auth w' = auth v" for json
  proof -
    obtain r u where r: "readToken J n refresh json v = Some (r, u)" "sent u = sent v" "auth u = auth v"
      using readToken_settles [of J n refresh json v] by blast
    moreover obtain q u' where "notifyToken t u = Some (q t, u' t)" "sent (u' t) = sent u" "auth (u' t) = auth u" for t
      using notify_settles(1) [of _ u] by metis
    ultimately show ?thesis by (auto simp: bindIO_def io_prims split: sum.splits)
  qed
  have "\<exists>r w'. bindIO (liftIO q) (\<lambda>json. bindIO (readToken J n refresh json)
      (\<lambda>t. bindIO (notifyToken t) (\<lambda>_. returnIO t))) v = Some (r, w') \<and> auth w' = auth v \<and> sent w' = sent v" for q
    using s by (cases q) (simp_all add: throwIO_def conj_commute)
  then show ?thesis
    using assms p v
    by (auto simp: tokenRequest_def authCurlInit_def bindIO_steps throwIO_def split: sum.splits)
qed

lemma exchangeParams_cong:
  "authConfig s = authConfig t \<Longrightarrow> codeVerifier s = codeVerifier t \<Longrightarrow> exchangeParams s c = exchangeParams t c"
  by (simp add: exchangeParams_def)

lemma exchangeRequest_erase [simp]:
  "exchangeRequest (stateCache_update f s) c = exchangeRequest s c" "exchangeRequest (live now s) c = exchangeRequest s c"
  by (simp_all add: exchangeRequest_def exchangeForm_def)

lemma validateState_accepts:
  assumes "validateState n state w = Some (Inr True, w')"
  shows "map_of (stateCache (auth w)) state \<noteq> None" "sent w' = sent w" "tokenEvents w' = tokenEvents w"
    "exchangeRequest (auth w') c = exchangeRequest (auth w) c" "announced (auth w') t = announced (auth w) t"
  using assms live_absent [of "auth w" state "system_now n (calls w)"]
  by (auto simp: validateState_run Let_def announced_def split: option.splits)

text \<open>
  C15: when \<open>exchangeAuthorizationCode\<close> returns a token, a given state was in the cache; exactly one request
  was sent, a POST to the token endpoint whose form holds the client's id and secret, the code, the PKCE
  verifier when there is one, the grant type and the redirect URI, each under its own key and none else;
  the reply was a 2xx whose JSON body holds the token: access token, refresh token, type, lifetime and
  scopes under their keys; the token was announced to the callback, if there is one; it is valid exactly
  when it has an access token; and all states, the verifier and the challenge are cleared.
\<close>

theorem exchange_success:
  assumes "exchangeAuthorizationCode J n authCode state w = Some (Inr tok, w')"
  shows "(state \<noteq> [] \<longrightarrow> map_of (stateCache (auth w)) state \<noteq> None) \<and>
     (\<exists>req i t json. sent w' = sent w @ [req] \<and>
        req = \<lparr>CURLOPT_URL = accessTokenUrl (endpoints (auth w)), CURLOPT_VERB = HTTPPOST,
          CURLOPT_POSTFIELDS = Some (''client_id='' @ clientId (authConfig (auth w)) @
            ''&client_secret='' @ clientSecret (authConfig (auth w)) @ ''&code='' @ authCode @
            (if usePKCE (authConfig (auth w)) \<and> codeVerifier (auth w) \<noteq> []
             then ''&code_verifier='' @ codeVerifier (auth w) else []) @
            ''&grant_type=authorization_code&redirect_uri='' @ redirectUri (authConfig (auth w))),
          CURLOPT_HTTPHEADER = [], CURLOPT_TIMEOUT = 0\<rparr> \<and>
        curl_easy_perform n i req = Inr t \<and> ok2xx (responseCode t) \<and> j_parse J (concat (bodyChunks t)) = Inr json \<and>
        j_value_string J json ''access_token'' [] = Inr (tokenAccess tok) \<and>
        j_value_string J json ''refresh_token'' [] = Inr (tokenRefresh tok) \<and>
        j_value_string J json ''token_type'' ''Bearer'' = Inr (tokenType tok) \<and>
        (\<exists>secs. j_value_int J json ''expires_in'' 86400 = Inr secs \<and> expiresAt tok = issuedAt tok + seconds secs) \<and>
        (\<exists>list. j_value_string J json ''scope'' [] = Inr list \<and> scopes tok = parseScopeString list)) \<and>
     tokenEvents w' = tokenEvents w @ announced (auth w) tok \<and>
     (isValid tok \<longleftrightarrow> tokenAccess tok \<noteq> []) \<and>
     stateCache (auth w') = [] \<and> currentState (auth w') = [] \<and> codeVerifier (auth w') = [] \<and>
     codeChallenge (auth w') = []"
proof -
  obtain v where v: "state = [] \<and> v = w \<or> state \<noteq> [] \<and> validateState n state w = Some (Inr True, v)"
    and c: "catchIO
       (bindIO (tokenRequest J n (accessTokenUrl (endpoints (auth v))) (exchangeParams (auth v) authCode)
                  ''Token exchange failed: '' []) (\<lambda>tokenInfo.
        bindIO (modifyIO (onAuth clearState)) (\<lambda>_. returnIO tokenInfo)))
       (tokenHandler ''Invalid token response: '' ''Token exchange error: '') v = Some (Inr tok, w')"
    using assms by (auto simp: exchangeAuthorizationCode_def bindIO_def getIO_def whenE_def liftIO_def returnIO_def throwIO_def
        split: if_splits option.splits sum.splits)
  then obtain u where t: "tokenRequest J n (accessTokenUrl (endpoints (auth v))) (exchangeParams (auth v) authCode)
                  ''Token exchange failed: '' [] v = Some (Inr tok, u)" and w': "w' = onAuth clearState u"
    by (auto simp: catchIO_def bindIO_def io_prims tokenHandler_throws split: option.splits sum.splits)
  have v': "sent v = sent w" "tokenEvents v = tokenEvents w" "state \<noteq> [] \<longrightarrow> map_of (stateCache (auth w)) state \<noteq> None"
    "exchangeRequest (auth v) authCode = exchangeRequest (auth w) authCode" "announced (auth v) tok = announced (auth w) tok"
    using v validateState_accepts [of n state w v] by auto
  note ok = tokenRequest_success [OF t, unfolded exchangeRequest_text v'(4)]
  obtain r json where reply: "curl_easy_perform n (calls v + 1) (exchangeRequest (auth w) authCode) = Inr r"
      "ok2xx (responseCode r)" "j_parse J (concat (bodyChunks r)) = Inr json" "tokenIn J [] json tok"
    using ok(5) by blast
  have sent: "sent w' = sent w @ [exchangeRequest (auth w) authCode]" using ok(1) v'(1) w' by simp
  have rest: "tokenEvents w' = tokenEvents w @ announced (auth w) tok" "stateCache (auth w') = []" "currentState (auth w') = []"
    "codeVerifier (auth w') = []" "codeChallenge (auth w') = []"
    using ok(3) v'(2,5) w' by (simp_all add: clearState_def)
  show ?thesis
    apply (intro conjI exI [of _ "exchangeRequest (auth w) authCode"] exI [of _ "calls v + 1"] exI [of _ r] exI [of _ json])
    using sent reply rest v'(3) by (simp_all add: tokenIn_def exchangeRequest_def exchangeForm_def)
qed

text \<open>
  An empty state is not checked at all: the code is sent to the token endpoint whatever the
  cache holds, also when this service never started an authorization.
\<close>

theorem exchange_skips_empty_state:
  assumes "authCode \<noteq> []" "curl_easy_init n (calls w)"
  shows "\<exists>r w'. exchangeAuthorizationCode J n authCode [] w = Some (r, w') \<and>
     sent w' = sent w @ [exchangeRequest (auth w) authCode]"
proof -
  obtain r u where t: "tokenRequest J n (accessTokenUrl (endpoints (auth w))) (exchangeParams (auth w) authCode)
      ''Token exchange failed: '' [] w = Some (r, u)" and u: "sent u = sent w @ [exchangeRequest (auth w) authCode]"
    using tokenRequest_sends [OF assms(2)] unfolding exchangeRequest_text [symmetric] by blast
  show ?thesis
  proof (cases r)
    case (Inl e)
    then show ?thesis
      using assms(1) t u tokenHandler_settles [of "''Invalid token response: ''" "''Token exchange error: ''" e u]
      by (auto simp: exchangeAuthorizationCode_def flow_simps)
  next
    case (Inr tok)
    then show ?thesis using assms(1) t u by (simp add: exchangeAuthorizationCode_def flow_simps)
  qed
qed

text \<open>Witness: a service that never issued a state.\<close>

theorem exchange_skips_empty_state_witness:
  "\<exists>r w'. exchangeAuthorizationCode (jref (\<lambda>s. Inl ''syntax'')) authNet ''stolen'' [] sampleAuth = Some (r, w') \<and>
     length (sent w') = 1"
  using exchange_skips_empty_state [of "''stolen''" authNet sampleAuth "jref (\<lambda>s. Inl ''syntax'')"]
  by (auto simp: authNet_def sampleNet_def sampleAuth_def)

text \<open>Witness: the sample service receives a token.\<close>

definition tokenReply :: jval where
  "tokenReply = JObj [(''access_token'', JStr ''A''), (''expires_in'', JNum (DFin 60))]"

theorem exchange_success_witness:
  "\<exists>tok w'. exchangeAuthorizationCode (jref (\<lambda>s. Inr tokenReply)) authNet ''code'' [] sampleAuth = Some (Inr tok, w') \<and>
     isValid tok \<and> sent w' = [exchangeRequest (auth sampleAuth) ''code'']"
proof -
  let ?run = "exchangeAuthorizationCode (jref (\<lambda>s. Inr tokenReply)) authNet ''code'' [] sampleAuth"
  have "case ?run of Some (Inr tok, w') \<Rightarrow> tokenAccess tok = ''A'' | _ \<Rightarrow> False" by code_simp
  then obtain tok w' where e: "?run = Some (Inr tok, w')" "tokenAccess tok = ''A''"
    by (auto split: option.splits sum.splits)
  moreover have "sent sampleAuth = []" by (simp add: sampleAuth_def)
  ultimately show ?thesis
    using exchange_success [OF e(1)] by (auto simp: exchangeRequest_def exchangeForm_def)
qed

section \<open>The token request forms\<close>

definition plain_safe :: "string \<Rightarrow> bool" where
  "plain_safe s \<longleftrightarrow> list_all (\<lambda>c. c \<noteq> CHR ''&'' \<and> c \<noteq> CHR ''='' \<and> c \<noteq> CHR ''%'') s"

lemma urlDecode_plain: "plain_safe s \<Longrightarrow> urlDecode s = s"
  by (induction s) (auto simp: plain_safe_def)

definition plainPairs :: "params \<Rightarrow> string" where
  "plainPairs ps = joinS ''&'' (map (\<lambda>(k, v). k @ ''='' @ v) ps)"

lemma plainLoop_pairs:
  "plainLoop ps first acc = acc @ (if ps = [] then [] else (if first then [] else ''&'') @ plainPairs ps)"
proof (induction ps arbitrary: first acc)
  case (Cons p ps)
  then show ?case by (cases p; cases ps) (auto simp: plainPairs_def joinS_Cons)
qed simp

lemma decode_plainPairs:
  assumes "ps \<noteq> []" "list_all (\<lambda>(k, v). plain_safe k \<and> plain_safe v) ps"
  shows "decodePairs (plainPairs ps) = ps"
proof -
  have no: "CHR ''&'' \<notin> set (k @ ''='' @ v)" "CHR ''='' \<notin> set k"
    "urlDecode k = k" "urlDecode v = v" if "(k, v) \<in> set ps" for k v
  proof -
    have safe: "plain_safe k" "plain_safe v" using assms(2) that by (auto simp: list_all_iff)
    then show "urlDecode k = k" "urlDecode v = v" by (simp_all add: urlDecode_plain)
    show "CHR ''&'' \<notin> set (k @ ''='' @ v)" "CHR ''='' \<notin> set k"
      using safe by (auto simp: plain_safe_def list_all_iff)
  qed
  have "splitOn (CHR ''&'') (plainPairs ps) = map (\<lambda>(k, v). k @ ''='' @ v) ps"
    unfolding plainPairs_def using assms(1) no(1) by (intro splitOn_joinS) auto
  moreover have "decodePair (k @ ''='' @ v) = (k, v)" if "(k, v) \<in> set ps" for k v
    using decodePair_encoded [OF no(2) [OF that]] no(3,4) [OF that] by simp
  ultimately show ?thesis
    unfolding decodePairs_def by (auto intro!: map_idI)
qed

lemma exchangeParams_nonempty: "exchangeParams s c \<noteq> []"
proof -
  have "map_of (exchangeParams s c) ''code'' = Some c" by (simp add: exchangeParams_def Let_def)
  then show ?thesis by auto
qed

lemma set_map_put: "set (map_put k v m) \<subseteq> insert (k, v) (set m)"
  by (induction k v m rule: map_put.induct) auto

lemma list_all_nil: "list_all P []"
  by simp

lemma list_all_map_put: "P (k, v) \<Longrightarrow> list_all P m \<Longrightarrow> list_all P (map_put k v m)"
  using set_map_put [of k v m] by (auto simp: list_all_iff)

text \<open>
  The forms of the token requests are not percent-encoded. As long as the client id, the secret,
  the code, the redirect URI and the verifier are free of \<open>&\<close>, \<open>=\<close> and \<open>%\<close>, the endpoint decodes the
  parameters that were meant.
\<close>

theorem token_form_roundtrip:
  assumes "plain_safe (clientId (authConfig s))" "plain_safe (clientSecret (authConfig s))"
    and "plain_safe (redirectUri (authConfig s))" "plain_safe (codeVerifier s)" "plain_safe authCode"
  shows "decodePairs (plainLoop (exchangeParams s authCode) True []) = exchangeParams s authCode"
proof -
  have lit: "plain_safe ''authorization_code''" "plain_safe ''grant_type''" "plain_safe ''code''"
    "plain_safe ''client_id''" "plain_safe ''client_secret''" "plain_safe ''redirect_uri''" "plain_safe ''code_verifier''"
    by (simp_all add: plain_safe_def)
  have "list_all (\<lambda>(k, v). plain_safe k \<and> plain_safe v) (exchangeParams s authCode)"
    unfolding exchangeParams_def Let_def putIf_def
    by (simp only: list_all_map_put lit assms case_prod_conv list_all_nil simp_thms split: if_split)
  then show ?thesis
    using decode_plainPairs exchangeParams_nonempty by (simp add: plainLoop_pairs)
qed

text \<open>Witness: the sample service.\<close>

theorem token_form_roundtrip_witness:
  "decodePairs (plainLoop (exchangeParams (auth sampleAuth) ''abc'') True []) = exchangeParams (auth sampleAuth) ''abc''"
  by (rule token_form_roundtrip)
    (simp_all add: sampleAuth_def newAuthService_def createConfig_def plain_safe_def)

lemma joinS_append:
  "joinS sep (xs @ ys) = joinS sep xs @ (if xs = [] \<or> ys = [] then [] else sep) @ joinS sep ys"
  by (induction xs) (auto simp: joinS_Cons)

lemma plainPairs_split:
  "\<exists>a z. plainPairs (pre @ (k, v) # post) = a @ (k @ ''='' @ v) @ z \<and> (z = [] \<or> (\<exists>t. z = CHR ''&'' # t))"
proof (intro exI conjI)
  show "plainPairs (pre @ (k, v) # post) =
      (plainPairs pre @ (if pre = [] then [] else ''&'')) @ (k @ ''='' @ v) @
      (if post = [] then [] else CHR ''&'' # plainPairs post)"
    by (simp add: plainPairs_def joinS_append joinS_Cons)
qed simp

lemma splitOn_field:
  assumes "c \<notin> set x" "z = [] \<or> (\<exists>t. z = c # t)"
  shows "x \<in> set (splitOn c (a @ c # x @ z))"
  using assms by (auto simp: splitOn_app splitOn_free)

text \<open>
  Otherwise they are not: a code that contains \<open>&redirect_uri=\<close> puts a second redirect URI into the
  form, whatever the configuration is.
\<close>

theorem token_form_injection:
  "(''redirect_uri'', ''http://evil'') \<in>
     set (decodePairs (plainLoop (exchangeParams s ''x&redirect_uri=http://evil'') True []))"
proof -
  let ?evil = "''redirect_uri=http://evil''"
  have "\<exists>pre post. exchangeParams s (''x&'' @ ?evil) = pre @ (''code'', ''x&'' @ ?evil) # post"
  proof -
    have "map_of (exchangeParams s (''x&'' @ ?evil)) ''code'' = Some (''x&'' @ ?evil)"
      by (simp add: exchangeParams_def Let_def)
    then show ?thesis by (meson map_of_SomeD split_list)
  qed
  then obtain pre post where ps: "exchangeParams s (''x&'' @ ?evil) = pre @ (''code'', ''x&'' @ ?evil) # post" by blast
  obtain a z where form: "plainPairs (pre @ (''code'', ''x&'' @ ?evil) # post) = a @ (''code'' @ ''='' @ ''x&'' @ ?evil) @ z"
    and z: "z = [] \<or> (\<exists>t. z = CHR ''&'' # t)" using plainPairs_split by blast
  have "?evil \<in> set (splitOn (CHR ''&'') ((a @ ''code=x'') @ CHR ''&'' # ?evil @ z))"
    using z by (intro splitOn_field) simp_all
  moreover have "plainLoop (exchangeParams s (''x&'' @ ?evil)) True [] = (a @ ''code=x'') @ CHR ''&'' # ?evil @ z"
    using ps form by (simp add: plainLoop_pairs)
  ultimately have "decodePair ?evil \<in> set (decodePairs (plainLoop (exchangeParams s (''x&'' @ ?evil)) True []))"
    unfolding decodePairs_def by (simp only: set_map imageI)
  moreover have "decodePair ?evil = (''redirect_uri'', ''http://evil'')" by code_simp
  ultimately show ?thesis by simp
qed

section \<open>Scopes and redirect URLs\<close>

lemma scopeOfString_inverse [simp]: "scopeOfString (scopeToString x) = Some x"
  by (cases x) (simp_all add: scopeOfString_def)

lemma scopeToString_no_space: "CHR '' '' \<notin> set (scopeToString x)"
  by (cases x) simp_all

lemma map_filter_inverse: "(\<And>x. f (g x) = Some x) \<Longrightarrow> List.map_filter f (map g xs) = xs"
  by (induction xs) (simp_all add: List.map_filter_def)

lemma parseScopeString_inverse: "parseScopeString (scopesToString ss) = ss"
proof (cases "ss = []")
  case True
  then show ?thesis by (simp add: parseScopeString_def scopesToString_def List.map_filter_def scopeOfString_def)
next
  case False
  have "splitOn (CHR '' '') (scopesToString ss) = map scopeToString ss"
    unfolding scopesToString_def using False scopeToString_no_space by (intro splitOn_joinS) auto
  then show ?thesis by (simp add: parseScopeString_def map_filter_inverse)
qed

section \<open>Token files\<close>

text \<open>
  What is relied on of the JSON library: the text that \<open>dump\<close> made of an object parses to an object
  with the same members.
\<close>

definition has_field :: "'j json_api \<Rightarrow> 'j \<Rightarrow> string \<times> jfield \<Rightarrow> bool" where
  "has_field J j f =
     (case f of (k, x) \<Rightarrow> j_contains J j k \<and>
       (case x of
          FStr s \<Rightarrow> \<forall>d. j_value_string J j k d = Inr s
        | FInt i \<Rightarrow> \<exists>y. j_at J j k = Inr y \<and> j_long J y = Inr i
        | FBool b \<Rightarrow> \<forall>d. j_value_bool J j k d = Inr b
        | FStrs ss \<Rightarrow> \<exists>y. j_at J j k = Inr y \<and> j_is_array J y \<and> map (j_string J) (j_elems J y) = map Inr ss))"

definition dump_documented ::
  "'j json_api \<Rightarrow> ((string \<times> jfield) list \<Rightarrow> string + string) \<Rightarrow> (string \<times> jfield) list \<Rightarrow> bool" where
  "dump_documented J dump fs \<longleftrightarrow>
     (\<exists>text j. dump fs = Inr text \<and> j_parse J text = Inr j \<and> list_all (has_field J j) fs)"

definition wholeSeconds :: "TokenInfo \<Rightarrow> TokenInfo" where
  "wholeSeconds t = t\<lparr>expiresAt := seconds (truncSeconds (expiresAt t)), issuedAt := seconds (truncSeconds (issuedAt t))\<rparr>"

lemma traverseE_map_Inr:
  "map (j_string J) xs = map Inr ss \<Longrightarrow> traverseE (\<lambda>x. jx (j_string J x)) xs = Inr ss"
  by (induction xs arbitrary: ss) (auto simp: jx_def)

text \<open>
  C17: a token saved with \<open>saveTokenToFile\<close> is loaded back by \<open>loadTokenFromFile\<close>, with its two times
  truncated to whole seconds; the other files are untouched.
\<close>

theorem token_file_roundtrip:
  assumes "dump_documented J dump (tokenFields token)"
    and "saveTokenToFile F dump token path files = (True, files')"
    and "\<And>text. snd (written F path text) \<Longrightarrow> fst (written F path text) = text"
  shows "loadTokenFromFile J path files' = wholeSeconds token \<and> (\<forall>q. q \<noteq> path \<longrightarrow> files' q = files q)"
proof -
  obtain content j where d: "dump (tokenFields token) = Inr content" "j_parse J content = Inr j"
    "list_all (has_field J j) (tokenFields token)"
    using assms(1) by (auto simp: dump_documented_def)
  then have "files' = files(path \<mapsto> content)"
    using assms(2) assms(3) [of content] by (auto simp: saveTokenToFile_def split: if_splits prod.splits)
  moreover have "loadScopes J j = Inr (scopes token)"
  proof -
    have "j_contains J j ''scopes'' \<and> (\<exists>y. j_at J j ''scopes'' = Inr y \<and> j_is_array J y \<and>
        map (j_string J) (j_elems J y) = map Inr (map scopeToString (scopes token)))"
      using d(3) by (auto simp: tokenFields_def has_field_def)
    then show ?thesis
      using traverseE_map_Inr [of J] by (auto simp: loadScopes_def atE_def jx_def ifE_def map_filter_inverse simp del: map_map)
  qed
  ultimately show ?thesis
    using d by (auto simp: loadTokenFromFile_def tokenFields_def has_field_def atE_def jx_def flow_simps
        emptyToken_def wholeSeconds_def)
qed

text \<open>Witness: a token whose file is written without an error.\<close>

definition sampleToken :: TokenInfo where
  "sampleToken = emptyToken\<lparr>tokenAccess := ''A'', expiresAt := 90500000000, scopes := [READ, TRADE], isValid := True\<rparr>"

definition sampleTokenJson :: jval where
  "sampleTokenJson = JObj
     [(''access_token'', JStr ''A''), (''refresh_token'', JStr []), (''token_type'', JStr ''Bearer''),
      (''expires_at'', JNum (DFin 90)), (''issued_at'', JNum (DFin 0)), (''is_valid'', JBool True),
      (''scopes'', JArr [JStr ''read'', JStr ''trade''])]"

theorem token_file_roundtrip_witness:
  "\<exists>files. saveTokenToFile \<lparr>can_open = (\<lambda>_. True), written = (\<lambda>_ t. (t, True)), can_remove = (\<lambda>_. True)\<rparr>
        (\<lambda>_. Inr ''{}'') sampleToken ''token.json'' Map.empty = (True, files) \<and>
     loadTokenFromFile (jref (\<lambda>_. Inr sampleTokenJson)) ''token.json'' files = sampleToken\<lparr>expiresAt := 90000000000\<rparr>"
proof -
  let ?F = "\<lparr>can_open = (\<lambda>_. True), written = (\<lambda>_ t. (t, True)), can_remove = (\<lambda>_. True)\<rparr>"
  have "dump_documented (jref (\<lambda>_. Inr sampleTokenJson)) (\<lambda>_. Inr ''{}'') (tokenFields sampleToken)"
    by (simp add: dump_documented_def jref_def tokenFields_def has_field_def sampleToken_def sampleTokenJson_def
        emptyToken_def truncSeconds_def d_trunc_def)
  moreover have "saveTokenToFile ?F (\<lambda>_. Inr ''{}'') sampleToken ''token.json'' Map.empty =
      (True, [''token.json'' \<mapsto> ''{}''])"
    by (simp add: saveTokenToFile_def)
  ultimately show ?thesis
    using token_file_roundtrip [of "jref (\<lambda>_. Inr sampleTokenJson)" "\<lambda>_. Inr ''{}''" sampleToken ?F "''token.json''"
        Map.empty "[''token.json'' \<mapsto> ''{}'']"]
    by (simp add: wholeSeconds_def sampleToken_def emptyToken_def truncSeconds_def seconds_def)
qed

section \<open>Automatic refresh\<close>

definition errors_handled :: "AuthService \<Rightarrow> bool" where
  "errors_handled s \<longleftrightarrow> (case errorCallback s of None \<Rightarrow> True | Some cb \<Rightarrow> \<forall>m. cb m = Inr ())"

lemma tokenRequest_settles:
  "\<exists>r w'. tokenRequest J n url ps failure refresh w = Some (r, w') \<and> auth w' = auth w"
proof (cases "curl_easy_init n (calls w)")
  case True
  then show ?thesis using tokenRequest_sends by blast
next
  case False
  then show ?thesis by (simp add: tokenRequest_def authCurlInit_def bindIO_def)
qed

lemma refresh_settles: "\<exists>r w'. refreshAccessToken J n refresh w = Some (r, w') \<and> auth w' = auth w"
proof (cases "refresh = []")
  case True
  then show ?thesis by (simp add: refreshAccessToken_def flow_simps)
next
  case False
  obtain r u where t: "tokenRequest J n (refreshTokenUrl (endpoints (auth w))) (refreshParams (auth w) refresh)
      ''Token refresh failed: '' refresh w = Some (r, u)" "auth u = auth w"
    using tokenRequest_settles by blast
  show ?thesis
  proof (cases r)
    case (Inl e)
    then show ?thesis
      using False t tokenHandler_settles [of "''Invalid refresh response: ''" "''Token refresh error: ''" e u]
      by (auto simp: refreshAccessToken_def flow_simps)
  next
    case (Inr tok)
    then show ?thesis using False t by (simp add: refreshAccessToken_def flow_simps)
  qed
qed

definition expiring :: "net \<Rightarrow> AuthService \<Rightarrow> nat \<Rightarrow> TokenInfo \<Rightarrow> bool" where
  "expiring n s i t \<longleftrightarrow> expiresAt t - seconds (60 * refreshThreshold (authConfig s)) \<le> system_now n i"

text \<open>
  With an error callback that does not throw, \<open>autoRefreshIfNeeded\<close> always returns a token and leaves
  the service as it was. It is the result of \<open>refreshAccessToken\<close> when a refresh is enabled, possible,
  due and successful, and the old token in every other case; without need nothing is sent.
\<close>

theorem auto_refresh_total:
  assumes "errors_handled (auth w)"
  shows "\<exists>t' w'. autoRefreshIfNeeded J n t w = Some (Inr t', w') \<and> auth w' = auth w \<and>
     (if autoRefresh (authConfig (auth w)) \<and> tokenRefresh t \<noteq> [] \<and> expiring n (auth w) (calls w) t
      then \<exists>r v. refreshAccessToken J n (tokenRefresh t) (tick w) = Some (r, v) \<and> t' = (case r of Inl e \<Rightarrow> t | Inr new \<Rightarrow> new)
      else t' = t \<and> sent w' = sent w)"
proof -
  obtain r v where r: "refreshAccessToken J n (tokenRefresh t) (tick w) = Some (r, v)" "auth v = auth w"
    using refresh_settles [of J n "tokenRefresh t" "tick w"] by auto
  have "\<exists>v'. notifyError m v = Some (Inr (), v') \<and> auth v' = auth v" for m
    using assms r(2) by (auto simp: notifyError_def errors_handled_def split: option.splits)
  then obtain v' where v': "notifyError m v = Some (Inr (), v' m)" "auth (v' m) = auth w" for m
    using r(2) by metis
  show ?thesis
  proof (cases "autoRefresh (authConfig (auth w)) \<and> tokenRefresh t \<noteq> [] \<and> expiring n (auth w) (calls w) t")
    case True
    have soon: "isExpiringSoon n t (refreshThreshold (authConfig (auth w))) w = Some (Inr True, tick w)"
      using True by (simp add: isExpiringSoon_def bindIO_def systemNow_def returnIO_def expiring_def)
    show ?thesis
      using True r v' soon by (cases r) (simp_all add: autoRefreshIfNeeded_def flow_simps)
  next
    case False
    then show ?thesis
      by (auto simp: autoRefreshIfNeeded_def isExpiringSoon_def systemNow_def expiring_def bindIO_def returnIO_def getIO_def)
  qed
qed

text \<open>Witness: a token without a refresh token is returned unchanged.\<close>

theorem auto_refresh_total_witness:
  "\<exists>w'. autoRefreshIfNeeded (jref (\<lambda>_. Inl ''syntax'')) authNet sampleToken sampleAuth = Some (Inr sampleToken, w') \<and> sent w' = []"
  using auto_refresh_total [of sampleAuth "jref (\<lambda>_. Inl ''syntax'')" authNet sampleToken]
  by (auto simp: errors_handled_def sampleAuth_def newAuthService_def sampleToken_def emptyToken_def)

end
