(* ===== verification/Dates.thy ===== *)
theory Dates
  imports World
begin

text \<open>
  The date functions of \<^verbatim>\<open>common/utils.hpp\<close>, \<^verbatim>\<open>common/utils.cpp\<close> and \<^verbatim>\<open>common/json_utils_base.cpp\<close>.
  A \<open>std::chrono::system_clock::time_point\<close> is its number of nanoseconds. \<open>std::get_time\<close> and
  \<open>std::put_time\<close> interpret the conversions that the sources use; \<open>std::gmtime\<close> is the proleptic
  Gregorian calendar; \<open>std::mktime\<close> is the same calendar read in local time, where the parameter \<open>z\<close>
  gives the offset of the local zone from UTC, in seconds, for a local time.
\<close>

section \<open>The calendar\<close>

record tm =
  tm_sec :: int
  tm_min :: int
  tm_hour :: int
  tm_mday :: int
  tm_mon :: int
  tm_year :: int

definition noTime :: tm where
  "noTime = \<lparr>tm_sec = 0, tm_min = 0, tm_hour = 0, tm_mday = 0, tm_mon = 0, tm_year = 0\<rparr>"

definition leap :: "int \<Rightarrow> bool" where
  "leap y \<longleftrightarrow> y mod 4 = 0 \<and> (y mod 100 \<noteq> 0 \<or> y mod 400 = 0)"

text \<open>Days from 0001-01-01 to the first of January of the year \<open>y\<close>.\<close>

definition yearStart :: "int \<Rightarrow> int" where
  "yearStart y = 365 * (y - 1) + (y - 1) div 4 - (y - 1) div 100 + (y - 1) div 400"

text \<open>Days from the first of January to the first of the month \<open>m\<close>, counted from 0.\<close>

definition monthStart :: "bool \<Rightarrow> int \<Rightarrow> int" where
  "monthStart lp m =
     [0, 31, 59, 90, 120, 151, 181, 212, 243, 273, 304, 334] ! nat m + (if lp \<and> 2 \<le> m then 1 else 0)"

definition epochDay :: int where
  "epochDay = 719162"

definition civilSeconds :: "tm \<Rightarrow> int" where
  "civilSeconds t =
     (yearStart (tm_year t + 1900) + monthStart (leap (tm_year t + 1900)) (tm_mon t) + tm_mday t - 1 - epochDay) * 86400
       + tm_hour t * 3600 + tm_min t * 60 + tm_sec t"

definition yearOfDay :: "int \<Rightarrow> int" where
  "yearOfDay n =
     (let g = 400 * n div 146097 + 1
      in if n < yearStart g then g - 1 else if yearStart (g + 1) \<le> n then g + 1 else g)"

definition monthOfDay :: "bool \<Rightarrow> int \<Rightarrow> int" where
  "monthOfDay lp d = int (length (filter (\<lambda>m. monthStart lp m \<le> d) [1, 2, 3, 4, 5, 6, 7, 8, 9, 10, 11]))"

definition gmtime :: "int \<Rightarrow> tm" where
  "gmtime t =
     (let n = t div 86400 + epochDay; s = t mod 86400;
          y = yearOfDay n; d = n - yearStart y; m = monthOfDay (leap y) d
      in \<lparr>tm_sec = s mod 60, tm_min = s div 60 mod 60, tm_hour = s div 3600,
          tm_mday = d - monthStart (leap y) m + 1, tm_mon = m, tm_year = y - 1900\<rparr>)"

definition mktime :: "(int \<Rightarrow> int) \<Rightarrow> tm \<Rightarrow> int" where
  "mktime z t = civilSeconds t - z (civilSeconds t)"

section \<open>get\_time and put\_time\<close>

fun digits :: "nat \<Rightarrow> string \<Rightarrow> string \<times> string" where
  "digits 0 s = ([], s)"
| "digits (Suc k) [] = ([], [])"
| "digits (Suc k) (c # s) =
     (if is_digit c then (case digits k s of (ds, r) \<Rightarrow> (c # ds, r)) else ([], c # s))"

definition readNumber :: "nat \<Rightarrow> int \<Rightarrow> int \<Rightarrow> string \<Rightarrow> (int \<times> string) option" where
  "readNumber k lo hi s =
     (case digits k s of (ds, r) \<Rightarrow>
        if ds = [] \<or> int (read_nat ds) < lo \<or> hi < int (read_nat ds) then None
        else Some (int (read_nat ds), r))"

definition readField :: "char \<Rightarrow> string \<Rightarrow> tm \<Rightarrow> (tm \<times> string) option" where
  "readField f s t =
     (if f = CHR ''Y'' then map_option (\<lambda>(v, r). (t\<lparr>tm_year := v - 1900\<rparr>, r)) (readNumber 4 0 9999 s)
      else if f = CHR ''m'' then map_option (\<lambda>(v, r). (t\<lparr>tm_mon := v - 1\<rparr>, r)) (readNumber 2 1 12 s)
      else if f = CHR ''d'' then map_option (\<lambda>(v, r). (t\<lparr>tm_mday := v\<rparr>, r)) (readNumber 2 1 31 s)
      else if f = CHR ''H'' then map_option (\<lambda>(v, r). (t\<lparr>tm_hour := v\<rparr>, r)) (readNumber 2 0 23 s)
      else if f = CHR ''M'' then map_option (\<lambda>(v, r). (t\<lparr>tm_min := v\<rparr>, r)) (readNumber 2 0 59 s)
      else if f = CHR ''S'' then map_option (\<lambda>(v, r). (t\<lparr>tm_sec := v\<rparr>, r)) (readNumber 2 0 60 s)
      else None)"

text \<open>Literal characters of the format match without regard to case.\<close>

definition lower :: "char \<Rightarrow> char" where
  "lower c = (if 65 \<le> (of_char c :: nat) \<and> (of_char c :: nat) \<le> 90 then char_of ((of_char c :: nat) + 32) else c)"

fun readFormat :: "string \<Rightarrow> string \<Rightarrow> tm \<Rightarrow> (tm \<times> string) option" where
  "readFormat [] s t = Some (t, s)"
| "readFormat (c # fmt) s t =
     (if c = CHR ''%'' then
        (case fmt of
           [] \<Rightarrow> None
         | f # rest \<Rightarrow> (case readField f s t of None \<Rightarrow> None | Some (t', s') \<Rightarrow> readFormat rest s' t'))
      else (case s of [] \<Rightarrow> None | x # s' \<Rightarrow> if lower x = lower c then readFormat fmt s' t else None))"

text \<open>The extraction skips leading white space first.\<close>

definition get_time :: "string \<Rightarrow> string \<Rightarrow> (tm \<times> string) option" where
  "get_time fmt s = readFormat fmt (dropWhile is_space s) noTime"

definition two :: "int \<Rightarrow> string" where
  "two v = pad0 2 (to_string v)"

definition writeField :: "char \<Rightarrow> tm \<Rightarrow> string" where
  "writeField f t =
     (if f = CHR ''Y'' then to_string (tm_year t + 1900)
      else if f = CHR ''m'' then two (tm_mon t + 1)
      else if f = CHR ''d'' then two (tm_mday t)
      else if f = CHR ''H'' then two (tm_hour t)
      else if f = CHR ''M'' then two (tm_min t)
      else if f = CHR ''S'' then two (tm_sec t)
      else [])"

fun put_time :: "string \<Rightarrow> tm \<Rightarrow> string" where
  "put_time [] t = []"
| "put_time (c # fmt) t =
     (if c = CHR ''%'' then
        (case fmt of [] \<Rightarrow> [] | f # rest \<Rightarrow> writeField f t @ put_time rest t)
      else c # put_time fmt t)"

section \<open>The functions of the library\<close>

definition parseISODateTime :: "(int \<Rightarrow> int) \<Rightarrow> string \<Rightarrow> int" where
  "parseISODateTime z dateTime =
     (case get_time ''%Y-%m-%dT%H:%M:%S'' dateTime of
        None \<Rightarrow> 0
      | Some (t, rest) \<Rightarrow>
          (let rest = (if rest \<noteq> [] \<and> hd rest = CHR ''.'' then drop 4 rest else rest);
               rest = (if rest \<noteq> [] \<and> hd rest = CHR ''Z'' then drop 1 rest
                       else if rest \<noteq> [] \<and> (hd rest = CHR ''+'' \<or> hd rest = CHR ''-'') then drop 6 rest else rest)
           in seconds (mktime z t)))"

definition utilsParseISODateTime :: "(int \<Rightarrow> int) \<Rightarrow> string \<Rightarrow> int" where
  "utilsParseISODateTime z dateTime =
     (case get_time ''%Y-%m-%dT%H:%M:%S'' dateTime of
        None \<Rightarrow> 0
      | Some (t, rest) \<Rightarrow> seconds (mktime z t))"

definition formatISODateTime :: "int \<Rightarrow> string" where
  "formatISODateTime timePoint = put_time ''%Y-%m-%dT%H:%M:%SZ'' (gmtime (truncSeconds timePoint))"

definition parseDate :: "(int \<Rightarrow> int) \<Rightarrow> string \<Rightarrow> int" where
  "parseDate z date =
     (case get_time ''%Y-%m-%d'' date of None \<Rightarrow> 0 | Some (t, rest) \<Rightarrow> seconds (mktime z t))"

definition formatDate :: "int \<Rightarrow> string" where
  "formatDate timePoint = put_time ''%Y-%m-%d'' (gmtime (truncSeconds timePoint))"

text \<open>\<open>json::parseDateTime\<close>, in which a member that is not a string is caught, and \<open>json::formatDateTime\<close>.\<close>

definition parseDateTime :: "'j json_api \<Rightarrow> (int \<Rightarrow> int) \<Rightarrow> 'j \<Rightarrow> string \<Rightarrow> int fallible" where
  "parseDateTime J z json key =
     ifE (present J (\<lambda>_. True) json key)
       (Inr (case bindE (atE J json key) (\<lambda>x. jx (j_string J x)) of
               Inl e \<Rightarrow> 0
             | Inr dateStr \<Rightarrow> utilsParseISODateTime z dateStr))
       (Inr 0)"

definition formatDateTime :: "int \<Rightarrow> string" where
  "formatDateTime time = formatISODateTime time"

section \<open>Calendar arithmetic\<close>

lemma div_bounds: "0 < k \<Longrightarrow> k * ((a :: int) div k) \<le> a \<and> a < k * (a div k) + k"
  using mult_div_mod_eq [of k a] pos_mod_bound [of k a] pos_mod_sign [of k a] by linarith

lemma yearStart_bounds:
  "146097 * (y - 1) - 800 < 400 * yearStart y" "400 * yearStart y < 146097 * (y - 1) + 400"
proof -
  have a: "4 * ((y - 1) div 4) \<le> y - 1" "y - 1 < 4 * ((y - 1) div 4) + 4"
    and b: "100 * ((y - 1) div 100) \<le> y - 1" "y - 1 < 100 * ((y - 1) div 100) + 100"
    and c: "400 * ((y - 1) div 400) \<le> y - 1" "y - 1 < 400 * ((y - 1) div 400) + 400"
    using div_bounds [of 4 "y - 1"] div_bounds [of 100 "y - 1"] div_bounds [of 400 "y - 1"] by simp_all
  show "146097 * (y - 1) - 800 < 400 * yearStart y" "400 * yearStart y < 146097 * (y - 1) + 400"
    unfolding yearStart_def using a b c by (simp_all add: algebra_simps)
qed

lemma yearOfDay_range: "yearStart (yearOfDay n) \<le> n" "n < yearStart (yearOfDay n + 1)"
proof -
  define g where "g = 400 * n div 146097 + 1"
  have "146097 * (g - 1) \<le> 400 * n" "400 * n < 146097 * (g - 1) + 146097"
    using div_bounds [of 146097 "400 * n"] by (simp_all add: g_def)
  then have lo: "yearStart (g - 1) \<le> n" and hi: "n < yearStart (g + 2)"
    using yearStart_bounds [of "g - 1"] yearStart_bounds [of "g + 2"] by simp_all
  have y: "yearOfDay n = (if n < yearStart g then g - 1 else if yearStart (g + 1) \<le> n then g + 1 else g)"
    by (simp add: yearOfDay_def g_def Let_def)
  show "yearStart (yearOfDay n) \<le> n" using lo by (simp add: y)
  show "n < yearStart (yearOfDay n + 1)" using hi by (simp add: y add.commute)
qed

lemma div_pred: "0 < k \<Longrightarrow> (y :: int) div k = (y - 1) div k + (if y mod k = 0 then 1 else 0)"
proof -
  assume k: "0 < k"
  define q r where "q = y div k" and "r = y mod k"
  have y: "y = k * q + r" "0 \<le> r" "r < k" using k by (simp_all add: q_def r_def)
  show ?thesis
  proof (cases "r = 0")
    case True
    have "(y - 1) div k = q - 1"
      by (rule int_div_pos_eq [where r = "k - 1"]) (use True y k in \<open>auto simp: algebra_simps\<close>)
    then show ?thesis using True by (simp add: q_def [symmetric] r_def [symmetric])
  next
    case False
    have "(y - 1) div k = q"
      by (rule int_div_pos_eq [where r = "r - 1"]) (use False y k in auto)
    then show ?thesis using False by (simp add: q_def [symmetric] r_def [symmetric])
  qed
qed

lemma year_step:
  fixes a b c a' b' c' y :: int
  assumes "a = a' + (if p then 1 else 0)" "b = b' + (if q then 1 else 0)" "c = c' + (if r then 1 else 0)"
    and "q \<longrightarrow> p" "r \<longrightarrow> q"
  shows "365 * y + a - b + c = 365 * (y - 1) + a' - b' + c' + (if p \<and> (\<not> q \<or> r) then 366 else 365)"
  using assms by (cases p; cases q; cases r) simp_all

lemma yearStart_Suc: "yearStart (y + 1) = yearStart y + (if leap y then 366 else 365)"
proof -
  have dvd: "4 dvd (100 :: int)" "100 dvd (400 :: int)" by simp_all
  define p4 p100 p400 where p: "p4 \<longleftrightarrow> y mod 4 = 0" "p100 \<longleftrightarrow> y mod 100 = 0" "p400 \<longleftrightarrow> y mod 400 = 0"
  have chain: "p100 \<longrightarrow> p4" "p400 \<longrightarrow> p100"
    unfolding p mod_eq_0_iff_dvd by (rule impI, erule dvd_trans [OF dvd(1)]) (rule impI, erule dvd_trans [OF dvd(2)])
  have step: "y div 4 = (y - 1) div 4 + (if p4 then 1 else 0)" "y div 100 = (y - 1) div 100 + (if p100 then 1 else 0)"
    "y div 400 = (y - 1) div 400 + (if p400 then 1 else 0)"
    using div_pred [of 4 y] div_pred [of 100 y] div_pred [of 400 y] by (simp_all only: p zero_less_numeral simp_thms)
  have "yearStart (y + 1) = 365 * y + y div 4 - y div 100 + y div 400" by (simp add: yearStart_def)
  moreover have "leap y \<longleftrightarrow> p4 \<and> (\<not> p100 \<or> p400)" by (simp add: leap_def p)
  ultimately show ?thesis
    using year_step [OF step chain, of y] by (simp only: yearStart_def)
qed

lemma monthStart_values:
  "monthStart lp 0 = 0" "monthStart lp 1 = 31" "monthStart lp 2 = 59 + (if lp then 1 else 0)"
  "monthStart lp 3 = 90 + (if lp then 1 else 0)" "monthStart lp 4 = 120 + (if lp then 1 else 0)"
  "monthStart lp 5 = 151 + (if lp then 1 else 0)" "monthStart lp 6 = 181 + (if lp then 1 else 0)"
  "monthStart lp 7 = 212 + (if lp then 1 else 0)" "monthStart lp 8 = 243 + (if lp then 1 else 0)"
  "monthStart lp 9 = 273 + (if lp then 1 else 0)" "monthStart lp 10 = 304 + (if lp then 1 else 0)"
  "monthStart lp 11 = 334 + (if lp then 1 else 0)"
  by (simp_all add: monthStart_def)

lemma monthOfDay_range:
  assumes "0 \<le> d" "d < (if lp then 366 else 365)"
  shows "0 \<le> monthOfDay lp d" "monthOfDay lp d \<le> 11"
    "monthStart lp (monthOfDay lp d) \<le> d" "d < monthStart lp (monthOfDay lp d) + 31"
  using assms by (auto simp: monthOfDay_def monthStart_values)

lemma gmtime_fields:
  assumes "gmtime t = x"
  shows "civilSeconds x = t" "0 \<le> tm_sec x" "tm_sec x < 60" "0 \<le> tm_min x" "tm_min x < 60"
    "0 \<le> tm_hour x" "tm_hour x < 24" "1 \<le> tm_mday x" "tm_mday x \<le> 31" "0 \<le> tm_mon x" "tm_mon x \<le> 11"
proof -
  define n y d m where "n = t div 86400 + epochDay" and "y = yearOfDay n" and "d = n - yearStart y"
    and "m = monthOfDay (leap y) d"
  have d: "0 \<le> d" "d < (if leap y then 366 else 365)"
    using yearOfDay_range [of n] yearStart_Suc [of y] by (simp_all add: d_def y_def)
  note m = monthOfDay_range [OF d, folded m_def]
  have x: "x = \<lparr>tm_sec = t mod 86400 mod 60, tm_min = t mod 86400 div 60 mod 60, tm_hour = t mod 86400 div 3600,
      tm_mday = d - monthStart (leap y) m + 1, tm_mon = m, tm_year = y - 1900\<rparr>"
    using assms by (simp add: gmtime_def Let_def n_def y_def d_def m_def)
  have s: "s = s div 3600 * 3600 + s div 60 mod 60 * 60 + s mod 60" for s :: int
  proof -
    have "s div 60 div 60 = s div 3600" by (simp add: zdiv_zmult2_eq [symmetric])
    then show ?thesis using div_mult_mod_eq [of s 60] div_mult_mod_eq [of "s div 60" 60] by linarith
  qed
  have "civilSeconds x = t div 86400 * 86400 +
      (t mod 86400 div 3600 * 3600 + t mod 86400 div 60 mod 60 * 60 + t mod 86400 mod 60)"
    by (simp add: civilSeconds_def x d_def n_def)
  also have "\<dots> = t" by (simp only: s [symmetric] div_mult_mod_eq)
  finally show "civilSeconds x = t" .
  have "t mod 86400 div 3600 < 24" using pos_mod_bound [of 86400 t] by (simp add: zdiv_mono1 div_less_iff_less_mult)
  then show "tm_hour x < 24" by (simp add: x)
  show "0 \<le> tm_sec x" "tm_sec x < 60" "0 \<le> tm_min x" "tm_min x < 60" "0 \<le> tm_hour x"
    "1 \<le> tm_mday x" "tm_mday x \<le> 31" "0 \<le> tm_mon x" "tm_mon x \<le> 11"
    using m by (simp_all add: x)
qed
section \<open>Printing and reading\<close>

lemma digits_append: "list_all is_digit ds \<Longrightarrow> digits (length ds) (ds @ r) = (ds, r)"
  by (induction ds) auto

lemma two_digits:
  assumes "0 \<le> v" "v < 100"
  shows "length (two v) = 2" "list_all is_digit (two v)" "read_nat (two v) = nat v"
proof -
  have "length (to_string_nat (nat v)) \<le> 2"
    using assms length_to_string_nat [of "nat v" 2] by auto
  then show "length (two v) = 2" using assms by (simp add: two_def pad0_def to_string_def)
  have "is_digit (CHR ''0'')" by (simp add: is_digit_def)
  then show "list_all is_digit (two v)"
    using assms to_string_nat_digits [of "nat v"] by (auto simp: two_def pad0_def to_string_def list_all_iff)
  show "read_nat (two v) = nat v" using assms by (simp add: two_def pad0_def to_string_def read_nat_zeros)
qed

lemma readNumber_two:
  assumes "0 \<le> v" "v < 100" "lo \<le> v" "v \<le> hi"
  shows "readNumber 2 lo hi (two v @ r) = Some (v, r)"
proof -
  have "digits 2 (two v @ r) = (two v, r)"
    using digits_append [OF two_digits(2) [OF assms(1,2)], of r] two_digits(1) [OF assms(1,2)] by simp
  moreover have "two v \<noteq> []" using two_digits(1) [OF assms(1,2)] by auto
  ultimately show ?thesis using assms two_digits(3) [OF assms(1,2)] by (simp add: readNumber_def)
qed

lemma length_to_string_nat_ge: "10 ^ k \<le> n \<Longrightarrow> Suc k \<le> length (to_string_nat n)"
proof (induction k arbitrary: n)
  case 0
  have "to_string_nat n \<noteq> []" by simp
  then show ?case by (cases "to_string_nat n") simp_all
next
  case (Suc k)
  then have "\<not> n < 10" by (metis not_le one_le_power one_le_numeral order.trans power_Suc mult_le_cancel1 mult.right_neutral)
  moreover have "10 ^ k \<le> n div 10" using Suc.prems by (simp add: less_eq_div_iff_mult_less_eq mult.commute)
  ultimately show ?case using Suc.IH [of "n div 10"] by (subst to_string_nat.simps) simp
qed

lemma readNumber_year:
  assumes "1000 \<le> y" "y \<le> 9999"
  shows "readNumber 4 0 9999 (to_string y @ r) = Some (y, r)"
proof -
  let ?s = "to_string_nat (nat y)"
  have "length ?s = 4"
  proof -
    have "nat y < 10 ^ 4" "10 ^ 3 \<le> nat y" using assms by (simp_all add: nat_less_iff le_nat_iff)
    then show ?thesis using length_to_string_nat [of "nat y" 4] length_to_string_nat_ge [of 3 "nat y"] by simp
  qed
  then have "digits 4 (?s @ r) = (?s, r)"
    using digits_append [OF to_string_nat_digits, of "nat y" r] by simp
  then show ?thesis using assms by (simp add: readNumber_def to_string_def)
qed

lemma year_range:
  assumes "0 \<le> t" "t < 253402300800"
  shows "1970 \<le> tm_year (gmtime t) + 1900" "tm_year (gmtime t) + 1900 \<le> 9999"
proof -
  define n where "n = t div 86400 + epochDay"
  have n: "719162 \<le> n" "n < 3652059"
    using assms div_bounds [of 86400 t] by (simp_all add: n_def epochDay_def)
  have y: "tm_year (gmtime t) + 1900 = yearOfDay n" by (simp add: gmtime_def Let_def n_def)
  have "yearStart 1970 = 719162" "yearStart 10000 = 3652059" by (simp_all add: yearStart_def)
  have mono: "yearStart a \<le> yearStart b" if "a \<le> b" for a b :: int
    using that by (induction b rule: int_ge_induct) (auto simp: yearStart_Suc)
  show "1970 \<le> tm_year (gmtime t) + 1900"
  proof (rule ccontr)
    assume "\<not> ?thesis"
    then have "yearStart (yearOfDay n + 1) \<le> yearStart 1970" using y by (intro mono) simp
    with yearOfDay_range(2) [of n] n show False by (simp add: yearStart_def)
  qed
  show "tm_year (gmtime t) + 1900 \<le> 9999"
  proof (rule ccontr)
    assume "\<not> ?thesis"
    then have "yearStart 10000 \<le> yearStart (yearOfDay n)" using y by (intro mono) simp
    with yearOfDay_range(1) [of n] n show False by (simp add: yearStart_def)
  qed
qed

lemma get_put_ISO:
  assumes "0 \<le> t" "t < 253402300800"
  shows "get_time ''%Y-%m-%dT%H:%M:%S'' (put_time ''%Y-%m-%dT%H:%M:%SZ'' (gmtime t)) = Some (gmtime t, ''Z'')"
proof -
  obtain sc mn hr md mo yr where x: "gmtime t = \<lparr>tm_sec = sc, tm_min = mn, tm_hour = hr, tm_mday = md, tm_mon = mo, tm_year = yr\<rparr>"
    by (cases "gmtime t") simp
  note f = gmtime_fields [OF x, simplified] and y = year_range [OF assms, unfolded x, simplified]
  have "dropWhile is_space (to_string (yr + 1900) @ r) = to_string (yr + 1900) @ r" for r
  proof -
    obtain c ds where s: "to_string (yr + 1900) = c # ds" "is_digit c"
      using y to_string_nat_digits [of "nat (yr + 1900)"]
      by (cases "to_string_nat (nat (yr + 1900))") (auto simp: to_string_def)
    then have "\<not> is_space c" by (auto simp: is_space_def is_digit_def)
    with s show ?thesis by simp
  qed
  then show ?thesis
    unfolding x get_time_def using f y
    by (simp add: writeField_def readField_def readNumber_year readNumber_two lower_def noTime_def)
qed

section \<open>What the round trip does\<close>

text \<open>
  A time printed by \<open>formatISODateTime\<close> and read back by \<open>parseISODateTime\<close> loses its fraction of a
  second and moves by the offset of the local time zone: the printed text is UTC and ends in \<open>Z\<close>, but
  it is read as local time. It comes back unchanged only where local time is UTC.
\<close>

theorem iso_time_roundtrip:
  assumes "0 \<le> time" "time < seconds 253402300800"
  shows "parseISODateTime z (formatISODateTime time) = seconds (truncSeconds time - z (truncSeconds time))"
proof -
  have t: "0 \<le> truncSeconds time" "truncSeconds time < 253402300800"
    using assms div_bounds [of 1000000000 time] by (simp_all add: truncSeconds_def seconds_def)
  show ?thesis
    unfolding formatISODateTime_def parseISODateTime_def get_put_ISO [OF t]
    by (simp add: mktime_def gmtime_fields(1) [OF refl])
qed

text \<open>Witness: in New York, 2023-11-14 22:13:20 UTC comes back five hours later.\<close>

theorem iso_time_roundtrip_witness:
  "formatISODateTime (seconds 1700000000) = ''2023-11-14T22:13:20Z'' \<and>
   parseISODateTime (\<lambda>_. -18000) (formatISODateTime (seconds 1700000000)) = seconds 1700018000"
proof
  show "formatISODateTime (seconds 1700000000) = ''2023-11-14T22:13:20Z''" by code_simp
  show "parseISODateTime (\<lambda>_. -18000) (formatISODateTime (seconds 1700000000)) = seconds 1700018000"
    using iso_time_roundtrip [of "seconds 1700000000" "\<lambda>_. -18000"] by (simp add: seconds_def truncSeconds_def)
qed

end
