(* ===== verification/Account.thy ===== *)
theory Account
  imports Client Dates
begin

text \<open>
  \<^verbatim>\<open>account.hpp\<close>, \<^verbatim>\<open>account.cpp\<close> and \<^verbatim>\<open>json/account.cpp\<close>: \<open>AccountService\<close>, which reads accounts, balances,
  positions, orders and history. The fields of the structs carry the prefixes \<open>acct\<close>, \<open>profile\<close>, \<open>pos\<close>,
  \<open>ord\<close>, \<open>bal\<close> and \<open>ev\<close>.

  The service hands \<open>SafeJsonParser\<close> objects to parsers that take \<open>nlohmann::json\<close>; the conversion that
  the JSON library performs there is the parameter \<open>cv\<close>. The time zone is the parameter \<open>z\<close> of
  \<^verbatim>\<open>Dates\<close>.
\<close>

section \<open>Data\<close>

record Account =
  acctNumber :: string
  acctType :: string
  acctStatus :: string
  acctClassification :: string
  dayTrader :: bool
  optionLevel :: int
  dateCreated :: int
  lastUpdate :: int

record AccountProfile =
  profileId :: string
  profileName :: string
  profileAccounts :: "Account list"

record Position =
  posSymbol :: string
  posQuantity :: double
  costBasis :: double
  acquired :: int

record Order =
  ordId :: int
  ordSymbol :: string
  ordType :: string
  ordSide :: string
  ordStatus :: string
  ordQuantity :: double
  ordPrice :: double
  ordFilled :: double
  ordCreated :: int
  ordTag :: "string option"

record AccountBalances =
  balAccountNumber :: string
  balAccountType :: string
  totalEquity :: double
  totalCash :: double
  buyingPower :: double
  marketValue :: double
  dayChange :: double

record HistoryEvent =
  evAmount :: double
  evDate :: int
  evType :: string
  evDescription :: string
  evSymbol :: "string option"

definition emptyAccount :: Account where
  "emptyAccount = \<lparr>acctNumber = [], acctType = [], acctStatus = [], acctClassification = [],
     dayTrader = False, optionLevel = 0, dateCreated = 0, lastUpdate = 0\<rparr>"

definition emptyProfile :: AccountProfile where
  "emptyProfile = \<lparr>profileId = [], profileName = [], profileAccounts = []\<rparr>"

definition emptyPosition :: Position where
  "emptyPosition = \<lparr>posSymbol = [], posQuantity = DFin 0, costBasis = DFin 0, acquired = 0\<rparr>"

definition emptyOrder :: Order where
  "emptyOrder = \<lparr>ordId = 0, ordSymbol = [], ordType = [], ordSide = [], ordStatus = [],
     ordQuantity = DFin 0, ordPrice = DFin 0, ordFilled = DFin 0, ordCreated = 0, ordTag = None\<rparr>"

definition emptyBalances :: AccountBalances where
  "emptyBalances = \<lparr>balAccountNumber = [], balAccountType = [], totalEquity = DFin 0, totalCash = DFin 0,
     buyingPower = DFin 0, marketValue = DFin 0, dayChange = DFin 0\<rparr>"

definition emptyEvent :: HistoryEvent where
  "emptyEvent = \<lparr>evAmount = DFin 0, evDate = 0, evType = [], evDescription = [], evSymbol = None\<rparr>"

section \<open>Parsers\<close>

text \<open>\<open>catch (const std::exception& e) { throw ParseError(message + e.what()); }\<close>\<close>

definition wrapParse :: "string \<Rightarrow> 'a fallible \<Rightarrow> 'a fallible" where
  "wrapParse message m = catchE m (\<lambda>e. Inl (ParseError (message @ what e)))"

definition parseAccount :: "'j json_api \<Rightarrow> (int \<Rightarrow> int) \<Rightarrow> 'j \<Rightarrow> Account fallible" where
  "parseAccount J z json =
     wrapParse ''Failed to parse account: ''
       (if \<not> j_is_null J json \<and> j_is_object J json then
          run [
            assign acctNumber_update (jx (j_value_string J json ''account_number'' [])),
            assign acctType_update (jx (j_value_string J json ''type'' [])),
            assign acctStatus_update (jx (j_value_string J json ''status'' [])),
            assign acctClassification_update (jx (j_value_string J json ''classification'' [])),
            assign dayTrader_update (jx (j_value_bool J json ''day_trader'' False)),
            assign optionLevel_update (jx (j_value_int J json ''option_level'' 0)),
            onlyIfE (present J (j_is_string J) json ''date_created'')
              (assign dateCreated_update (parseDateTime J z json ''date_created'')),
            onlyIfE (present J (j_is_string J) json ''last_update_date'')
              (assign lastUpdate_update (parseDateTime J z json ''last_update_date''))]
            emptyAccount
        else Inr emptyAccount)"

definition parseAccountProfile :: "'j json_api \<Rightarrow> (int \<Rightarrow> int) \<Rightarrow> 'j \<Rightarrow> AccountProfile fallible" where
  "parseAccountProfile J z json =
     wrapParse ''Failed to parse account profile: ''
       (if \<not> j_is_null J json \<and> j_is_object J json then
          run [
            assign profileId_update (jx (j_value_string J json ''id'' [])),
            assign profileName_update (jx (j_value_string J json ''name'' [])),
            onlyIfE (present J (\<lambda>_. True) json ''account'')
              (assign profileAccounts_update
                 (bindE (atE J json ''account'') (listOf J (parseAccount J z))))]
            emptyProfile
        else Inr emptyProfile)"

definition parsePosition :: "'j json_api \<Rightarrow> (int \<Rightarrow> int) \<Rightarrow> 'j \<Rightarrow> Position fallible" where
  "parsePosition J z json =
     wrapParse ''Failed to parse position: ''
       (if \<not> j_is_null J json \<and> j_is_object J json then
          run [
            assign posSymbol_update (jx (j_value_string J json ''symbol'' [])),
            assign posQuantity_update (jx (j_value_double J json ''quantity'' (DFin 0))),
            assign costBasis_update (jx (j_value_double J json ''cost_basis'' (DFin 0))),
            onlyIfE (present J (j_is_string J) json ''date_acquired'')
              (assign acquired_update (parseDateTime J z json ''date_acquired''))]
            emptyPosition
        else Inr emptyPosition)"

definition parseOrder :: "'j json_api \<Rightarrow> (int \<Rightarrow> int) \<Rightarrow> 'j \<Rightarrow> Order fallible" where
  "parseOrder J z json =
     wrapParse ''Failed to parse order: ''
       (if \<not> j_is_null J json \<and> j_is_object J json then
          run [
            assign ordId_update (jx (j_value_int J json ''id'' 0)),
            assign ordSymbol_update (jx (j_value_string J json ''symbol'' [])),
            assign ordType_update (jx (j_value_string J json ''type'' [])),
            assign ordSide_update (jx (j_value_string J json ''side'' [])),
            assign ordStatus_update (jx (j_value_string J json ''status'' [])),
            assign ordQuantity_update (jx (j_value_double J json ''quantity'' (DFin 0))),
            assign ordPrice_update (jx (j_value_double J json ''price'' (DFin 0))),
            assign ordFilled_update (jx (j_value_double J json ''exec_quantity'' (DFin 0))),
            onlyIfE (present J (j_is_string J) json ''create_date'')
              (assign ordCreated_update (parseDateTime J z json ''create_date'')),
            onlyIfE (present J (j_is_string J) json ''tag'')
              (assign ordTag_update (bindE (atE J json ''tag'') (\<lambda>x. map_sum id Some (jx (j_string J x)))))]
            emptyOrder
        else Inr emptyOrder)"

text \<open>An element of the array that cannot be parsed is logged and left out.\<close>

definition parseAccounts :: "'j json_api \<Rightarrow> (int \<Rightarrow> int) \<Rightarrow> 'j \<Rightarrow> Account list fallible" where
  "parseAccounts J z json =
     wrapParse ''Failed to parse accounts array: ''
       (if \<not> j_is_null J json then
          if j_is_array J json then
            map_sum id concat (traverseE (\<lambda>acc.
              catchE (map_sum id (\<lambda>a. [a]) (parseAccount J z acc))
                (\<lambda>e. case e of ParseError m \<Rightarrow> Inr [] | _ \<Rightarrow> Inl e)) (nonNull J json))
          else if j_is_object J json then map_sum id (\<lambda>a. [a]) (parseAccount J z json)
          else Inr []
        else Inr [])"

text \<open>The list under \<open>key\<close>, which is an array or a single object.\<close>

definition parseListAt ::
  "'j json_api \<Rightarrow> string \<Rightarrow> ('j \<Rightarrow> 'a fallible) \<Rightarrow> 'j \<Rightarrow> 'a list fallible" where
  "parseListAt J key parser json =
     ifE (if \<not> j_is_null J json \<and> j_is_object J json then present J (\<lambda>_. True) json key else Inr False)
       (bindE (atE J json key) (listOf J parser))
       (Inr [])"

definition parsePositions :: "'j json_api \<Rightarrow> (int \<Rightarrow> int) \<Rightarrow> 'j \<Rightarrow> Position list fallible" where
  "parsePositions J z json =
     wrapParse ''Failed to parse positions array: '' (parseListAt J ''position'' (parsePosition J z) json)"

definition parseOrders :: "'j json_api \<Rightarrow> (int \<Rightarrow> int) \<Rightarrow> 'j \<Rightarrow> Order list fallible" where
  "parseOrders J z json =
     wrapParse ''Failed to parse orders array: '' (parseListAt J ''order'' (parseOrder J z) json)"

section \<open>Operations\<close>

type_synonym 'j conversion = "'j SafeJsonParser \<Rightarrow> 'j"

text \<open>The lambda of an operation that parses one member of the document.\<close>

definition memberAs ::
  "'j json_api \<Rightarrow> 'j conversion \<Rightarrow> string \<Rightarrow> string \<Rightarrow> ('j \<Rightarrow> 'a fallible) \<Rightarrow> 'j SafeJsonParser \<Rightarrow> 'a fallible" where
  "memberAs J cv key formatError parser json =
     (if \<not> safeContains J json key then throwApi 400 formatError
      else bindE (safeIndex J json key) (\<lambda>x. parser (cv x)))"

definition getAccount ::
  "'j json_api \<Rightarrow> (int \<Rightarrow> int) \<Rightarrow> 'j conversion \<Rightarrow> 'w client_ops \<Rightarrow> string \<Rightarrow> ('w, exn, Account ApiResult) io" where
  "getAccount J z cv C number =
     tryExecuteIO (
       bindIO (liftIO (whenE (number = []) (Inl (ValidationError ''Account number cannot be empty'')))) (\<lambda>_.
       bindIO (cl_get C (''/accounts/'' @ number) []) (\<lambda>response.
       if \<not> success response
       then throwIO (ApiError (ApiErr (status response) (''Failed to get account: '' @ body response) []))
       else case parseResponseSafe J response
                   (memberAs J cv ''account'' ''Invalid account response format'' (parseAccount J z)) of
              None \<Rightarrow> throwIO (RuntimeError ''Failed to parse account response'')
            | Some parsed \<Rightarrow> returnIO parsed))) ''getAccount''"

definition getProfile ::
  "'j json_api \<Rightarrow> (int \<Rightarrow> int) \<Rightarrow> 'j conversion \<Rightarrow> 'w client_ops \<Rightarrow> ('w, exn, AccountProfile ApiResult) io" where
  "getProfile J z cv C =
     tryExecuteIO (
       bindIO (cl_get C ''/user/profile'' []) (\<lambda>response.
       if \<not> success response
       then throwIO (ApiError (ApiErr (status response) (''Failed to get profile: '' @ body response) []))
       else case parseResponseSafe J response
                   (memberAs J cv ''profile'' ''Invalid profile response format'' (parseAccountProfile J z)) of
              None \<Rightarrow> throwIO (RuntimeError ''Failed to parse profile response'')
            | Some parsed \<Rightarrow> returnIO parsed)) ''getProfile''"

text \<open>
  A default of type \<open>const char*\<close> selects the overload of \<open>value\<close> for \<open>bool\<close>, with the default \<open>true\<close>, and
  the assignment to the string stores that truth value as one character.
\<close>

definition boolText :: "bool \<Rightarrow> string" where
  "boolText b = [char_of (if b then 1 else 0 :: nat)]"

definition buyingPowerOf :: "'j json_api \<Rightarrow> 'j SafeJsonParser \<Rightarrow> double \<Rightarrow> double fallible" where
  "buyingPowerOf J bal old =
     (let has = (\<lambda>k l. if safeContains J bal k then bindE (safeIndex J bal k) (\<lambda>x. Inr (safeContains J x l)) else Inr False);
          read = (\<lambda>k l. bindE (safeIndex J bal k) (\<lambda>x. bindE (safeIndex J x l) (\<lambda>y. Inr (safeToDouble J y))))
      in ifE (has ''margin'' ''stock_buying_power'') (read ''margin'' ''stock_buying_power'')
           (ifE (has ''cash'' ''cash_available'') (read ''cash'' ''cash_available'') (Inr old)))"

definition parseBalances :: "'j json_api \<Rightarrow> 'j SafeJsonParser \<Rightarrow> AccountBalances fallible" where
  "parseBalances J json =
     (if \<not> safeContains J json ''balances'' then throwApi 400 ''Invalid balances response format''
      else bindE (safeIndex J json ''balances'') (\<lambda>bal.
        run [
          assign balAccountNumber_update (Inr (boolText (safeValueBool J bal ''account_number'' True))),
          assign balAccountType_update (Inr (boolText (safeValueBool J bal ''account_type'' True))),
          assign totalEquity_update (Inr (safeValueDouble J bal ''total_equity'' (DFin 0))),
          assign totalCash_update (Inr (safeValueDouble J bal ''total_cash'' (DFin 0))),
          assign marketValue_update (Inr (safeValueDouble J bal ''market_value'' (DFin 0))),
          assign dayChange_update (Inr (safeValueDouble J bal ''close_pl'' (DFin 0))),
          assign buyingPower_update (buyingPowerOf J bal (DFin 0))]
          emptyBalances))"

definition getBalances ::
  "'j json_api \<Rightarrow> 'w client_ops \<Rightarrow> string \<Rightarrow> ('w, exn, AccountBalances ApiResult) io" where
  "getBalances J C number =
     tryExecuteIO (
       bindIO (cl_get C (''/accounts/'' @ number @ ''/balances'') []) (\<lambda>response.
       if \<not> success response
       then throwIO (ApiError (ApiErr (status response) (''Failed to get balances: '' @ body response) []))
       else case parseResponseSafe J response (parseBalances J) of
              None \<Rightarrow> throwIO (RuntimeError ''Failed to parse balances response'')
            | Some parsed \<Rightarrow> returnIO parsed)) ''getBalances''"

definition getPositions ::
  "'j json_api \<Rightarrow> (int \<Rightarrow> int) \<Rightarrow> 'j conversion \<Rightarrow> 'w client_ops \<Rightarrow> string \<Rightarrow> ('w, exn, Position list ApiResult) io" where
  "getPositions J z cv C number =
     tryExecuteIO (
       bindIO (cl_get C (''/accounts/'' @ number @ ''/positions'') []) (\<lambda>response.
       if \<not> success response
       then throwIO (ApiError (ApiErr (status response) (''Failed to get positions: '' @ body response) []))
       else case parseResponseSafe J response (\<lambda>json. parsePositions J z (cv json)) of
              None \<Rightarrow> throwIO (RuntimeError ''Failed to parse positions response'')
            | Some parsed \<Rightarrow> returnIO parsed)) ''getPositions''"

definition getOrders ::
  "'j json_api \<Rightarrow> (int \<Rightarrow> int) \<Rightarrow> 'j conversion \<Rightarrow> 'w client_ops \<Rightarrow> string \<Rightarrow> ('w, exn, Order list ApiResult) io" where
  "getOrders J z cv C number =
     tryExecuteIO (
       bindIO (cl_get C (''/accounts/'' @ number @ ''/orders'') []) (\<lambda>response.
       if \<not> success response
       then throwIO (ApiError (ApiErr (status response) (''Failed to get orders: '' @ body response) []))
       else case parseResponseSafe J response (\<lambda>json. parseOrders J z (cv json)) of
              None \<Rightarrow> throwIO (RuntimeError ''Failed to parse orders response'')
            | Some parsed \<Rightarrow> returnIO parsed)) ''getOrders''"

definition getOrder ::
  "'j json_api \<Rightarrow> (int \<Rightarrow> int) \<Rightarrow> 'j conversion \<Rightarrow> 'w client_ops \<Rightarrow> string \<Rightarrow> int \<Rightarrow> ('w, exn, Order ApiResult) io" where
  "getOrder J z cv C number oid =
     tryExecuteIO (
       bindIO (cl_get C (''/accounts/'' @ number @ ''/orders/'' @ to_string oid) []) (\<lambda>response.
       if \<not> success response
       then throwIO (ApiError (ApiErr (status response) (''Failed to get order: '' @ body response) []))
       else case parseResponseSafe J response
                   (memberAs J cv ''order'' ''Invalid order response format'' (parseOrder J z)) of
              None \<Rightarrow> throwIO (RuntimeError ''Failed to parse order response'')
            | Some parsed \<Rightarrow> returnIO parsed)) ''getOrder''"

definition parseEvent :: "'j json_api \<Rightarrow> (int \<Rightarrow> int) \<Rightarrow> 'j \<Rightarrow> HistoryEvent fallible" where
  "parseEvent J z evt =
     run [
       assign evType_update (jx (j_value_string J evt ''type'' [])),
       assign evDate_update (parseDateTime J z evt ''date''),
       assign evAmount_update (jx (j_value_double J evt ''amount'' (DFin 0)))]
       emptyEvent"

definition parseHistory ::
  "'j json_api \<Rightarrow> (int \<Rightarrow> int) \<Rightarrow> 'j conversion \<Rightarrow> 'j SafeJsonParser \<Rightarrow> HistoryEvent list fallible" where
  "parseHistory J z cv json =
     ifE (if safeContains J json ''history''
          then bindE (safeIndex J json ''history'') (\<lambda>h. Inr (safeContains J h ''event'')) else Inr False)
       (bindE (safeIndex J json ''history'') (\<lambda>h.
        bindE (safeIndex J h ''event'') (\<lambda>evts.
          if j_is_array J (safeJson evts) then traverseE (parseEvent J z) (j_elems J (safeJson evts))
          else if j_is_object J (safeJson evts) then
            map_sum id (\<lambda>e. [e]) (run [
              assign evType_update (Inr (boolText (safeValueBool J evts ''type'' True))),
              assign evDate_update (parseDateTime J z (cv evts) ''date''),
              assign evAmount_update (Inr (safeValueDouble J evts ''amount'' (DFin 0)))]
              emptyEvent)
          else Inr [])))
       (Inr [])"

definition getHistory ::
  "'j json_api \<Rightarrow> (int \<Rightarrow> int) \<Rightarrow> 'j conversion \<Rightarrow> 'w client_ops \<Rightarrow> string \<Rightarrow> string \<Rightarrow> string \<Rightarrow>
     ('w, exn, HistoryEvent list ApiResult) io" where
  "getHistory J z cv C number startDate endDate =
     tryExecuteIO (
       let query = putIf (startDate \<noteq> []) ''start'' startDate [];
           query = putIf (endDate \<noteq> []) ''end'' endDate query
       in bindIO (cl_get C (''/accounts/'' @ number @ ''/history'') query) (\<lambda>response.
       if \<not> success response
       then throwIO (ApiError (ApiErr (status response) (''Failed to get history: '' @ body response) []))
       else case parseResponseSafe J response (parseHistory J z cv) of
              None \<Rightarrow> throwIO (RuntimeError ''Failed to parse history response'')
            | Some parsed \<Rightarrow> returnIO parsed)) ''getHistory''"

section \<open>The operations meet the contract of a service call\<close>

definition expectSafe ::
  "'j json_api \<Rightarrow> string \<Rightarrow> exn \<Rightarrow> ('j SafeJsonParser \<Rightarrow> 'a fallible) \<Rightarrow> Response \<Rightarrow> 'a fallible" where
  "expectSafe J failure parseFailure parser response =
     (if \<not> success response then throwApi (status response) (failure @ body response)
      else (case parseResponseSafe J response parser of
              None \<Rightarrow> Inl parseFailure
            | Some v \<Rightarrow> Inr v))"

lemma expectSafe_reports: "reports_status (expectSafe J f p parser)"
  by (simp add: reports_status_def expectSafe_def throwApi_def) blast

lemma liftIO_expectSafe:
  "liftIO (expectSafe J failure parseFailure parser response) =
     (if \<not> success response
      then throwIO (ApiError (ApiErr (status response) (failure @ body response) []))
      else case parseResponseSafe J response parser of
             None \<Rightarrow> throwIO parseFailure
           | Some parsed \<Rightarrow> returnIO parsed)"
  by (auto simp: fun_eq_iff expectSafe_def throwApi_def io_prims split: option.splits)

lemma service_call_safeI:
  assumes "r = tryExecuteIO m operation"
    and "m = bindIO (liftIO check) (\<lambda>p. bindIO (call p) (\<lambda>r. liftIO (expectSafe J failure parseFailure parser r)))"
    and "only_validation check"
  shows "service_call r check call (expectSafe J failure parseFailure parser) operation"
  using assms by unfold_locales (auto intro: endpoint_specI expectSafe_reports)

lemma only_validation_unit: "only_validation (Inr () :: unit fallible)"
  by (simp add: only_validation_def)

interpretation getAccount: service_call "getAccount J z cv C number"
  "whenE (number = []) (Inl (ValidationError ''Account number cannot be empty''))"
  "\<lambda>_. cl_get C (''/accounts/'' @ number) []"
  "expectSafe J ''Failed to get account: '' (RuntimeError ''Failed to parse account response'')
     (memberAs J cv ''account'' ''Invalid account response format'' (parseAccount J z))"
  "''getAccount''" for J z cv C number
  by (rule service_call_safeI [OF getAccount_def]) (auto simp: liftIO_expectSafe intro!: only_validation_intros)

interpretation getProfile: service_call "getProfile J z cv C" "Inr ()"
  "\<lambda>_. cl_get C ''/user/profile'' []"
  "expectSafe J ''Failed to get profile: '' (RuntimeError ''Failed to parse profile response'')
     (memberAs J cv ''profile'' ''Invalid profile response format'' (parseAccountProfile J z))"
  "''getProfile''" for J z cv C
  by (rule service_call_safeI [OF getProfile_def]) (auto simp: liftIO_expectSafe only_validation_unit)

interpretation getBalances: service_call "getBalances J C number" "Inr ()"
  "\<lambda>_. cl_get C (''/accounts/'' @ number @ ''/balances'') []"
  "expectSafe J ''Failed to get balances: '' (RuntimeError ''Failed to parse balances response'') (parseBalances J)"
  "''getBalances''" for J C number
  by (rule service_call_safeI [OF getBalances_def]) (auto simp: liftIO_expectSafe only_validation_unit)

interpretation getPositions: service_call "getPositions J z cv C number" "Inr ()"
  "\<lambda>_. cl_get C (''/accounts/'' @ number @ ''/positions'') []"
  "expectSafe J ''Failed to get positions: '' (RuntimeError ''Failed to parse positions response'')
     (\<lambda>json. parsePositions J z (cv json))"
  "''getPositions''" for J z cv C number
  by (rule service_call_safeI [OF getPositions_def]) (auto simp: liftIO_expectSafe only_validation_unit)

interpretation getOrders: service_call "getOrders J z cv C number" "Inr ()"
  "\<lambda>_. cl_get C (''/accounts/'' @ number @ ''/orders'') []"
  "expectSafe J ''Failed to get orders: '' (RuntimeError ''Failed to parse orders response'')
     (\<lambda>json. parseOrders J z (cv json))"
  "''getOrders''" for J z cv C number
  by (rule service_call_safeI [OF getOrders_def]) (auto simp: liftIO_expectSafe only_validation_unit)

interpretation getOrder: service_call "getOrder J z cv C number oid" "Inr ()"
  "\<lambda>_. cl_get C (''/accounts/'' @ number @ ''/orders/'' @ to_string oid) []"
  "expectSafe J ''Failed to get order: '' (RuntimeError ''Failed to parse order response'')
     (memberAs J cv ''order'' ''Invalid order response format'' (parseOrder J z))"
  "''getOrder''" for J z cv C number oid
  by (rule service_call_safeI [OF getOrder_def]) (auto simp: liftIO_expectSafe only_validation_unit)

definition historyQuery :: "string \<Rightarrow> string \<Rightarrow> params" where
  "historyQuery startDate endDate = putIf (endDate \<noteq> []) ''end'' endDate (putIf (startDate \<noteq> []) ''start'' startDate [])"

interpretation getHistory: service_call "getHistory J z cv C number startDate endDate" "Inr ()"
  "\<lambda>_. cl_get C (''/accounts/'' @ number @ ''/history'') (historyQuery startDate endDate)"
  "expectSafe J ''Failed to get history: '' (RuntimeError ''Failed to parse history response'') (parseHistory J z cv)"
  "''getHistory''" for J z cv C number startDate endDate
  by (rule service_call_safeI [OF getHistory_def])
    (auto simp: liftIO_expectSafe only_validation_unit historyQuery_def Let_def)

section \<open>What the conversion does to the results\<close>

text \<open>
  The documented behaviour of the conversion: a class from which a \<open>std::string\<close> can be made, as
  \<open>SafeJsonParser\<close> is through its conversion operator, becomes a JSON string.
\<close>

definition conversion_documented :: "'j json_api \<Rightarrow> 'j conversion \<Rightarrow> bool" where
  "conversion_documented J cv \<longleftrightarrow>
     (\<forall>p. j_is_string J (cv p) \<and> \<not> j_is_object J (cv p) \<and> j_string J (cv p) = Inr (safeToString J p))"

lemma parsers_on_strings:
  assumes "\<not> j_is_object J x"
  shows "parseAccount J z x = Inr emptyAccount" "parseAccountProfile J z x = Inr emptyProfile"
    "parsePositions J z x = Inr []" "parseOrders J z x = Inr []" "parseOrder J z x = Inr emptyOrder"
  using assms
  by (simp_all add: parseAccount_def parseAccountProfile_def parsePositions_def parseOrders_def parseOrder_def
      parseListAt_def wrapParse_def ifE_def)

lemma expectSafe_value:
  assumes "success response" "j_parse J (body response) = Inr j" "parser (safeOfJson j) = Inr v"
  shows "expectSafe J failure parseFailure parser response = Inr v"
  using assms by (simp add: expectSafe_def parseResponseSafe_def safeOfResponse_def safeOfJson_def Let_def)

lemma memberAs_value:
  assumes "j_at J j key = Inr x" "j_contains J j key" "\<And>y. parser (cv y) = Inr v"
  shows "memberAs J cv key formatError parser (safeOfJson j) = Inr v"
  using assms by (simp add: memberAs_def safeContains_def safeIndex_def safeOfJson_def atE_def jx_def)

text \<open>
  With the documented conversion, \<open>getPositions\<close> and \<open>getOrders\<close> report an empty list whatever
  document the server sends, and \<open>getAccount\<close>, \<open>getProfile\<close> and \<open>getOrder\<close>, given the member they look
  for, a record of default values.
\<close>

theorem account_documents_ignored:
  assumes "conversion_documented J cv" "j_parse J (body resp) = Inr j" "success resp"
    and "\<And>ep ps. cl_get C ep ps w = Some (Inr resp, w')"
    and "\<And>key. key \<in> {''account'', ''profile'', ''order''} \<Longrightarrow> j_contains J j key \<and> (\<exists>x. j_at J j key = Inr x)"
    and "number \<noteq> []"
  shows "getPositions J z cv C number w = Some (Inr (ofValue []), w') \<and>
     getOrders J z cv C number w = Some (Inr (ofValue []), w') \<and>
     getAccount J z cv C number w = Some (Inr (ofValue emptyAccount), w') \<and>
     getProfile J z cv C w = Some (Inr (ofValue emptyProfile), w') \<and>
     getOrder J z cv C number oid w = Some (Inr (ofValue emptyOrder), w')"
proof (intro conjI)
  have str: "\<not> j_is_object J (cv p)" for p using assms(1) by (simp add: conversion_documented_def)
  note parse = parsers_on_strings [OF str] and val = expectSafe_value [OF assms(3,2)]
  obtain a b c where m: "j_at J j ''account'' = Inr a" "j_contains J j ''account''"
    "j_at J j ''profile'' = Inr b" "j_contains J j ''profile''" "j_at J j ''order'' = Inr c" "j_contains J j ''order''"
    using assms(5) [of "''account''"] assms(5) [of "''profile''"] assms(5) [of "''order''"] by auto
  show "getPositions J z cv C number w = Some (Inr (ofValue []), w')"
    by (rule getPositions.reports_value [OF refl assms(4)]) (rule val, rule parse)
  show "getOrders J z cv C number w = Some (Inr (ofValue []), w')"
    by (rule getOrders.reports_value [OF refl assms(4)]) (rule val, rule parse)
  have mem: "memberAs J cv ''account'' f (parseAccount J z) (safeOfJson j) = Inr emptyAccount"
    "memberAs J cv ''profile'' f (parseAccountProfile J z) (safeOfJson j) = Inr emptyProfile"
    "memberAs J cv ''order'' f (parseOrder J z) (safeOfJson j) = Inr emptyOrder" for f
    using m parse by (auto intro: memberAs_value)
  show "getAccount J z cv C number w = Some (Inr (ofValue emptyAccount), w')"
    by (rule getAccount.reports_value [OF _ assms(4)])
      (simp add: whenE_def assms(6), rule val, rule mem)
  show "getProfile J z cv C w = Some (Inr (ofValue emptyProfile), w')"
    by (rule getProfile.reports_value [OF refl assms(4)]) (rule val, rule mem)
  show "getOrder J z cv C number oid w = Some (Inr (ofValue emptyOrder), w')"
    by (rule getOrder.reports_value [OF refl assms(4)]) (rule val, rule mem)
qed

text \<open>Witness: a server that reports a position and all members.\<close>

definition accountDoc :: jval where
  "accountDoc = JObj [(''account'', JObj [(''account_number'', JStr ''VA1'')]), (''profile'', JObj []),
     (''order'', JObj [(''id'', JNum (DFin 7))]), (''position'', JObj [(''symbol'', JStr ''AAPL'')])]"

definition docClient :: "unit client_ops" where
  "docClient = (let answer = (\<lambda>ep ps w. Some (Inr \<lparr>status = 200, body = [], headers = []\<rparr>, w))
     in \<lparr>cl_get = answer, cl_post = answer, cl_put = answer, cl_del = answer\<rparr>)"

theorem account_documents_ignored_witness:
  "getPositions (jref (\<lambda>_. Inr accountDoc)) (\<lambda>_. 0) (\<lambda>p. JStr (safeToString (jref (\<lambda>_. Inr accountDoc)) p)) docClient ''VA1'' () =
     Some (Inr (ofValue []), ())"
proof -
  let ?J = "jref (\<lambda>_. Inr accountDoc)"
  let ?resp = "\<lparr>status = 200, body = [], headers = []\<rparr>"
  have conv: "conversion_documented ?J (\<lambda>p. JStr (safeToString ?J p))"
    by (simp add: conversion_documented_def jref_def)
  have doc: "j_parse ?J (body ?resp) = Inr accountDoc" by (simp add: jref_def)
  have ok: "success ?resp" by (simp add: success_def)
  have get: "cl_get docClient ep ps () = Some (Inr ?resp, ())" for ep ps by (simp add: docClient_def Let_def)
  have mem: "j_contains ?J accountDoc key \<and> (\<exists>x. j_at ?J accountDoc key = Inr x)"
    if "key \<in> {''account'', ''profile'', ''order''}" for key
    using that by (auto simp: jref_def accountDoc_def)
  show ?thesis using account_documents_ignored [OF conv doc ok get mem, of "''VA1''" "\<lambda>_. 0"] by simp
qed

lemma boolText_range: "boolText b \<in> {boolText True, boolText False}"
  by (cases b) simp_all

text \<open>
  The account number and type of a successful \<open>getBalances\<close> are never those of the account: they are
  one control character, made from a truth value, while the amounts are those of the document.
\<close>

theorem balances_lose_strings:
  assumes "getBalances J C number w = Some (Inr (ofValue b), w')"
  shows "balAccountNumber b \<in> {boolText True, boolText False} \<and> balAccountType b \<in> {boolText True, boolText False} \<and>
     (\<exists>resp j bal. cl_get C (''/accounts/'' @ number @ ''/balances'') [] w = Some (Inr resp, w') \<and> success resp \<and>
        j_parse J (body resp) = Inr j \<and> safeIndex J (safeOfJson j) ''balances'' = Inr bal \<and>
        totalEquity b = safeValueDouble J bal ''total_equity'' (DFin 0) \<and>
        totalCash b = safeValueDouble J bal ''total_cash'' (DFin 0) \<and>
        marketValue b = safeValueDouble J bal ''market_value'' (DFin 0))"
proof -
  obtain resp where r: "cl_get C (''/accounts/'' @ number @ ''/balances'') [] w = Some (Inr resp, w')" "success resp"
    "expectSafe J ''Failed to get balances: '' (RuntimeError ''Failed to parse balances response'') (parseBalances J) resp = Inr b"
    using getBalances.success_means [OF assms] by metis
  then obtain j where j: "j_parse J (body resp) = Inr j" "parseBalances J (safeOfJson j) = Inr b"
    by (auto simp: expectSafe_def parseResponseSafe_def safeOfResponse_def safeOfJson_def Let_def split: sum.splits option.splits if_splits)
  then obtain bal where bal: "safeIndex J (safeOfJson j) ''balances'' = Inr bal"
    by (auto simp: parseBalances_def throwApi_def bindE_eq_Inr split: if_splits)
  have "balAccountNumber b = boolText (safeValueBool J bal ''account_number'' True) \<and>
      balAccountType b = boolText (safeValueBool J bal ''account_type'' True) \<and>
      totalEquity b = safeValueDouble J bal ''total_equity'' (DFin 0) \<and>
      totalCash b = safeValueDouble J bal ''total_cash'' (DFin 0) \<and>
      marketValue b = safeValueDouble J bal ''market_value'' (DFin 0)"
    using j(2) bal by (auto simp: parseBalances_def throwApi_def flow_simps bindE_eq_Inr emptyBalances_def split: if_splits)
  then show ?thesis using r(1,2) j(1) bal boolText_range by metis
qed

text \<open>Witness: a document with an account number.\<close>

theorem balances_lose_strings_witness:
  "\<exists>b. getBalances (jref (\<lambda>_. Inr (JObj [(''balances'', JObj [(''account_number'', JStr ''VA1'')])]))) docClient ''VA1'' () =
      Some (Inr (ofValue b), ()) \<and> balAccountNumber b \<noteq> ''VA1''"
proof -
  let ?run = "getBalances (jref (\<lambda>_. Inr (JObj [(''balances'', JObj [(''account_number'', JStr ''VA1'')])]))) docClient ''VA1'' ()"
  have "(case ?run of Some (Inr r, u) \<Rightarrow> error_opt r = None \<and> value_opt r \<noteq> None | _ \<Rightarrow> False)" by code_simp
  then obtain b where b: "?run = Some (Inr (ofValue b), ())"
    by (auto simp: ofValue_def split: option.splits sum.splits)
       (metis (full_types) ApiResult.surjective old.unit.exhaust)
  from balances_lose_strings [OF b] show ?thesis using b by (auto simp: boolText_def)
qed

end
