(* ===== verification/Market_Json.thy ===== *)
theory Market_Json
  imports Client Dates
begin

text \<open>
  The data of \<^verbatim>\<open>market.hpp\<close> and its parsers in \<^verbatim>\<open>json/market.cpp\<close>, up to the market clock; the company
  data follow in \<^verbatim>\<open>Fundamentals\<close>. The fields of the structs carry the prefixes \<open>gk\<close> (\<open>Greeks\<close>), \<open>q\<close>
  (\<open>Quote\<close>), \<open>oc\<close> (\<open>OptionChain\<close>), \<open>xp\<close> (\<open>Expiration\<close>), \<open>os\<close> (\<open>OptionSymbol\<close>), \<open>hd\<close>
  (\<open>HistoricalData\<close>), \<open>ts\<close> (\<open>TimeSalesData\<close>), \<open>sc\<close> (\<open>Security\<close>), \<open>sn\<close> (\<open>SessionTime\<close>), \<open>md\<close>
  (\<open>MarketDay\<close>), \<open>mc\<close> (\<open>MarketCalendar\<close>) and \<open>ck\<close> (\<open>MarketClock\<close>). Times are nanoseconds since the
  epoch. The parser of a list accepts the array the server sends for several elements and the single
  object it sends for one.
\<close>

section \<open>Data\<close>

record Greeks =
  gkDelta :: double
  gkGamma :: double
  gkTheta :: double
  gkVega :: double
  gkRho :: double
  gkPhi :: double
  gkBidIv :: double
  gkMidIv :: double
  gkAskIv :: double
  gkSmvVol :: double
  gkUpdatedAt :: int

record Quote =
  qSymbol :: string
  qDescription :: string
  qExchange :: string
  qType :: string
  qLast :: "double option"
  qChange :: "double option"
  qVolume :: int
  qOpen :: "double option"
  qHigh :: "double option"
  qLow :: "double option"
  qClose :: "double option"
  qBid :: double
  qAsk :: double
  qChangePercentage :: "double option"
  qAverageVolume :: int
  qLastVolume :: int
  qTradeDate :: int
  qTimestamp :: int
  qPrevClose :: "double option"
  qWeek52High :: double
  qWeek52Low :: double
  qBidSize :: int
  qBidExchange :: string
  qBidDate :: int
  qAskSize :: int
  qAskExchange :: string
  qAskDate :: int
  qRootSymbols :: string
  qUnderlying :: "string option"
  qStrike :: "double option"
  qOpenInterest :: "int option"
  qContractSize :: "int option"
  qExpirationDate :: "string option"
  qExpirationType :: "string option"
  qOptionType :: "string option"
  qRootSymbol :: "string option"
  qGreeks :: "Greeks option"

record OptionChain =
  ocSymbol :: string
  ocDescription :: string
  ocExchange :: string
  ocType :: string
  ocLast :: "double option"
  ocChange :: "double option"
  ocVolume :: int
  ocOpen :: "double option"
  ocHigh :: "double option"
  ocLow :: "double option"
  ocClose :: "double option"
  ocBid :: double
  ocAsk :: double
  ocUnderlying :: string
  ocStrike :: double
  ocChangePercentage :: "double option"
  ocAverageVolume :: int
  ocLastVolume :: int
  ocTradeDate :: int
  ocPrevClose :: "double option"
  ocWeek52High :: double
  ocWeek52Low :: double
  ocBidSize :: int
  ocBidExchange :: string
  ocBidDate :: int
  ocAskSize :: int
  ocAskExchange :: string
  ocAskDate :: int
  ocOpenInterest :: int
  ocContractSize :: int
  ocExpirationDate :: string
  ocExpirationType :: string
  ocOptionType :: string
  ocRootSymbol :: string
  ocGreeks :: "Greeks option"

record Expiration =
  xpDate :: string
  xpContractSize :: int
  xpExpirationType :: string
  xpStrikes :: "double list"

record OptionSymbol =
  osRootSymbol :: string
  osOptions :: "string list"

record HistoricalData =
  hdDate :: string
  hdOpen :: double
  hdHigh :: double
  hdLow :: double
  hdClose :: double
  hdVolume :: int

record TimeSalesData =
  tsTime :: string
  tsTimestamp :: int
  tsPrice :: double
  tsOpen :: double
  tsHigh :: double
  tsLow :: double
  tsClose :: double
  tsVolume :: int
  tsVwap :: double

record Security =
  scSymbol :: string
  scExchange :: string
  scType :: string
  scDescription :: string

record SessionTime =
  snStart :: string
  snEnd :: string

record MarketDay =
  mdDate :: string
  mdStatus :: string
  mdDescription :: string
  mdPremarket :: SessionTime
  mdOpen :: SessionTime
  mdPostmarket :: SessionTime

record MarketCalendar =
  mcMonth :: int
  mcYear :: int
  mcDays :: "MarketDay list"

record MarketClock =
  ckDate :: string
  ckDescription :: string
  ckState :: string
  ckTimestamp :: int
  ckNextChange :: string
  ckNextState :: string

definition emptyGreeks :: Greeks where
  "emptyGreeks = \<lparr>
     gkDelta = DFin 0, gkGamma = DFin 0, gkTheta = DFin 0, gkVega = DFin 0, gkRho = DFin 0, gkPhi = DFin 0,
     gkBidIv = DFin 0, gkMidIv = DFin 0, gkAskIv = DFin 0, gkSmvVol = DFin 0, gkUpdatedAt = 0\<rparr>"

definition emptyQuote :: Quote where
  "emptyQuote = \<lparr>
     qSymbol = [], qDescription = [], qExchange = [], qType = [], qLast = None, qChange = None, qVolume = 0,
     qOpen = None, qHigh = None, qLow = None, qClose = None, qBid = DFin 0, qAsk = DFin 0,
     qChangePercentage = None, qAverageVolume = 0, qLastVolume = 0, qTradeDate = 0, qTimestamp = 0,
     qPrevClose = None, qWeek52High = DFin 0, qWeek52Low = DFin 0, qBidSize = 0, qBidExchange = [],
     qBidDate = 0, qAskSize = 0, qAskExchange = [], qAskDate = 0, qRootSymbols = [], qUnderlying = None,
     qStrike = None, qOpenInterest = None, qContractSize = None, qExpirationDate = None,
     qExpirationType = None, qOptionType = None, qRootSymbol = None, qGreeks = None\<rparr>"

definition emptyOptionChain :: OptionChain where
  "emptyOptionChain = \<lparr>
     ocSymbol = [], ocDescription = [], ocExchange = [], ocType = [], ocLast = None, ocChange = None,
     ocVolume = 0, ocOpen = None, ocHigh = None, ocLow = None, ocClose = None, ocBid = DFin 0, ocAsk = DFin 0,
     ocUnderlying = [], ocStrike = DFin 0, ocChangePercentage = None, ocAverageVolume = 0, ocLastVolume = 0,
     ocTradeDate = 0, ocPrevClose = None, ocWeek52High = DFin 0, ocWeek52Low = DFin 0, ocBidSize = 0,
     ocBidExchange = [], ocBidDate = 0, ocAskSize = 0, ocAskExchange = [], ocAskDate = 0, ocOpenInterest = 0,
     ocContractSize = 100, ocExpirationDate = [], ocExpirationType = [], ocOptionType = [], ocRootSymbol = [],
     ocGreeks = None\<rparr>"

definition emptyExpiration :: Expiration where
  "emptyExpiration = \<lparr>
     xpDate = [], xpContractSize = 100, xpExpirationType = [], xpStrikes = []\<rparr>"

definition emptyOptionSymbol :: OptionSymbol where
  "emptyOptionSymbol = \<lparr>
     osRootSymbol = [], osOptions = []\<rparr>"

definition emptyHistoricalData :: HistoricalData where
  "emptyHistoricalData = \<lparr>
     hdDate = [], hdOpen = DFin 0, hdHigh = DFin 0, hdLow = DFin 0, hdClose = DFin 0, hdVolume = 0\<rparr>"

definition emptyTimeSalesData :: TimeSalesData where
  "emptyTimeSalesData = \<lparr>
     tsTime = [], tsTimestamp = 0, tsPrice = DFin 0, tsOpen = DFin 0, tsHigh = DFin 0, tsLow = DFin 0,
     tsClose = DFin 0, tsVolume = 0, tsVwap = DFin 0\<rparr>"

definition emptySecurity :: Security where
  "emptySecurity = \<lparr>
     scSymbol = [], scExchange = [], scType = [], scDescription = []\<rparr>"

definition emptySessionTime :: SessionTime where
  "emptySessionTime = \<lparr>
     snStart = [], snEnd = []\<rparr>"

definition emptyMarketDay :: MarketDay where
  "emptyMarketDay = \<lparr>
     mdDate = [], mdStatus = [], mdDescription = [], mdPremarket = emptySessionTime, mdOpen = emptySessionTime,
     mdPostmarket = emptySessionTime\<rparr>"

definition emptyMarketClock :: MarketClock where
  "emptyMarketClock = \<lparr>
     ckDate = [], ckDescription = [], ckState = [], ckTimestamp = 0, ckNextChange = [],
     ckNextState = []\<rparr>"

section \<open>Statements that the parsers share\<close>

text \<open>\<open>if (!json.is_null() && json.is_object())\<close>, and the same with a member \<open>key\<close> that is not null.\<close>

definition whenObject :: "'j json_api \<Rightarrow> 'j \<Rightarrow> 'a fallible \<Rightarrow> 'a \<Rightarrow> 'a fallible" where
  "whenObject J json m other = (if \<not> j_is_null J json \<and> j_is_object J json then m else Inr other)"

definition memberOr :: "'j json_api \<Rightarrow> 'j \<Rightarrow> string \<Rightarrow> ('j \<Rightarrow> 'a fallible) \<Rightarrow> 'a \<Rightarrow> 'a fallible" where
  "memberOr J json key f other =
     whenObject J json
       (ifE (present J (\<lambda>_. True) json key) (bindE (atE J json key) f) (Inr other)) other"

text \<open>The list at \<open>json[a][b]\<close>, empty when there is none.\<close>

definition listAt2 ::
  "'j json_api \<Rightarrow> string \<Rightarrow> string \<Rightarrow> ('j \<Rightarrow> 'a list fallible) \<Rightarrow> 'j \<Rightarrow> 'a list fallible" where
  "listAt2 J a b items json =
     whenObject J json
       (ifE (present2 J json a b) (bindE (atE J json a) (\<lambda>x. bindE (atE J x b) items)) (Inr []))
       []"

text \<open>An optional field: set when the member is a number, or when it is not null.\<close>

definition assignNumber ::
  "'j json_api \<Rightarrow> 'j \<Rightarrow> string \<Rightarrow> ((double option \<Rightarrow> double option) \<Rightarrow> 's \<Rightarrow> 's) \<Rightarrow> (exn, 's) stmt" where
  "assignNumber J json key upd =
     onlyIfE (present J (j_is_number J) json key)
       (assign upd (bindE (atE J json key) (\<lambda>x. map_sum id Some (jx (j_double J x)))))"

definition assignPresent ::
  "'j json_api \<Rightarrow> ('j \<Rightarrow> string \<Rightarrow> 'v \<Rightarrow> string + 'v) \<Rightarrow> 'v \<Rightarrow> 'j \<Rightarrow> string \<Rightarrow>
     (('v option \<Rightarrow> 'v option) \<Rightarrow> 's \<Rightarrow> 's) \<Rightarrow> (exn, 's) stmt" where
  "assignPresent J val d json key upd =
     onlyIfE (present J (\<lambda>_. True) json key) (assign upd (map_sum id Some (jx (val json key d))))"

text \<open>A time in milliseconds, taken when it is a positive number and cut to whole seconds.\<close>

definition assignMillis ::
  "'j json_api \<Rightarrow> 'j \<Rightarrow> string \<Rightarrow> ((int \<Rightarrow> int) \<Rightarrow> 's \<Rightarrow> 's) \<Rightarrow> (exn, 's) stmt" where
  "assignMillis J json key upd =
     (let millis = bindE (atE J json key) (\<lambda>x. jx (j_long J x))
      in onlyIfE (andE (present J (j_is_number J) json key) (map_sum id (\<lambda>v. 0 < v) millis))
           (assign upd (map_sum id (\<lambda>v. seconds (v div 1000)) millis)))"

section \<open>Parsers\<close>

definition parseGreeks :: "'j json_api \<Rightarrow> (int \<Rightarrow> int) \<Rightarrow> 'j \<Rightarrow> Greeks fallible" where
  "parseGreeks J z json =
     whenObject J json
       (run [
          assign gkDelta_update (jx (j_value_double J json ''delta'' (DFin 0))),
          assign gkGamma_update (jx (j_value_double J json ''gamma'' (DFin 0))),
          assign gkTheta_update (jx (j_value_double J json ''theta'' (DFin 0))),
          assign gkVega_update (jx (j_value_double J json ''vega'' (DFin 0))),
          assign gkRho_update (jx (j_value_double J json ''rho'' (DFin 0))),
          assign gkPhi_update (jx (j_value_double J json ''phi'' (DFin 0))),
          assign gkBidIv_update (jx (j_value_double J json ''bid_iv'' (DFin 0))),
          assign gkMidIv_update (jx (j_value_double J json ''mid_iv'' (DFin 0))),
          assign gkAskIv_update (jx (j_value_double J json ''ask_iv'' (DFin 0))),
          assign gkSmvVol_update (jx (j_value_double J json ''smv_vol'' (DFin 0))),
          onlyIfE (present J (j_is_string J) json ''updated_at'')
            (assign gkUpdatedAt_update
              (bindE (atE J json ''updated_at'') (\<lambda>x. map_sum id (utilsParseISODateTime z) (jx (j_string J x)))))]
         emptyGreeks)
       emptyGreeks"

definition parseQuote :: "'j json_api \<Rightarrow> (int \<Rightarrow> int) \<Rightarrow> 'j \<Rightarrow> Quote fallible" where
  "parseQuote J z json =
     whenObject J json
       (run [
          assign qSymbol_update (jx (j_value_string J json ''symbol'' [])),
          assign qDescription_update (jx (j_value_string J json ''description'' [])),
          assign qExchange_update (jx (j_value_string J json ''exch'' [])),
          assign qType_update (jx (j_value_string J json ''type'' [])),
          assignNumber J json ''last'' qLast_update,
          assignNumber J json ''change'' qChange_update,
          assign qVolume_update (jx (j_value_int J json ''volume'' 0)),
          assignNumber J json ''open'' qOpen_update,
          assignNumber J json ''high'' qHigh_update,
          assignNumber J json ''low'' qLow_update,
          assignNumber J json ''close'' qClose_update,
          assign qBid_update (jx (j_value_double J json ''bid'' (DFin 0))),
          assign qAsk_update (jx (j_value_double J json ''ask'' (DFin 0))),
          assignNumber J json ''change_percentage'' qChangePercentage_update,
          assign qAverageVolume_update (jx (j_value_int J json ''average_volume'' 0)),
          assign qLastVolume_update (jx (j_value_int J json ''last_volume'' 0)),
          assignMillis J json ''trade_date'' qTradeDate_update,
          assignNumber J json ''prevclose'' qPrevClose_update,
          assign qWeek52High_update (jx (j_value_double J json ''week_52_high'' (DFin 0))),
          assign qWeek52Low_update (jx (j_value_double J json ''week_52_low'' (DFin 0))),
          assign qBidSize_update (jx (j_value_int J json ''bidsize'' 0)),
          assign qBidExchange_update (jx (j_value_string J json ''bidexch'' [])),
          assignMillis J json ''bid_date'' qBidDate_update,
          assign qAskSize_update (jx (j_value_int J json ''asksize'' 0)),
          assign qAskExchange_update (jx (j_value_string J json ''askexch'' [])),
          assignMillis J json ''ask_date'' qAskDate_update,
          assign qRootSymbols_update (jx (j_value_string J json ''root_symbols'' [])),
          assignPresent J (j_value_string J) [] json ''underlying'' qUnderlying_update,
          assignPresent J (j_value_double J) (DFin 0) json ''strike'' qStrike_update,
          assignPresent J (j_value_int J) 0 json ''open_interest'' qOpenInterest_update,
          assignPresent J (j_value_int J) 100 json ''contract_size'' qContractSize_update,
          assignPresent J (j_value_string J) [] json ''expiration_date'' qExpirationDate_update,
          assignPresent J (j_value_string J) [] json ''expiration_type'' qExpirationType_update,
          assignPresent J (j_value_string J) [] json ''option_type'' qOptionType_update,
          assignPresent J (j_value_string J) [] json ''root_symbol'' qRootSymbol_update,
          onlyIfE (present J (\<lambda>_. True) json ''greeks'')
            (assign qGreeks_update (bindE (atE J json ''greeks'') (\<lambda>x. map_sum id Some (parseGreeks J z x))))]
         emptyQuote)
       emptyQuote"

definition parseQuotes :: "'j json_api \<Rightarrow> (int \<Rightarrow> int) \<Rightarrow> 'j \<Rightarrow> Quote list fallible" where
  "parseQuotes J z = listAt2 J ''quotes'' ''quote'' (listOf J (parseQuote J z))"

definition parseOptionChain :: "'j json_api \<Rightarrow> (int \<Rightarrow> int) \<Rightarrow> 'j \<Rightarrow> OptionChain fallible" where
  "parseOptionChain J z json =
     whenObject J json
       (run [
          assign ocSymbol_update (jx (j_value_string J json ''symbol'' [])),
          assign ocDescription_update (jx (j_value_string J json ''description'' [])),
          assign ocExchange_update (jx (j_value_string J json ''exch'' [])),
          assign ocType_update (jx (j_value_string J json ''type'' [])),
          assignNumber J json ''last'' ocLast_update,
          assignNumber J json ''change'' ocChange_update,
          assign ocVolume_update (jx (j_value_int J json ''volume'' 0)),
          assignNumber J json ''open'' ocOpen_update,
          assignNumber J json ''high'' ocHigh_update,
          assignNumber J json ''low'' ocLow_update,
          assignNumber J json ''close'' ocClose_update,
          assign ocBid_update (jx (j_value_double J json ''bid'' (DFin 0))),
          assign ocAsk_update (jx (j_value_double J json ''ask'' (DFin 0))),
          assign ocUnderlying_update (jx (j_value_string J json ''underlying'' [])),
          assign ocStrike_update (jx (j_value_double J json ''strike'' (DFin 0))),
          assignNumber J json ''change_percentage'' ocChangePercentage_update,
          assign ocAverageVolume_update (jx (j_value_int J json ''average_volume'' 0)),
          assign ocLastVolume_update (jx (j_value_int J json ''last_volume'' 0)),
          assignMillis J json ''trade_date'' ocTradeDate_update,
          assignNumber J json ''prevclose'' ocPrevClose_update,
          assign ocWeek52High_update (jx (j_value_double J json ''week_52_high'' (DFin 0))),
          assign ocWeek52Low_update (jx (j_value_double J json ''week_52_low'' (DFin 0))),
          assign ocBidSize_update (jx (j_value_int J json ''bidsize'' 0)),
          assign ocBidExchange_update (jx (j_value_string J json ''bidexch'' [])),
          assignMillis J json ''bid_date'' ocBidDate_update,
          assign ocAskSize_update (jx (j_value_int J json ''asksize'' 0)),
          assign ocAskExchange_update (jx (j_value_string J json ''askexch'' [])),
          assignMillis J json ''ask_date'' ocAskDate_update,
          assign ocOpenInterest_update (jx (j_value_int J json ''open_interest'' 0)),
          assign ocContractSize_update (jx (j_value_int J json ''contract_size'' 100)),
          assign ocExpirationDate_update (jx (j_value_string J json ''expiration_date'' [])),
          assign ocExpirationType_update (jx (j_value_string J json ''expiration_type'' [])),
          assign ocOptionType_update (jx (j_value_string J json ''option_type'' [])),
          assign ocRootSymbol_update (jx (j_value_string J json ''root_symbol'' [])),
          onlyIfE (present J (\<lambda>_. True) json ''greeks'')
            (assign ocGreeks_update (bindE (atE J json ''greeks'') (\<lambda>x. map_sum id Some (parseGreeks J z x))))]
         emptyOptionChain)
       emptyOptionChain"

definition parseOptionChains :: "'j json_api \<Rightarrow> (int \<Rightarrow> int) \<Rightarrow> 'j \<Rightarrow> OptionChain list fallible" where
  "parseOptionChains J z = listAt2 J ''options'' ''option'' (listOf J (parseOptionChain J z))"

text \<open>The strikes: the numbers of an array, or a single number.\<close>

definition numbersOf :: "'j json_api \<Rightarrow> 'j \<Rightarrow> double list fallible" where
  "numbersOf J json =
     (if j_is_array J json
      then traverseE (\<lambda>x. jx (j_double J x)) (filter (\<lambda>x. \<not> j_is_null J x \<and> j_is_number J x) (j_elems J json))
      else if j_is_number J json then map_sum id (\<lambda>x. [x]) (jx (j_double J json))
      else Inr [])"

definition parseStrikes :: "'j json_api \<Rightarrow> 'j \<Rightarrow> double list fallible" where
  "parseStrikes J = listAt2 J ''strikes'' ''strike'' (numbersOf J)"

definition parseExpiration :: "'j json_api \<Rightarrow> 'j \<Rightarrow> Expiration fallible" where
  "parseExpiration J json =
     whenObject J json
       (run [
          assign xpDate_update (jx (j_value_string J json ''date'' [])),
          assign xpContractSize_update (jx (j_value_int J json ''contract_size'' 100)),
          assign xpExpirationType_update (jx (j_value_string J json ''expiration_type'' [])),
          onlyIfE (present2 J json ''strikes'' ''strike'')
            (assign xpStrikes_update
              (bindE (atE J json ''strikes'') (\<lambda>x. bindE (atE J x ''strike'') (numbersOf J))))]
         emptyExpiration)
       emptyExpiration"

definition parseExpirations :: "'j json_api \<Rightarrow> 'j \<Rightarrow> Expiration list fallible" where
  "parseExpirations J = listAt2 J ''expirations'' ''expiration'' (listOf J (parseExpiration J))"

definition parseOptionSymbol :: "'j json_api \<Rightarrow> 'j \<Rightarrow> OptionSymbol fallible" where
  "parseOptionSymbol J json =
     whenObject J json
       (run [
          assign osRootSymbol_update (jx (j_value_string J json ''rootSymbol'' [])),
          onlyIfE (present J (j_is_array J) json ''options'')
            (assign osOptions_update
              (bindE (atE J json ''options'') (\<lambda>xs. traverseE (\<lambda>x. jx (j_string J x))
                (filter (\<lambda>x. \<not> j_is_null J x \<and> j_is_string J x) (j_elems J xs)))))]
         emptyOptionSymbol)
       emptyOptionSymbol"

definition parseOptionSymbols :: "'j json_api \<Rightarrow> 'j \<Rightarrow> OptionSymbol list fallible" where
  "parseOptionSymbols J json =
     whenObject J json
       (ifE (present J (j_is_array J) json ''symbols'')
         (bindE (atE J json ''symbols'') (\<lambda>xs. traverseE (parseOptionSymbol J) (nonNull J xs)))
         (Inr []))
       []"

definition parseHistoricalData :: "'j json_api \<Rightarrow> 'j \<Rightarrow> HistoricalData fallible" where
  "parseHistoricalData J json =
     whenObject J json
       (run [
          assign hdDate_update (jx (j_value_string J json ''date'' [])),
          assign hdOpen_update (jx (j_value_double J json ''open'' (DFin 0))),
          assign hdHigh_update (jx (j_value_double J json ''high'' (DFin 0))),
          assign hdLow_update (jx (j_value_double J json ''low'' (DFin 0))),
          assign hdClose_update (jx (j_value_double J json ''close'' (DFin 0))),
          assign hdVolume_update (jx (j_value_long J json ''volume'' 0))]
         emptyHistoricalData)
       emptyHistoricalData"

definition parseHistoricalDataList :: "'j json_api \<Rightarrow> 'j \<Rightarrow> HistoricalData list fallible" where
  "parseHistoricalDataList J = listAt2 J ''history'' ''day'' (listOf J (parseHistoricalData J))"

definition parseTimeSalesData :: "'j json_api \<Rightarrow> 'j \<Rightarrow> TimeSalesData fallible" where
  "parseTimeSalesData J json =
     whenObject J json
       (run [
          assign tsTime_update (jx (j_value_string J json ''time'' [])),
          assign tsTimestamp_update (jx (j_value_long J json ''timestamp'' 0)),
          assign tsPrice_update (jx (j_value_double J json ''price'' (DFin 0))),
          assign tsOpen_update (jx (j_value_double J json ''open'' (DFin 0))),
          assign tsHigh_update (jx (j_value_double J json ''high'' (DFin 0))),
          assign tsLow_update (jx (j_value_double J json ''low'' (DFin 0))),
          assign tsClose_update (jx (j_value_double J json ''close'' (DFin 0))),
          assign tsVolume_update (jx (j_value_long J json ''volume'' 0)),
          assign tsVwap_update (jx (j_value_double J json ''vwap'' (DFin 0)))]
         emptyTimeSalesData)
       emptyTimeSalesData"

definition parseTimeSalesList :: "'j json_api \<Rightarrow> 'j \<Rightarrow> TimeSalesData list fallible" where
  "parseTimeSalesList J = listAt2 J ''series'' ''data'' (listOf J (parseTimeSalesData J))"

definition stringOr :: "'j json_api \<Rightarrow> 'j \<Rightarrow> string \<Rightarrow> string fallible" where
  "stringOr J json key =
     ifE (present J (j_is_string J) json key) (bindE (atE J json key) (\<lambda>x. jx (j_string J x))) (Inr [])"

definition parseSecurity :: "'j json_api \<Rightarrow> 'j \<Rightarrow> Security fallible" where
  "parseSecurity J json =
     whenObject J json
       (run [
          assign scSymbol_update (stringOr J json ''symbol''),
          assign scExchange_update (stringOr J json ''exchange''),
          assign scType_update (stringOr J json ''type''),
          assign scDescription_update (stringOr J json ''description'')]
         emptySecurity)
       emptySecurity"

definition parseSecurities :: "'j json_api \<Rightarrow> 'j \<Rightarrow> Security list fallible" where
  "parseSecurities J = listAt2 J ''securities'' ''security'' (listOf J (parseSecurity J))"

definition parseSessionTime :: "'j json_api \<Rightarrow> 'j \<Rightarrow> SessionTime fallible" where
  "parseSessionTime J json =
     whenObject J json
       (run [
          assign snStart_update (jx (j_value_string J json ''start'' [])),
          assign snEnd_update (jx (j_value_string J json ''end'' []))]
         emptySessionTime)
       emptySessionTime"

definition parseMarketDay :: "'j json_api \<Rightarrow> 'j \<Rightarrow> MarketDay fallible" where
  "parseMarketDay J json =
     whenObject J json
       (run [
          assign mdDate_update (jx (j_value_string J json ''date'' [])),
          assign mdStatus_update (jx (j_value_string J json ''status'' [])),
          assign mdDescription_update (jx (j_value_string J json ''description'' [])),
          onlyIfE (present J (\<lambda>_. True) json ''premarket'')
            (assign mdPremarket_update (bindE (atE J json ''premarket'') (parseSessionTime J))),
          onlyIfE (present J (\<lambda>_. True) json ''open'')
            (assign mdOpen_update (bindE (atE J json ''open'') (parseSessionTime J))),
          onlyIfE (present J (\<lambda>_. True) json ''postmarket'')
            (assign mdPostmarket_update (bindE (atE J json ''postmarket'') (parseSessionTime J)))]
         emptyMarketDay)
       emptyMarketDay"

text \<open>\<open>month\<close> and \<open>year\<close> have no initial value: the argument \<open>junk\<close> is what the object holds.\<close>

definition parseMarketCalendar :: "'j json_api \<Rightarrow> int \<times> int \<Rightarrow> 'j \<Rightarrow> MarketCalendar fallible" where
  "parseMarketCalendar J junk json =
     (let calendar = \<lparr>mcMonth = fst junk, mcYear = snd junk, mcDays = []\<rparr>
      in memberOr J json ''calendar''
           (\<lambda>cal. run [
              assign mcMonth_update (jx (j_value_int J cal ''month'' 0)),
              assign mcYear_update (jx (j_value_int J cal ''year'' 0)),
              onlyIfE (present2 J cal ''days'' ''day'')
                (assign mcDays_update
                  (bindE (atE J cal ''days'') (\<lambda>x. bindE (atE J x ''day'') (listOf J (parseMarketDay J)))))]
              calendar)
           calendar)"

definition parseMarketClock :: "'j json_api \<Rightarrow> 'j \<Rightarrow> MarketClock fallible" where
  "parseMarketClock J json =
     memberOr J json ''clock''
       (\<lambda>clockJson. run [
          assign ckDate_update (jx (j_value_string J clockJson ''date'' [])),
          assign ckDescription_update (jx (j_value_string J clockJson ''description'' [])),
          assign ckState_update (jx (j_value_string J clockJson ''state'' [])),
          assign ckTimestamp_update (jx (j_value_long J clockJson ''timestamp'' 0)),
          assign ckNextChange_update (jx (j_value_string J clockJson ''next_change'' [])),
          assign ckNextState_update (jx (j_value_string J clockJson ''next_state'' []))]
          emptyMarketClock)
       emptyMarketClock"

end
