(* ===== verification/Fundamentals.thy ===== *)
theory Fundamentals
  imports Market_Json
begin

text \<open>
  The company data of \<^verbatim>\<open>market.hpp\<close> and their parsers in \<^verbatim>\<open>json/market.cpp\<close>. The server answers with an
  array of requests, each with an array of results, each with named tables; the parsers read the
  first result of the first request. The fields carry the prefixes \<open>cp\<close> (\<open>CompanyProfile\<close>), \<open>ac\<close>
  (\<open>AssetClassification\<close>), \<open>cf\<close> (\<open>CompanyFundamentals\<close>), \<open>cce\<close> (\<open>CorporateCalendarEvent\<close>), \<open>dv\<close>
  (\<open>Dividend\<close>), \<open>sp\<close> (\<open>StockSplit\<close>), \<open>ma\<close> (\<open>MergerAcquisition\<close>), \<open>ca\<close> (\<open>CorporateActions\<close>), \<open>fr\<close>
  (\<open>FinancialRatios\<close>), \<open>fs\<close> (\<open>FinancialStatement\<close>) and \<open>ps\<close> (\<open>PriceStatistics\<close>).
\<close>

section \<open>Data\<close>

record CompanyProfile =
  cpCompanyId :: string
  cpContactEmail :: string
  cpAddressLine1 :: string
  cpCity :: string
  cpCountry :: string
  cpFax :: string
  cpHomepage :: string
  cpPhone :: string
  cpPostalCode :: string
  cpProvince :: string
  cpTotalEmployeeNumber :: int
  cpTotalEmployeeNumberAsOfDate :: string
  cpLongDescription :: string

record AssetClassification =
  acCompanyId :: string
  acFinancialHealthGrade :: string
  acFinancialHealthGradeAsOfDate :: string
  acGrowthGrade :: string
  acGrowthGradeAsOfDate :: string
  acGrowthScore :: double
  acMorningstarEconomySphereCode :: int
  acMorningstarIndustryCode :: int
  acMorningstarIndustryGroupCode :: int
  acMorningstarSectorCode :: int
  acNaics :: int
  acProfitabilityGrade :: string
  acProfitabilityGradeAsOfDate :: string
  acSic :: int
  acSizeScore :: double
  acStockType :: int
  acStockTypeAsOfDate :: string
  acStyleBox :: int
  acStyleBoxAsOfDate :: string
  acStyleScore :: double
  acValueScore :: double

record CompanyFundamentals =
  cfCompanyId :: string
  cfProfile :: CompanyProfile
  cfClassification :: AssetClassification
  cfLongDescription :: string

record CorporateCalendarEvent =
  cceCompanyId :: string
  cceBeginDateTime :: string
  cceEndDateTime :: string
  cceEventType :: int
  cceEstimatedDateForNextEvent :: string
  cceEvent :: string
  cceEventFiscalYear :: int
  cceEventStatus :: string
  cceTimeZone :: string

record Dividend =
  dvShareClassId :: string
  dvDividendType :: string
  dvExDate :: string
  dvCashAmount :: double
  dvCurrencyId :: string
  dvDeclarationDate :: string
  dvFrequency :: int
  dvPayDate :: string
  dvRecordDate :: string

record StockSplit =
  spShareClassId :: string
  spExDate :: string
  spAdjustmentFactor :: double
  spSplitFrom :: double
  spSplitTo :: double
  spSplitType :: string

record MergerAcquisition =
  maAcquiredCompanyId :: string
  maParentCompanyId :: string
  maCashAmount :: double
  maCurrencyId :: string
  maEffectiveDate :: string
  maNotes :: string

record CorporateActions =
  caStockSplits :: "StockSplit list"
  caMerger :: "MergerAcquisition option"

record FinancialRatios =
  frCompanyId :: string
  frAsOfDate :: string
  frFiscalYearEnd :: string
  frPeriod :: string
  frReportType :: string
  frAssetsTurnover :: double
  frCapExSalesRatio :: double
  frCashConversionCycle :: double
  frDaysInInventory :: double
  frDaysInPayment :: double
  frDaysInSales :: double
  frEbitdaMargin :: double
  frEbitMargin :: double
  frGrossMargin :: double
  frInterestCoverage :: double
  frNetMargin :: double
  frOperationMargin :: double
  frPretaxMargin :: double
  frRoa :: double
  frRoe :: double
  frRoic :: double
  frTaxRate :: double

record FinancialStatement =
  fsCompanyId :: string
  fsAsOfDate :: string
  fsCurrencyId :: string
  fsFiscalYearEnd :: string
  fsPeriod :: string
  fsReportType :: string
  fsTotalRevenue :: double
  fsOperatingRevenue :: double
  fsGrossProfit :: double
  fsOperatingIncome :: double
  fsNetIncome :: double
  fsEbit :: double
  fsEbitda :: double
  fsTotalAssets :: double
  fsCurrentAssets :: double
  fsTotalLiabilities :: double
  fsCurrentLiabilities :: double
  fsStockholdersEquity :: double
  fsOperatingCashFlow :: double
  fsFreeCashFlow :: double
  fsCapitalExpenditure :: double

record PriceStatistics =
  psShareClassId :: string
  psAsOfDate :: string
  psPeriod :: string
  psHighPrice :: double
  psLowPrice :: double
  psAverageVolume :: double
  psTotalVolume :: double
  psMovingAveragePrice :: double
  psClosePriceToMovingAverage :: double
  psPercentageBelowHighPrice :: double
  psArithmeticMean :: double
  psStandardDeviation :: double
  psBest3MonthTotalReturn :: double
  psWorst3MonthTotalReturn :: double

definition emptyCompanyProfile :: CompanyProfile where
  "emptyCompanyProfile = \<lparr>
     cpCompanyId = [], cpContactEmail = [], cpAddressLine1 = [], cpCity = [], cpCountry = [], cpFax = [],
     cpHomepage = [], cpPhone = [], cpPostalCode = [], cpProvince = [], cpTotalEmployeeNumber = 0,
     cpTotalEmployeeNumberAsOfDate = [], cpLongDescription = []\<rparr>"

definition emptyAssetClassification :: AssetClassification where
  "emptyAssetClassification = \<lparr>
     acCompanyId = [], acFinancialHealthGrade = [], acFinancialHealthGradeAsOfDate = [], acGrowthGrade = [],
     acGrowthGradeAsOfDate = [], acGrowthScore = DFin 0, acMorningstarEconomySphereCode = 0,
     acMorningstarIndustryCode = 0, acMorningstarIndustryGroupCode = 0, acMorningstarSectorCode = 0,
     acNaics = 0, acProfitabilityGrade = [], acProfitabilityGradeAsOfDate = [], acSic = 0,
     acSizeScore = DFin 0, acStockType = 0, acStockTypeAsOfDate = [], acStyleBox = 0, acStyleBoxAsOfDate = [],
     acStyleScore = DFin 0, acValueScore = DFin 0\<rparr>"

definition emptyCompanyFundamentals :: CompanyFundamentals where
  "emptyCompanyFundamentals = \<lparr>
     cfCompanyId = [], cfProfile = emptyCompanyProfile, cfClassification = emptyAssetClassification,
     cfLongDescription = []\<rparr>"

definition emptyCalendarEvent :: CorporateCalendarEvent where
  "emptyCalendarEvent = \<lparr>
     cceCompanyId = [], cceBeginDateTime = [], cceEndDateTime = [], cceEventType = 0,
     cceEstimatedDateForNextEvent = [], cceEvent = [], cceEventFiscalYear = 0, cceEventStatus = [],
     cceTimeZone = []\<rparr>"

definition emptyDividend :: Dividend where
  "emptyDividend = \<lparr>
     dvShareClassId = [], dvDividendType = [], dvExDate = [], dvCashAmount = DFin 0, dvCurrencyId = [],
     dvDeclarationDate = [], dvFrequency = 0, dvPayDate = [], dvRecordDate = []\<rparr>"

definition emptyStockSplit :: StockSplit where
  "emptyStockSplit = \<lparr>
     spShareClassId = [], spExDate = [], spAdjustmentFactor = DFin 0, spSplitFrom = DFin 0, spSplitTo = DFin 0,
     spSplitType = []\<rparr>"

definition emptyMerger :: MergerAcquisition where
  "emptyMerger = \<lparr>
     maAcquiredCompanyId = [], maParentCompanyId = [], maCashAmount = DFin 0, maCurrencyId = [],
     maEffectiveDate = [], maNotes = []\<rparr>"

definition emptyCorporateActions :: CorporateActions where
  "emptyCorporateActions = \<lparr>
     caStockSplits = [], caMerger = None\<rparr>"

definition emptyRatios :: FinancialRatios where
  "emptyRatios = \<lparr>
     frCompanyId = [], frAsOfDate = [], frFiscalYearEnd = [], frPeriod = [], frReportType = [],
     frAssetsTurnover = DFin 0, frCapExSalesRatio = DFin 0, frCashConversionCycle = DFin 0,
     frDaysInInventory = DFin 0, frDaysInPayment = DFin 0, frDaysInSales = DFin 0, frEbitdaMargin = DFin 0,
     frEbitMargin = DFin 0, frGrossMargin = DFin 0, frInterestCoverage = DFin 0, frNetMargin = DFin 0,
     frOperationMargin = DFin 0, frPretaxMargin = DFin 0, frRoa = DFin 0, frRoe = DFin 0, frRoic = DFin 0,
     frTaxRate = DFin 0\<rparr>"

definition emptyStatement :: FinancialStatement where
  "emptyStatement = \<lparr>
     fsCompanyId = [], fsAsOfDate = [], fsCurrencyId = [], fsFiscalYearEnd = [], fsPeriod = [],
     fsReportType = [], fsTotalRevenue = DFin 0, fsOperatingRevenue = DFin 0, fsGrossProfit = DFin 0,
     fsOperatingIncome = DFin 0, fsNetIncome = DFin 0, fsEbit = DFin 0, fsEbitda = DFin 0,
     fsTotalAssets = DFin 0, fsCurrentAssets = DFin 0, fsTotalLiabilities = DFin 0,
     fsCurrentLiabilities = DFin 0, fsStockholdersEquity = DFin 0, fsOperatingCashFlow = DFin 0,
     fsFreeCashFlow = DFin 0, fsCapitalExpenditure = DFin 0\<rparr>"

definition emptyPriceStatistics :: PriceStatistics where
  "emptyPriceStatistics = \<lparr>
     psShareClassId = [], psAsOfDate = [], psPeriod = [], psHighPrice = DFin 0, psLowPrice = DFin 0,
     psAverageVolume = DFin 0, psTotalVolume = DFin 0, psMovingAveragePrice = DFin 0,
     psClosePriceToMovingAverage = DFin 0, psPercentageBelowHighPrice = DFin 0, psArithmeticMean = DFin 0,
     psStandardDeviation = DFin 0, psBest3MonthTotalReturn = DFin 0, psWorst3MonthTotalReturn = DFin 0\<rparr>"

section \<open>Parsers\<close>

text \<open>The tables of the first result of the first element, and one of those tables.\<close>

definition withTables :: "'j json_api \<Rightarrow> 'j \<Rightarrow> 'a \<Rightarrow> ('j \<Rightarrow> 'a fallible) \<Rightarrow> 'a fallible" where
  "withTables J json other f =
     (if \<not> j_is_null J json \<and> j_is_array J json \<and> j_size J json \<noteq> 0 then
        bindE (jx (j_nth J json 0)) (\<lambda>firstResult.
        ifE (present J (\<lambda>x. j_is_array J x \<and> j_size J x \<noteq> 0) firstResult ''results'')
          (bindE (atE J firstResult ''results'') (\<lambda>results.
           bindE (jx (j_nth J results 0)) (\<lambda>result.
           ifE (present J (\<lambda>_. True) result ''tables'') (bindE (atE J result ''tables'') f) (Inr other))))
          (Inr other))
      else Inr other)"

definition withTable :: "'j json_api \<Rightarrow> string \<Rightarrow> 'j \<Rightarrow> 'a \<Rightarrow> ('j \<Rightarrow> 'a fallible) \<Rightarrow> 'a fallible" where
  "withTable J key json other f =
     withTables J json other (\<lambda>tables.
       ifE (present J (\<lambda>_. True) tables key) (bindE (atE J tables key) f) (Inr other))"

text \<open>A member of the tables that is not null updates the result.\<close>

definition onMember ::
  "'j json_api \<Rightarrow> 'j \<Rightarrow> string \<Rightarrow> ('j \<Rightarrow> (exn, 's) stmt) \<Rightarrow> (exn, 's) stmt" where
  "onMember J json key f =
     onlyIfE (present J (\<lambda>_. True) json key) (\<lambda>s. bindE (atE J json key) (\<lambda>x. f x s))"

definition readProfile :: "'j json_api \<Rightarrow> 'j \<Rightarrow> (exn, CompanyFundamentals) stmt" where
  "readProfile J profile =
     run [
       assign (cfProfile_update \<circ> cpCompanyId_update) (jx (j_value_string J profile ''company_id'' [])),
       assign (cfProfile_update \<circ> cpContactEmail_update) (jx (j_value_string J profile ''contact_email'' [])),
       assign (cfProfile_update \<circ> cpTotalEmployeeNumber_update) (jx (j_value_int J profile ''total_employee_number'' 0)),
       assign (cfProfile_update \<circ> cpTotalEmployeeNumberAsOfDate_update) (jx (j_value_string J profile ''TotalEmployeeNumber.asOfDate'' [])),
       onMember J profile ''headquarter'' (\<lambda>hq. run [
         assign (cfProfile_update \<circ> cpAddressLine1_update) (jx (j_value_string J hq ''address_line1'' [])),
         assign (cfProfile_update \<circ> cpCity_update) (jx (j_value_string J hq ''city'' [])),
         assign (cfProfile_update \<circ> cpCountry_update) (jx (j_value_string J hq ''country'' [])),
         assign (cfProfile_update \<circ> cpPhone_update) (jx (j_value_string J hq ''phone'' [])),
         assign (cfProfile_update \<circ> cpHomepage_update) (jx (j_value_string J hq ''homepage'' [])),
         assign (cfProfile_update \<circ> cpPostalCode_update) (jx (j_value_string J hq ''postal_code'' [])),
         assign (cfProfile_update \<circ> cpProvince_update) (jx (j_value_string J hq ''province'' []))])]"

definition readClassification :: "'j json_api \<Rightarrow> 'j \<Rightarrow> (exn, CompanyFundamentals) stmt" where
  "readClassification J classification =
     run [
       assign (cfClassification_update \<circ> acCompanyId_update) (jx (j_value_string J classification ''company_id'' [])),
       assign (cfClassification_update \<circ> acFinancialHealthGrade_update) (jx (j_value_string J classification ''financial_health_grade'' [])),
       assign (cfClassification_update \<circ> acGrowthGrade_update) (jx (j_value_string J classification ''growth_grade'' [])),
       assign (cfClassification_update \<circ> acGrowthScore_update) (jx (j_value_double J classification ''growth_score'' (DFin 0))),
       assign (cfClassification_update \<circ> acProfitabilityGrade_update) (jx (j_value_string J classification ''profitability_grade'' [])),
       assign (cfClassification_update \<circ> acSizeScore_update) (jx (j_value_double J classification ''size_score'' (DFin 0))),
       assign (cfClassification_update \<circ> acValueScore_update) (jx (j_value_double J classification ''value_score'' (DFin 0)))]"

definition parseCompanyFundamentals :: "'j json_api \<Rightarrow> 'j \<Rightarrow> CompanyFundamentals fallible" where
  "parseCompanyFundamentals J json =
     withTables J json emptyCompanyFundamentals (\<lambda>tables.
       run [
         onMember J tables ''company_profile'' (readProfile J),
         onMember J tables ''asset_classification'' (readClassification J),
         onMember J tables ''long_descriptions'' (\<lambda>x. assign cfLongDescription_update (jx (j_string J x)))]
         emptyCompanyFundamentals)"

definition readCalendarEvent :: "'j json_api \<Rightarrow> 'j \<Rightarrow> CorporateCalendarEvent fallible" where
  "readCalendarEvent J item =
     run [
       assign cceCompanyId_update (jx (j_value_string J item ''company_id'' [])),
       assign cceBeginDateTime_update (jx (j_value_string J item ''begin_date_time'' [])),
       assign cceEndDateTime_update (jx (j_value_string J item ''end_date_time'' [])),
       assign cceEventType_update (jx (j_value_int J item ''event_type'' 0)),
       assign cceEvent_update (jx (j_value_string J item ''event'' [])),
       assign cceEventFiscalYear_update (jx (j_value_int J item ''event_fiscal_year'' 0)),
       assign cceEventStatus_update (jx (j_value_string J item ''event_status'' []))]
       emptyCalendarEvent"

text \<open>The rows of a table that is an array.\<close>

definition rowsOf :: "'j json_api \<Rightarrow> ('j \<Rightarrow> 'a fallible) \<Rightarrow> 'j \<Rightarrow> 'a list fallible" where
  "rowsOf J f json = (if j_is_array J json then traverseE f (nonNull J json) else Inr [])"

definition parseCorporateCalendar :: "'j json_api \<Rightarrow> 'j \<Rightarrow> CorporateCalendarEvent list fallible" where
  "parseCorporateCalendar J json =
     withTable J ''corporate_calendars'' json [] (rowsOf J (readCalendarEvent J))"

definition readDividend :: "'j json_api \<Rightarrow> 'j \<Rightarrow> Dividend fallible" where
  "readDividend J item =
     run [
       assign dvShareClassId_update (jx (j_value_string J item ''share_class_id'' [])),
       assign dvDividendType_update (jx (j_value_string J item ''dividend_type'' [])),
       assign dvExDate_update (jx (j_value_string J item ''ex_date'' [])),
       assign dvCashAmount_update (jx (j_value_double J item ''cash_amount'' (DFin 0))),
       assign dvCurrencyId_update (jx (j_value_string J item ''currency_i_d'' [])),
       assign dvDeclarationDate_update (jx (j_value_string J item ''declaration_date'' [])),
       assign dvFrequency_update (jx (j_value_int J item ''frequency'' 0)),
       assign dvPayDate_update (jx (j_value_string J item ''pay_date'' [])),
       assign dvRecordDate_update (jx (j_value_string J item ''record_date'' []))]
       emptyDividend"

definition parseDividends :: "'j json_api \<Rightarrow> 'j \<Rightarrow> Dividend list fallible" where
  "parseDividends J json = withTable J ''cash_dividends'' json [] (rowsOf J (readDividend J))"

definition readSplit :: "'j json_api \<Rightarrow> 'j \<Rightarrow> StockSplit fallible" where
  "readSplit J splitData =
     run [
       assign spShareClassId_update (jx (j_value_string J splitData ''share_class_id'' [])),
       assign spExDate_update (jx (j_value_string J splitData ''ex_date'' [])),
       assign spAdjustmentFactor_update (jx (j_value_double J splitData ''adjustment_factor'' (DFin 0))),
       assign spSplitFrom_update (jx (j_value_double J splitData ''split_from'' (DFin 0))),
       assign spSplitTo_update (jx (j_value_double J splitData ''split_to'' (DFin 0))),
       assign spSplitType_update (jx (j_value_string J splitData ''split_type'' []))]
       emptyStockSplit"

definition readMerger :: "'j json_api \<Rightarrow> 'j \<Rightarrow> MergerAcquisition fallible" where
  "readMerger J merger =
     run [
       assign maAcquiredCompanyId_update (jx (j_value_string J merger ''acquired_company_id'' [])),
       assign maParentCompanyId_update (jx (j_value_string J merger ''parent_company_id'' [])),
       assign maCashAmount_update (jx (j_value_double J merger ''cash_amount'' (DFin 0))),
       assign maCurrencyId_update (jx (j_value_string J merger ''currency_id'' [])),
       assign maEffectiveDate_update (jx (j_value_string J merger ''effective_date'' [])),
       assign maNotes_update (jx (j_value_string J merger ''notes'' []))]
       emptyMerger"

text \<open>
  The results are read without the checks of the other parsers: \<open>json[0]["results"]\<close> of an element
  that is no object, or has no such member, is what \<open>operator[]\<close> makes of it.
\<close>

definition readActions :: "'j json_api \<Rightarrow> 'j \<Rightarrow> (exn, CorporateActions) stmt" where
  "readActions J resultItem =
     onlyIfE (if \<not> j_is_null J resultItem then present J (\<lambda>_. True) resultItem ''tables'' else Inr False)
       (\<lambda>actions. bindE (atE J resultItem ''tables'') (\<lambda>tables.
          run [
            onMember J tables ''stock_splits'' (\<lambda>splits actions.
              bindE (traverseE (readSplit J) (nonNull J splits)) (\<lambda>ss.
                Inr (caStockSplits_update (\<lambda>old. old @ ss) actions))),
            onMember J tables ''mergers_and_acquisitions'' (\<lambda>merger.
              assign caMerger_update (map_sum id Some (readMerger J merger)))]
            actions))"

definition parseCorporateActions :: "'j json_api \<Rightarrow> 'j \<Rightarrow> CorporateActions fallible" where
  "parseCorporateActions J json =
     (if \<not> j_is_null J json \<and> j_is_array J json \<and> j_size J json \<noteq> 0 then
        bindE (jx (j_nth J json 0)) (\<lambda>firstResult.
        bindE (atE J firstResult ''results'') (\<lambda>results.
          run (map (readActions J) (j_elems J results)) emptyCorporateActions))
      else Inr emptyCorporateActions)"

definition readRatios :: "'j json_api \<Rightarrow> 'j \<Rightarrow> FinancialRatios fallible" where
  "readRatios J periodData =
     run [
       assign frCompanyId_update (jx (j_value_string J periodData ''company_id'' [])),
       assign frAsOfDate_update (jx (j_value_string J periodData ''as_of_date'' [])),
       assign frFiscalYearEnd_update (jx (j_value_string J periodData ''fiscal_year_end'' [])),
       assign frPeriod_update (jx (j_value_string J periodData ''period'' [])),
       assign frReportType_update (jx (j_value_string J periodData ''report_type'' [])),
       assign frAssetsTurnover_update (jx (j_value_double J periodData ''assets_turnover'' (DFin 0))),
       assign frEbitdaMargin_update (jx (j_value_double J periodData ''e_b_i_t_d_a_margin'' (DFin 0))),
       assign frEbitMargin_update (jx (j_value_double J periodData ''e_b_i_t_margin'' (DFin 0))),
       assign frGrossMargin_update (jx (j_value_double J periodData ''gross_margin'' (DFin 0))),
       assign frNetMargin_update (jx (j_value_double J periodData ''net_margin'' (DFin 0))),
       assign frOperationMargin_update (jx (j_value_double J periodData ''operation_margin'' (DFin 0))),
       assign frRoa_update (jx (j_value_double J periodData ''r_o_a'' (DFin 0))),
       assign frRoe_update (jx (j_value_double J periodData ''r_o_e'' (DFin 0))),
       assign frRoic_update (jx (j_value_double J periodData ''r_o_i_c'' (DFin 0)))]
       emptyRatios"

definition parseFinancialRatios :: "'j json_api \<Rightarrow> 'j \<Rightarrow> FinancialRatios list fallible" where
  "parseFinancialRatios J json =
     withTable J ''operation_ratios_restate'' json [] (\<lambda>operationRatios.
       map_sum id concat
         (rowsOf J (\<lambda>periodGroup. traverseE (readRatios J) (nonNull J periodGroup)) operationRatios))"

definition readStatement :: "'j json_api \<Rightarrow> 'j \<Rightarrow> 'j \<Rightarrow> FinancialStatement fallible" where
  "readStatement J statements periodData =
     run [
       assign fsCompanyId_update (jx (j_value_string J statements ''company_id'' [])),
       assign fsAsOfDate_update (jx (j_value_string J statements ''as_of_date'' [])),
       assign fsCurrencyId_update (jx (j_value_string J periodData ''currency_id'' [])),
       assign fsFiscalYearEnd_update (jx (j_value_string J periodData ''fiscal_year_end'' [])),
       assign fsPeriod_update (jx (j_value_string J periodData ''period'' [])),
       assign fsReportType_update (jx (j_value_string J periodData ''report_type'' [])),
       assign fsTotalRevenue_update (jx (j_value_double J periodData ''total_revenue'' (DFin 0))),
       assign fsOperatingRevenue_update (jx (j_value_double J periodData ''operating_revenue'' (DFin 0))),
       assign fsGrossProfit_update (jx (j_value_double J periodData ''gross_profit'' (DFin 0))),
       assign fsOperatingIncome_update (jx (j_value_double J periodData ''operating_income'' (DFin 0))),
       assign fsNetIncome_update (jx (j_value_double J periodData ''net_income'' (DFin 0))),
       assign fsEbit_update (jx (j_value_double J periodData ''e_b_i_t'' (DFin 0))),
       assign fsEbitda_update (jx (j_value_double J periodData ''e_b_i_t_d_a'' (DFin 0)))]
       emptyStatement"

text \<open>The loop over the periods stops after the first one that is not null.\<close>

definition parseFinancialStatements :: "'j json_api \<Rightarrow> 'j \<Rightarrow> FinancialStatement fallible" where
  "parseFinancialStatements J json =
     withTable J ''financial_statements_restate'' json emptyStatement (\<lambda>statements.
       ifE (present J (\<lambda>x. j_is_array J x \<and> j_size J x \<noteq> 0) statements ''income_statement'')
         (bindE (atE J statements ''income_statement'') (\<lambda>xs.
          bindE (jx (j_nth J xs 0)) (\<lambda>incomeStatement.
            case nonNull J incomeStatement of
              [] \<Rightarrow> Inr emptyStatement
            | periodData # rest \<Rightarrow> readStatement J statements periodData)))
         (Inr emptyStatement))"

definition readStatistics :: "'j json_api \<Rightarrow> 'j \<Rightarrow> PriceStatistics fallible" where
  "readStatistics J yearlyStats =
     run [
       assign psShareClassId_update (jx (j_value_string J yearlyStats ''share_class_id'' [])),
       assign psAsOfDate_update (jx (j_value_string J yearlyStats ''as_of_date'' [])),
       assign psPeriod_update (jx (j_value_string J yearlyStats ''period'' [])),
       assign psHighPrice_update (jx (j_value_double J yearlyStats ''high_price'' (DFin 0))),
       assign psLowPrice_update (jx (j_value_double J yearlyStats ''low_price'' (DFin 0))),
       assign psAverageVolume_update (jx (j_value_double J yearlyStats ''average_volume'' (DFin 0))),
       assign psTotalVolume_update (jx (j_value_double J yearlyStats ''total_volume'' (DFin 0))),
       assign psMovingAveragePrice_update (jx (j_value_double J yearlyStats ''moving_average_price'' (DFin 0))),
       assign psClosePriceToMovingAverage_update (jx (j_value_double J yearlyStats ''close_price_to_moving_average'' (DFin 0))),
       assign psPercentageBelowHighPrice_update (jx (j_value_double J yearlyStats ''percentage_below_high_price'' (DFin 0))),
       assign psArithmeticMean_update (jx (j_value_double J yearlyStats ''arithmetic_mean'' (DFin 0))),
       assign psStandardDeviation_update (jx (j_value_double J yearlyStats ''standard_deviation'' (DFin 0))),
       assign psBest3MonthTotalReturn_update (jx (j_value_double J yearlyStats ''best3_month_total_return'' (DFin 0))),
       assign psWorst3MonthTotalReturn_update (jx (j_value_double J yearlyStats ''worst3_month_total_return'' (DFin 0)))]
       emptyPriceStatistics"

definition parsePriceStatistics :: "'j json_api \<Rightarrow> 'j \<Rightarrow> PriceStatistics fallible" where
  "parsePriceStatistics J json =
     withTable J ''price_statistics'' json emptyPriceStatistics (\<lambda>priceStats.
       ifE (present J (\<lambda>_. True) priceStats ''period_1y'')
         (bindE (atE J priceStats ''period_1y'') (readStatistics J))
         (Inr emptyPriceStatistics))"

end
