(* ===== verification/Market.thy ===== *)
theory Market
  imports Fundamentals
begin

text \<open>
  \<^verbatim>\<open>market.hpp\<close> and \<^verbatim>\<open>market.cpp\<close>: \<open>MarketService\<close>, which reads quotes, option data, history, the calendar and
  company data, and the builder \<open>QuoteRequest\<close>. Every operation checks its arguments, sends one request,
  and turns the answer into its data with \<^const>\<open>expectParsed\<close>: a status outside 2xx is an \<open>ApiError\<close>, an
  unreadable body the exception of the operation.
\<close>

section \<open>Operations\<close>

text \<open>\<open>flag ? "true" : "false"\<close>\<close>

definition boolName :: "bool \<Rightarrow> string" where
  "boolName b = (if b then ''true'' else ''false'')"

definition quotesParams :: "string list \<Rightarrow> bool \<Rightarrow> params" where
  "quotesParams symbols greeks = map_put ''greeks'' (boolName greeks) (map_put ''symbols'' (joinS '','' symbols) [])"

definition getQuotes ::
  "'j json_api \<Rightarrow> (int \<Rightarrow> int) \<Rightarrow> 'w client_ops \<Rightarrow> string list \<Rightarrow> bool \<Rightarrow>
     ('w, exn, Quote list ApiResult) io" where
  "getQuotes J z C symbols greeks =
     tryExecuteIO (
       bindIO (liftIO (whenE (symbols = []) (Inl (ValidationError ''Symbols list cannot be empty'')))) (\<lambda>_.
       let params = quotesParams symbols greeks
       in bindIO (cl_get C ''/markets/quotes'' params) (\<lambda>response.
       liftIO (expectParsed J ''Failed to get quotes: ''
         (RuntimeError ''Failed to parse quotes response'') (parseQuotes J z) response)))) ''getQuotes''"

definition getQuotesPost ::
  "'j json_api \<Rightarrow> (int \<Rightarrow> int) \<Rightarrow> 'w client_ops \<Rightarrow> string list \<Rightarrow> bool \<Rightarrow>
     ('w, exn, Quote list ApiResult) io" where
  "getQuotesPost J z C symbols greeks =
     tryExecuteIO (
       bindIO (liftIO (whenE (symbols = []) (Inl (ValidationError ''Symbols list cannot be empty'')))) (\<lambda>_.
       let params = quotesParams symbols greeks
       in bindIO (cl_post C ''/markets/quotes'' params) (\<lambda>response.
       liftIO (expectParsed J ''Failed to get quotes via POST: ''
         (RuntimeError ''Failed to parse quotes POST response'') (parseQuotes J z) response)))) ''getQuotesPost''"

text \<open>\<open>getQuote\<close> checks the symbol outside \<open>tryExecute\<close> and reduces the list of \<open>getQuotes\<close>.\<close>

definition getQuote ::
  "'j json_api \<Rightarrow> (int \<Rightarrow> int) \<Rightarrow> 'w client_ops \<Rightarrow> string \<Rightarrow> bool \<Rightarrow> ('w, exn, Quote ApiResult) io" where
  "getQuote J z C symbol greeks =
     (if symbol = [] then returnIO (validationError ''Symbol cannot be empty'')
      else bindIO (getQuotes J z C [symbol] greeks) (\<lambda>r.
        returnIO (andThen r (\<lambda>quotes.
          if quotes = [] then throwApi 404 (''No quote found for symbol: '' @ symbol)
          else Inr (hd quotes)))))"

definition getOptionChain ::
  "'j json_api \<Rightarrow> (int \<Rightarrow> int) \<Rightarrow> 'w client_ops \<Rightarrow> string \<Rightarrow> string \<Rightarrow> bool \<Rightarrow>
     ('w, exn, OptionChain list ApiResult) io" where
  "getOptionChain J z C symbol expiration greeks =
     tryExecuteIO (
       bindIO (liftIO (whenE (symbol = []) (Inl (ValidationError ''Symbol cannot be empty'')))) (\<lambda>_.
       bindIO (liftIO (whenE (expiration = []) (Inl (ValidationError ''Expiration date cannot be empty'')))) (\<lambda>_.
       let params = map_put ''greeks'' (boolName greeks) (map_put ''expiration'' expiration (map_put ''symbol'' symbol []))
       in bindIO (cl_get C ''/markets/options/chains'' params) (\<lambda>response.
       liftIO (expectParsed J ''Failed to get option chain: ''
         (RuntimeError ''Failed to parse option chain response'') (parseOptionChains J z) response))))) ''getOptionChain''"

definition getOptionStrikes ::
  "'j json_api \<Rightarrow> 'w client_ops \<Rightarrow> string \<Rightarrow> string \<Rightarrow> bool \<Rightarrow>
     ('w, exn, double list ApiResult) io" where
  "getOptionStrikes J C symbol expiration includeAllRoots =
     tryExecuteIO (
       bindIO (liftIO (whenE (symbol = []) (Inl (ValidationError ''Symbol cannot be empty'')))) (\<lambda>_.
       bindIO (liftIO (whenE (expiration = []) (Inl (ValidationError ''Expiration date cannot be empty'')))) (\<lambda>_.
       let params = map_put ''includeAllRoots'' (boolName includeAllRoots) (map_put ''expiration'' expiration (map_put ''symbol'' symbol []))
       in bindIO (cl_get C ''/markets/options/strikes'' params) (\<lambda>response.
       liftIO (expectParsed J ''Failed to get option strikes: ''
         (RuntimeError ''Failed to parse option strikes response'') (parseStrikes J) response))))) ''getOptionStrikes''"

definition getOptionExpirations ::
  "'j json_api \<Rightarrow> 'w client_ops \<Rightarrow> string \<Rightarrow> bool \<Rightarrow> bool \<Rightarrow> bool \<Rightarrow> bool \<Rightarrow>
     ('w, exn, Expiration list ApiResult) io" where
  "getOptionExpirations J C symbol includeAllRoots strikes contractSize expirationType =
     tryExecuteIO (
       bindIO (liftIO (whenE (symbol = []) (Inl (ValidationError ''Symbol cannot be empty'')))) (\<lambda>_.
       let params = map_put ''expirationType'' (boolName expirationType) (map_put ''contractSize'' (boolName contractSize)
         (map_put ''strikes'' (boolName strikes) (map_put ''includeAllRoots'' (boolName includeAllRoots) (map_put ''symbol'' symbol []))))
       in bindIO (cl_get C ''/markets/options/expirations'' params) (\<lambda>response.
       liftIO (expectParsed J ''Failed to get option expirations: ''
         (RuntimeError ''Failed to parse option expirations response'') (parseExpirations J) response)))) ''getOptionExpirations''"

definition lookupOptionSymbols ::
  "'j json_api \<Rightarrow> 'w client_ops \<Rightarrow> string \<Rightarrow>
     ('w, exn, OptionSymbol list ApiResult) io" where
  "lookupOptionSymbols J C underlying =
     tryExecuteIO (
       bindIO (liftIO (whenE (underlying = []) (Inl (ValidationError ''Underlying symbol cannot be empty'')))) (\<lambda>_.
       let params = map_put ''underlying'' underlying []
       in bindIO (cl_get C ''/markets/options/lookup'' params) (\<lambda>response.
       liftIO (expectParsed J ''Failed to lookup option symbols: ''
         (RuntimeError ''Failed to parse option symbols response'') (parseOptionSymbols J) response)))) ''lookupOptionSymbols''"

definition getHistoricalData ::
  "'j json_api \<Rightarrow> 'w client_ops \<Rightarrow> string \<Rightarrow> string \<Rightarrow> string \<Rightarrow> string \<Rightarrow> string \<Rightarrow>
     ('w, exn, HistoricalData list ApiResult) io" where
  "getHistoricalData J C symbol interval start until sessionFilter =
     tryExecuteIO (
       bindIO (liftIO (whenE (symbol = []) (Inl (ValidationError ''Symbol cannot be empty'')))) (\<lambda>_.
       let params = putIf (until \<noteq> []) ''end'' until (putIf (start \<noteq> []) ''start'' start
         (map_put ''session_filter'' sessionFilter (map_put ''interval'' interval (map_put ''symbol'' symbol []))))
       in bindIO (cl_get C ''/markets/history'' params) (\<lambda>response.
       liftIO (expectParsed J ''Failed to get historical data: ''
         (RuntimeError ''Failed to parse historical data response'') (parseHistoricalDataList J) response)))) ''getHistoricalData''"

definition getTimeSales ::
  "'j json_api \<Rightarrow> 'w client_ops \<Rightarrow> string \<Rightarrow> string \<Rightarrow> string \<Rightarrow> string \<Rightarrow> string \<Rightarrow>
     ('w, exn, TimeSalesData list ApiResult) io" where
  "getTimeSales J C symbol interval start until sessionFilter =
     tryExecuteIO (
       bindIO (liftIO (whenE (symbol = []) (Inl (ValidationError ''Symbol cannot be empty'')))) (\<lambda>_.
       let params = putIf (until \<noteq> []) ''end'' until (putIf (start \<noteq> []) ''start'' start
         (map_put ''session_filter'' sessionFilter (map_put ''interval'' interval (map_put ''symbol'' symbol []))))
       in bindIO (cl_get C ''/markets/timesales'' params) (\<lambda>response.
       liftIO (expectParsed J ''Failed to get time sales data: ''
         (RuntimeError ''Failed to parse time sales response'') (parseTimeSalesList J) response)))) ''getTimeSales''"

definition getETBList ::
  "'j json_api \<Rightarrow> 'w client_ops \<Rightarrow>
     ('w, exn, Security list ApiResult) io" where
  "getETBList J C =
     tryExecuteIO (
       bindIO (cl_get C ''/markets/etb'' []) (\<lambda>response.
       liftIO (expectParsed J ''Failed to get ETB list: ''
         (RuntimeError ''Failed to parse ETB list response'') (parseSecurities J) response))) ''getETBList''"

definition getClock ::
  "'j json_api \<Rightarrow> 'w client_ops \<Rightarrow> bool \<Rightarrow>
     ('w, exn, MarketClock ApiResult) io" where
  "getClock J C delayed =
     tryExecuteIO (
       let params = putIf delayed ''delayed'' ''true'' []
       in bindIO (cl_get C ''/markets/clock'' params) (\<lambda>response.
       liftIO (expectParsed J ''Failed to get market clock: ''
         (RuntimeError ''Failed to parse market clock response'') (parseMarketClock J) response))) ''getClock''"

definition getCalendar ::
  "'j json_api \<Rightarrow> int \<times> int \<Rightarrow> 'w client_ops \<Rightarrow> string \<Rightarrow> string \<Rightarrow>
     ('w, exn, MarketCalendar ApiResult) io" where
  "getCalendar J junk C month year =
     tryExecuteIO (
       let params = putIf (year \<noteq> []) ''year'' year (putIf (month \<noteq> []) ''month'' month [])
       in bindIO (cl_get C ''/markets/calendar'' params) (\<lambda>response.
       liftIO (expectParsed J ''Failed to get market calendar: ''
         (RuntimeError ''Failed to parse market calendar response'') (parseMarketCalendar J junk) response))) ''getCalendar''"

definition searchSymbols ::
  "'j json_api \<Rightarrow> 'w client_ops \<Rightarrow> string \<Rightarrow> bool \<Rightarrow>
     ('w, exn, Security list ApiResult) io" where
  "searchSymbols J C query indexes =
     tryExecuteIO (
       bindIO (liftIO (whenE (query = []) (Inl (ValidationError ''Search query cannot be empty'')))) (\<lambda>_.
       let params = map_put ''indexes'' (boolName indexes) (map_put ''q'' query [])
       in bindIO (cl_get C ''/markets/search'' params) (\<lambda>response.
       liftIO (expectParsed J ''Failed to search symbols: ''
         (RuntimeError ''Failed to parse symbol search response'') (parseSecurities J) response)))) ''searchSymbols''"

definition lookupSymbols ::
  "'j json_api \<Rightarrow> 'w client_ops \<Rightarrow> string \<Rightarrow> string \<Rightarrow> string \<Rightarrow>
     ('w, exn, Security list ApiResult) io" where
  "lookupSymbols J C query exchanges types =
     tryExecuteIO (
       bindIO (liftIO (whenE (query = []) (Inl (ValidationError ''Search query cannot be empty'')))) (\<lambda>_.
       let params = putIf (types \<noteq> []) ''types'' types (putIf (exchanges \<noteq> []) ''exchanges'' exchanges (map_put ''q'' query []))
       in bindIO (cl_get C ''/markets/lookup'' params) (\<lambda>response.
       liftIO (expectParsed J ''Failed to lookup symbols: ''
         (RuntimeError ''Failed to parse symbol lookup response'') (parseSecurities J) response)))) ''lookupSymbols''"

definition getCompanyInfo ::
  "'j json_api \<Rightarrow> 'w client_ops \<Rightarrow> string \<Rightarrow>
     ('w, exn, CompanyFundamentals ApiResult) io" where
  "getCompanyInfo J C symbol =
     tryExecuteIO (
       bindIO (liftIO (whenE (symbol = []) (Inl (ValidationError ''Symbol cannot be empty'')))) (\<lambda>_.
       let params = map_put ''symbols'' symbol []
       in bindIO (cl_get C ''/beta/markets/fundamentals/company'' params) (\<lambda>response.
       if \<not> success response \<and> status response = 302
       then throwIO (ApiError (ApiErr (status response) ''Company fundamentals endpoint redirected - feature unavailable'' []))
       else liftIO (expectParsed J ''Failed to get company info: ''
            (RuntimeError ''Failed to parse company fundamentals response'') (parseCompanyFundamentals J) response)))) ''getCompanyInfo''"

definition getCorporateCalendar ::
  "'j json_api \<Rightarrow> 'w client_ops \<Rightarrow> string \<Rightarrow>
     ('w, exn, CorporateCalendarEvent list ApiResult) io" where
  "getCorporateCalendar J C symbol =
     tryExecuteIO (
       bindIO (liftIO (whenE (symbol = []) (Inl (ValidationError ''Symbol cannot be empty'')))) (\<lambda>_.
       let params = map_put ''symbols'' symbol []
       in bindIO (cl_get C ''/beta/markets/fundamentals/calendars'' params) (\<lambda>response.
       liftIO (expectParsed J ''Failed to get corporate calendar: ''
         (RuntimeError ''Failed to parse corporate calendar response'') (parseCorporateCalendar J) response)))) ''getCorporateCalendar''"

definition getDividends ::
  "'j json_api \<Rightarrow> 'w client_ops \<Rightarrow> string \<Rightarrow>
     ('w, exn, Dividend list ApiResult) io" where
  "getDividends J C symbol =
     tryExecuteIO (
       bindIO (liftIO (whenE (symbol = []) (Inl (ValidationError ''Symbol cannot be empty'')))) (\<lambda>_.
       let params = map_put ''symbols'' symbol []
       in bindIO (cl_get C ''/beta/markets/fundamentals/dividends'' params) (\<lambda>response.
       liftIO (expectParsed J ''Failed to get dividends: ''
         (RuntimeError ''Failed to parse dividends response'') (parseDividends J) response)))) ''getDividends''"

definition getCorporateActions ::
  "'j json_api \<Rightarrow> 'w client_ops \<Rightarrow> string \<Rightarrow>
     ('w, exn, CorporateActions ApiResult) io" where
  "getCorporateActions J C symbol =
     tryExecuteIO (
       bindIO (liftIO (whenE (symbol = []) (Inl (ValidationError ''Symbol cannot be empty'')))) (\<lambda>_.
       let params = map_put ''symbols'' symbol []
       in bindIO (cl_get C ''/beta/markets/fundamentals/corporate_actions'' params) (\<lambda>response.
       liftIO (expectParsed J ''Failed to get corporate actions: ''
         (RuntimeError ''Failed to parse corporate actions response'') (parseCorporateActions J) response)))) ''getCorporateActions''"

definition getFinancialRatios ::
  "'j json_api \<Rightarrow> 'w client_ops \<Rightarrow> string \<Rightarrow>
     ('w, exn, FinancialRatios list ApiResult) io" where
  "getFinancialRatios J C symbol =
     tryExecuteIO (
       bindIO (liftIO (whenE (symbol = []) (Inl (ValidationError ''Symbol cannot be empty'')))) (\<lambda>_.
       let params = map_put ''symbols'' symbol []
       in bindIO (cl_get C ''/beta/markets/fundamentals/ratios'' params) (\<lambda>response.
       liftIO (expectParsed J ''Failed to get financial ratios: ''
         (RuntimeError ''Failed to parse financial ratios response'') (parseFinancialRatios J) response)))) ''getFinancialRatios''"

definition getFinancialStatements ::
  "'j json_api \<Rightarrow> 'w client_ops \<Rightarrow> string \<Rightarrow>
     ('w, exn, FinancialStatement ApiResult) io" where
  "getFinancialStatements J C symbol =
     tryExecuteIO (
       bindIO (liftIO (whenE (symbol = []) (Inl (ValidationError ''Symbol cannot be empty'')))) (\<lambda>_.
       let params = map_put ''symbols'' symbol []
       in bindIO (cl_get C ''/beta/markets/fundamentals/financials'' params) (\<lambda>response.
       liftIO (expectParsed J ''Failed to get financial statements: ''
         (RuntimeError ''Failed to parse financial statements response'') (parseFinancialStatements J) response)))) ''getFinancialStatements''"

definition getPriceStatistics ::
  "'j json_api \<Rightarrow> 'w client_ops \<Rightarrow> string \<Rightarrow>
     ('w, exn, PriceStatistics ApiResult) io" where
  "getPriceStatistics J C symbol =
     tryExecuteIO (
       bindIO (liftIO (whenE (symbol = []) (Inl (ValidationError ''Symbol cannot be empty'')))) (\<lambda>_.
       let params = map_put ''symbols'' symbol []
       in bindIO (cl_get C ''/beta/markets/fundamentals/statistics'' params) (\<lambda>response.
       liftIO (expectParsed J ''Failed to get price statistics: ''
         (RuntimeError ''Failed to parse price statistics response'') (parsePriceStatistics J) response)))) ''getPriceStatistics''"

section \<open>QuoteRequest\<close>

record QuoteRequest =
  reqSymbols :: "string list"
  reqGreeks :: bool
  reqUsePost :: bool

definition quotes :: QuoteRequest where
  "quotes = \<lparr>reqSymbols = [], reqGreeks = False, reqUsePost = False\<rparr>"

definition reqWithSymbols :: "string list \<Rightarrow> QuoteRequest \<Rightarrow> QuoteRequest" where
  "reqWithSymbols syms r = r\<lparr>reqSymbols := syms\<rparr>"

definition withGreeks :: "QuoteRequest \<Rightarrow> QuoteRequest" where
  "withGreeks r = r\<lparr>reqGreeks := True\<rparr>"

definition usePost :: "QuoteRequest \<Rightarrow> QuoteRequest" where
  "usePost r = r\<lparr>reqUsePost := True\<rparr>"

definition execute ::
  "'j json_api \<Rightarrow> (int \<Rightarrow> int) \<Rightarrow> 'w client_ops \<Rightarrow> QuoteRequest \<Rightarrow> ('w, exn, Quote list ApiResult) io" where
  "execute J z C r =
     (if reqUsePost r then getQuotesPost J z C (reqSymbols r) (reqGreeks r)
      else getQuotes J z C (reqSymbols r) (reqGreeks r))"

section \<open>The operations meet the contract of a service call\<close>

definition expectFundamentals :: "(Response \<Rightarrow> 'a fallible) \<Rightarrow> Response \<Rightarrow> 'a fallible" where
  "expectFundamentals interp response =
     (if \<not> success response \<and> status response = 302
      then throwApi 302 ''Company fundamentals endpoint redirected - feature unavailable''
      else interp response)"

lemma expectFundamentals_reports: "reports_status interp \<Longrightarrow> reports_status (expectFundamentals interp)"
  by (auto simp: reports_status_def expectFundamentals_def throwApi_def)

lemma liftIO_expectFundamentals:
  "liftIO (expectFundamentals interp response) =
     (if \<not> success response \<and> status response = 302
      then throwIO (ApiError (ApiErr (status response) ''Company fundamentals endpoint redirected - feature unavailable'' []))
      else liftIO (interp response))"
  by (auto simp: fun_eq_iff expectFundamentals_def throwApi_def io_prims)

interpretation getQuotes: service_call "getQuotes J z C symbols greeks"
  "demand ''Symbols list cannot be empty'' (symbols \<noteq> [])"
  "\<lambda>_. cl_get C ''/markets/quotes'' (quotesParams symbols greeks)"
  "expectParsed J ''Failed to get quotes: '' (RuntimeError ''Failed to parse quotes response'')
     (parseQuotes J z)"
  "''getQuotes''" for J z C symbols greeks
  by (rule service_callI [OF getQuotes_def])
    (auto simp: liftIO_bindE Let_def demand_def intro!: only_validation_intros)

interpretation getQuotesPost: service_call "getQuotesPost J z C symbols greeks"
  "demand ''Symbols list cannot be empty'' (symbols \<noteq> [])"
  "\<lambda>_. cl_post C ''/markets/quotes'' (quotesParams symbols greeks)"
  "expectParsed J ''Failed to get quotes via POST: '' (RuntimeError ''Failed to parse quotes POST response'')
     (parseQuotes J z)"
  "''getQuotesPost''" for J z C symbols greeks
  by (rule service_callI [OF getQuotesPost_def])
    (auto simp: liftIO_bindE Let_def demand_def intro!: only_validation_intros)

interpretation getOptionChain: service_call "getOptionChain J z C symbol expiration greeks"
  "bindE (demand ''Symbol cannot be empty'' (symbol \<noteq> [])) (\<lambda>_. demand ''Expiration date cannot be empty'' (expiration \<noteq> []))"
  "\<lambda>_. cl_get C ''/markets/options/chains'' (map_put ''greeks'' (boolName greeks) (map_put ''expiration'' expiration (map_put ''symbol'' symbol [])))"
  "expectParsed J ''Failed to get option chain: '' (RuntimeError ''Failed to parse option chain response'')
     (parseOptionChains J z)"
  "''getOptionChain''" for J z C symbol expiration greeks
  by (rule service_callI [OF getOptionChain_def])
    (auto simp: liftIO_bindE Let_def demand_def intro!: only_validation_intros)

interpretation getOptionStrikes: service_call "getOptionStrikes J C symbol expiration includeAllRoots"
  "bindE (demand ''Symbol cannot be empty'' (symbol \<noteq> [])) (\<lambda>_. demand ''Expiration date cannot be empty'' (expiration \<noteq> []))"
  "\<lambda>_. cl_get C ''/markets/options/strikes'' (map_put ''includeAllRoots'' (boolName includeAllRoots) (map_put ''expiration'' expiration (map_put ''symbol'' symbol [])))"
  "expectParsed J ''Failed to get option strikes: '' (RuntimeError ''Failed to parse option strikes response'')
     (parseStrikes J)"
  "''getOptionStrikes''" for J C symbol expiration includeAllRoots
  by (rule service_callI [OF getOptionStrikes_def])
    (auto simp: liftIO_bindE Let_def demand_def intro!: only_validation_intros)

interpretation getOptionExpirations: service_call "getOptionExpirations J C symbol includeAllRoots strikes contractSize expirationType"
  "demand ''Symbol cannot be empty'' (symbol \<noteq> [])"
  "\<lambda>_. cl_get C ''/markets/options/expirations'' (map_put ''expirationType'' (boolName expirationType) (map_put ''contractSize'' (boolName contractSize)
       (map_put ''strikes'' (boolName strikes) (map_put ''includeAllRoots'' (boolName includeAllRoots) (map_put ''symbol'' symbol [])))))"
  "expectParsed J ''Failed to get option expirations: '' (RuntimeError ''Failed to parse option expirations response'')
     (parseExpirations J)"
  "''getOptionExpirations''" for J C symbol includeAllRoots strikes contractSize expirationType
  by (rule service_callI [OF getOptionExpirations_def])
    (auto simp: liftIO_bindE Let_def demand_def intro!: only_validation_intros)

interpretation lookupOptionSymbols: service_call "lookupOptionSymbols J C underlying"
  "demand ''Underlying symbol cannot be empty'' (underlying \<noteq> [])"
  "\<lambda>_. cl_get C ''/markets/options/lookup'' (map_put ''underlying'' underlying [])"
  "expectParsed J ''Failed to lookup option symbols: '' (RuntimeError ''Failed to parse option symbols response'')
     (parseOptionSymbols J)"
  "''lookupOptionSymbols''" for J C underlying
  by (rule service_callI [OF lookupOptionSymbols_def])
    (auto simp: liftIO_bindE Let_def demand_def intro!: only_validation_intros)

interpretation getHistoricalData: service_call "getHistoricalData J C symbol interval start until sessionFilter"
  "demand ''Symbol cannot be empty'' (symbol \<noteq> [])"
  "\<lambda>_. cl_get C ''/markets/history'' (putIf (until \<noteq> []) ''end'' until (putIf (start \<noteq> []) ''start'' start
       (map_put ''session_filter'' sessionFilter (map_put ''interval'' interval (map_put ''symbol'' symbol [])))))"
  "expectParsed J ''Failed to get historical data: '' (RuntimeError ''Failed to parse historical data response'')
     (parseHistoricalDataList J)"
  "''getHistoricalData''" for J C symbol interval start until sessionFilter
  by (rule service_callI [OF getHistoricalData_def])
    (auto simp: liftIO_bindE Let_def demand_def intro!: only_validation_intros)

interpretation getTimeSales: service_call "getTimeSales J C symbol interval start until sessionFilter"
  "demand ''Symbol cannot be empty'' (symbol \<noteq> [])"
  "\<lambda>_. cl_get C ''/markets/timesales'' (putIf (until \<noteq> []) ''end'' until (putIf (start \<noteq> []) ''start'' start
       (map_put ''session_filter'' sessionFilter (map_put ''interval'' interval (map_put ''symbol'' symbol [])))))"
  "expectParsed J ''Failed to get time sales data: '' (RuntimeError ''Failed to parse time sales response'')
     (parseTimeSalesList J)"
  "''getTimeSales''" for J C symbol interval start until sessionFilter
  by (rule service_callI [OF getTimeSales_def])
    (auto simp: liftIO_bindE Let_def demand_def intro!: only_validation_intros)

interpretation getETBList: service_call "getETBList J C"
  "Inr ()"
  "\<lambda>_. cl_get C ''/markets/etb'' []"
  "expectParsed J ''Failed to get ETB list: '' (RuntimeError ''Failed to parse ETB list response'')
     (parseSecurities J)"
  "''getETBList''" for J C
  by (rule service_callI [OF getETBList_def])
    (auto simp: liftIO_bindE Let_def demand_def intro!: only_validation_intros)

interpretation getClock: service_call "getClock J C delayed"
  "Inr ()"
  "\<lambda>_. cl_get C ''/markets/clock'' (putIf delayed ''delayed'' ''true'' [])"
  "expectParsed J ''Failed to get market clock: '' (RuntimeError ''Failed to parse market clock response'')
     (parseMarketClock J)"
  "''getClock''" for J C delayed
  by (rule service_callI [OF getClock_def])
    (auto simp: liftIO_bindE Let_def demand_def intro!: only_validation_intros)

interpretation getCalendar: service_call "getCalendar J junk C month year"
  "Inr ()"
  "\<lambda>_. cl_get C ''/markets/calendar'' (putIf (year \<noteq> []) ''year'' year (putIf (month \<noteq> []) ''month'' month []))"
  "expectParsed J ''Failed to get market calendar: '' (RuntimeError ''Failed to parse market calendar response'')
     (parseMarketCalendar J junk)"
  "''getCalendar''" for J junk C month year
  by (rule service_callI [OF getCalendar_def])
    (auto simp: liftIO_bindE Let_def demand_def intro!: only_validation_intros)

interpretation searchSymbols: service_call "searchSymbols J C query indexes"
  "demand ''Search query cannot be empty'' (query \<noteq> [])"
  "\<lambda>_. cl_get C ''/markets/search'' (map_put ''indexes'' (boolName indexes) (map_put ''q'' query []))"
  "expectParsed J ''Failed to search symbols: '' (RuntimeError ''Failed to parse symbol search response'')
     (parseSecurities J)"
  "''searchSymbols''" for J C query indexes
  by (rule service_callI [OF searchSymbols_def])
    (auto simp: liftIO_bindE Let_def demand_def intro!: only_validation_intros)

interpretation lookupSymbols: service_call "lookupSymbols J C query exchanges types"
  "demand ''Search query cannot be empty'' (query \<noteq> [])"
  "\<lambda>_. cl_get C ''/markets/lookup'' (putIf (types \<noteq> []) ''types'' types (putIf (exchanges \<noteq> []) ''exchanges'' exchanges (map_put ''q'' query [])))"
  "expectParsed J ''Failed to lookup symbols: '' (RuntimeError ''Failed to parse symbol lookup response'')
     (parseSecurities J)"
  "''lookupSymbols''" for J C query exchanges types
  by (rule service_callI [OF lookupSymbols_def])
    (auto simp: liftIO_bindE Let_def demand_def intro!: only_validation_intros)

interpretation getCompanyInfo: service_call "getCompanyInfo J C symbol"
  "demand ''Symbol cannot be empty'' (symbol \<noteq> [])"
  "\<lambda>_. cl_get C ''/beta/markets/fundamentals/company'' (map_put ''symbols'' symbol [])"
  "expectFundamentals (expectParsed J ''Failed to get company info: '' (RuntimeError ''Failed to parse company fundamentals response'')
     (parseCompanyFundamentals J))"
  "''getCompanyInfo''" for J C symbol
  by unfold_locales (auto simp: getCompanyInfo_def liftIO_expectFundamentals Let_def demand_def
      intro!: endpoint_specI expectFundamentals_reports expectParsed_reports only_validation_intros)

interpretation getCorporateCalendar: service_call "getCorporateCalendar J C symbol"
  "demand ''Symbol cannot be empty'' (symbol \<noteq> [])"
  "\<lambda>_. cl_get C ''/beta/markets/fundamentals/calendars'' (map_put ''symbols'' symbol [])"
  "expectParsed J ''Failed to get corporate calendar: '' (RuntimeError ''Failed to parse corporate calendar response'')
     (parseCorporateCalendar J)"
  "''getCorporateCalendar''" for J C symbol
  by (rule service_callI [OF getCorporateCalendar_def])
    (auto simp: liftIO_bindE Let_def demand_def intro!: only_validation_intros)

interpretation getDividends: service_call "getDividends J C symbol"
  "demand ''Symbol cannot be empty'' (symbol \<noteq> [])"
  "\<lambda>_. cl_get C ''/beta/markets/fundamentals/dividends'' (map_put ''symbols'' symbol [])"
  "expectParsed J ''Failed to get dividends: '' (RuntimeError ''Failed to parse dividends response'')
     (parseDividends J)"
  "''getDividends''" for J C symbol
  by (rule service_callI [OF getDividends_def])
    (auto simp: liftIO_bindE Let_def demand_def intro!: only_validation_intros)

interpretation getCorporateActions: service_call "getCorporateActions J C symbol"
  "demand ''Symbol cannot be empty'' (symbol \<noteq> [])"
  "\<lambda>_. cl_get C ''/beta/markets/fundamentals/corporate_actions'' (map_put ''symbols'' symbol [])"
  "expectParsed J ''Failed to get corporate actions: '' (RuntimeError ''Failed to parse corporate actions response'')
     (parseCorporateActions J)"
  "''getCorporateActions''" for J C symbol
  by (rule service_callI [OF getCorporateActions_def])
    (auto simp: liftIO_bindE Let_def demand_def intro!: only_validation_intros)

interpretation getFinancialRatios: service_call "getFinancialRatios J C symbol"
  "demand ''Symbol cannot be empty'' (symbol \<noteq> [])"
  "\<lambda>_. cl_get C ''/beta/markets/fundamentals/ratios'' (map_put ''symbols'' symbol [])"
  "expectParsed J ''Failed to get financial ratios: '' (RuntimeError ''Failed to parse financial ratios response'')
     (parseFinancialRatios J)"
  "''getFinancialRatios''" for J C symbol
  by (rule service_callI [OF getFinancialRatios_def])
    (auto simp: liftIO_bindE Let_def demand_def intro!: only_validation_intros)

interpretation getFinancialStatements: service_call "getFinancialStatements J C symbol"
  "demand ''Symbol cannot be empty'' (symbol \<noteq> [])"
  "\<lambda>_. cl_get C ''/beta/markets/fundamentals/financials'' (map_put ''symbols'' symbol [])"
  "expectParsed J ''Failed to get financial statements: '' (RuntimeError ''Failed to parse financial statements response'')
     (parseFinancialStatements J)"
  "''getFinancialStatements''" for J C symbol
  by (rule service_callI [OF getFinancialStatements_def])
    (auto simp: liftIO_bindE Let_def demand_def intro!: only_validation_intros)

interpretation getPriceStatistics: service_call "getPriceStatistics J C symbol"
  "demand ''Symbol cannot be empty'' (symbol \<noteq> [])"
  "\<lambda>_. cl_get C ''/beta/markets/fundamentals/statistics'' (map_put ''symbols'' symbol [])"
  "expectParsed J ''Failed to get price statistics: '' (RuntimeError ''Failed to parse price statistics response'')
     (parsePriceStatistics J)"
  "''getPriceStatistics''" for J C symbol
  by (rule service_callI [OF getPriceStatistics_def])
    (auto simp: liftIO_bindE Let_def demand_def intro!: only_validation_intros)

end
