(* ===== verification/Market_Properties.thy ===== *)
theory Market_Properties
  imports Market
begin

text \<open>
  What the market data mean. Quotes that the server writes into a document come back field by field,
  however many there are and in both of the forms the server uses; \<open>getQuote\<close> is the first quote of
  \<open>getQuotes\<close>; requests with a missing argument stay in the client; every failure status reaches the
  caller; and where one null field or one missing member spoils the answer.
\<close>

section \<open>Quotes as documents\<close>

text \<open>The document of a quote: a missing value is written as null, times in milliseconds, the time of the
  Greeks by \<open>stamp\<close>.\<close>

definition jint :: "int \<Rightarrow> jval" where
  "jint i = JNum (DFin (of_int i))"

definition jopt :: "('a \<Rightarrow> jval) \<Rightarrow> 'a option \<Rightarrow> jval" where
  "jopt f x = (case x of None \<Rightarrow> JNull | Some v \<Rightarrow> f v)"

definition jmillis :: "int \<Rightarrow> jval" where
  "jmillis t = jint (t div 1000000)"

definition greeksJson :: "(int \<Rightarrow> string) \<Rightarrow> Greeks \<Rightarrow> jval" where
  "greeksJson stamp g = JObj [
     (''delta'', JNum (gkDelta g)), (''gamma'', JNum (gkGamma g)), (''theta'', JNum (gkTheta g)),
     (''vega'', JNum (gkVega g)), (''rho'', JNum (gkRho g)), (''phi'', JNum (gkPhi g)),
     (''bid_iv'', JNum (gkBidIv g)), (''mid_iv'', JNum (gkMidIv g)), (''ask_iv'', JNum (gkAskIv g)),
     (''smv_vol'', JNum (gkSmvVol g)), (''updated_at'', JStr (stamp (gkUpdatedAt g)))]"

definition quoteMembers :: "(int \<Rightarrow> string) \<Rightarrow> Quote \<Rightarrow> (string \<times> jval) list" where
  "quoteMembers stamp q = [
     (''symbol'', JStr (qSymbol q)), (''description'', JStr (qDescription q)), (''exch'', JStr (qExchange q)),
     (''type'', JStr (qType q)), (''last'', jopt JNum (qLast q)), (''change'', jopt JNum (qChange q)),
     (''volume'', jint (qVolume q)), (''open'', jopt JNum (qOpen q)), (''high'', jopt JNum (qHigh q)),
     (''low'', jopt JNum (qLow q)), (''close'', jopt JNum (qClose q)), (''bid'', JNum (qBid q)), (''ask'', JNum (qAsk q)),
     (''change_percentage'', jopt JNum (qChangePercentage q)), (''average_volume'', jint (qAverageVolume q)),
     (''last_volume'', jint (qLastVolume q)), (''trade_date'', jmillis (qTradeDate q)),
     (''prevclose'', jopt JNum (qPrevClose q)), (''week_52_high'', JNum (qWeek52High q)),
     (''week_52_low'', JNum (qWeek52Low q)), (''bidsize'', jint (qBidSize q)), (''bidexch'', JStr (qBidExchange q)),
     (''bid_date'', jmillis (qBidDate q)), (''asksize'', jint (qAskSize q)), (''askexch'', JStr (qAskExchange q)),
     (''ask_date'', jmillis (qAskDate q)), (''root_symbols'', JStr (qRootSymbols q)),
     (''underlying'', jopt JStr (qUnderlying q)), (''strike'', jopt JNum (qStrike q)),
     (''open_interest'', jopt jint (qOpenInterest q)), (''contract_size'', jopt jint (qContractSize q)),
     (''expiration_date'', jopt JStr (qExpirationDate q)), (''expiration_type'', jopt JStr (qExpirationType q)),
     (''option_type'', jopt JStr (qOptionType q)), (''root_symbol'', jopt JStr (qRootSymbol q)),
     (''greeks'', jopt (greeksJson stamp) (qGreeks q))]"

definition isInt :: "int \<Rightarrow> bool" where
  "isInt i \<longleftrightarrow> - (2 ^ 31) \<le> i \<and> i < 2 ^ 31"

definition wholeSecond :: "int \<Rightarrow> bool" where
  "wholeSecond t \<longleftrightarrow> 0 \<le> t \<and> t < 2 ^ 63 \<and> t mod 1000000000 = 0"

text \<open>The quotes a document can carry: the integers have their width, times are whole seconds, and the
  field \<open>timestamp\<close>, which no parser sets, is the epoch.\<close>

definition quoteOk :: "(int \<Rightarrow> int) \<Rightarrow> (int \<Rightarrow> string) \<Rightarrow> Quote \<Rightarrow> bool" where
  "quoteOk z stamp q \<longleftrightarrow>
     list_all isInt [qVolume q, qAverageVolume q, qLastVolume q, qBidSize q, qAskSize q] \<and>
     pred_option isInt (qOpenInterest q) \<and> pred_option isInt (qContractSize q) \<and>
     qTimestamp q = 0 \<and> wholeSecond (qTradeDate q) \<and> wholeSecond (qBidDate q) \<and> wholeSecond (qAskDate q) \<and>
     pred_option (\<lambda>g. utilsParseISODateTime z (stamp (gkUpdatedAt g)) = gkUpdatedAt g) (qGreeks q)"

lemma wholeSecond_millis:
  assumes "wholeSecond t"
  shows "seconds (t div 1000000 div 1000) = t" "t \<noteq> 0 \<Longrightarrow> 0 < t div 1000000" "t div 1000000 < 2 ^ 63"
proof -
  define k where "k = t div 1000000000"
  have k: "t = k * 1000000000" "0 \<le> k" "k * 1000000000 < 2 ^ 63"
    using assms unfolding wholeSecond_def k_def by auto
  have "t = (k * 1000) * 1000000" using k(1) by simp
  then have q: "t div 1000000 = k * 1000" by simp
  show "seconds (t div 1000000 div 1000) = t" by (simp add: q k(1) seconds_def)
  show "0 < t div 1000000" if "t \<noteq> 0" using k that by (simp add: q)
  show "t div 1000000 < 2 ^ 63" using k by (simp add: q)
qed

lemma d_trunc_int: "- (2 ^ 63) \<le> i \<Longrightarrow> i < 2 ^ 63 \<Longrightarrow> d_trunc (DFin (of_int i)) = Some i"
  by (simp add: d_trunc_def Let_def)

lemma jv_int_jint: "isInt i \<Longrightarrow> jv_int (jint i) = Inr i"
  by (simp add: jint_def isInt_def d_trunc_int)

lemma jint_neq_null: "jint i \<noteq> JNull"
  by (simp add: jint_def)

lemma jv_int_millis: "wholeSecond t \<Longrightarrow> jv_int (jmillis t) = Inr (t div 1000000)"
  using wholeSecond_millis(3) [of t] d_trunc_int [of "t div 1000000"] pos_imp_zdiv_nonneg_iff [of 1000000 t]
  by (auto simp: jmillis_def jint_def wholeSecond_def)

text \<open>The statements of the parsers on an object of the concrete JSON type.\<close>

lemma jref_steps:
  "map_of m k = Some (JStr s) \<Longrightarrow> assign us (jx (j_value_string (jref p) (JObj m) k d1)) r = Inr (us (\<lambda>_. s) r)"
  "map_of m k = Some (JNum x) \<Longrightarrow> assign ud (jx (j_value_double (jref p) (JObj m) k d2)) r = Inr (ud (\<lambda>_. x) r)"
  "map_of m k = Some (jint i) \<Longrightarrow> isInt i \<Longrightarrow>
     assign ui (jx (j_value_int (jref p) (JObj m) k d3)) r = Inr (ui (\<lambda>_. i) r)"
  by (simp_all add: jref_def assign_def jx_def jv_int_jint)

lemmas optional_defs = jref_def assign_def jx_def jopt_def assignNumber_def assignPresent_def onlyIfE_def
  present_def atE_def

text \<open>A field that is still \<open>None\<close> takes the optional value as it is.\<close>

lemma jref_optional_steps:
  "map_of m k = Some (jopt JNum x) \<Longrightarrow> un (\<lambda>_. None) r = r \<Longrightarrow>
     assignNumber (jref p) (JObj m) k un r = Inr (un (\<lambda>_. x) r)"
  "map_of m k = Some (jopt JNum x) \<Longrightarrow> un (\<lambda>_. None) r = r \<Longrightarrow>
     assignPresent (jref p) (j_value_double (jref p)) d2 (JObj m) k un r = Inr (un (\<lambda>_. x) r)"
  "map_of m k = Some (jopt JStr s) \<Longrightarrow> uo (\<lambda>_. None) r = r \<Longrightarrow>
     assignPresent (jref p) (j_value_string (jref p)) d1 (JObj m) k uo r = Inr (uo (\<lambda>_. s) r)"
  "map_of m k = Some (jopt jint i) \<Longrightarrow> pred_option isInt i \<Longrightarrow> uj (\<lambda>_. None) r = r \<Longrightarrow>
     assignPresent (jref p) (j_value_int (jref p)) d3 (JObj m) k uj r = Inr (uj (\<lambda>_. i) r)"
  by (cases x; simp add: optional_defs; fail | cases s; simp add: optional_defs; fail |
      cases i; auto simp: optional_defs jv_int_jint jint_neq_null; fail)+

lemma jref_millis_step:
  assumes "map_of m k = Some (jmillis t)" "wholeSecond t" "ut (\<lambda>_. 0) r = r"
  shows "assignMillis (jref p) (JObj m) k ut r = Inr (ut (\<lambda>_. t) r)"
  using assms wholeSecond_millis [OF assms(2)] jv_int_millis [OF assms(2)]
  by (cases "t = 0")
    (auto simp: jref_def assignMillis_def assign_def jx_def onlyIfE_def present_def atE_def andE_def Let_def
      jmillis_def jint_def)

lemma jref_greeks_step:
  assumes "map_of m ''greeks'' = Some (jopt (greeksJson stamp) g)"
    and "pred_option (\<lambda>g. utilsParseISODateTime z (stamp (gkUpdatedAt g)) = gkUpdatedAt g) g"
    and "ug (\<lambda>_. None) r = r"
  shows "onlyIfE (present (jref p) (\<lambda>_. True) (JObj m) ''greeks'')
      (assign ug (bindE (atE (jref p) (JObj m) ''greeks'') (\<lambda>x. map_sum id Some (parseGreeks (jref p) z x)))) r =
    Inr (ug (\<lambda>_. g) r)"
proof (cases g)
  case None
  then show ?thesis using assms(1,3) by (simp add: optional_defs)
next
  case (Some h)
  have "parseGreeks (jref p) z (greeksJson stamp h) = Inr h"
    using assms(2) Some
    by (cases h) (simp add: parseGreeks_def whenObject_def greeksJson_def optional_defs emptyGreeks_def)
  then show ?thesis using assms(1) Some by (simp add: optional_defs greeksJson_def)
qed

lemma quoteMembers_lookup:
  "map_of (quoteMembers stamp q) ''symbol'' = Some (JStr (qSymbol q))"
  "map_of (quoteMembers stamp q) ''description'' = Some (JStr (qDescription q))"
  "map_of (quoteMembers stamp q) ''exch'' = Some (JStr (qExchange q))"
  "map_of (quoteMembers stamp q) ''type'' = Some (JStr (qType q))"
  "map_of (quoteMembers stamp q) ''last'' = Some (jopt JNum (qLast q))"
  "map_of (quoteMembers stamp q) ''change'' = Some (jopt JNum (qChange q))"
  "map_of (quoteMembers stamp q) ''volume'' = Some (jint (qVolume q))"
  "map_of (quoteMembers stamp q) ''open'' = Some (jopt JNum (qOpen q))"
  "map_of (quoteMembers stamp q) ''high'' = Some (jopt JNum (qHigh q))"
  "map_of (quoteMembers stamp q) ''low'' = Some (jopt JNum (qLow q))"
  "map_of (quoteMembers stamp q) ''close'' = Some (jopt JNum (qClose q))"
  "map_of (quoteMembers stamp q) ''bid'' = Some (JNum (qBid q))"
  "map_of (quoteMembers stamp q) ''ask'' = Some (JNum (qAsk q))"
  "map_of (quoteMembers stamp q) ''change_percentage'' = Some (jopt JNum (qChangePercentage q))"
  "map_of (quoteMembers stamp q) ''average_volume'' = Some (jint (qAverageVolume q))"
  "map_of (quoteMembers stamp q) ''last_volume'' = Some (jint (qLastVolume q))"
  "map_of (quoteMembers stamp q) ''trade_date'' = Some (jmillis (qTradeDate q))"
  "map_of (quoteMembers stamp q) ''prevclose'' = Some (jopt JNum (qPrevClose q))"
  "map_of (quoteMembers stamp q) ''week_52_high'' = Some (JNum (qWeek52High q))"
  "map_of (quoteMembers stamp q) ''week_52_low'' = Some (JNum (qWeek52Low q))"
  "map_of (quoteMembers stamp q) ''bidsize'' = Some (jint (qBidSize q))"
  "map_of (quoteMembers stamp q) ''bidexch'' = Some (JStr (qBidExchange q))"
  "map_of (quoteMembers stamp q) ''bid_date'' = Some (jmillis (qBidDate q))"
  "map_of (quoteMembers stamp q) ''asksize'' = Some (jint (qAskSize q))"
  "map_of (quoteMembers stamp q) ''askexch'' = Some (JStr (qAskExchange q))"
  "map_of (quoteMembers stamp q) ''ask_date'' = Some (jmillis (qAskDate q))"
  "map_of (quoteMembers stamp q) ''root_symbols'' = Some (JStr (qRootSymbols q))"
  "map_of (quoteMembers stamp q) ''underlying'' = Some (jopt JStr (qUnderlying q))"
  "map_of (quoteMembers stamp q) ''strike'' = Some (jopt JNum (qStrike q))"
  "map_of (quoteMembers stamp q) ''open_interest'' = Some (jopt jint (qOpenInterest q))"
  "map_of (quoteMembers stamp q) ''contract_size'' = Some (jopt jint (qContractSize q))"
  "map_of (quoteMembers stamp q) ''expiration_date'' = Some (jopt JStr (qExpirationDate q))"
  "map_of (quoteMembers stamp q) ''expiration_type'' = Some (jopt JStr (qExpirationType q))"
  "map_of (quoteMembers stamp q) ''option_type'' = Some (jopt JStr (qOptionType q))"
  "map_of (quoteMembers stamp q) ''root_symbol'' = Some (jopt JStr (qRootSymbol q))"
  "map_of (quoteMembers stamp q) ''greeks'' = Some (jopt (greeksJson stamp) (qGreeks q))"
  by (simp_all add: quoteMembers_def)

lemma parseQuote_members:
  assumes "quoteOk z stamp q"
  shows "parseQuote (jref p) z (JObj (quoteMembers stamp q)) = Inr q"
proof -
  have "j_is_object (jref p) (JObj m)" "\<not> j_is_null (jref p) (JObj m)" for m by (simp_all add: jref_def)
  then show ?thesis
    using assms unfolding parseQuote_def quoteOk_def emptyQuote_def
    by (simp add: whenObject_def quoteMembers_lookup jref_steps jref_optional_steps jref_millis_step
        jref_greeks_step [where stamp = stamp])
qed

definition nested :: "string \<Rightarrow> string \<Rightarrow> jval \<Rightarrow> jval" where
  "nested a b x = JObj [(a, JObj [(b, x)])]"

definition quotesDoc :: "(int \<Rightarrow> string) \<Rightarrow> Quote list \<Rightarrow> jval" where
  "quotesDoc stamp qs = nested ''quotes'' ''quote'' (JArr (map (\<lambda>q. JObj (quoteMembers stamp q)) qs))"

lemma listAt2_nested: "x \<noteq> JNull \<Longrightarrow> listAt2 (jref p) a b items (nested a b x) = items x"
  by (simp add: listAt2_def whenObject_def present2_def andE_def ifE_def nested_def optional_defs)

lemma nonNull_objects: "nonNull (jref p) (JArr (map (\<lambda>q. JObj (f q)) qs)) = map (\<lambda>q. JObj (f q)) qs"
  by (simp add: nonNull_def jref_def filter_map o_def)

lemma parseQuotes_doc:
  assumes "list_all (quoteOk z stamp) qs"
  shows "parseQuotes (jref p) z (quotesDoc stamp qs) = Inr qs"
proof -
  let ?js = "map (\<lambda>q. JObj (quoteMembers stamp q)) qs"
  have "traverseE (parseQuote (jref p) z) ?js = Inr qs"
    using assms by (induction qs) (simp_all add: parseQuote_members)
  moreover have "j_is_array (jref p) (JArr ?js)" by (simp add: jref_def)
  ultimately show ?thesis
    by (simp add: parseQuotes_def quotesDoc_def listAt2_nested listOf_def nonNull_objects)
qed

lemma expectParsed_value:
  assumes "success resp" "j_parse J (body resp) = Inr j" "parser j = Inr v"
  shows "expectParsed J failure parseFailure parser resp = Inr v"
  using assms by (simp add: expectParsed_def parseResponse_def jx_def)

lemma expectParsed_fails:
  assumes "success resp" "j_parse J (body resp) = Inr j" "parser j = Inl e"
  shows "expectParsed J failure parseFailure parser resp = Inl parseFailure"
  using assms by (simp add: expectParsed_def parseResponse_def jx_def)

text \<open>
  C18: Quotes arrive as the server wrote them: when the answer to the request is the document of a
  list of quotes, \<open>getQuotes\<close> returns exactly these quotes, in order and in every field, optional ones
  and Greeks included; and the document of a single object gives the list of that one quote.
\<close>

theorem quotes_roundtrip:
  assumes "list_all (quoteOk z stamp) qs" "symbols \<noteq> []"
    and "cl_get C ''/markets/quotes'' (quotesParams symbols greeks) w = Some (Inr resp, w')"
    and "success resp" "p (body resp) = Inr (quotesDoc stamp qs)"
  shows "getQuotes (jref p) z C symbols greeks w = Some (Inr (ofValue qs), w') \<and>
    (\<forall>q \<in> set qs. parseQuotes (jref p) z (nested ''quotes'' ''quote'' (JObj (quoteMembers stamp q))) = Inr [q])"
proof (intro conjI ballI)
  have "j_parse (jref p) (body resp) = Inr (quotesDoc stamp qs)" using assms(5) by (simp add: jref_def)
  then show "getQuotes (jref p) z C symbols greeks w = Some (Inr (ofValue qs), w')"
    using assms parseQuotes_doc [OF assms(1)]
    by (intro getQuotes.reports_value expectParsed_value) (simp_all add: demand_ok)
  fix q assume "q \<in> set qs"
  then have "parseQuote (jref p) z (JObj (quoteMembers stamp q)) = Inr q"
    using assms(1) by (auto simp: list_all_iff intro: parseQuote_members)
  then show "parseQuotes (jref p) z (nested ''quotes'' ''quote'' (JObj (quoteMembers stamp q))) = Inr [q]"
    by (simp add: parseQuotes_def listAt2_nested listOf_def) (simp add: jref_def)
qed

definition sampleQuote :: Quote where
  "sampleQuote = emptyQuote\<lparr>qSymbol := ''AAPL'', qLast := Some (DFin (379 / 2)), qVolume := 5321,
     qTradeDate := seconds 1700000000, qStrike := Some (DFin 190),
     qGreeks := Some (emptyGreeks\<lparr>gkDelta := DFin (1 / 2)\<rparr>)\<rparr>"

definition sampleAnswer :: Response where
  "sampleAnswer = \<lparr>status = 200, body = [], headers = []\<rparr>"

definition answering :: "Response \<Rightarrow> unit client_ops" where
  "answering resp = (let answer = (\<lambda>ep ps w. Some (Inr resp, w))
     in \<lparr>cl_get = answer, cl_post = answer, cl_put = answer, cl_del = answer\<rparr>)"

lemma answering_simps [simp]:
  "cl_get (answering resp) ep ps w = Some (Inr resp, w)" "cl_post (answering resp) ep ps w = Some (Inr resp, w)"
  by (simp_all add: answering_def Let_def)

lemma sampleAnswer_success [simp]: "success sampleAnswer"
  by (simp add: sampleAnswer_def success_def)

lemma digits_Nil: "digits n [] = ([], [])"
  by (cases n) simp_all

lemma parse_no_time: "utilsParseISODateTime z [] = 0"
  by (simp add: utilsParseISODateTime_def get_time_def readField_def readNumber_def digits_Nil)

text \<open>Witness: one option with a volume, a trade and Greeks, in UTC.\<close>

theorem quotes_roundtrip_witness:
  "getQuotes (jref (\<lambda>_. Inr (quotesDoc (\<lambda>_. []) [sampleQuote]))) (\<lambda>_. 0) (answering sampleAnswer) [''AAPL''] True () =
     Some (Inr (ofValue [sampleQuote]), ())"
proof -
  have "list_all (quoteOk (\<lambda>_. 0) (\<lambda>_. [])) [sampleQuote]"
    by (simp add: quoteOk_def sampleQuote_def emptyQuote_def emptyGreeks_def isInt_def wholeSecond_def seconds_def
        parse_no_time)
  from quotes_roundtrip [OF this, of "[''AAPL'']" "answering sampleAnswer" True "()" sampleAnswer "()"
      "\<lambda>_. Inr (quotesDoc (\<lambda>_. []) [sampleQuote])"]
  show ?thesis by simp
qed

section \<open>One element or several\<close>

definition holds2 :: "'j json_api \<Rightarrow> 'j \<Rightarrow> string \<Rightarrow> string \<Rightarrow> 'j \<Rightarrow> bool" where
  "holds2 J d a b x \<longleftrightarrow>
     j_contains J d a \<and> (\<exists>y. j_at J d a = Inr y \<and> j_contains J y b \<and> j_at J y b = Inr x)"

context json_lib
begin

lemma listAt2_holds:
  assumes "holds2 J d a b x" "\<not> j_is_null J x"
  shows "listAt2 J a b items d = items x"
proof -
  obtain y where y: "j_contains J d a" "j_at J d a = Inr y" "j_contains J y b" "j_at J y b = Inr x"
    using assms(1) by (auto simp: holds2_def)
  then have "j_is_object J d" "\<not> j_is_null J d" "\<not> j_is_null J y"
    using contains_object null_contains by blast+
  then show ?thesis
    using y assms(2) by (simp add: listAt2_def whenObject_def present2_def andE_def ifE_def present_def atE_def jx_def)
qed

lemma listOf_single:
  assumes "j_is_object J x" "j_is_array J arr" "j_elems J arr = [x]"
  shows "listOf J f arr = listOf J f x"
proof -
  have "\<not> j_is_null J x" "\<not> j_is_array J x" using assms(1) kinds_disjoint by blast+
  then show ?thesis using assms by (cases "f x") (simp_all add: listOf_def nonNull_def)
qed

lemma one_or_array:
  assumes "holds2 J d a b x" "holds2 J d' a b arr" "j_is_object J x" "j_is_array J arr" "j_elems J arr = [x]"
  shows "listAt2 J a b (listOf J f) d = listAt2 J a b (listOf J f) d'"
proof -
  have "\<not> j_is_null J x" "\<not> j_is_null J arr" using assms(3,4) kinds_disjoint by blast+
  then show ?thesis
    using listAt2_holds [OF assms(1)] listAt2_holds [OF assms(2)] listOf_single [OF assms(3-5)] by metis
qed

end

text \<open>
  C19: The server writes a list of one element as a single object instead of an array; with a JSON
  library that behaves as documented the six parsers \<open>parseQuotes\<close>, \<open>parseOptionChains\<close>,
  \<open>parseExpirations\<close>, \<open>parseHistoricalDataList\<close>, \<open>parseTimeSalesList\<close> and \<open>parseSecurities\<close>, which read a
  list two members deep, read the two documents alike. The other list parsers do not: \<open>parseOptionSymbols\<close>
  returns no symbol at all for a single object (\<open>parseCorporateCalendar\<close> and \<open>parseDividends\<close> test for an
  array in the same way).
\<close>

theorem single_object_or_array:
  assumes "json_lib J" "j_is_object J x" "j_is_array J arr" "j_elems J arr = [x]"
  shows
    "(holds2 J d ''quotes'' ''quote'' x \<and> holds2 J d' ''quotes'' ''quote'' arr \<longrightarrow> parseQuotes J z d = parseQuotes J z d') \<and>
     (holds2 J d ''options'' ''option'' x \<and> holds2 J d' ''options'' ''option'' arr \<longrightarrow>
        parseOptionChains J z d = parseOptionChains J z d') \<and>
     (holds2 J d ''expirations'' ''expiration'' x \<and> holds2 J d' ''expirations'' ''expiration'' arr \<longrightarrow>
        parseExpirations J d = parseExpirations J d') \<and>
     (holds2 J d ''history'' ''day'' x \<and> holds2 J d' ''history'' ''day'' arr \<longrightarrow>
        parseHistoricalDataList J d = parseHistoricalDataList J d') \<and>
     (holds2 J d ''series'' ''data'' x \<and> holds2 J d' ''series'' ''data'' arr \<longrightarrow>
        parseTimeSalesList J d = parseTimeSalesList J d') \<and>
     (holds2 J d ''securities'' ''security'' x \<and> holds2 J d' ''securities'' ''security'' arr \<longrightarrow>
        parseSecurities J d = parseSecurities J d') \<and>
     (j_is_object J d \<and> j_contains J d ''symbols'' \<and> j_at J d ''symbols'' = Inr x \<longrightarrow> parseOptionSymbols J d = Inr [])"
proof -
  have "\<not> j_is_array J x" using json_lib.kinds_disjoint [OF assms(1)] assms(2) by blast
  then have symbols: "j_is_object J d \<and> j_contains J d ''symbols'' \<and> j_at J d ''symbols'' = Inr x \<longrightarrow> parseOptionSymbols J d = Inr []"
    by (simp add: parseOptionSymbols_def whenObject_def ifE_def present_def atE_def jx_def)
  note alike = json_lib.one_or_array [OF assms(1) _ _ assms(2-4)]
  show ?thesis
    unfolding parseQuotes_def parseOptionChains_def parseExpirations_def parseHistoricalDataList_def
      parseTimeSalesList_def parseSecurities_def
    by (rule conjI | rule symbols | (rule impI, elim conjE, erule (1) alike))+
qed

text \<open>Witness: the history of one day.\<close>

theorem single_object_or_array_witness:
  "(let day = JObj [(''date'', JStr ''2024-01-02''), (''volume'', JNum (DFin 7))]; J = jref (\<lambda>_. Inl [])
    in parseHistoricalDataList J (nested ''history'' ''day'' day) =
         parseHistoricalDataList J (nested ''history'' ''day'' (JArr [day])))"
proof -
  let ?J = "jref (\<lambda>_. Inl [])"
  let ?day = "JObj [(''date'', JStr ''2024-01-02''), (''volume'', JNum (DFin 7))]"
  have "holds2 ?J (nested a b x) a b x" for a b x by (simp add: holds2_def jref_def nested_def)
  moreover have "j_is_object ?J ?day" "j_is_array ?J (JArr [?day])" "j_elems ?J (JArr [?day]) = [?day]"
    by (simp_all add: jref_def)
  ultimately show ?thesis
    using single_object_or_array [OF jr.json_lib_axioms, of "\<lambda>_. Inl []" ?day "JArr [?day]"
        "nested ''history'' ''day'' ?day" "nested ''history'' ''day'' (JArr [?day])" "\<lambda>_. 0"]
    by (simp add: Let_def)
qed

section \<open>A single quote\<close>

lemma andThen_value: "andThen (ofValue v) f = resultOf [] (f v)"
  by (simp add: andThen_def ofValue_def resultValue_def)

lemma andThen_fails: "failsWith code r \<Longrightarrow> failsWith code (andThen r f)"
  by (auto simp: failsWith_def andThen_def ofError_def)

text \<open>
  \<open>getQuote\<close> sends the symbol in one request of \<open>getQuotes\<close> and returns the first quote of the answer;
  an answer without quotes is the error 404, a failure status is passed on, an unreadable answer is an
  internal error, and an empty symbol is rejected without a request.
\<close>

theorem getQuote_contract:
  "(getQuote J z C [] greeks w = Some (Inr (validationError ''Symbol cannot be empty''), w)) \<and>
   (symbol \<noteq> [] \<longrightarrow> cl_get C ''/markets/quotes'' (quotesParams [symbol] greeks) w = Some (Inr resp, w') \<longrightarrow>
      map_of (quotesParams [symbol] greeks) ''symbols'' = Some symbol \<and>
      (\<exists>r. getQuote J z C symbol greeks w = Some (Inr r, w') \<and>
         (\<not> success resp \<longrightarrow> failsWith (status resp) r) \<and>
         (success resp \<longrightarrow>
            (case parseResponse J resp (parseQuotes J z) of
               None \<Rightarrow> failsWith 0 r
             | Some [] \<Rightarrow> failsWith 404 r
             | Some (q # qs) \<Rightarrow> r = ofValue q))))"
proof (intro conjI impI)
  show "getQuote J z C [] greeks w = Some (Inr (validationError ''Symbol cannot be empty''), w)"
    by (simp add: getQuote_def io_prims)
next
  assume sy: "symbol \<noteq> []" and get: "cl_get C ''/markets/quotes'' (quotesParams [symbol] greeks) w = Some (Inr resp, w')"
  show "map_of (quotesParams [symbol] greeks) ''symbols'' = Some symbol" by (simp add: quotesParams_def)
  define r0 where "r0 = tryExecute (expectParsed J ''Failed to get quotes: ''
      (RuntimeError ''Failed to parse quotes response'') (parseQuotes J z) resp) ''getQuotes''"
  let ?f = "\<lambda>quotes. if quotes = [] then throwApi 404 (''No quote found for symbol: '' @ symbol) else Inr (hd quotes)"
  have "getQuotes J z C [symbol] greeks w = Some (Inr r0, w')"
    using get by (simp add: getQuotes.sends_once demand_ok r0_def)
  then have run: "getQuote J z C symbol greeks w = Some (Inr (andThen r0 ?f), w')"
    using sy by (simp add: getQuote_def bindIO_def io_prims)
  have bad: "failsWith (status resp) r0" if "\<not> success resp"
    using that failsWith_tryExecute [of "ApiError (ApiErr (status resp) (''Failed to get quotes: '' @ body resp) [])"]
    by (simp add: r0_def expectParsed_def throwApi_def)
  have unreadable: "failsWith 0 r0" if "success resp" "parseResponse J resp (parseQuotes J z) = None"
    using that failsWith_tryExecute [of "RuntimeError ''Failed to parse quotes response''"]
    by (simp add: r0_def expectParsed_def)
  have "r0 = ofValue qs" if "success resp" "parseResponse J resp (parseQuotes J z) = Some qs" for qs
    using that by (simp add: r0_def expectParsed_def)
  moreover have "failsWith 404 (resultOf [] (throwApi 404 m) :: Quote ApiResult)" for m
    by (simp add: failsWith_def throwApi_def result_defs)
  ultimately show "\<exists>r. getQuote J z C symbol greeks w = Some (Inr r, w') \<and>
         (\<not> success resp \<longrightarrow> failsWith (status resp) r) \<and>
         (success resp \<longrightarrow>
            (case parseResponse J resp (parseQuotes J z) of
               None \<Rightarrow> failsWith 0 r
             | Some [] \<Rightarrow> failsWith 404 r
             | Some (q # qs) \<Rightarrow> r = ofValue q))"
    using run bad unreadable andThen_fails by (auto simp: andThen_value split: option.splits list.splits)
qed

text \<open>Witness: an answer without quotes.\<close>

theorem getQuote_contract_witness:
  "\<exists>r. getQuote (jref (\<lambda>_. Inr (JObj []))) (\<lambda>_. 0) (answering sampleAnswer) ''XYZ'' False () = Some (Inr r, ()) \<and>
     failsWith 404 r"
proof -
  have "parseResponse (jref (\<lambda>_. Inr (JObj []))) sampleAnswer (parseQuotes (jref (\<lambda>_. Inr (JObj []))) (\<lambda>_. 0)) = Some []"
    by (simp add: parseResponse_def parseQuotes_def listAt2_def whenObject_def present2_def andE_def ifE_def optional_defs)
  then show ?thesis
    using getQuote_contract [of "jref (\<lambda>_. Inr (JObj []))" "\<lambda>_. 0" "answering sampleAnswer" False "()" "''XYZ''"
        sampleAnswer "()"] by auto
qed

section \<open>Failures\<close>

lemma getQuote_reports:
  assumes "symbol \<noteq> []" "\<And>ep ps. cl_get C ep ps w = Some (Inr resp, w')" "\<not> success resp"
  shows "\<exists>r. getQuote J z C symbol greeks w = Some (Inr r, w') \<and> failsWith (status resp) r"
proof -
  have "demand ''Symbols list cannot be empty'' ([symbol] \<noteq> []) = Inr ()" by (simp add: demand_def whenE_def)
  then obtain r where r: "getQuotes J z C [symbol] greeks w = Some (Inr r, w')" "failsWith (status resp) r"
    using getQuotes.reports_failure [OF _ assms(2,3), where symbols = "[symbol]" and J = J and z = z and greeks = greeks] by blast
  then show ?thesis
    using assms(1) andThen_fails [OF r(2)] by (simp add: getQuote_def bindIO_def io_prims)
qed

text \<open>
  C20: Every operation of \<open>MarketService\<close> with the arguments it needs hands a status outside 2xx on to
  the caller as the status of the error.
\<close>

theorem market_error_status:
  assumes get: "\<And>ep ps. cl_get C ep ps w = Some (Inr resp, w')" and post: "\<And>ep ps. cl_post C ep ps w = Some (Inr resp, w')"
    and bad: "\<not> success resp"
    and args: "symbols \<noteq> []" "symbol \<noteq> []" "expiration \<noteq> []" "query \<noteq> []"
  shows
    "(\<exists>r. getQuotes J z C symbols greeks w = Some (Inr r, w') \<and> failsWith (status resp) r) \<and>
     (\<exists>r. getQuotesPost J z C symbols greeks w = Some (Inr r, w') \<and> failsWith (status resp) r) \<and>
     (\<exists>r. getQuote J z C symbol greeks w = Some (Inr r, w') \<and> failsWith (status resp) r) \<and>
     (\<exists>r. getOptionChain J z C symbol expiration greeks w = Some (Inr r, w') \<and> failsWith (status resp) r) \<and>
     (\<exists>r. getOptionStrikes J C symbol expiration roots w = Some (Inr r, w') \<and> failsWith (status resp) r) \<and>
     (\<exists>r. getOptionExpirations J C symbol roots strikes csize etype w = Some (Inr r, w') \<and> failsWith (status resp) r) \<and>
     (\<exists>r. lookupOptionSymbols J C symbol w = Some (Inr r, w') \<and> failsWith (status resp) r) \<and>
     (\<exists>r. getHistoricalData J C symbol interval start until session w = Some (Inr r, w') \<and> failsWith (status resp) r) \<and>
     (\<exists>r. getTimeSales J C symbol interval start until session w = Some (Inr r, w') \<and> failsWith (status resp) r) \<and>
     (\<exists>r. getETBList J C w = Some (Inr r, w') \<and> failsWith (status resp) r) \<and>
     (\<exists>r. getClock J C delayed w = Some (Inr r, w') \<and> failsWith (status resp) r) \<and>
     (\<exists>r. getCalendar J junk C month year w = Some (Inr r, w') \<and> failsWith (status resp) r) \<and>
     (\<exists>r. searchSymbols J C query indexes w = Some (Inr r, w') \<and> failsWith (status resp) r) \<and>
     (\<exists>r. lookupSymbols J C query exchanges types w = Some (Inr r, w') \<and> failsWith (status resp) r) \<and>
     (\<exists>r. getCompanyInfo J C symbol w = Some (Inr r, w') \<and> failsWith (status resp) r) \<and>
     (\<exists>r. getCorporateCalendar J C symbol w = Some (Inr r, w') \<and> failsWith (status resp) r) \<and>
     (\<exists>r. getDividends J C symbol w = Some (Inr r, w') \<and> failsWith (status resp) r) \<and>
     (\<exists>r. getCorporateActions J C symbol w = Some (Inr r, w') \<and> failsWith (status resp) r) \<and>
     (\<exists>r. getFinancialRatios J C symbol w = Some (Inr r, w') \<and> failsWith (status resp) r) \<and>
     (\<exists>r. getFinancialStatements J C symbol w = Some (Inr r, w') \<and> failsWith (status resp) r) \<and>
     (\<exists>r. getPriceStatistics J C symbol w = Some (Inr r, w') \<and> failsWith (status resp) r)"
proof -
  have ok: "demand m (symbols \<noteq> []) = Inr ()" "demand m (query \<noteq> []) = Inr ()"
      "bindE (demand m (symbol \<noteq> [])) (\<lambda>_. demand m' (expiration \<noteq> [])) = Inr ()"
      "demand m (symbol \<noteq> []) = Inr ()" for m m'
    using args by (simp_all add: demand_def whenE_def)
  show ?thesis
    by (intro conjI)
      (rule getQuotes.reports_failure [OF ok(1) get bad]
        getQuotesPost.reports_failure [OF ok(1) post bad]
        getQuote_reports [OF args(2) get bad]
        getOptionChain.reports_failure [OF ok(3) get bad]
        getOptionStrikes.reports_failure [OF ok(3) get bad]
        getOptionExpirations.reports_failure [OF ok(4) get bad]
        lookupOptionSymbols.reports_failure [OF ok(4) get bad]
        getHistoricalData.reports_failure [OF ok(4) get bad]
        getTimeSales.reports_failure [OF ok(4) get bad]
        getETBList.reports_failure [OF refl get bad]
        getClock.reports_failure [OF refl get bad]
        getCalendar.reports_failure [OF refl get bad]
        searchSymbols.reports_failure [OF ok(2) get bad]
        lookupSymbols.reports_failure [OF ok(2) get bad]
        getCompanyInfo.reports_failure [OF ok(4) get bad]
        getCorporateCalendar.reports_failure [OF ok(4) get bad]
        getDividends.reports_failure [OF ok(4) get bad]
        getCorporateActions.reports_failure [OF ok(4) get bad]
        getFinancialRatios.reports_failure [OF ok(4) get bad]
        getFinancialStatements.reports_failure [OF ok(4) get bad]
        getPriceStatistics.reports_failure [OF ok(4) get bad])+
qed

text \<open>Witness: a server that is down for maintenance.\<close>

theorem market_error_status_witness:
  "\<exists>r. getDividends (jref (\<lambda>_. Inl [])) (answering \<lparr>status = 503, body = [], headers = []\<rparr>) ''AAPL'' () = Some (Inr r, ()) \<and>
     failsWith 503 r"
  using market_error_status [of "answering \<lparr>status = 503, body = [], headers = []\<rparr>" "()" "\<lparr>status = 503, body = [], headers = []\<rparr>"
      "()" "[''AAPL'']" "''AAPL''" "''2024-01-19''" "''A''" "jref (\<lambda>_. Inl [])"]
  by (simp add: success_def)

text \<open>
  Requests with a missing argument never leave the client: without symbols, symbol, expiration or
  query the operations answer with an error of status 0 and the world is as before.
\<close>

theorem market_validation_is_local:
  "(\<exists>r. getQuotes J z C [] greeks w = Some (Inr r, w) \<and> failsWith 0 r) \<and>
     (\<exists>r. getQuotesPost J z C [] greeks w = Some (Inr r, w) \<and> failsWith 0 r) \<and>
     (\<exists>r. getOptionChain J z C [] expiration greeks w = Some (Inr r, w) \<and> failsWith 0 r) \<and>
     (\<exists>r. getOptionChain J z C symbol [] greeks w = Some (Inr r, w) \<and> failsWith 0 r) \<and>
     (\<exists>r. getOptionStrikes J C [] expiration roots w = Some (Inr r, w) \<and> failsWith 0 r) \<and>
     (\<exists>r. getOptionStrikes J C symbol [] roots w = Some (Inr r, w) \<and> failsWith 0 r) \<and>
     (\<exists>r. getOptionExpirations J C [] roots strikes csize etype w = Some (Inr r, w) \<and> failsWith 0 r) \<and>
     (\<exists>r. lookupOptionSymbols J C [] w = Some (Inr r, w) \<and> failsWith 0 r) \<and>
     (\<exists>r. getHistoricalData J C [] interval start until session w = Some (Inr r, w) \<and> failsWith 0 r) \<and>
     (\<exists>r. getTimeSales J C [] interval start until session w = Some (Inr r, w) \<and> failsWith 0 r) \<and>
     (\<exists>r. searchSymbols J C [] indexes w = Some (Inr r, w) \<and> failsWith 0 r) \<and>
     (\<exists>r. lookupSymbols J C [] exchanges types w = Some (Inr r, w) \<and> failsWith 0 r) \<and>
     (\<exists>r. getCompanyInfo J C [] w = Some (Inr r, w) \<and> failsWith 0 r) \<and>
     (\<exists>r. getCorporateCalendar J C [] w = Some (Inr r, w) \<and> failsWith 0 r) \<and>
     (\<exists>r. getDividends J C [] w = Some (Inr r, w) \<and> failsWith 0 r) \<and>
     (\<exists>r. getCorporateActions J C [] w = Some (Inr r, w) \<and> failsWith 0 r) \<and>
     (\<exists>r. getFinancialRatios J C [] w = Some (Inr r, w) \<and> failsWith 0 r) \<and>
     (\<exists>r. getFinancialStatements J C [] w = Some (Inr r, w) \<and> failsWith 0 r) \<and>
     (\<exists>r. getPriceStatistics J C [] w = Some (Inr r, w) \<and> failsWith 0 r)"
proof -
  have one: "demand m ([] \<noteq> []) = Inl (ValidationError m)" for m by (simp add: demand_not_ok)
  have two: "bindE (demand m (x \<noteq> [])) (\<lambda>_. demand m' (y \<noteq> [])) = Inl (ValidationError (if x = [] then m else m'))"
    if "x = [] \<or> y = []" for m m' and x y :: string
    using that by (auto simp: demand_def whenE_def)
  show ?thesis
    by (intro conjI)
      (rule getQuotes.rejects [OF one]
        getQuotesPost.rejects [OF one]
        getOptionChain.rejects [OF two]
        getOptionStrikes.rejects [OF two]
        getOptionExpirations.rejects [OF one]
        lookupOptionSymbols.rejects [OF one]
        getHistoricalData.rejects [OF one]
        getTimeSales.rejects [OF one]
        searchSymbols.rejects [OF one]
        lookupSymbols.rejects [OF one]
        getCompanyInfo.rejects [OF one]
        getCorporateCalendar.rejects [OF one]
        getDividends.rejects [OF one]
        getCorporateActions.rejects [OF one]
        getFinancialRatios.rejects [OF one]
        getFinancialStatements.rejects [OF one]
        getPriceStatistics.rejects [OF one],
       (simp; fail)?)+
qed

section \<open>One null spoils the answer\<close>

lemma run_fails:
  assumes "c \<in> set cs" "\<And>s. \<exists>e. c s = Inl e"
  shows "\<exists>e. run cs s = Inl e"
  using assms
proof (induction cs arbitrary: s)
  case (Cons d ds)
  show ?case
  proof (cases "d s")
    case (Inr t)
    then show ?thesis using Cons.IH [of t] Cons.prems by (cases "c = d") (auto, metis Inr_Inl_False Cons.prems(2))
  qed simp
qed simp

lemma whenObject_true: "\<not> j_is_null J x \<Longrightarrow> j_is_object J x \<Longrightarrow> whenObject J x m other = m"
  by (simp add: whenObject_def)

lemma traverseE_fails:
  assumes "x \<in> set xs" "f x = Inl e"
  shows "\<exists>e'. traverseE f xs = Inl e'"
  using assms
proof (induction xs)
  case (Cons y ys)
  then show ?case by (cases "f y") auto
qed simp

text \<open>
  \<open>parseQuote\<close> and \<open>parseOptionChain\<close> guard the last price and its companions against null, but not
  bid, ask or volume: with a JSON library that refuses null as a number, one quote with a null bid
  makes \<open>getQuotes\<close> fail as a whole, and the other quotes of the answer are lost with it.
\<close>

theorem null_bid_loses_all_quotes:
  assumes "json_lib J" "j_is_object J x" "j_contains J x ''bid''" "j_at J x ''bid'' = Inr n" "j_double J n = Inl m"
    and "x \<in> set (j_elems J arr)" "j_is_array J arr" "holds2 J d ''quotes'' ''quote'' arr"
    and "cl_get C ''/markets/quotes'' (quotesParams symbols greeks) w = Some (Inr resp, w')"
    and "success resp" "j_parse J (body resp) = Inr d" "symbols \<noteq> []"
  shows "(\<exists>e. parseQuote J z x = Inl e) \<and> (\<exists>e. parseOptionChain J z x = Inl e) \<and>
    (\<exists>r. getQuotes J z C symbols greeks w = Some (Inr r, w') \<and> failsWith 0 r)"
proof (intro conjI)
  note lib = json_lib.kinds_disjoint [OF assms(1)]
  have nn: "\<not> j_is_null J x" "\<not> j_is_null J arr" using lib assms(2,7) by blast+
  have bid: "jx (j_value_double J x ''bid'' (DFin 0)) = Inl (JsonException m)"
    using assms(3-5) json_lib.value_double_object [OF assms(1,2)] by (simp add: jx_def)
  have fails: "\<exists>e. assign u (jx (j_value_double J x ''bid'' (DFin 0))) s = Inl e" for u :: "(double \<Rightarrow> double) \<Rightarrow> 's \<Rightarrow> 's" and s
    by (simp add: bid assign_def)
  show q: "\<exists>e. parseQuote J z x = Inl e"
    unfolding parseQuote_def whenObject_true [OF nn(1) assms(2)]
    by (rule run_fails [where c = "assign qBid_update (jx (j_value_double J x ''bid'' (DFin 0)))"])
      (simp only: list.set insert_iff simp_thms, rule fails)
  show "\<exists>e. parseOptionChain J z x = Inl e"
    unfolding parseOptionChain_def whenObject_true [OF nn(1) assms(2)]
    by (rule run_fails [where c = "assign ocBid_update (jx (j_value_double J x ''bid'' (DFin 0)))"])
      (simp only: list.set insert_iff simp_thms, rule fails)
  have "x \<in> set (nonNull J arr)" using nn(1) assms(6) by (simp add: nonNull_def)
  then have "\<exists>e. listOf J (parseQuote J z) arr = Inl e"
    using q assms(7) traverseE_fails [of x "nonNull J arr" "parseQuote J z"] by (auto simp: listOf_def)
  then obtain e where "parseQuotes J z d = Inl e"
    unfolding parseQuotes_def json_lib.listAt2_holds [OF assms(1,8) nn(2)] by blast
  then have "getQuotes J z C symbols greeks w = Some (Inr (tryExecute (Inl (RuntimeError ''Failed to parse quotes response'')) ''getQuotes''), w')"
    using assms(9-12) by (simp add: getQuotes.sends_once demand_ok expectParsed_fails)
  then show "\<exists>r. getQuotes J z C symbols greeks w = Some (Inr r, w') \<and> failsWith 0 r"
    using failsWith_tryExecute [of "RuntimeError ''Failed to parse quotes response''"] by simp
qed

text \<open>Witness: two quotes, the second without a bid.\<close>

theorem null_bid_loses_all_quotes_witness:
  "(let good = JObj [(''symbol'', JStr ''AAPL'')]; bad = JObj [(''symbol'', JStr ''SPX''), (''bid'', JNull)];
        J = jref (\<lambda>_. Inr (nested ''quotes'' ''quote'' (JArr [good, bad])))
    in \<exists>r. getQuotes J (\<lambda>_. 0) (answering sampleAnswer) [''AAPL'', ''SPX''] False () = Some (Inr r, ()) \<and> failsWith 0 r)"
proof -
  let ?bad = "JObj [(''symbol'', JStr ''SPX''), (''bid'', JNull)]"
  let ?arr = "JArr [JObj [(''symbol'', JStr ''AAPL'')], ?bad]"
  let ?p = "\<lambda>_ :: string. Inr (nested ''quotes'' ''quote'' ?arr) :: string + jval"
  have "j_is_object (jref ?p) ?bad" "j_contains (jref ?p) ?bad ''bid''" "j_at (jref ?p) ?bad ''bid'' = Inr JNull"
    "j_double (jref ?p) JNull = Inl ''type_error.302''" "?bad \<in> set (j_elems (jref ?p) ?arr)" "j_is_array (jref ?p) ?arr"
    "holds2 (jref ?p) (nested ''quotes'' ''quote'' ?arr) ''quotes'' ''quote'' ?arr"
    "j_parse (jref ?p) (body sampleAnswer) = Inr (nested ''quotes'' ''quote'' ?arr)"
    by (simp_all add: jref_def holds2_def nested_def)
  note null_bid_loses_all_quotes [OF jr.json_lib_axioms this(1-7), of "answering sampleAnswer" "[''AAPL'', ''SPX'']" False "()"
      sampleAnswer "()" "\<lambda>_. 0", OF _ _ this(8)]
  then show ?thesis unfolding Let_def by simp
qed

section \<open>A calendar without values\<close>

text \<open>When the answer has no calendar, the month and year are what the memory held.\<close>

lemma calendar_uninitialised:
  assumes "success resp" "j_parse J (body resp) = Inr d" "\<not> j_contains J d ''calendar''"
    and "\<And>ps. cl_get C ''/markets/calendar'' ps w = Some (Inr resp, w')"
  shows "getCalendar J junk C month year w =
    Some (Inr (ofValue \<lparr>mcMonth = fst junk, mcYear = snd junk, mcDays = []\<rparr>), w')"
proof (rule getCalendar.reports_value [OF refl assms(4)])
  show "expectParsed J ''Failed to get market calendar: '' (RuntimeError ''Failed to parse market calendar response'')
      (parseMarketCalendar J junk) resp = Inr \<lparr>mcMonth = fst junk, mcYear = snd junk, mcDays = []\<rparr>"
    using assms(1-3)
    by (intro expectParsed_value)
      (auto simp: parseMarketCalendar_def memberOr_def whenObject_def ifE_def present_def Let_def)
qed

end
