(* ===== verification/Websocket.thy ===== *)
theory Websocket
  imports Config "HOL-Library.Multiset"
begin

text \<open>
  \<^verbatim>\<open>websocket_client.hpp\<close> and \<^verbatim>\<open>websocket_client.cpp\<close>: \<open>WebSocketImpl\<close>, its handle \<open>WebSocketConnection\<close> and
  \<open>WebSocketClient\<close>. Two threads share an object: the caller of \<open>connect\<close>, \<open>disconnect\<close> and \<open>send\<close>, and the
  thread \<open>ioThread_\<close> that connects, writes the queued messages and reads. \<open>wsThread\<close> says where that thread
  is. Its moves, each up to the next point where another thread can interfere, are the events of
  \<open>wsEvent\<close>. \<open>connect\<close> and \<open>disconnect\<close> touch the shared flags one after the other, and a \<open>schedule\<close> says
  what happens in each of the gaps between these accesses: between the loads of \<open>connected_\<close> and
  \<open>connecting_\<close>, between the loads and the first write (the compare-and-exchange of \<open>connect\<close>, the store of
  \<open>shouldStop_\<close> in \<open>disconnect\<close>), after that write, and while the operation waits. An operation that would
  wait for ever with the events of its schedule has the value \<open>None\<close>. Other threads may also send: the
  events \<open>SendCheck\<close>, \<open>SendDecide\<close> and \<open>SendPush\<close> are the moments at which \<open>send\<close> loads \<open>connected_\<close>,
  loads \<open>connecting_\<close> and takes the lock of the queue. \<open>connect\<close> and \<open>disconnect\<close> themselves are taken to be
  called by one thread at a time, and not by a message handler.

  Boost.URL and the TLS context are the parameter \<open>B\<close>. What Boost.Beast does on the wire is the choice
  of the events: whether the handshake succeeds, how many queued messages are written, what is read.
\<close>

section \<open>State\<close>

datatype io_thread = NoThread | Starting | Flushing | Testing | Blocked | Closing | Finished

record WebSocketImpl =
  wsHost :: string
  wsPort :: string
  wsTarget :: string
  wsAuthToken :: string
  wsConnected :: bool
  wsConnecting :: bool
  wsShouldStop :: bool
  wsStream :: bool
  wsOpen :: bool
  wsCallback :: bool
  wsThread :: io_thread
  wsPending :: "string list"
  wsSending :: "string list"
  wsQueueing :: "string list"
  wsWritten :: "string list"
  wsDelivered :: "string list"

record boost_url =
  url_host :: string
  url_port :: string
  url_path :: string
  url_encoded_path :: string
  url_query :: string
  url_encoded_query :: string

record beast =
  parse_url :: "string \<Rightarrow> string + boost_url"
  init_tls :: "string + unit"

section \<open>Construction\<close>

text \<open>Host, port and target of a URL.\<close>

definition parseUrl :: "beast \<Rightarrow> string \<Rightarrow> (string \<times> string \<times> string) fallible" where
  "parseUrl B url =
     (case parse_url B url of
        Inl m \<Rightarrow> Inl (ConnectionError (''Invalid WebSocket URL: '' @ url))
      | Inr u \<Rightarrow> Inr (url_host u,
          if url_port u = [] then ''443'' else url_port u,
          (if url_path u = [] then ''/'' else url_encoded_path u) @
          (if url_query u \<noteq> [] then ''?'' @ url_encoded_query u else [])))"

definition newWebSocket :: "beast \<Rightarrow> string \<Rightarrow> string \<Rightarrow> WebSocketImpl fallible" where
  "newWebSocket B url authToken =
     bindE (parseUrl B url) (\<lambda>(host, port, target).
     case init_tls B of
       Inl m \<Rightarrow> Inl (ConnectionError (''Failed to initialize WebSocket client: '' @ m))
     | Inr _ \<Rightarrow> Inr \<lparr>wsHost = host, wsPort = port, wsTarget = target, wsAuthToken = authToken,
         wsConnected = False, wsConnecting = False, wsShouldStop = False, wsStream = False, wsOpen = False,
         wsCallback = False, wsThread = NoThread, wsPending = [], wsSending = [], wsQueueing = [], wsWritten = [],
         wsDelivered = []\<rparr>)"

definition clientConnect :: "beast \<Rightarrow> Config \<Rightarrow> string \<Rightarrow> string \<Rightarrow> WebSocketImpl fallible" where
  "clientConnect B config ep authToken =
     newWebSocket B (wsUrl config @ (if ep \<noteq> [] \<and> hd ep \<noteq> CHR ''/'' then ''/'' else []) @ ep) authToken"

section \<open>The thread that reads\<close>

definition onConnect :: "WebSocketImpl \<Rightarrow> WebSocketImpl" where
  "onConnect ws = ws\<lparr>wsConnected := True, wsConnecting := False, wsStream := True, wsOpen := True\<rparr>"

text \<open>The loop over the queue, in which write number \<open>k\<close> fails or the queue ends.\<close>

definition flushPending :: "nat \<Rightarrow> WebSocketImpl \<Rightarrow> WebSocketImpl" where
  "flushPending k ws =
     ws\<lparr>wsWritten := wsWritten ws @ take k (wsPending ws), wsPending := drop k (wsPending ws)\<rparr>"

definition onClose :: "WebSocketImpl \<Rightarrow> WebSocketImpl" where
  "onClose ws = ws\<lparr>wsConnected := False, wsConnecting := False\<rparr>"

definition onMessage :: "string \<Rightarrow> WebSocketImpl \<Rightarrow> WebSocketImpl" where
  "onMessage msg ws = (if wsCallback ws then ws\<lparr>wsDelivered := wsDelivered ws @ [msg]\<rparr> else ws)"

datatype ws_event =
    Established | HandshakeFails | Flush nat | Test | Message string | ReadFails | Close
  | SendCheck string | SendDecide string | SendPush string

fun wsEvent :: "ws_event \<Rightarrow> WebSocketImpl \<Rightarrow> WebSocketImpl option" where
  "wsEvent Established ws =
     (if wsThread ws = Starting then Some ((onConnect ws)\<lparr>wsThread := Flushing\<rparr>) else None)"
| "wsEvent HandshakeFails ws =
     (if wsThread ws = Starting then Some (ws\<lparr>wsStream := True, wsOpen := False, wsThread := Closing\<rparr>) else None)"
| "wsEvent (Flush k) ws =
     (if wsThread ws = Flushing \<and> k \<le> length (wsPending ws)
      then Some ((flushPending k ws)\<lparr>wsThread := Testing\<rparr>) else None)"
| "wsEvent Test ws =
     (if wsThread ws = Testing
      then Some (ws\<lparr>wsThread := if \<not> wsShouldStop ws \<and> wsOpen ws then Blocked else Closing\<rparr>) else None)"
| "wsEvent (Message msg) ws =
     (if wsThread ws = Blocked then Some ((onMessage msg ws)\<lparr>wsThread := Testing\<rparr>) else None)"
| "wsEvent ReadFails ws =
     (if wsThread ws = Blocked then Some (ws\<lparr>wsOpen := False, wsThread := Closing\<rparr>) else None)"
| "wsEvent Close ws =
     (if wsThread ws = Closing then Some ((onClose ws)\<lparr>wsThread := Finished\<rparr>) else None)"
| "wsEvent (SendCheck msg) ws =
     (if \<not> wsConnected ws then Some (ws\<lparr>wsSending := wsSending ws @ [msg]\<rparr>) else None)"
| "wsEvent (SendDecide msg) ws =
     (if msg \<in> set (wsSending ws) \<and> wsConnecting ws
      then Some (ws\<lparr>wsSending := remove1 msg (wsSending ws), wsQueueing := wsQueueing ws @ [msg]\<rparr>) else None)"
| "wsEvent (SendPush msg) ws =
     (if msg \<in> set (wsQueueing ws)
      then Some (ws\<lparr>wsQueueing := remove1 msg (wsQueueing ws), wsPending := wsPending ws @ [msg]\<rparr>) else None)"

fun wsRun :: "ws_event list \<Rightarrow> WebSocketImpl \<Rightarrow> WebSocketImpl option" where
  "wsRun [] ws = Some ws"
| "wsRun (e # es) ws = Option.bind (wsEvent e ws) (wsRun es)"

section \<open>Operations\<close>

definition joinable :: "WebSocketImpl \<Rightarrow> bool" where
  "joinable ws \<longleftrightarrow> wsThread ws \<noteq> NoThread"

record schedule =
  betweenLoads :: "ws_event list"
  afterLoads :: "ws_event list"
  afterStore :: "ws_event list"
  whileWaiting :: "ws_event list"

definition allEvents :: "schedule \<Rightarrow> ws_event list" where
  "allEvents s = betweenLoads s @ afterLoads s @ afterStore s @ whileWaiting s"

text \<open>Nothing happens until the operation waits.\<close>

definition waiting :: "ws_event list \<Rightarrow> schedule" where
  "waiting evs = \<lparr>betweenLoads = [], afterLoads = [], afterStore = [], whileWaiting = evs\<rparr>"

text \<open>
  Two loads, the compare-and-exchange of \<open>connecting_\<close>, the store of \<open>shouldStop_\<close> with the start of the
  thread, and the wait. It ends when the thread has decided or after thirty seconds; its result is
  decided under the lock that \<open>onConnect\<close> and \<open>onClose\<close> take.
\<close>

definition startConnecting :: "WebSocketImpl \<Rightarrow> WebSocketImpl" where
  "startConnecting ws = ws\<lparr>wsShouldStop := False, wsThread := if joinable ws then wsThread ws else Starting\<rparr>"

definition endConnect :: "WebSocketImpl \<Rightarrow> unit fallible \<times> WebSocketImpl" where
  "endConnect ws =
     (if \<not> wsConnected ws
      then (Inl (ConnectionError (''WebSocket connection error: '' @
              what (ConnectionError ''Failed to establish WebSocket connection within timeout''))),
            ws\<lparr>wsConnecting := False\<rparr>)
      else (Inr (), ws))"

definition wsConnect :: "schedule \<Rightarrow> WebSocketImpl \<Rightarrow> (unit fallible \<times> WebSocketImpl) option" where
  "wsConnect s ws =
     (if wsConnected ws then Some (Inr (), ws)
      else Option.bind (wsRun (betweenLoads s) ws) (\<lambda>ws1.
        if wsConnecting ws1 then Some (Inr (), ws1)
        else Option.bind (wsRun (afterLoads s) ws1) (\<lambda>ws2.
          if wsConnecting ws2 then Some (Inr (), ws2)
          else Option.bind (wsRun (afterStore s) (ws2\<lparr>wsConnecting := True\<rparr>)) (\<lambda>ws3.
            map_option endConnect (wsRun (whileWaiting s) (startConnecting ws3))))))"

text \<open>
  The first half of \<open>disconnect\<close>: \<open>shouldStop_\<close> is stored and an open stream is closed. \<open>ws_->close\<close> is code of
  Boost.Beast: it is taken to return, and to end a read that the thread is blocked in, with a last
  message or with an error. The wait of at most five seconds that follows it only delays the \<open>join\<close>. The two loads of the flags before it are one step: as long as
  \<open>connect\<close> and \<open>disconnect\<close> are called by one thread, \<open>connecting_\<close> is never up without \<open>connected_\<close>
  when they are called (\<open>wsReach_ok\<close>), so the first load decides.
\<close>

definition beginClose :: "schedule \<Rightarrow> WebSocketImpl \<Rightarrow> WebSocketImpl option" where
  "beginClose s ws =
     Option.bind (wsRun (afterLoads s) ws) (\<lambda>ws1.
     map_option (\<lambda>ws2. if wsStream ws2 \<and> wsOpen ws2 then ws2\<lparr>wsOpen := False\<rparr> else ws2)
       (wsRun (afterStore s) (ws1\<lparr>wsShouldStop := True\<rparr>)))"

text \<open>The wait lasts until \<open>join\<close> returns; \<open>None\<close> when the thread has not finished by then.\<close>

definition wsDisconnect :: "schedule \<Rightarrow> WebSocketImpl \<Rightarrow> WebSocketImpl option" where
  "wsDisconnect s ws =
     (if \<not> wsConnected ws \<and> \<not> wsConnecting ws then Some ws
      else Option.bind (beginClose s ws) (\<lambda>ws2.
        Option.bind (wsRun (whileWaiting s) ws2) (\<lambda>ws3.
          if wsThread ws3 \<in> {NoThread, Finished}
          then Some (ws3\<lparr>wsThread := NoThread, wsConnected := False, wsConnecting := False, wsPending := []\<rparr>)
          else None)))"

text \<open>\<open>outcome\<close> is the failure of the write, if any.\<close>

definition wsSend :: "string option \<Rightarrow> string \<Rightarrow> WebSocketImpl \<Rightarrow> unit fallible \<times> WebSocketImpl" where
  "wsSend outcome msg ws =
     (if \<not> wsConnected ws then
        if wsConnecting ws then (Inr (), ws\<lparr>wsPending := wsPending ws @ [msg]\<rparr>)
        else (Inl (ConnectionError ''WebSocket not connected''), ws)
      else if wsStream ws then
        (case outcome of
           None \<Rightarrow> (Inr (), ws\<lparr>wsWritten := wsWritten ws @ [msg]\<rparr>)
         | Some m \<Rightarrow> (Inl (ConnectionError (''WebSocket send error: '' @ m)), ws))
      else (Inr (), ws))"

definition setMessageHandler :: "bool \<Rightarrow> WebSocketImpl \<Rightarrow> WebSocketImpl" where
  "setMessageHandler cb ws = ws\<lparr>wsCallback := cb\<rparr>"

definition setAuthToken :: "string \<Rightarrow> WebSocketImpl \<Rightarrow> WebSocketImpl fallible" where
  "setAuthToken token ws =
     (if wsConnected ws \<or> wsConnecting ws
      then Inl (ValidationError ''Cannot change auth token while connected'')
      else Inr (ws\<lparr>wsAuthToken := token\<rparr>))"

definition wsIsConnected :: "WebSocketImpl \<Rightarrow> bool" where
  "wsIsConnected ws = wsConnected ws"

text \<open>The destructor: a thread that is still joinable when its object dies ends the program.\<close>

datatype destruction = Destroyed | ProgramTerminated

definition wsDestroy :: "schedule \<Rightarrow> WebSocketImpl \<Rightarrow> destruction option" where
  "wsDestroy s ws =
     map_option (\<lambda>ws'. if joinable ws' then ProgramTerminated else Destroyed) (wsDisconnect s ws)"

section \<open>Reachable states\<close>

text \<open>\<open>wsReach acc ws\<close>: \<open>ws\<close> is reached by operations and events that accepted the messages \<open>acc\<close>.\<close>

fun accepts :: "ws_event \<Rightarrow> string list" where
  "accepts (SendDecide msg) = [msg]"
| "accepts _ = []"

abbreviation accepted :: "ws_event list \<Rightarrow> string list" where
  "accepted evs \<equiv> concat (map accepts evs)"

inductive wsReach :: "string list \<Rightarrow> WebSocketImpl \<Rightarrow> bool" where
  new: "newWebSocket B url token = Inr ws \<Longrightarrow> wsReach [] ws"
| event: "wsReach acc ws \<Longrightarrow> wsEvent e ws = Some ws' \<Longrightarrow> wsReach (acc @ accepts e) ws'"
| connect: "wsReach acc ws \<Longrightarrow> wsConnect s ws = Some (r, ws') \<Longrightarrow> wsReach (acc @ accepted (allEvents s)) ws'"
| disconnect: "wsReach acc ws \<Longrightarrow> wsDisconnect s ws = Some ws' \<Longrightarrow> wsReach (acc @ accepted (allEvents s)) ws'"
| send: "wsReach acc ws \<Longrightarrow> wsSend outcome msg ws = (r, ws') \<Longrightarrow>
    wsReach (acc @ (if r = Inr () then [msg] else [])) ws'"
| handler: "wsReach acc ws \<Longrightarrow> wsReach acc (setMessageHandler cb ws)"
| token: "wsReach acc ws \<Longrightarrow> setAuthToken t ws = Inr ws' \<Longrightarrow> wsReach acc ws'"

text \<open>\<open>wsOk\<close> holds at every moment, \<open>settled\<close> whenever no \<open>connect\<close> is under way.\<close>

definition wsOk :: "string list \<Rightarrow> WebSocketImpl \<Rightarrow> bool" where
  "wsOk acc ws \<longleftrightarrow>
     (wsConnected ws \<longrightarrow> wsThread ws \<in> {Flushing, Testing, Blocked, Closing} \<and> wsStream ws) \<and>
     (wsThread ws \<in> {Flushing, Testing, Blocked} \<longrightarrow> wsConnected ws) \<and>
     mset (wsWritten ws) + mset (wsPending ws) + mset (wsQueueing ws) \<subseteq># mset acc"

definition settled :: "WebSocketImpl \<Rightarrow> bool" where
  "settled ws \<longleftrightarrow> (wsConnecting ws \<longrightarrow> wsConnected ws)"

lemma wsOk_mono: "wsOk acc ws \<Longrightarrow> mset acc \<subseteq># mset acc' \<Longrightarrow> wsOk acc' ws"
  by (auto simp: wsOk_def intro: subset_mset.order_trans)

lemma wsOk_more: "wsOk acc ws \<Longrightarrow> wsOk (acc @ later) ws"
  by (erule wsOk_mono) simp

lemma wsOk_event:
  assumes "wsOk acc ws" "wsEvent e ws = Some ws'"
  shows "wsOk (acc @ accepts e) ws'"
  using assms
proof (cases e)
  case (Flush k)
  have "mset (wsPending ws) = mset (take k (wsPending ws)) + mset (drop k (wsPending ws))"
    by (metis append_take_drop_id mset_append)
  then show ?thesis
    using assms Flush by (auto simp: wsOk_def flushPending_def ac_simps split: if_splits)
qed (auto simp: wsOk_def onConnect_def onClose_def onMessage_def ac_simps split: if_splits)

lemma settled_event: "settled ws \<Longrightarrow> wsEvent e ws = Some ws' \<Longrightarrow> settled ws'"
  by (cases e) (auto simp: settled_def onConnect_def onClose_def onMessage_def flushPending_def split: if_splits)

lemma wsOk_run: "wsOk acc ws \<Longrightarrow> wsRun evs ws = Some ws' \<Longrightarrow> wsOk (acc @ accepted evs) ws'"
proof (induction evs arbitrary: acc ws)
  case (Cons e evs)
  then obtain ws1 where ws1: "wsEvent e ws = Some ws1" "wsRun evs ws1 = Some ws'" by (auto simp: bind_eq_Some_conv)
  have "wsOk (acc @ accepts e) ws1" using Cons.prems(1) ws1(1) by (rule wsOk_event)
  from Cons.IH [OF this ws1(2)] show ?case by simp
qed simp

lemma settled_run: "settled ws \<Longrightarrow> wsRun evs ws = Some ws' \<Longrightarrow> settled ws'"
  by (induction evs arbitrary: ws) (auto simp: bind_eq_Some_conv dest: settled_event)

text \<open>The ways in which \<open>connect\<close> returns.\<close>

lemma wsConnect_cases:
  assumes "wsConnect s ws = Some (r, ws')"
  obtains (connected) "ws' = ws" "wsConnected ws" "r = Inr ()"
  | (connecting) ws1 where "wsRun (betweenLoads s) ws = Some ws1" "ws' = ws1" "wsConnecting ws1" "r = Inr ()"
  | (lost) ws1 ws2 where "wsRun (betweenLoads s) ws = Some ws1" "wsRun (afterLoads s) ws1 = Some ws2" "ws' = ws2"
      "wsConnecting ws2" "r = Inr ()"
  | (waited) ws1 ws2 ws3 ws4 where "wsRun (betweenLoads s) ws = Some ws1" "wsRun (afterLoads s) ws1 = Some ws2"
      "wsRun (afterStore s) (ws2\<lparr>wsConnecting := True\<rparr>) = Some ws3"
      "wsRun (whileWaiting s) (startConnecting ws3) = Some ws4" "(r, ws') = endConnect ws4"
proof (cases "wsConnected ws")
  case True
  then show ?thesis using assms that(1) by (simp add: wsConnect_def)
next
  case False
  with assms obtain ws1 where ws1: "wsRun (betweenLoads s) ws = Some ws1"
    by (auto simp: wsConnect_def bind_eq_Some_conv)
  show ?thesis
  proof (cases "wsConnecting ws1")
    case True
    then show ?thesis using assms False ws1 that(2) by (simp add: wsConnect_def)
  next
    case idle: False
    with assms False ws1 obtain ws2 where ws2: "wsRun (afterLoads s) ws1 = Some ws2"
      by (auto simp: wsConnect_def bind_eq_Some_conv)
    then show ?thesis
      using assms False ws1 idle that(3,4)
      by (cases "wsConnecting ws2") (auto simp: wsConnect_def bind_eq_Some_conv)
  qed
qed

lemma wsOk_startConnecting: "wsOk acc ws \<Longrightarrow> wsOk acc (startConnecting ws)"
  by (auto simp: wsOk_def startConnecting_def joinable_def)

lemma wsOk_endConnect: "wsOk acc ws \<Longrightarrow> endConnect ws = (r, ws') \<Longrightarrow> wsOk acc ws' \<and> settled ws'"
  by (auto simp: wsOk_def settled_def endConnect_def split: if_splits)

lemma wsOk_connect:
  assumes "wsOk acc ws" "settled ws" "wsConnect s ws = Some (r, ws')"
  shows "wsOk (acc @ accepted (allEvents s)) ws' \<and> settled ws'"
  using assms(3)
proof (cases rule: wsConnect_cases)
  case connected
  then show ?thesis using assms(1,2) by (simp add: wsOk_more)
next
  case (connecting ws1)
  then show ?thesis
    using wsOk_more [OF wsOk_run [OF assms(1)]] settled_run [OF assms(2)] by (simp add: allEvents_def)
next
  case (lost ws1 ws2)
  have "wsOk (acc @ accepted (betweenLoads s)) ws1" "settled ws1"
    using lost(1) assms(1,2) by (auto dest: wsOk_run settled_run)
  with lost(2,3) have "wsOk ((acc @ accepted (betweenLoads s)) @ accepted (afterLoads s)) ws'" "settled ws'"
    by (auto dest: wsOk_run settled_run)
  then show ?thesis using wsOk_more [of "(acc @ accepted (betweenLoads s)) @ accepted (afterLoads s)" ws'] by (simp add: allEvents_def)
next
  case (waited ws1 ws2 ws3 ws4)
  have "wsOk (acc @ accepted (betweenLoads s)) ws1" using waited(1) assms(1) by (blast dest: wsOk_run)
  then have "wsOk ((acc @ accepted (betweenLoads s)) @ accepted (afterLoads s)) ws2" using waited(2) by (rule wsOk_run)
  then have "wsOk ((acc @ accepted (betweenLoads s)) @ accepted (afterLoads s)) (ws2\<lparr>wsConnecting := True\<rparr>)"
    by (simp add: wsOk_def)
  from wsOk_run [OF wsOk_startConnecting [OF wsOk_run [OF this waited(3)]] waited(4)]
  show ?thesis using waited(5) wsOk_endConnect [of _ ws4 r ws'] by (simp add: allEvents_def)
qed

text \<open>The state in which \<open>disconnect\<close> begins to wait: the order to stop is out and the stream is closed.\<close>

lemma beginClose_cases:
  assumes "beginClose s ws = Some ws'"
  obtains ws1 ws2 where "wsRun (afterLoads s) ws = Some ws1" "wsRun (afterStore s) (ws1\<lparr>wsShouldStop := True\<rparr>) = Some ws2"
    "ws' = (if wsStream ws2 \<and> wsOpen ws2 then ws2\<lparr>wsOpen := False\<rparr> else ws2)"
  using assms by (auto simp: beginClose_def bind_eq_Some_conv)

lemma wsOk_beginClose:
  assumes "wsOk acc ws" "beginClose s ws = Some ws'"
  shows "wsOk (acc @ accepted (afterLoads s) @ accepted (afterStore s)) ws'"
  using assms(2)
proof (cases rule: beginClose_cases)
  case (1 ws1 ws2)
  have "wsOk (acc @ accepted (afterLoads s)) ws1" using assms(1) 1(1) by (rule wsOk_run)
  then have "wsOk (acc @ accepted (afterLoads s)) (ws1\<lparr>wsShouldStop := True\<rparr>)" by (simp add: wsOk_def)
  from wsOk_run [OF this 1(2)] have "wsOk (acc @ accepted (afterLoads s) @ accepted (afterStore s)) ws2" by simp
  then show ?thesis using 1(3) by (auto simp: wsOk_def)
qed

text \<open>The ways in which \<open>disconnect\<close> returns.\<close>

definition joined :: "WebSocketImpl \<Rightarrow> WebSocketImpl" where
  "joined ws = ws\<lparr>wsThread := NoThread, wsConnected := False, wsConnecting := False, wsPending := []\<rparr>"

lemma wsDisconnect_cases:
  assumes "wsDisconnect s ws = Some ws'"
  obtains (idle) "\<not> wsConnected ws" "\<not> wsConnecting ws" "ws' = ws"
  | (closed) ws2 ws3 where "wsConnected ws \<or> wsConnecting ws" "beginClose s ws = Some ws2" "wsRun (whileWaiting s) ws2 = Some ws3"
      "wsThread ws3 \<in> {NoThread, Finished}" "ws' = joined ws3"
  using assms by (auto simp: wsDisconnect_def joined_def bind_eq_Some_conv split: if_splits)

lemma wsOk_disconnect:
  assumes "wsOk acc ws" "settled ws" "wsDisconnect s ws = Some ws'"
  shows "wsOk (acc @ accepted (allEvents s)) ws' \<and> settled ws'"
  using assms(3)
proof (cases rule: wsDisconnect_cases)
  case idle
  then show ?thesis using assms(1,2) by (simp add: wsOk_more)
next
  case (closed ws2 ws3)
  have "wsOk ((acc @ accepted (afterLoads s) @ accepted (afterStore s)) @ accepted (whileWaiting s)) ws3"
    using wsOk_run [OF wsOk_beginClose [OF assms(1) closed(2)] closed(3)] .
  then have "wsOk (acc @ accepted (allEvents s)) ws3"
    by (rule wsOk_mono) (simp add: allEvents_def)
  then show ?thesis
    using closed(4,5) by (auto simp: wsOk_def settled_def joined_def ac_simps intro: subset_mset.order_trans [rotated])
qed

lemma wsOk_send:
  assumes "wsOk acc ws" "wsSend outcome msg ws = (r, ws')"
  shows "wsOk (acc @ (if r = Inr () then [msg] else [])) ws'"
  using assms by (auto simp: wsOk_def wsSend_def ac_simps split: if_splits option.splits)

lemma settled_send: "settled ws \<Longrightarrow> wsSend outcome msg ws = (r, ws') \<Longrightarrow> settled ws'"
  by (auto simp: settled_def wsSend_def split: if_splits option.splits)

lemma wsReach_ok: "wsReach acc ws \<Longrightarrow> wsOk acc ws \<and> settled ws"
proof (induction rule: wsReach.induct)
  case (new B url token ws)
  then show ?case by (cases "init_tls B") (auto simp: newWebSocket_def wsOk_def settled_def bindE_eq_Inr)
next
  case (token acc ws t ws')
  then show ?case by (auto simp: setAuthToken_def wsOk_def settled_def split: if_splits)
next
  case (handler acc ws cb)
  then show ?case by (simp add: wsOk_def settled_def setMessageHandler_def)
qed (blast dest: wsOk_event settled_event wsOk_connect wsOk_disconnect wsOk_send settled_send)+


text \<open>Witness: a connection with one queued and one direct message.\<close>

definition sampleBeast :: beast where
  "sampleBeast = \<lparr>parse_url = (\<lambda>url. Inr \<lparr>url_host = ''ws.tradier.com'', url_port = [], url_path = ''/v1'',
     url_encoded_path = ''/v1'', url_query = [], url_encoded_query = []\<rparr>), init_tls = Inr ()\<rparr>"

definition freshSocket :: WebSocketImpl where
  "freshSocket = \<lparr>wsHost = ''ws.tradier.com'', wsPort = ''443'', wsTarget = ''/v1'', wsAuthToken = ''token'',
     wsConnected = False, wsConnecting = False, wsShouldStop = False, wsStream = False, wsOpen = False,
     wsCallback = False, wsThread = NoThread, wsPending = [], wsSending = [], wsQueueing = [], wsWritten = [],
     wsDelivered = []\<rparr>"

lemma fresh_reach: "wsReach [] freshSocket"
  by (rule wsReach.new [of sampleBeast "''wss://ws.tradier.com/v1''" "''token''"])
    (simp add: newWebSocket_def parseUrl_def sampleBeast_def freshSocket_def)

definition openSocket :: WebSocketImpl where
  "openSocket = freshSocket\<lparr>wsConnected := True, wsStream := True, wsOpen := True, wsThread := Blocked,
     wsWritten := [''subscribe'']\<rparr>"

lemmas connect_simps = wsConnect_def waiting_def startConnecting_def endConnect_def joinable_def onConnect_def
  flushPending_def onClose_def allEvents_def

lemma open_reach: "wsReach [''subscribe''] openSocket"
proof -
  let ?s = "waiting [SendCheck ''subscribe'', SendDecide ''subscribe'', SendPush ''subscribe'', Established, Flush 1, Test]"
  have "wsConnect ?s freshSocket = Some (Inr (), openSocket)"
    by (simp add: connect_simps openSocket_def freshSocket_def)
  from wsReach.connect [OF fresh_reach this] show ?thesis by (simp add: waiting_def allEvents_def)
qed


text \<open>
  The two flags can be up together: a thread that outlives the timeout of a first \<open>connect\<close> establishes
  the connection between the loads and the compare-and-exchange of a second one, which then succeeds
  on a connected object and leaves \<open>connecting_\<close> up for as long as the connection lives.
\<close>

theorem connect_race:
  "\<exists>ws. wsReach [] ws \<and> wsConnected ws \<and> wsConnecting ws \<and>
     (\<forall>e ws'. wsEvent e ws = Some ws' \<and> wsConnected ws' \<longrightarrow> wsConnecting ws')"
proof -
  let ?ws1 = "freshSocket\<lparr>wsThread := Starting\<rparr>"
  let ?ws2 = "freshSocket\<lparr>wsConnected := True, wsConnecting := True, wsStream := True, wsOpen := True, wsThread := Flushing\<rparr>"
  obtain r where "wsConnect (waiting []) freshSocket = Some (r, ?ws1)"
    by (simp add: connect_simps freshSocket_def)
  from wsReach.connect [OF fresh_reach this] have one: "wsReach [] ?ws1" by (simp add: waiting_def allEvents_def)
  let ?s = "\<lparr>betweenLoads = [], afterLoads = [Established], afterStore = [], whileWaiting = []\<rparr>"
  have "wsConnect ?s ?ws1 = Some (Inr (), ?ws2)" by (simp add: connect_simps freshSocket_def)
  from wsReach.connect [OF one this] have "wsReach [] ?ws2" by (simp add: allEvents_def)
  moreover have "wsConnecting ws'" if "wsEvent e ?ws2 = Some ws'" "wsConnected ws'" for e ws'
    using that by (cases e) (auto simp: onClose_def flushPending_def freshSocket_def split: if_splits)
  ultimately show ?thesis by (intro exI [of _ ?ws2]) (auto simp: freshSocket_def)
qed

section \<open>Orderly use\<close>

text \<open>
  The moves of the connection's thread, and how many it has left once it was told to stop. A thread that
  resolves, connects and shakes hands, or that writes to or reads from an open stream, depends on the
  peer and may stay there for ever; in every other state the thread moves on by itself.
\<close>

fun threadMove :: "ws_event \<Rightarrow> bool" where
  "threadMove (SendCheck _) = False"
| "threadMove (SendDecide _) = False"
| "threadMove (SendPush _) = False"
| "threadMove _ = True"

definition awaitsPeer :: "WebSocketImpl \<Rightarrow> bool" where
  "awaitsPeer ws \<longleftrightarrow> wsThread ws = Starting \<or> wsThread ws \<in> {Flushing, Blocked} \<and> wsOpen ws"

fun movesLeft :: "io_thread \<Rightarrow> nat" where
  "movesLeft Closing = 1"
| "movesLeft Testing = 2"
| "movesLeft Blocked = 3"
| "movesLeft Flushing = 3"
| "movesLeft Starting = 4"
| "movesLeft _ = 0"

definition stopping :: "WebSocketImpl \<Rightarrow> bool" where
  "stopping ws \<longleftrightarrow> wsShouldStop ws \<and> \<not> wsOpen ws \<and> wsThread ws \<notin> {NoThread, Starting}"

lemma stopping_event:
  assumes "stopping ws" "wsEvent e ws = Some ws'"
  shows "stopping ws'"
    and "movesLeft (wsThread ws') + (if threadMove e then 1 else 0) \<le> movesLeft (wsThread ws)"
  using assms
  by (cases e; auto simp: stopping_def onConnect_def onClose_def onMessage_def flushPending_def split: if_splits)+

lemma stopping_run:
  "stopping ws \<Longrightarrow> wsRun evs ws = Some ws' \<Longrightarrow>
     stopping ws' \<and> movesLeft (wsThread ws') + length (filter threadMove evs) \<le> movesLeft (wsThread ws)"
proof (induction evs arbitrary: ws)
  case (Cons e evs)
  then obtain ws1 where ws1: "wsEvent e ws = Some ws1" "wsRun evs ws1 = Some ws'" by (auto simp: bind_eq_Some_conv)
  note step = stopping_event [OF Cons.prems(1) ws1(1)]
  from Cons.IH [OF step(1) ws1(2)] step(2) show ?case by (auto split: if_splits)
qed simp

lemma stopping_moves:
  assumes "stopping ws" "wsThread ws \<noteq> Finished"
  shows "\<not> awaitsPeer ws \<and> (\<exists>e. threadMove e \<and> wsEvent e ws \<noteq> None)"
proof -
  consider "wsThread ws = Flushing" | "wsThread ws = Testing" | "wsThread ws = Blocked" | "wsThread ws = Closing"
    using assms by (cases "wsThread ws") (auto simp: stopping_def)
  then have "\<exists>e \<in> {Flush 0, Test, ReadFails, Close}. wsEvent e ws \<noteq> None" by cases simp_all
  moreover have "threadMove e" if "e \<in> {Flush 0, Test, ReadFails, Close}" for e using that by auto
  ultimately show ?thesis using assms(1) by (auto simp: stopping_def awaitsPeer_def simp del: wsEvent.simps)
qed

lemma run_alive:
  "wsRun evs ws = Some ws' \<Longrightarrow> wsThread ws \<notin> {NoThread, Starting} \<Longrightarrow> wsStream ws \<Longrightarrow>
     wsThread ws' \<notin> {NoThread, Starting} \<and> wsStream ws' \<and> wsShouldStop ws' = wsShouldStop ws"
proof (induction evs arbitrary: ws)
  case (Cons e evs)
  then obtain ws1 where ws1: "wsEvent e ws = Some ws1" "wsRun evs ws1 = Some ws'" by (auto simp: bind_eq_Some_conv)
  then have "wsThread ws1 \<notin> {NoThread, Starting} \<and> wsStream ws1 \<and> wsShouldStop ws1 = wsShouldStop ws"
    using Cons.prems(2,3)
    by (cases e) (auto simp: onConnect_def onMessage_def onClose_def flushPending_def split: if_splits)
  then show ?case using Cons.IH [OF ws1(2)] by simp
qed simp

lemma beginClose_stopping:
  assumes "wsOk acc ws" "wsConnected ws" "beginClose s ws = Some ws'"
  shows "stopping ws'"
  using assms(3)
proof (cases rule: beginClose_cases)
  case (1 ws1 ws2)
  have "wsThread ws \<notin> {NoThread, Starting}" "wsStream ws" using assms(1,2) by (auto simp: wsOk_def)
  with 1(1) have "wsThread ws1 \<notin> {NoThread, Starting} \<and> wsStream ws1" using run_alive by blast
  then have "wsThread ws2 \<notin> {NoThread, Starting} \<and> wsStream ws2 \<and> wsShouldStop ws2" using run_alive [OF 1(2)] by simp
  then show ?thesis using 1(3) by (simp add: stopping_def)
qed

lemma beginClose_at_once: "beginClose (waiting evs) ws \<noteq> None"
  by (simp add: beginClose_def waiting_def)



section \<open>Dead connections\<close>

definition dead :: "WebSocketImpl \<Rightarrow> bool" where
  "dead ws \<longleftrightarrow> wsThread ws = Finished \<and> \<not> wsConnected ws"

lemma run_dead: "wsRun evs ws = Some ws' \<Longrightarrow> dead ws \<Longrightarrow> dead ws' \<and> wsConnecting ws' = wsConnecting ws"
proof (induction evs arbitrary: ws)
  case (Cons e evs)
  then obtain ws1 where ws1: "wsEvent e ws = Some ws1" "wsRun evs ws1 = Some ws'" by (auto simp: bind_eq_Some_conv)
  then have "dead ws1 \<and> wsConnecting ws1 = wsConnecting ws" using Cons.prems(2) by (cases e) (auto simp: dead_def split: if_splits)
  then show ?case using Cons.IH ws1(2) by metis
qed simp

lemma connect_dead:
  assumes "wsConnect s ws = Some (r, ws')" "dead ws" "\<not> wsConnecting ws"
  shows "(\<exists>m. r = Inl (ConnectionError m)) \<and> dead ws' \<and> \<not> wsConnecting ws'"
  using assms(1)
proof (cases rule: wsConnect_cases)
  case connected
  then show ?thesis using assms(2) by (simp add: dead_def)
next
  case (connecting ws1)
  then show ?thesis using run_dead [OF connecting(1) assms(2)] assms(3) by simp
next
  case (lost ws1 ws2)
  then show ?thesis using run_dead [OF lost(1) assms(2)] run_dead [OF lost(2)] assms(3) by simp
next
  case (waited ws1 ws2 ws3 ws4)
  have "dead ws2" using run_dead [OF waited(1) assms(2)] run_dead [OF waited(2)] by simp
  then have "dead (ws2\<lparr>wsConnecting := True\<rparr>)" by (simp add: dead_def)
  then have "dead ws3" using run_dead [OF waited(3)] by blast
  then have "dead (startConnecting ws3)" by (simp add: dead_def startConnecting_def joinable_def)
  then have "dead ws4" using run_dead [OF waited(4)] by blast
  then show ?thesis using waited(5) by (auto simp: endConnect_def dead_def)
qed

text \<open>
  C40: A connection whose thread has ended by itself, because the handshake failed or the server closed
  the stream, is lost for good: \<open>disconnect\<close> returns at once without joining the thread, every later
  \<open>connect\<close> waits in vain and throws, \<open>send\<close> throws, and the destructor of the object ends the whole
  program, since the thread is still joinable. A server that closes an idle connection, and a
  handshake that fails, lead there.
\<close>

theorem dead_websocket_terminates_program:
  assumes "dead ws" "\<not> wsConnecting ws"
  shows "wsDisconnect evs ws = Some ws \<and>
    (\<forall>evs r ws'. wsConnect evs ws = Some (r, ws') \<longrightarrow>
       (\<exists>m. r = Inl (ConnectionError m)) \<and> dead ws' \<and> \<not> wsConnecting ws') \<and>
    wsSend outcome msg ws = (Inl (ConnectionError ''WebSocket not connected''), ws) \<and>
    wsDestroy evs ws = Some ProgramTerminated \<and>
    (wsThread live = Blocked \<longrightarrow> (\<exists>ws'. wsRun [ReadFails, Close] live = Some ws' \<and> dead ws' \<and> \<not> wsConnecting ws')) \<and>
    (wsThread starting = Starting \<and> \<not> wsConnected starting \<longrightarrow>
       (\<exists>ws'. wsRun [HandshakeFails, Close] starting = Some ws' \<and> dead ws' \<and> \<not> wsConnecting ws'))"
proof (intro conjI allI impI)
  fix s r ws' assume "wsConnect s ws = Some (r, ws')"
  then have "(\<exists>m. r = Inl (ConnectionError m)) \<and> dead ws' \<and> \<not> wsConnecting ws'" using assms by (rule connect_dead)
  then show "\<exists>m. r = Inl (ConnectionError m)" "dead ws'" "\<not> wsConnecting ws'" by simp_all
qed (use assms in \<open>auto simp: wsDisconnect_def wsDestroy_def wsSend_def dead_def joinable_def onClose_def\<close>)

text \<open>Witness: the open connection after the server closed it.\<close>

theorem dead_websocket_terminates_program_witness:
  "\<exists>ws'. wsRun [ReadFails, Close] openSocket = Some ws' \<and> wsDestroy (waiting []) ws' = Some ProgramTerminated"
proof -
  let ?ws = "openSocket\<lparr>wsOpen := False, wsConnected := False, wsConnecting := False, wsThread := Finished\<rparr>"
  have "wsRun [ReadFails, Close] openSocket = Some ?ws"
    by (simp add: openSocket_def freshSocket_def onClose_def)
  moreover have "wsDestroy (waiting []) ?ws = Some ProgramTerminated"
    using dead_websocket_terminates_program [of ?ws "waiting []"] by (simp add: dead_def)
  ultimately show ?thesis by blast
qed

section \<open>Lost messages\<close>

lemma run_keeps_pending:
  "wsRun evs ws = Some ws' \<Longrightarrow> wsThread ws \<notin> {NoThread, Starting, Flushing} \<Longrightarrow>
     set (wsPending ws) \<subseteq> set (wsPending ws') \<and> wsWritten ws' = wsWritten ws"
proof (induction evs arbitrary: ws)
  case (Cons e evs)
  then obtain ws1 where ws1: "wsEvent e ws = Some ws1" "wsRun evs ws1 = Some ws'" by (auto simp: bind_eq_Some_conv)
  then have "wsThread ws1 \<notin> {NoThread, Starting, Flushing} \<and> set (wsPending ws) \<subseteq> set (wsPending ws1) \<and> wsWritten ws1 = wsWritten ws"
    using Cons.prems(2) by (cases e) (auto simp: onConnect_def onMessage_def onClose_def split: if_splits)
  then show ?case using Cons.IH [OF ws1(2)] by auto
qed simp

text \<open>
  A message can be lost without an error: a \<open>send\<close> that sees the connection being established and
  then pushes its message after the thread has written the queue leaves it there; the state is
  reached by an ordinary connect, \<open>send\<close> has accepted the message, and nothing that happens on the
  open connection ever writes it.
\<close>

theorem queued_message_lost:
  "\<exists>ws. wsReach [msg] ws \<and> wsConnected ws \<and> wsPending ws = [msg] \<and> msg \<notin> set (wsWritten ws) \<and>
     (\<forall>evs ws'. wsRun evs ws = Some ws' \<longrightarrow> msg \<in> set (wsPending ws') \<and> msg \<notin> set (wsWritten ws'))"
proof -
  let ?s = "waiting [SendCheck msg, SendDecide msg, Established, Flush 0, SendPush msg]"
  let ?ws = "freshSocket\<lparr>wsConnected := True, wsStream := True, wsOpen := True, wsThread := Testing, wsPending := [msg]\<rparr>"
  have "wsConnect ?s freshSocket = Some (Inr (), ?ws)"
    by (simp add: connect_simps freshSocket_def)
  from wsReach.connect [OF fresh_reach this] have "wsReach [msg] ?ws" by (simp add: waiting_def allEvents_def)
  moreover have "msg \<in> set (wsPending ws') \<and> msg \<notin> set (wsWritten ws')" if "wsRun evs ?ws = Some ws'" for evs ws'
    using run_keeps_pending [OF that] by (simp add: freshSocket_def)
  ultimately show ?thesis by (intro exI [of _ ?ws]) (simp add: freshSocket_def)
qed

text \<open>Witness: a subscription.\<close>

theorem queued_message_lost_witness:
  "\<exists>ws. wsReach [''subscribe''] ws \<and> wsConnected ws \<and> wsPending ws = [''subscribe''] \<and> ''subscribe'' \<notin> set (wsWritten ws)"
  using queued_message_lost [of "''subscribe''"] by blast

end
