(* ===== verification/Streaming.thy ===== *)
theory Streaming
  imports Client Dates Websocket
begin

text \<open>
  \<^verbatim>\<open>streaming.hpp\<close>, \<^verbatim>\<open>streaming.cpp\<close> and \<^verbatim>\<open>json/streaming.cpp\<close>: \<open>StreamingService\<close>, which keeps a WebSocket open
  and turns the messages of the server into events. Its state is the record \<open>StreamingImpl\<close>, kept in the
  field \<open>strm\<close> of the world; the sets are the \<open>unordered_set\<close>s. Handlers are optional functions that may
  throw; their calls are logged in \<open>sEvents\<close> and \<open>sErrors\<close>. What the operating system and the network do
  during an operation (the events of the WebSocket while it waits, the outcome of a write, whether a
  thread can be started) is the argument \<open>env\<close>; \<open>dump\<close> is the text of a JSON object.

  A destructor that ends the program (a thread of the WebSocket that is still joinable) sets the flag
  \<open>sAborted\<close>. The heartbeat thread is modelled by its loop body \<open>heartbeatBeat\<close> and the loop over the
  beats; \<open>ThreadManager\<close> keeps the numbers of the running threads.
\<close>

section \<open>Numbers in messages\<close>

text \<open>
  \<open>std::stod\<close>: white space, a sign, a decimal or hexadecimal number, \<open>inf\<close> or \<open>nan\<close>; the rest of the text
  is ignored. \<open>None\<close> is the thrown \<open>std::invalid_argument\<close>, or \<open>std::out_of_range\<close> for a result that is too
  large, or inexact and below the normal numbers.
\<close>

definition inRange :: "bool \<Rightarrow> rat \<Rightarrow> double option" where
  "inRange neg a =
     (let r = round64 a
      in if a \<noteq> 0 \<and> (r = DInf False \<or> (d_val r < pow2 (- 1022) \<and> d_val r \<noteq> a)) then None
         else Some (d_signed neg a))"

definition signOf :: "string \<Rightarrow> bool \<times> string" where
  "signOf s = (s \<noteq> [] \<and> hd s = CHR ''-'', if s \<noteq> [] \<and> (hd s = CHR ''-'' \<or> hd s = CHR ''+'') then tl s else s)"

definition exponentOf :: "char \<Rightarrow> string \<Rightarrow> int" where
  "exponentOf mark s =
     (if s \<noteq> [] \<and> lower (hd s) = mark then
        (case signOf (tl s) of (neg, t) \<Rightarrow>
           (let ds = takeWhile is_digit t; e = int (read_nat ds)
            in if ds = [] then 0 else if neg then - e else e))
      else 0)"

definition is_hex :: "char \<Rightarrow> bool" where
  "is_hex c \<longleftrightarrow> is_digit c \<or> lower c \<in> set ''abcdef''"

definition hexDigit :: "char \<Rightarrow> nat" where
  "hexDigit c = (if is_digit c then read_nat [c] else of_char (lower c) - 87)"

definition readHex :: "string \<Rightarrow> nat" where
  "readHex = foldl (\<lambda>v c. 16 * v + hexDigit c) 0"

text \<open>The digits before and after the point, and the rest.\<close>

definition mantissa :: "(char \<Rightarrow> bool) \<Rightarrow> string \<Rightarrow> string \<times> string \<times> string" where
  "mantissa dig s =
     (let i = takeWhile dig s; r = dropWhile dig s
      in if r \<noteq> [] \<and> hd r = CHR ''.''
         then (i, takeWhile dig (tl r), dropWhile dig (tl r)) else (i, [], r))"

definition pow10 :: "int \<Rightarrow> rat" where
  "pow10 k = (if 0 \<le> k then 10 ^ nat k else 1 / 10 ^ nat (- k))"

definition stod :: "string \<Rightarrow> double option" where
  "stod s =
     (case signOf (dropWhile is_space s) of (neg, t) \<Rightarrow>
      (let l = map lower t in
       if is_prefix ''0x'' l \<and> (case mantissa is_hex (drop 2 t) of (i, f, r) \<Rightarrow> i @ f \<noteq> []) then
         (case mantissa is_hex (drop 2 t) of (i, f, r) \<Rightarrow>
            inRange neg (of_nat (readHex (i @ f)) * pow2 (exponentOf (CHR ''p'') r - 4 * int (length f))))
       else if is_prefix ''inf'' l then Some (DInf neg)
       else if is_prefix ''nan'' l then Some (DNaN neg)
       else
         (case mantissa is_digit t of (i, f, r) \<Rightarrow>
            if i @ f = [] then None
            else inRange neg (of_nat (read_nat (i @ f)) * pow10 (exponentOf (CHR ''e'') r - int (length f))))))"

text \<open>\<open>static_cast<int>\<close> and \<open>static_cast<long>\<close>; \<open>None\<close> where the conversion is undefined.\<close>

definition castInt :: "double \<Rightarrow> int option" where
  "castInt x = (case d_trunc x of Some i \<Rightarrow> if is_int32 i then Some i else None | None \<Rightarrow> None)"

definition castLong :: "double \<Rightarrow> int option" where
  "castLong x = d_trunc x"

section \<open>Data\<close>

record TradeEvent =
  teType :: string
  teSymbol :: string
  teExchange :: string
  tePrice :: double
  teSize :: "int option"
  teCvol :: "int option"
  teDate :: string
  teLast :: double

record QuoteEvent =
  qeType :: string
  qeSymbol :: string
  qeBid :: double
  qeBidSize :: "int option"
  qeBidExchange :: string
  qeBidDate :: string
  qeAsk :: double
  qeAskSize :: "int option"
  qeAskExchange :: string
  qeAskDate :: string

record SummaryEvent =
  seType :: string
  seSymbol :: string
  seOpen :: double
  seHigh :: double
  seLow :: double
  sePrevClose :: double

record TimesaleEvent =
  tsType :: string
  tsSymbol :: string
  tsExchange :: string
  tsBid :: double
  tsAsk :: double
  tsLast :: double
  tsSize :: "int option"
  tsDate :: string
  tsSeq :: "int option"
  tsFlag :: string
  tsCancel :: bool
  tsCorrection :: bool
  tsSession :: string

record AccountOrderEvent =
  aoOrderId :: int
  aoEvent :: string
  aoStatus :: string
  aoAccount :: string
  aoSymbol :: string
  aoQuantity :: double
  aoPrice :: double
  aoSide :: string
  aoType :: string
  aoTimestamp :: int

record AccountPositionEvent =
  apAccount :: string
  apSymbol :: string
  apQuantity :: double
  apCostBasis :: double
  apTimestamp :: int

datatype stream_event =
    OnTrade TradeEvent | OnQuote QuoteEvent | OnSummary SummaryEvent | OnTimesale TimesaleEvent
  | OnOrder AccountOrderEvent | OnPosition AccountPositionEvent

type_synonym 'e handler = "('e \<Rightarrow> unit fallible) option"

record StreamingConfig =
  autoReconnect :: bool
  reconnectDelay :: int
  maxReconnectAttempts :: int
  heartbeatInterval :: int
  filterDuplicates :: bool
  validExchanges :: "string list"

record StreamSession =
  sessionUrl :: string
  sessionId :: string
  sessionExpires :: int
  isActive :: bool

record StreamStatistics =
  messagesReceived :: int
  messagesProcessed :: int
  streamErrors :: int
  reconnects :: int
  connectionStart :: int
  lastMessage :: int

record ThreadManager =
  tmStop :: bool
  tmThreads :: "nat list"
  tmNext :: nat

record StreamingImpl =
  sConfig :: StreamingConfig
  sConnection :: "WebSocketImpl option"
  sConnected :: bool
  tradeHandler :: "TradeEvent handler"
  quoteHandler :: "QuoteEvent handler"
  summaryHandler :: "SummaryEvent handler"
  timesaleHandler :: "TimesaleEvent handler"
  orderHandler :: "AccountOrderEvent handler"
  positionHandler :: "AccountPositionEvent handler"
  errorHandler :: "string handler"
  subscribedSymbols :: "string set"
  symbolFilter :: "string set"
  exchangeFilter :: "string set"
  threadManager :: ThreadManager
  streamStats :: StreamStatistics
  currentSession :: StreamSession
  sEvents :: "stream_event list"
  sErrors :: "string list"
  sAborted :: bool

record stream_world = http_world +
  strm :: StreamingImpl

type_synonym ('z, 'a) stream_io = "('z stream_world_scheme, exn, 'a) io"

definition onStream :: "(StreamingImpl \<Rightarrow> StreamingImpl) \<Rightarrow> 'z stream_world_scheme \<Rightarrow> 'z stream_world_scheme" where
  "onStream f w = w\<lparr>strm := f (strm w)\<rparr>"

definition emptySession :: StreamSession where
  "emptySession = \<lparr>sessionUrl = [], sessionId = [], sessionExpires = 0, isActive = False\<rparr>"

definition emptyStreamStatistics :: StreamStatistics where
  "emptyStreamStatistics = \<lparr>messagesReceived = 0, messagesProcessed = 0, streamErrors = 0, reconnects = 0,
     connectionStart = 0, lastMessage = 0\<rparr>"

definition newStreamingImpl :: StreamingImpl where
  "newStreamingImpl = \<lparr>
     sConfig = \<lparr>autoReconnect = True, reconnectDelay = 5000, maxReconnectAttempts = 10,
       heartbeatInterval = 30000, filterDuplicates = True, validExchanges = []\<rparr>,
     sConnection = None, sConnected = False,
     tradeHandler = None, quoteHandler = None, summaryHandler = None, timesaleHandler = None,
     orderHandler = None, positionHandler = None, errorHandler = None,
     subscribedSymbols = {}, symbolFilter = {}, exchangeFilter = {},
     threadManager = \<lparr>tmStop = False, tmThreads = [], tmNext = 0\<rparr>,
     streamStats = emptyStreamStatistics, currentSession = emptySession,
     sEvents = [], sErrors = [], sAborted = False\<rparr>"

section \<open>ThreadManager\<close>

text \<open>\<open>spawned\<close>: the operating system could start the thread.\<close>

definition addThread :: "bool \<Rightarrow> ThreadManager \<Rightarrow> bool \<times> ThreadManager" where
  "addThread spawned tm =
     (if tmStop tm then (False, tm)
      else
        let threadId = tmNext tm; tm = tm\<lparr>tmNext := Suc threadId\<rparr>
        in if spawned then (True, tm\<lparr>tmThreads := tmThreads tm @ [threadId]\<rparr>) else (False, tm))"

definition stopThreads :: "ThreadManager \<Rightarrow> ThreadManager" where
  "stopThreads tm = (if tmStop tm then tm else tm\<lparr>tmStop := True, tmThreads := []\<rparr>)"

definition shouldStop :: "ThreadManager \<Rightarrow> bool" where
  "shouldStop tm = tmStop tm"

definition threadCount :: "ThreadManager \<Rightarrow> nat" where
  "threadCount tm = length (tmThreads tm)"

text \<open>The move constructor: the new manager and what is left of the old one.\<close>

definition moveThreads :: "ThreadManager \<Rightarrow> ThreadManager \<times> ThreadManager" where
  "moveThreads other = (other, other\<lparr>tmStop := True, tmThreads := []\<rparr>)"

text \<open>Move assignment stops the threads of the target first.\<close>

definition assignThreads :: "ThreadManager \<Rightarrow> ThreadManager \<Rightarrow> ThreadManager \<times> ThreadManager" where
  "assignThreads this other = moveThreads other"

section \<open>Messages\<close>

definition parseNumericField :: "'j json_api \<Rightarrow> 'j \<Rightarrow> string \<Rightarrow> double \<Rightarrow> double fallible" where
  "parseNumericField J json key defaultValue =
     (if \<not> j_contains J json key then Inr defaultValue
      else bindE (atE J json key) (\<lambda>x.
        if j_is_null J x then Inr defaultValue
        else if j_is_number J x then jx (j_double J x)
        else if j_is_string J x then
          (case j_string J x of
             Inl m \<Rightarrow> Inr defaultValue
           | Inr str \<Rightarrow>
               if str = [] then Inr defaultValue
               else (case stod str of None \<Rightarrow> Inr defaultValue | Some d \<Rightarrow> Inr d))
        else Inr defaultValue))"

definition fire :: "('e \<Rightarrow> unit fallible) \<Rightarrow> ('e \<Rightarrow> stream_event) \<Rightarrow> 'e \<Rightarrow> ('z, unit) stream_io" where
  "fire h tag event =
     bindIO (modifyIO (onStream (sEvents_update (\<lambda>es. es @ [tag event])))) (\<lambda>_. liftIO (h event))"

definition reportError :: "string \<Rightarrow> ('z, unit) stream_io" where
  "reportError message =
     bindIO (getIO strm) (\<lambda>s.
       case errorHandler s of
         None \<Rightarrow> returnIO ()
       | Some h \<Rightarrow>
           bindIO (modifyIO (onStream (sErrors_update (\<lambda>es. es @ [message])))) (\<lambda>_. liftIO (h message)))"

definition numField :: "'j json_api \<Rightarrow> 'j \<Rightarrow> string \<Rightarrow> double fallible" where
  "numField J json key = parseNumericField J json key (DFin 0)"

definition readTrade :: "'j json_api \<Rightarrow> string \<Rightarrow> string \<Rightarrow> 'j \<Rightarrow> TradeEvent fallible" where
  "readTrade J type symbol json =
     run [
       assign teType_update (Inr type),
       assign teSymbol_update (Inr symbol),
       assign teExchange_update (jx (j_value_string J json ''exch'' [])),
       assign tePrice_update (numField J json ''price''),
       assign teSize_update (map_sum id castInt (numField J json ''size'')),
       assign teCvol_update (map_sum id castLong (numField J json ''cvol'')),
       assign teLast_update (numField J json ''last''),
       assign teDate_update (jx (j_value_string J json ''date'' []))]
       \<lparr>teType = ''trade'', teSymbol = [], teExchange = [], tePrice = DFin 0, teSize = Some 0, teCvol = Some 0,
         teDate = [], teLast = DFin 0\<rparr>"

definition readQuote :: "'j json_api \<Rightarrow> string \<Rightarrow> string \<Rightarrow> 'j \<Rightarrow> QuoteEvent fallible" where
  "readQuote J type symbol json =
     run [
       assign qeType_update (Inr type),
       assign qeSymbol_update (Inr symbol),
       assign qeBid_update (numField J json ''bid''),
       assign qeAsk_update (numField J json ''ask''),
       assign qeBidSize_update (map_sum id castInt (numField J json ''bidsz'')),
       assign qeAskSize_update (map_sum id castInt (numField J json ''asksz'')),
       assign qeBidExchange_update (jx (j_value_string J json ''bidexch'' [])),
       assign qeBidDate_update (jx (j_value_string J json ''biddate'' [])),
       assign qeAskExchange_update (jx (j_value_string J json ''askexch'' [])),
       assign qeAskDate_update (jx (j_value_string J json ''askdate'' []))]
       \<lparr>qeType = ''quote'', qeSymbol = [], qeBid = DFin 0, qeBidSize = Some 0, qeBidExchange = [], qeBidDate = [],
         qeAsk = DFin 0, qeAskSize = Some 0, qeAskExchange = [], qeAskDate = []\<rparr>"

definition readSummary :: "'j json_api \<Rightarrow> string \<Rightarrow> string \<Rightarrow> 'j \<Rightarrow> SummaryEvent fallible" where
  "readSummary J type symbol json =
     run [
       assign seType_update (Inr type),
       assign seSymbol_update (Inr symbol),
       assign seOpen_update (numField J json ''open''),
       assign seHigh_update (numField J json ''high''),
       assign seLow_update (numField J json ''low''),
       assign sePrevClose_update (numField J json ''prevClose'')]
       \<lparr>seType = ''summary'', seSymbol = [], seOpen = DFin 0, seHigh = DFin 0, seLow = DFin 0, sePrevClose = DFin 0\<rparr>"

definition readTimesale :: "'j json_api \<Rightarrow> string \<Rightarrow> string \<Rightarrow> 'j \<Rightarrow> TimesaleEvent fallible" where
  "readTimesale J type symbol json =
     run [
       assign tsType_update (Inr type),
       assign tsSymbol_update (Inr symbol),
       assign tsExchange_update (jx (j_value_string J json ''exch'' [])),
       assign tsBid_update (numField J json ''bid''),
       assign tsAsk_update (numField J json ''ask''),
       assign tsLast_update (numField J json ''last''),
       assign tsSize_update (map_sum id castInt (numField J json ''size'')),
       assign tsSeq_update (map_sum id castInt (numField J json ''seq'')),
       assign tsDate_update (jx (j_value_string J json ''date'' [])),
       assign tsFlag_update (jx (j_value_string J json ''flag'' [])),
       assign tsCancel_update (jx (j_value_bool J json ''cancel'' False)),
       assign tsCorrection_update (jx (j_value_bool J json ''correction'' False)),
       assign tsSession_update (jx (j_value_string J json ''session'' []))]
       \<lparr>tsType = ''timesale'', tsSymbol = [], tsExchange = [], tsBid = DFin 0, tsAsk = DFin 0, tsLast = DFin 0,
         tsSize = Some 0, tsDate = [], tsSeq = Some 0, tsFlag = [], tsCancel = False, tsCorrection = False, tsSession = []\<rparr>"

text \<open>The chain of \<open>if (type == ... && handler)\<close>.\<close>

definition dispatch :: "'j json_api \<Rightarrow> string \<Rightarrow> string \<Rightarrow> 'j \<Rightarrow> ('z, unit) stream_io" where
  "dispatch J type symbol json =
     bindIO (getIO strm) (\<lambda>s.
       case (type = ''trade'', tradeHandler s) of
         (True, Some h) \<Rightarrow> bindIO (liftIO (readTrade J type symbol json)) (fire h OnTrade)
       | _ \<Rightarrow> (case (type = ''quote'', quoteHandler s) of
         (True, Some h) \<Rightarrow> bindIO (liftIO (readQuote J type symbol json)) (fire h OnQuote)
       | _ \<Rightarrow> (case (type = ''summary'', summaryHandler s) of
         (True, Some h) \<Rightarrow> bindIO (liftIO (readSummary J type symbol json)) (fire h OnSummary)
       | _ \<Rightarrow> (case (type = ''timesale'', timesaleHandler s) of
         (True, Some h) \<Rightarrow> bindIO (liftIO (readTimesale J type symbol json)) (fire h OnTimesale)
       | _ \<Rightarrow> returnIO ()))))"

text \<open>\<open>passes\<close> decides by the two filters; reading the exchange may throw.\<close>

definition passes :: "'j json_api \<Rightarrow> StreamingImpl \<Rightarrow> string \<Rightarrow> 'j \<Rightarrow> bool fallible" where
  "passes J s symbol json =
     (if symbolFilter s \<noteq> {} \<and> symbol \<notin> symbolFilter s then Inr False
      else if exchangeFilter s \<noteq> {} \<and> j_contains J json ''exch'' then
        bindE (atE J json ''exch'') (\<lambda>x. map_sum id (\<lambda>exchange. exchange \<in> exchangeFilter s) (jx (j_string J x)))
      else Inr True)"

definition processEvent :: "'j json_api \<Rightarrow> 'j \<Rightarrow> ('z, unit) stream_io" where
  "processEvent J json =
     (if \<not> j_contains J json ''type'' then returnIO ()
      else
        bindIO (liftIO (bindE (atE J json ''type'') (\<lambda>x. jx (j_string J x)))) (\<lambda>type.
        bindIO (liftIO (jx (j_value_string J json ''symbol'' []))) (\<lambda>symbol.
        bindIO (getIO strm) (\<lambda>s.
        bindIO (liftIO (passes J s symbol json)) (\<lambda>pass.
          if \<not> pass then returnIO ()
          else catchIO (dispatch J type symbol json)
                 (\<lambda>e. reportError (''Event processing error: '' @ what e)))))))"

definition count_stream :: "((int \<Rightarrow> int) \<Rightarrow> StreamStatistics \<Rightarrow> StreamStatistics) \<Rightarrow> ('z, unit) stream_io" where
  "count_stream upd = modifyIO (onStream (streamStats_update (upd (\<lambda>c. c + 1))))"

definition handleMessage :: "'j json_api \<Rightarrow> net \<Rightarrow> string \<Rightarrow> ('z, unit) stream_io" where
  "handleMessage J n message =
     bindIO (count_stream messagesReceived_update) (\<lambda>_.
     bindIO (systemNow n) (\<lambda>now.
     bindIO (modifyIO (onStream (streamStats_update (lastMessage_update (\<lambda>_. now))))) (\<lambda>_.
     catchIO
       (bindIO (liftIO (jx (j_parse J message))) (\<lambda>json.
        bindIO (processEvent J json) (\<lambda>_. count_stream messagesProcessed_update)))
       (\<lambda>e. bindIO (count_stream streamErrors_update) (\<lambda>_.
              reportError (''Message parsing error: '' @ what e))))))"

section \<open>The connection\<close>

record stream_env =
  env_connect :: schedule
  env_close :: schedule
  env_write :: "string option"
  env_spawn :: bool

type_synonym dumper = "(string \<times> jfield) list \<Rightarrow> string + string"

text \<open>\<open>connection->send(text)\<close>, with \<open>text\<close> made by \<open>dump\<close>.\<close>

definition sendOnConnection :: "stream_env \<Rightarrow> dumper \<Rightarrow> (string \<times> jfield) list \<Rightarrow> ('z, unit) stream_io" where
  "sendOnConnection env dump fs =
     bindIO (liftIO (jx (dump fs))) (\<lambda>text.
     bindIO (getIO strm) (\<lambda>s.
       case sConnection s of
         None \<Rightarrow> returnIO ()
       | Some ws \<Rightarrow>
           (case wsSend (env_write env) text ws of
              (r, ws') \<Rightarrow> bindIO (modifyIO (onStream (sConnection_update (\<lambda>_. Some ws')))) (\<lambda>_. liftIO r))))"

text \<open>
  One beat of the heartbeat thread, after its sleep: whether it goes on, and its counters. \<open>up\<close> is the
  test of the flags, \<open>outcome\<close> the outcome of the message, \<open>now\<close> the steady clock in nanoseconds.
\<close>

record heartbeat =
  heartbeatCount :: nat
  heartbeatErrors :: nat
  lastSuccessful :: int

definition heartbeatBeat :: "bool \<Rightarrow> bool \<Rightarrow> unit fallible \<Rightarrow> int \<Rightarrow> heartbeat \<Rightarrow> bool \<times> heartbeat" where
  "heartbeatBeat up hasConnection outcome now hb =
     (if \<not> up then (False, hb)
      else if \<not> hasConnection then (False, hb)
      else case outcome of
        Inr _ \<Rightarrow> (True, hb\<lparr>heartbeatCount := heartbeatCount hb + 1, heartbeatErrors := 0, lastSuccessful := now\<rparr>)
      | Inl e \<Rightarrow>
          let hb = hb\<lparr>heartbeatErrors := heartbeatErrors hb + 1\<rparr>
          in if 3 \<le> heartbeatErrors hb then (False, hb)
             else if seconds 300 < now - lastSuccessful hb then (False, hb)
             else (True, hb))"

text \<open>One iteration of the thread on the shared state, and the loop over a list of surroundings.\<close>

definition heartbeatFields :: "int \<Rightarrow> (string \<times> jfield) list" where
  "heartbeatFields now = [(''type'', FStr ''heartbeat''), (''timestamp'', FInt (ms_of_ns now))]"

definition heartbeatIteration ::
  "net \<Rightarrow> dumper \<Rightarrow> stream_env \<Rightarrow> heartbeat \<Rightarrow> ('z, bool \<times> heartbeat) stream_io" where
  "heartbeatIteration n dump env hb =
     bindIO (getIO strm) (\<lambda>s.
     bindIO (modifyIO (sleepFor (Some (heartbeatInterval (sConfig s))))) (\<lambda>_.
     bindIO (getIO strm) (\<lambda>s.
       if \<not> sConnected s \<or> shouldStop (threadManager s) then returnIO (heartbeatBeat False True (Inr ()) 0 hb)
       else if sConnection s = None then returnIO (heartbeatBeat True False (Inr ()) 0 hb)
       else
         bindIO (systemNow n) (\<lambda>now.
         bindIO (catchIO (bindIO (sendOnConnection env dump (heartbeatFields now)) (\<lambda>_. returnIO (Inr ())))
                   (\<lambda>e. returnIO (Inl e))) (\<lambda>outcome.
         bindIO (case outcome of Inl e \<Rightarrow> reportError (''Heartbeat error: '' @ what e) | Inr _ \<Rightarrow> returnIO ()) (\<lambda>_.
         bindIO (steadyNow n) (\<lambda>steady.
           returnIO (heartbeatBeat True True outcome steady hb))))))))"

fun heartbeatLoop ::
  "net \<Rightarrow> dumper \<Rightarrow> stream_env list \<Rightarrow> heartbeat \<Rightarrow> ('z, heartbeat) stream_io" where
  "heartbeatLoop n dump [] hb = returnIO hb"
| "heartbeatLoop n dump (env # envs) hb =
     bindIO (getIO strm) (\<lambda>s.
       if sConnected s \<and> \<not> shouldStop (threadManager s) then
         bindIO (heartbeatIteration n dump env hb) (\<lambda>(go, hb').
           if go then heartbeatLoop n dump envs hb' else returnIO hb')
       else returnIO hb)"

definition startHeartbeat :: "stream_env \<Rightarrow> ('z, unit) stream_io" where
  "startHeartbeat env =
     bindIO (getIO strm) (\<lambda>s.
       case addThread (env_spawn env) (threadManager s) of
         (ok, tm) \<Rightarrow>
           bindIO (modifyIO (onStream (threadManager_update (\<lambda>_. tm)))) (\<lambda>_.
             if \<not> ok then reportError ''Failed to start heartbeat thread'' else returnIO ()))"

text \<open>Destroying the connection object, as \<open>reset\<close> and the assignment of a new object do.\<close>

definition dropConnection :: "stream_env \<Rightarrow> ('z, unit) stream_io" where
  "dropConnection env =
     bindIO (getIO strm) (\<lambda>s.
       case sConnection s of
         None \<Rightarrow> returnIO ()
       | Some ws \<Rightarrow>
           (\<lambda>w. case wsDestroy (env_close env) ws of
              None \<Rightarrow> None
            | Some d \<Rightarrow> Some (Inr (), onStream (\<lambda>s. s\<lparr>sConnection := None,
                sAborted := sAborted s \<or> d = ProgramTerminated\<rparr>) w)))"

definition onConnection ::
  "(WebSocketImpl \<Rightarrow> (unit fallible \<times> WebSocketImpl) option) \<Rightarrow> ('z, unit) stream_io" where
  "onConnection f w =
     (case sConnection (strm w) of
        None \<Rightarrow> Some (Inr (), w)
      | Some ws \<Rightarrow>
          map_option (\<lambda>(r, ws'). (r, onStream (sConnection_update (\<lambda>_. Some ws')) w)) (f ws))"

definition endpointOf :: "string \<Rightarrow> string" where
  "endpointOf url =
     (if is_prefix ''https://stream.tradier.com/v1'' url then drop 29 url
      else if is_prefix ''https://sandbox.tradier.com/v1'' url then drop 30 url
      else url)"

definition streamConnect :: "beast \<Rightarrow> Config \<Rightarrow> net \<Rightarrow> stream_env \<Rightarrow> ('z, unit) stream_io" where
  "streamConnect B cfg n env =
     bindIO (getIO strm) (\<lambda>s.
       if sConnected s \<or> \<not> isActive (currentSession s) then returnIO ()
       else
         catchIO
           (bindIO (liftIO (clientConnect B cfg (endpointOf (sessionUrl (currentSession s))) (accessToken cfg))) (\<lambda>ws.
            bindIO (dropConnection env) (\<lambda>_.
            bindIO (modifyIO (onStream (sConnection_update (\<lambda>_. Some (setMessageHandler True ws))))) (\<lambda>_.
            bindIO (onConnection (\<lambda>ws. Some (case setAuthToken (accessToken cfg) ws of
                      Inl e \<Rightarrow> (Inl e, ws) | Inr ws' \<Rightarrow> (Inr (), ws')))) (\<lambda>_.
            bindIO (onConnection (wsConnect (env_connect env))) (\<lambda>_.
            bindIO (modifyIO (onStream (sConnected_update (\<lambda>_. True)))) (\<lambda>_.
            bindIO (systemNow n) (\<lambda>now.
            bindIO (modifyIO (onStream (streamStats_update (connectionStart_update (\<lambda>_. now))))) (\<lambda>_.
              startHeartbeat env)))))))))
           (\<lambda>e. bindIO (reportError (''Connection error: '' @ what e)) (\<lambda>_.
                  modifyIO (onStream (sConnected_update (\<lambda>_. False))))))"

text \<open>\<open>connection->disconnect()\<close> comes before the destructor of \<open>connection.reset()\<close>.\<close>

definition streamDisconnect :: "stream_env \<Rightarrow> ('z, unit) stream_io" where
  "streamDisconnect env =
     bindIO (modifyIO (onStream (sConnected_update (\<lambda>_. False)))) (\<lambda>_.
     bindIO (modifyIO (onStream (threadManager_update stopThreads))) (\<lambda>_.
     bindIO (onConnection (\<lambda>ws. map_option (\<lambda>ws'. (Inr (), ws')) (wsDisconnect (env_close env) ws))) (\<lambda>_.
       dropConnection (env\<lparr>env_close := waiting []\<rparr>))))"

definition streamReconnect :: "beast \<Rightarrow> Config \<Rightarrow> net \<Rightarrow> stream_env \<Rightarrow> ('z, unit) stream_io" where
  "streamReconnect B cfg n env =
     bindIO (streamDisconnect env) (\<lambda>_.
     bindIO (getIO strm) (\<lambda>s.
     bindIO (modifyIO (sleepFor (Some (reconnectDelay (sConfig s))))) (\<lambda>_.
       streamConnect B cfg n env)))"

section \<open>Sessions\<close>

definition parseStreamSession :: "'j json_api \<Rightarrow> int \<Rightarrow> 'j \<Rightarrow> StreamSession fallible" where
  "parseStreamSession J now json =
     (if \<not> j_is_null J json \<and> j_is_object J json then
        bindE (ifE (present J (j_is_object J) json ''stream'') (atE J json ''stream'') (Inr json)) (\<lambda>src.
        bindE (run [
          assign sessionUrl_update (jx (j_value_string J src ''url'' [])),
          assign sessionId_update (jx (j_value_string J src ''sessionid'' []))] emptySession) (\<lambda>session.
          Inr (session\<lparr>isActive := sessionUrl session \<noteq> [] \<and> sessionId session \<noteq> [],
                       sessionExpires := now + seconds (8 * 3600)\<rparr>)))
      else Inr emptySession)"

text \<open>\<open>createMarketSession\<close> and \<open>createAccountSession\<close> differ in the endpoint and the messages.\<close>

definition createSession ::
  "'j json_api \<Rightarrow> net \<Rightarrow> 'z stream_world_scheme client_ops \<Rightarrow> string \<Rightarrow> string \<Rightarrow> string \<Rightarrow> string \<Rightarrow>
     ('z, StreamSession ApiResult) stream_io" where
  "createSession J n C ep failure parseFailure operation =
     tryExecuteIO (
       bindIO (cl_post C ep []) (\<lambda>response.
       if \<not> success response
       then throwIO (ApiError (ApiErr (status response) (failure @ body response) []))
       else
         bindIO (systemNow n) (\<lambda>now.
         case parseResponse J response (parseStreamSession J now) of
           None \<Rightarrow> throwIO (RuntimeError parseFailure)
         | Some parsed \<Rightarrow>
             (let session = parsed\<lparr>isActive := sessionUrl parsed \<noteq> [] \<and> sessionId parsed \<noteq> []\<rparr>
              in bindIO (modifyIO (onStream (currentSession_update (\<lambda>_. session)))) (\<lambda>_. returnIO session))))) operation"

definition createMarketSession ::
  "'j json_api \<Rightarrow> net \<Rightarrow> 'z stream_world_scheme client_ops \<Rightarrow> ('z, StreamSession ApiResult) stream_io" where
  "createMarketSession J n C =
     createSession J n C ''/markets/events/session'' ''Failed to create market session: ''
       ''Failed to parse market session response'' ''createMarketSession''"

definition createAccountSession ::
  "'j json_api \<Rightarrow> net \<Rightarrow> 'z stream_world_scheme client_ops \<Rightarrow> ('z, StreamSession ApiResult) stream_io" where
  "createAccountSession J n C =
     createSession J n C ''/accounts/events/session'' ''Failed to create account session: ''
       ''Failed to parse account session response'' ''createAccountSession''"

text \<open>The session is the caller's object, changed when the new one was created.\<close>

definition renewSession ::
  "'j json_api \<Rightarrow> net \<Rightarrow> 'z stream_world_scheme client_ops \<Rightarrow> StreamSession \<Rightarrow> ('z, StreamSession) stream_io" where
  "renewSession J n C session =
     bindIO (if has_substring ''markets'' (sessionUrl session) then createMarketSession J n C
             else createAccountSession J n C) (\<lambda>newSession.
       if isSuccess newSession then liftIO (resultValue newSession) else returnIO session)"

section \<open>Subscriptions\<close>

text \<open>\<open>if (!connected) connect();\<close>\<close>

definition ensureConnected :: "beast \<Rightarrow> Config \<Rightarrow> net \<Rightarrow> stream_env \<Rightarrow> ('z, unit) stream_io" where
  "ensureConnected B cfg n env =
     bindIO (getIO strm) (\<lambda>s. if \<not> sConnected s then streamConnect B cfg n env else returnIO ())"

text \<open>Sends the request when \<open>ready\<close> holds; \<open>onError\<close> is the body of the \<open>catch\<close> clause before \<open>return false\<close>.\<close>

definition sendSubscription ::
  "stream_env \<Rightarrow> dumper \<Rightarrow> (StreamingImpl \<Rightarrow> bool) \<Rightarrow> (string \<times> jfield) list \<Rightarrow>
     (exn \<Rightarrow> ('z, unit) stream_io) \<Rightarrow> ('z, bool) stream_io" where
  "sendSubscription env dump ready fs onError =
     bindIO (getIO strm) (\<lambda>s.
       if ready s then
         catchIO (bindIO (sendOnConnection env dump fs) (\<lambda>_. returnIO True))
           (\<lambda>e. bindIO (onError e) (\<lambda>_. returnIO False))
       else returnIO False)"

definition insertSymbols :: "string list \<Rightarrow> ('z, unit) stream_io" where
  "insertSymbols symbols = modifyIO (onStream (subscribedSymbols_update (\<lambda>S. S \<union> set symbols)))"

definition subscriptionError :: "exn \<Rightarrow> ('z, unit) stream_io" where
  "subscriptionError e = reportError (''Subscription error: '' @ what e)"

definition hasConnection :: "StreamingImpl \<Rightarrow> bool" where
  "hasConnection s \<longleftrightarrow> sConnection s \<noteq> None"

definition subscribeToTrades ::
  "beast \<Rightarrow> Config \<Rightarrow> net \<Rightarrow> stream_env \<Rightarrow> dumper \<Rightarrow> StreamSession \<Rightarrow> string list \<Rightarrow> TradeEvent handler \<Rightarrow>
     ('z, bool) stream_io" where
  "subscribeToTrades B cfg n env dump session symbols h =
     (if \<not> isActive session \<or> symbols = [] \<or> h = None then returnIO False
      else
        bindIO (modifyIO (onStream (tradeHandler_update (\<lambda>_. h)))) (\<lambda>_.
        bindIO (insertSymbols symbols) (\<lambda>_.
        bindIO (ensureConnected B cfg n env) (\<lambda>_.
          sendSubscription env dump (\<lambda>s. hasConnection s \<and> sConnected s)
            [(''type'', FStr ''subscribe''), (''to'', FStr ''trade''), (''symbols'', FStrs symbols)] subscriptionError))))"

definition subscribeToQuotes ::
  "beast \<Rightarrow> Config \<Rightarrow> net \<Rightarrow> stream_env \<Rightarrow> dumper \<Rightarrow> StreamSession \<Rightarrow> string list \<Rightarrow> QuoteEvent handler \<Rightarrow>
     ('z, bool) stream_io" where
  "subscribeToQuotes B cfg n env dump session symbols h =
     (if \<not> isActive session \<or> symbols = [] then returnIO False
      else
        bindIO (modifyIO (onStream (quoteHandler_update (\<lambda>_. h)))) (\<lambda>_.
        bindIO (insertSymbols symbols) (\<lambda>_.
        bindIO (ensureConnected B cfg n env) (\<lambda>_.
          sendSubscription env dump hasConnection
            [(''symbols'', FStrs symbols), (''sessionid'', FStr (sessionId session)), (''linebreak'', FBool True)]
            subscriptionError))))"

definition subscribeToSummary ::
  "beast \<Rightarrow> Config \<Rightarrow> net \<Rightarrow> stream_env \<Rightarrow> dumper \<Rightarrow> StreamSession \<Rightarrow> string list \<Rightarrow> SummaryEvent handler \<Rightarrow>
     ('z, bool) stream_io" where
  "subscribeToSummary B cfg n env dump session symbols h =
     (if \<not> isActive session \<or> symbols = [] then returnIO False
      else
        bindIO (modifyIO (onStream (summaryHandler_update (\<lambda>_. h)))) (\<lambda>_.
        bindIO (insertSymbols symbols) (\<lambda>_.
        bindIO (ensureConnected B cfg n env) (\<lambda>_.
          sendSubscription env dump hasConnection
            [(''type'', FStr ''subscribe''), (''to'', FStr ''summary''), (''symbols'', FStrs symbols)]
            (\<lambda>_. returnIO ())))))"

definition subscribeToTimesales ::
  "beast \<Rightarrow> Config \<Rightarrow> net \<Rightarrow> stream_env \<Rightarrow> dumper \<Rightarrow> StreamSession \<Rightarrow> string list \<Rightarrow> TimesaleEvent handler \<Rightarrow>
     ('z, bool) stream_io" where
  "subscribeToTimesales B cfg n env dump session symbols h =
     (if \<not> isActive session \<or> symbols = [] then returnIO False
      else
        bindIO (modifyIO (onStream (timesaleHandler_update (\<lambda>_. h)))) (\<lambda>_.
        bindIO (insertSymbols symbols) (\<lambda>_.
        bindIO (ensureConnected B cfg n env) (\<lambda>_.
          sendSubscription env dump hasConnection
            [(''type'', FStr ''subscribe''), (''to'', FStr ''timesale''), (''symbols'', FStrs symbols)]
            (\<lambda>_. returnIO ())))))"

definition subscribeToOrderEvents ::
  "beast \<Rightarrow> Config \<Rightarrow> net \<Rightarrow> stream_env \<Rightarrow> dumper \<Rightarrow> StreamSession \<Rightarrow> AccountOrderEvent handler \<Rightarrow>
     ('z, bool) stream_io" where
  "subscribeToOrderEvents B cfg n env dump session h =
     (if \<not> isActive session then returnIO False
      else
        bindIO (modifyIO (onStream (orderHandler_update (\<lambda>_. h)))) (\<lambda>_.
        bindIO (ensureConnected B cfg n env) (\<lambda>_.
          sendSubscription env dump hasConnection
            [(''type'', FStr ''subscribe''), (''to'', FStr ''order'')] (\<lambda>_. returnIO ()))))"

definition subscribeToPositionEvents ::
  "beast \<Rightarrow> Config \<Rightarrow> net \<Rightarrow> stream_env \<Rightarrow> dumper \<Rightarrow> StreamSession \<Rightarrow> AccountPositionEvent handler \<Rightarrow>
     ('z, bool) stream_io" where
  "subscribeToPositionEvents B cfg n env dump session h =
     (if \<not> isActive session then returnIO False
      else
        bindIO (modifyIO (onStream (positionHandler_update (\<lambda>_. h)))) (\<lambda>_.
        bindIO (ensureConnected B cfg n env) (\<lambda>_.
          sendSubscription env dump hasConnection
            [(''type'', FStr ''subscribe''), (''to'', FStr ''position'')] (\<lambda>_. returnIO ()))))"

definition streamAddSymbols :: "string list \<Rightarrow> ('z, bool) stream_io" where
  "streamAddSymbols symbols = bindIO (insertSymbols symbols) (\<lambda>_. returnIO True)"

definition streamRemoveSymbols :: "string list \<Rightarrow> ('z, bool) stream_io" where
  "streamRemoveSymbols symbols =
     bindIO (modifyIO (onStream (subscribedSymbols_update (\<lambda>S. S - set symbols)))) (\<lambda>_. returnIO True)"

definition getSubscribedSymbols :: "StreamingImpl \<Rightarrow> string set" where
  "getSubscribedSymbols s = subscribedSymbols s"

section \<open>Configuration, statistics and filters\<close>

definition streamSetConfig :: "StreamingConfig \<Rightarrow> ('z, unit) stream_io" where
  "streamSetConfig cfg = modifyIO (onStream (sConfig_update (\<lambda>_. cfg)))"

definition streamGetConfig :: "StreamingImpl \<Rightarrow> StreamingConfig" where
  "streamGetConfig s = sConfig s"

definition setErrorHandler :: "string handler \<Rightarrow> ('z, unit) stream_io" where
  "setErrorHandler h = modifyIO (onStream (errorHandler_update (\<lambda>_. h)))"

definition streamIsConnected :: "StreamingImpl \<Rightarrow> bool" where
  "streamIsConnected s = sConnected s"

definition getConnectionStatus :: "StreamingImpl \<Rightarrow> string" where
  "getConnectionStatus s = (if sConnected s then ''Connected'' else ''Disconnected'')"

definition getSnapshot :: "StreamingImpl \<Rightarrow> StreamStatistics" where
  "getSnapshot s = streamStats s"

definition streamResetStatistics :: "('z, unit) stream_io" where
  "streamResetStatistics = modifyIO (onStream (streamStats_update (\<lambda>_. emptyStreamStatistics)))"

definition setSymbolFilter :: "string list \<Rightarrow> ('z, unit) stream_io" where
  "setSymbolFilter symbols = modifyIO (onStream (symbolFilter_update (\<lambda>_. set symbols)))"

definition setExchangeFilter :: "string list \<Rightarrow> ('z, unit) stream_io" where
  "setExchangeFilter exchanges = modifyIO (onStream (exchangeFilter_update (\<lambda>_. set exchanges)))"

definition clearFilters :: "('z, unit) stream_io" where
  "clearFilters = modifyIO (onStream (\<lambda>s. s\<lparr>symbolFilter := {}, exchangeFilter := {}\<rparr>))"

end
