(* ===== verification/Streaming_Properties.thy ===== *)
theory Streaming_Properties
  imports Streaming
begin

text \<open>
  What the streaming service guarantees and where it fails. The steps of the service, the calls of its
  operations, the moves of the WebSocket's thread and the messages it hands over, are the relation
  \<open>stream_step\<close>, and a service that was once disconnected never gets a heartbeat again. With a message
  taken apart into the steps in which it is counted, the statistics add up up to the message in hand. Events pass the filters and are never account events; a numeric field
  may be a number or its text; a WebSocket that the server closed ends the program when the service
  lets go of it.
\<close>

section \<open>Steps\<close>

text \<open>
  A message that arrives while an operation waits for the WebSocket is a step of its own after the
  operation: \<open>handleMessage\<close> touches nothing that \<open>connect\<close> and \<open>disconnect\<close> read. \<open>service_step\<close> is one call of an
  operation other than \<open>resetStatistics\<close>; \<open>stream_step\<close> adds this call, the moves of the WebSocket and whole
  messages. The finer steps in which a message is counted follow below with the statistics.
\<close>

definition calm :: "stream_env \<Rightarrow> bool" where
  "calm env \<longleftrightarrow> (\<forall>m. Message m \<notin> set (allEvents (env_connect env)) \<union> set (allEvents (env_close env)))"

record 'j stream_params =
  p_json :: "'j json_api"
  p_beast :: beast
  p_config :: Config
  p_net :: net
  p_dump :: dumper

inductive service_step ::
  "'j stream_params \<Rightarrow> 'z stream_world_scheme client_ops \<Rightarrow> 'z stream_world_scheme \<Rightarrow> 'z stream_world_scheme \<Rightarrow> bool"
  for P C where
  connect: "calm env \<Longrightarrow> streamConnect (p_beast P) (p_config P) (p_net P) env w = Some (r, w') \<Longrightarrow> service_step P C w w'"
| disconnect: "calm env \<Longrightarrow> streamDisconnect env w = Some (r, w') \<Longrightarrow> service_step P C w w'"
| reconnect: "calm env \<Longrightarrow> streamReconnect (p_beast P) (p_config P) (p_net P) env w = Some (r, w') \<Longrightarrow> service_step P C w w'"
| trades: "calm env \<Longrightarrow> subscribeToTrades (p_beast P) (p_config P) (p_net P) env (p_dump P) session symbols h1 w = Some (b, w') \<Longrightarrow>
    service_step P C w w'"
| quotes: "calm env \<Longrightarrow> subscribeToQuotes (p_beast P) (p_config P) (p_net P) env (p_dump P) session symbols h2 w = Some (b, w') \<Longrightarrow>
    service_step P C w w'"
| summary: "calm env \<Longrightarrow> subscribeToSummary (p_beast P) (p_config P) (p_net P) env (p_dump P) session symbols h3 w = Some (b, w') \<Longrightarrow>
    service_step P C w w'"
| timesales: "calm env \<Longrightarrow> subscribeToTimesales (p_beast P) (p_config P) (p_net P) env (p_dump P) session symbols h4 w = Some (b, w') \<Longrightarrow>
    service_step P C w w'"
| orders: "calm env \<Longrightarrow> subscribeToOrderEvents (p_beast P) (p_config P) (p_net P) env (p_dump P) session h5 w = Some (b, w') \<Longrightarrow>
    service_step P C w w'"
| positions: "calm env \<Longrightarrow> subscribeToPositionEvents (p_beast P) (p_config P) (p_net P) env (p_dump P) session h6 w = Some (b, w') \<Longrightarrow>
    service_step P C w w'"
| heartbeat: "calm env \<Longrightarrow> heartbeatIteration (p_net P) (p_dump P) env hb w = Some (g, w') \<Longrightarrow> service_step P C w w'"
| market: "createMarketSession (p_json P) (p_net P) C w = Some (v, w') \<Longrightarrow> service_step P C w w'"
| account: "createAccountSession (p_json P) (p_net P) C w = Some (v, w') \<Longrightarrow> service_step P C w w'"
| renew: "renewSession (p_json P) (p_net P) C session w = Some (u, w') \<Longrightarrow> service_step P C w w'"
| symbols: "streamAddSymbols symbols w = Some (b, w') \<Longrightarrow> service_step P C w w'"
| unsubscribe: "streamRemoveSymbols symbols w = Some (b, w') \<Longrightarrow> service_step P C w w'"
| settings: "m \<in> {streamSetConfig c, setErrorHandler h, setSymbolFilter symbols, setExchangeFilter symbols, clearFilters} \<Longrightarrow>
    m w = Some (r, w') \<Longrightarrow> service_step P C w w'"

inductive stream_step ::
  "'j stream_params \<Rightarrow> 'z stream_world_scheme client_ops \<Rightarrow> 'z stream_world_scheme \<Rightarrow> 'z stream_world_scheme \<Rightarrow> bool"
  for P C where
  service: "service_step P C w w' \<Longrightarrow> stream_step P C w w'"
| reset: "streamResetStatistics w = Some (r, w') \<Longrightarrow> stream_step P C w w'"
| io: "sConnection (strm w) = Some ws \<Longrightarrow> wsEvent e ws = Some ws' \<Longrightarrow> (\<And>m. e \<noteq> Message m) \<Longrightarrow>
    stream_step P C w (onStream (sConnection_update (\<lambda>_. Some ws')) w)"
| message: "sConnection (strm w) = Some ws \<Longrightarrow> wsEvent (Message m) ws = Some ws' \<Longrightarrow> wsCallback ws \<Longrightarrow>
    handleMessage (p_json P) (p_net P) m (onStream (sConnection_update (\<lambda>_. Some ws')) w) = Some (r, w') \<Longrightarrow>
    stream_step P C w w'"

definition stream_run ::
  "'j stream_params \<Rightarrow> 'z stream_world_scheme client_ops \<Rightarrow> 'z stream_world_scheme \<Rightarrow> 'z stream_world_scheme \<Rightarrow> bool" where
  "stream_run P C = (stream_step P C)\<^sup>*\<^sup>*"

text \<open>A property of the service's state that every operation keeps, one rule per building block.\<close>

definition keepsStream :: "'z stream_world_scheme client_ops \<Rightarrow> bool" where
  "keepsStream C \<longleftrightarrow> (\<forall>ep ps w r w'. cl_post C ep ps w = Some (r, w') \<longrightarrow> strm w' = strm w)"

lemma strm_simps [simp]:
  "strm (onStream f w) = f (strm w)" "strm (tick w) = strm w" "strm (sleepFor d w) = strm w"
  by (simp_all add: onStream_def tick_def sleepFor_def)

locale service_property =
  fixes I :: "StreamingImpl \<Rightarrow> bool"
  assumes connection: "I s \<Longrightarrow> I (sConnection_update f1 s)"
    and aborted: "I s \<Longrightarrow> I (s\<lparr>sConnection := None, sAborted := sAborted s \<or> b\<rparr>)"
    and connected: "I s \<Longrightarrow> I (sConnected_update f3 s)"
    and handlers: "I s \<Longrightarrow> I (tradeHandler_update h1 s)" "I s \<Longrightarrow> I (quoteHandler_update h2 s)"
      "I s \<Longrightarrow> I (summaryHandler_update h3 s)" "I s \<Longrightarrow> I (timesaleHandler_update h4 s)"
      "I s \<Longrightarrow> I (orderHandler_update h5 s)" "I s \<Longrightarrow> I (positionHandler_update h6 s)"
      "I s \<Longrightarrow> I (errorHandler_update h s)"
    and sets: "I s \<Longrightarrow> I (subscribedSymbols_update f4 s)" "I s \<Longrightarrow> I (symbolFilter_update f5 s)"
      "I s \<Longrightarrow> I (exchangeFilter_update f6 s)"
    and session: "I s \<Longrightarrow> I (currentSession_update f7 s)"
    and settings: "I s \<Longrightarrow> I (sConfig_update f8 s)"
    and events: "I s \<Longrightarrow> I (sEvents_update f9 s)" "I s \<Longrightarrow> I (sErrors_update f10 s)"
    and spawn: "I s \<Longrightarrow> I (s\<lparr>threadManager := snd (addThread ok (threadManager s))\<rparr>)"
    and stop: "I s \<Longrightarrow> I (threadManager_update stopThreads s)"
    and times: "I s \<Longrightarrow> I (streamStats_update (connectionStart_update f11) s)"
begin

abbreviation K :: "('z stream_world_scheme, exn, 'a) io \<Rightarrow> bool" where
  "K m \<equiv> keeps (\<lambda>w. I (strm w)) m"

lemma K_modify: "(\<And>s. I s \<Longrightarrow> I (f s)) \<Longrightarrow> K (modifyIO (onStream f))"
  by (simp add: keepsIO_def io_prims)

lemma K_clock: "K (systemNow n)" "K (steadyNow n)" "K (modifyIO (sleepFor d))"
  by (simp_all add: keepsIO_def io_prims systemNow_def steadyNow_def)

lemma K_option: "x = None \<Longrightarrow> K m \<Longrightarrow> K (case x of None \<Rightarrow> m | Some h \<Rightarrow> f h)"
  "(\<And>h. x = Some h \<Longrightarrow> K (f h)) \<Longrightarrow> K m \<Longrightarrow> K (case x of None \<Rightarrow> m | Some h \<Rightarrow> f h)"
  by (auto split: option.splits)

lemma K_reportError: "K (reportError message)"
  unfolding reportError_def by (intro keeps_intros K_option(2) K_modify) (auto intro: events)

lemma K_send: "K (sendOnConnection env dump fs)"
  unfolding sendOnConnection_def
  by (intro keeps_intros K_option(2)) (auto split: prod.splits intro!: keeps_intros K_modify connection)

lemma K_drop: "K (dropConnection env)"
proof -
  have "K (\<lambda>w. case wsDestroy e ws of None \<Rightarrow> None
     | Some d \<Rightarrow> Some (Inr (), onStream (\<lambda>s. s\<lparr>sConnection := None, sAborted := sAborted s \<or> d = ProgramTerminated\<rparr>) w))" for e ws
    by (auto simp: keepsIO_def aborted split: option.splits)
  then show ?thesis unfolding dropConnection_def by (intro keeps_intros K_option(2))
qed

lemma K_onConnection: "K (onConnection f)"
  by (auto simp: keepsIO_def onConnection_def connection split: option.splits)

lemma K_startHeartbeat: "K (startHeartbeat env)"
proof -
  have "K (\<lambda>w. bindIO (modifyIO (onStream (threadManager_update (\<lambda>_. snd (addThread (env_spawn env) (threadManager (strm w)))))))
      (\<lambda>_. if \<not> fst (addThread (env_spawn env) (threadManager (strm w)))
        then reportError ''Failed to start heartbeat thread'' else returnIO ()) w)"
    unfolding keepsIO_def
    by (auto simp: returnIO_def split: if_splits intro: spawn dest!: keepsIO_D [OF K_reportError, rotated])
  then show ?thesis
    unfolding startHeartbeat_def by (simp add: keepsIO_def bindIO_def getIO_def split_beta)
qed

lemmas K_blocks = keeps_intros K_modify K_clock K_reportError K_send K_drop K_onConnection K_startHeartbeat

lemma K_connect: "K (streamConnect B cfg n env)"
  unfolding streamConnect_def by (intro K_blocks) (auto intro: connection connected times)

lemma K_disconnect: "K (streamDisconnect env)"
  unfolding streamDisconnect_def by (intro K_blocks) (auto intro: connected stop)

lemma K_reconnect: "K (streamReconnect B cfg n env)"
  unfolding streamReconnect_def by (intro K_blocks K_connect K_disconnect)

lemma K_subscription: "(\<And>e. K (onError e)) \<Longrightarrow> K (sendSubscription env dump ready fs onError)"
  unfolding sendSubscription_def by (intro K_blocks)

lemma K_subscribe:
  "K (subscribeToTrades B cfg n env dump session symbols h1)" "K (subscribeToQuotes B cfg n env dump session symbols h2)"
  "K (subscribeToSummary B cfg n env dump session symbols h3)" "K (subscribeToTimesales B cfg n env dump session symbols h4)"
  "K (subscribeToOrderEvents B cfg n env dump session h5)" "K (subscribeToPositionEvents B cfg n env dump session h6)"
  unfolding subscribeToTrades_def subscribeToQuotes_def subscribeToSummary_def subscribeToTimesales_def
    subscribeToOrderEvents_def subscribeToPositionEvents_def insertSymbols_def ensureConnected_def subscriptionError_def
  by ((intro K_blocks K_connect K_subscription)?; auto intro: handlers sets intro!: K_blocks K_connect K_subscription)+

lemma K_heartbeat: "K (heartbeatIteration n dump env hb)"
proof -
  have "K (case r of Inl e \<Rightarrow> reportError (f e) | Inr u \<Rightarrow> returnIO ())" for r :: "unit fallible" and f
    by (cases r) (simp_all add: K_reportError keeps_prims)
  then show ?thesis unfolding heartbeatIteration_def by (intro K_blocks)
qed

lemma K_settings:
  "K (streamAddSymbols symbols)" "K (streamRemoveSymbols symbols)" "K (streamSetConfig c)" "K (setErrorHandler h)"
  "K (setSymbolFilter symbols)" "K (setExchangeFilter symbols)" "K clearFilters"
  unfolding streamAddSymbols_def streamRemoveSymbols_def insertSymbols_def streamSetConfig_def setErrorHandler_def
    setSymbolFilter_def setExchangeFilter_def clearFilters_def
  by (auto intro!: keeps_intros intro: sets settings handlers sets(3) [OF sets(2)])

lemma K_tryExecute: "K m \<Longrightarrow> K (tryExecuteIO m op)"
  by (auto simp: keepsIO_def tryExecuteIO_def split: option.splits)

lemma K_session:
  assumes "keepsStream C"
  shows "K (createSession J n C ep f1 f2 op)"
proof -
  have post: "K (cl_post C ep ps)" for ps using assms by (auto simp: keepsIO_def keepsStream_def)
  have "K (createSession J n C ep f1 f2 op)"
    unfolding createSession_def Let_def
    by (intro K_tryExecute keeps_intros post K_clock K_option(2)) (auto intro: session)
  then show ?thesis .
qed

lemma K_sessions:
  assumes "keepsStream C"
  shows "K (createMarketSession J n C)" "K (createAccountSession J n C)" "K (renewSession J n C ses)"
  unfolding renewSession_def createMarketSession_def createAccountSession_def
  by (intro K_blocks K_session [OF assms])+

lemma K_step: "K m \<Longrightarrow> m w = Some (r, w') \<Longrightarrow> I (strm w) \<Longrightarrow> I (strm w')"
  by (rule keepsIO_D)

lemma service_keeps:
  assumes "service_step P C w w'" "keepsStream C" "I (strm w)"
  shows "I (strm (w' :: 'z stream_world_scheme))"
proof -
  show ?thesis
    using assms(1)
  proof cases
    case (settings m c h symbols r)
    then have "K m" using K_settings by auto
    then show ?thesis using keepsIO_D [of "\<lambda>w. I (strm w)" m "\<lambda>_. True" w r w'] settings(2) assms(3) by simp
  next
    case connect
    show ?thesis by (rule K_step [OF K_connect connect(2) assms(3)])
  next
    case disconnect
    show ?thesis by (rule K_step [OF K_disconnect disconnect(2) assms(3)])
  next
    case reconnect
    show ?thesis by (rule K_step [OF K_reconnect reconnect(2) assms(3)])
  next
    case trades
    show ?thesis by (rule K_step [OF K_subscribe(1) trades(2) assms(3)])
  next
    case quotes
    show ?thesis by (rule K_step [OF K_subscribe(2) quotes(2) assms(3)])
  next
    case summary
    show ?thesis by (rule K_step [OF K_subscribe(3) summary(2) assms(3)])
  next
    case timesales
    show ?thesis by (rule K_step [OF K_subscribe(4) timesales(2) assms(3)])
  next
    case orders
    show ?thesis by (rule K_step [OF K_subscribe(5) orders(2) assms(3)])
  next
    case positions
    show ?thesis by (rule K_step [OF K_subscribe(6) positions(2) assms(3)])
  next
    case heartbeat
    show ?thesis by (rule K_step [OF K_heartbeat heartbeat(2) assms(3)])
  next
    case market
    show ?thesis by (rule K_step [OF K_sessions(1) [OF assms(2)] market(1) assms(3)])
  next
    case account
    show ?thesis by (rule K_step [OF K_sessions(2) [OF assms(2)] account(1) assms(3)])
  next
    case renew
    show ?thesis by (rule K_step [OF K_sessions(3) [OF assms(2)] renew(1) assms(3)])
  next
    case symbols
    show ?thesis by (rule K_step [OF K_settings(1) symbols(1) assms(3)])
  next
    case unsubscribe
    show ?thesis by (rule K_step [OF K_settings(2) unsubscribe(1) assms(3)])
  qed
qed

end

text \<open>With the call of \<open>resetStatistics\<close>, the moves of the WebSocket and whole messages.\<close>

locale stream_property = service_property +
  assumes reset: "I s \<Longrightarrow> I (s\<lparr>streamStats := emptyStreamStatistics\<rparr>)"
begin

lemma K_reset: "K streamResetStatistics"
  unfolding streamResetStatistics_def by (intro K_modify) (use reset in auto)

lemma step_keeps:
  assumes "stream_step P C w w'" "keepsStream C" "I (strm w)"
    and "\<And>m (v :: 'z stream_world_scheme) r v'. I (strm v) \<Longrightarrow> handleMessage (p_json P) (p_net P) m v = Some (r, v') \<Longrightarrow> I (strm v')"
  shows "I (strm (w' :: 'z stream_world_scheme))"
  using assms(1)
proof cases
  case service
  then show ?thesis by (rule service_keeps [OF _ assms(2,3)])
next
  case reset
  show ?thesis by (rule K_step [OF K_reset reset assms(3)])
next
  case (io ws e ws')
  then show ?thesis using connection assms(3) by simp
next
  case (message ws m ws' r)
  then show ?thesis using assms(4) [OF _ message(4)] connection assms(3) by simp
qed

lemma run_keeps:
  assumes "stream_run P C w w'" "keepsStream C" "I (strm w)"
    and "\<And>m (v :: 'z stream_world_scheme) r v'. I (strm v) \<Longrightarrow> handleMessage (p_json P) (p_net P) m v = Some (r, v') \<Longrightarrow> I (strm v')"
  shows "I (strm (w' :: 'z stream_world_scheme))"
  using assms(1) unfolding stream_run_def
proof (induction rule: rtranclp_induct)
  case base
  show ?case by (rule assms(3))
next
  case (step v v')
  show ?case by (rule step_keeps [OF step.hyps(2) assms(2) step.IH assms(4)])
qed

end

text \<open>The real client leaves the service alone.\<close>

lemma strm_more: "http_world.more w' = http_world.more w \<Longrightarrow> strm w' = strm w"
  by (cases w; cases w') simp

lemma tradierClient_keepsStream: "keepsStream (tradierClient n)"
  by (auto simp: keepsStream_def tradierClient_def http_post_def dest!: performRequest_more strm_more)

section \<open>What a message does\<close>

lemma reportError_frame:
  assumes "reportError m w = Some (r, w')"
  shows "streamStats (strm w') = streamStats (strm w) \<and> sEvents (strm w') = sEvents (strm w) \<and>
    threadManager (strm w') = threadManager (strm w)"
  using assms by (auto simp: reportError_def bindIO_def io_prims split: option.splits)

definition eventSymbol :: "stream_event \<Rightarrow> string" where
  "eventSymbol e = (case e of OnTrade x \<Rightarrow> teSymbol x | OnQuote x \<Rightarrow> qeSymbol x | OnSummary x \<Rightarrow> seSymbol x
     | OnTimesale x \<Rightarrow> tsSymbol x | OnOrder x \<Rightarrow> aoSymbol x | OnPosition x \<Rightarrow> apSymbol x)"

definition isMarketEvent :: "stream_event \<Rightarrow> bool" where
  "isMarketEvent e \<longleftrightarrow> (case e of OnOrder _ \<Rightarrow> False | OnPosition _ \<Rightarrow> False | _ \<Rightarrow> True)"

lemma read_symbol:
  "readTrade J t sy j = Inr x1 \<Longrightarrow> teSymbol x1 = sy" "readQuote J t sy j = Inr x2 \<Longrightarrow> qeSymbol x2 = sy"
  "readSummary J t sy j = Inr x3 \<Longrightarrow> seSymbol x3 = sy" "readTimesale J t sy j = Inr x4 \<Longrightarrow> tsSymbol x4 = sy"
  by (auto simp: readTrade_def readQuote_def readSummary_def readTimesale_def assign_def bindE_eq_Inr)

text \<open>\<open>delivers s s' p\<close>: at most one event was delivered, a market event with \<open>p\<close>, and nothing else of what the
  results below look at has changed.\<close>

definition delivers :: "StreamingImpl \<Rightarrow> StreamingImpl \<Rightarrow> (stream_event \<Rightarrow> bool) \<Rightarrow> bool" where
  "delivers s s' p \<longleftrightarrow>
     (\<exists>es. sEvents s' = sEvents s @ es \<and> length es \<le> 1 \<and> (\<forall>e \<in> set es. isMarketEvent e \<and> p e)) \<and>
     streamStats s' = streamStats s \<and> threadManager s' = threadManager s"

lemma delivers_refl [simp]: "delivers s s p"
  by (simp add: delivers_def)

lemma fire_delivers:
  assumes "bindIO (liftIO x) (fire h tag) w = Some (r, w')" "\<And>e. x = Inr e \<Longrightarrow> isMarketEvent (tag e) \<and> p (tag e)"
  shows "delivers (strm w) (strm w') p"
  using assms by (cases x) (auto simp: fire_def bindIO_def io_prims delivers_def)

lemma dispatch_delivers:
  assumes "dispatch J type sy json w = Some (r, w')"
  shows "delivers (strm w) (strm w') (\<lambda>e. eventSymbol e = sy)"
  using assms unfolding dispatch_def
  by (auto simp: io_prims read_symbol isMarketEvent_def eventSymbol_def split: bool.splits option.splits
      elim!: fire_delivers)

text \<open>The exchange of an event, if its kind has one.\<close>

definition eventExchange :: "stream_event \<Rightarrow> string" where
  "eventExchange e = (case e of OnTrade x \<Rightarrow> teExchange x | OnTimesale x \<Rightarrow> tsExchange x | _ \<Rightarrow> [])"

definition admitted :: "StreamingImpl \<Rightarrow> stream_event \<Rightarrow> bool" where
  "admitted s e \<longleftrightarrow>
     (symbolFilter s \<noteq> {} \<longrightarrow> eventSymbol e \<in> symbolFilter s) \<and>
     (exchangeFilter s \<noteq> {} \<longrightarrow> eventExchange e = [] \<or> eventExchange e \<in> exchangeFilter s)"

lemma read_exchange:
  "readTrade J t sy j = Inr x1 \<Longrightarrow> j_value_string J j ''exch'' [] = Inr (teExchange x1)"
  "readTimesale J t sy j = Inr x4 \<Longrightarrow> j_value_string J j ''exch'' [] = Inr (tsExchange x4)"
  by (auto simp: readTrade_def readTimesale_def assign_def bindE_eq_Inr jx_def map_sum_eq_Inr)

lemma dispatch_exchange:
  assumes "dispatch J type sy json w = Some (r, w')"
  shows "delivers (strm w) (strm w') (\<lambda>e. eventSymbol e = sy \<and>
    (eventExchange e = [] \<or> j_value_string J json ''exch'' [] = Inr (eventExchange e)))"
  using assms unfolding dispatch_def
  by (auto simp: io_prims read_symbol read_exchange isMarketEvent_def eventSymbol_def eventExchange_def
      split: bool.splits option.splits elim!: fire_delivers)

lemma delivers_weaken: "delivers s s' p \<Longrightarrow> (\<And>e. p e \<Longrightarrow> q e) \<Longrightarrow> delivers s s' q"
  unfolding delivers_def by blast

context json_lib
begin

lemma passes_admits:
  assumes "passes J s sy json = Inr True" "eventSymbol e = sy" "j_is_object J json"
    and "eventExchange e = [] \<or> j_value_string J json ''exch'' [] = Inr (eventExchange e)"
  shows "admitted s e"
proof (cases "j_contains J json ''exch''")
  case True
  then show ?thesis
    using assms value_string_object [OF assms(3), of "''exch''" "[]"]
    by (auto simp: passes_def admitted_def atE_def jx_def map_sum_eq_Inr bindE_eq_Inr split: if_splits sum.splits)
next
  case False
  then show ?thesis
    using assms value_string_object [OF assms(3), of "''exch''" "[]"] by (auto simp: passes_def admitted_def split: if_splits)
qed

lemma processEvent_delivers:
  assumes "processEvent J json w = Some (r, w')"
  shows "delivers (strm w) (strm w') (admitted (strm w))"
proof (cases "j_contains J json ''type''")
  case False
  then show ?thesis using assms by (auto simp: processEvent_def io_prims)
next
  case True
  then have obj: "j_is_object J json" by (rule contains_object)
  let ?type = "bindE (atE J json ''type'') (\<lambda>x. jx (j_string J x))"
  let ?sy = "jx (j_value_string J json ''symbol'' [])"
  consider "w' = w" | type sy where "?type = Inr type" "?sy = Inr sy" "passes J (strm w) sy json = Inr True"
      "catchIO (dispatch J type sy json) (\<lambda>e. reportError (''Event processing error: '' @ what e)) w = Some (r, w')"
    using assms True
    by (cases ?type; cases ?sy) (auto simp: processEvent_def bindIO_def io_prims split: sum.splits if_splits)
  then show ?thesis
  proof cases
    case 1
    then show ?thesis by simp
  next
    case 2
    obtain q v where d: "dispatch J type sy json w = Some (q, v)"
      using 2(4) by (auto simp: catchIO_def split: option.splits)
    have v: "delivers (strm w) (strm v) (admitted (strm w))"
      using delivers_weaken [OF dispatch_exchange [OF d]] passes_admits [OF 2(3) _ obj] by blast
    have "w' = v \<or> (\<exists>m. reportError m v = Some (r, w'))"
      using 2(4) d by (auto simp: catchIO_def split: sum.splits)
    then show ?thesis using v by (auto simp: delivers_def dest!: reportError_frame)
  qed
qed

end

lemma handleMessage_cases:
  assumes "handleMessage J n m w = Some (r, w')"
  obtains v v' q where
    "strm v = (strm w)\<lparr>streamStats := (streamStats (strm w))\<lparr>messagesReceived := messagesReceived (streamStats (strm w)) + 1,
        lastMessage := system_now n (calls w)\<rparr>\<rparr>"
    "bindIO (liftIO (jx (j_parse J m))) (processEvent J) v = Some (q, v')"
    "q = Inr () \<Longrightarrow> strm w' = streamStats_update (messagesProcessed_update (\<lambda>c. c + 1)) (strm v')"
    "\<And>e. q = Inl e \<Longrightarrow> reportError (''Message parsing error: '' @ what e)
        (onStream (streamStats_update (streamErrors_update (\<lambda>c. c + 1))) v') = Some (r, w')"
proof -
  define v where "v = onStream (streamStats_update (lastMessage_update (\<lambda>_. system_now n (calls w))))
    (tick (onStream (streamStats_update (messagesReceived_update (\<lambda>c. c + 1))) w))"
  have calls: "calls (onStream f w) = calls w" for f by (simp add: onStream_def)
  have body: "catchIO (bindIO (liftIO (jx (j_parse J m))) (\<lambda>json.
        bindIO (processEvent J json) (\<lambda>_. count_stream messagesProcessed_update)))
      (\<lambda>e. bindIO (count_stream streamErrors_update) (\<lambda>_. reportError (''Message parsing error: '' @ what e))) v = Some (r, w')"
    using assms by (simp add: handleMessage_def count_stream_def systemNow_def bindIO_def io_prims calls v_def)
  let ?m = "bindIO (liftIO (jx (j_parse J m))) (processEvent J)"
  from body have body: "catchIO (bindIO ?m (\<lambda>_. count_stream messagesProcessed_update))
      (\<lambda>e. bindIO (count_stream streamErrors_update) (\<lambda>_. reportError (''Message parsing error: '' @ what e))) v = Some (r, w')"
    by (simp only: bindIO_assoc)
  then obtain q v' where q: "?m v = Some (q, v')"
    by (cases "?m v") (auto simp: catchIO_def bindIO_def)
  show thesis
  proof (rule that [of v q v'])
    show "strm v = (strm w)\<lparr>streamStats := (streamStats (strm w))\<lparr>messagesReceived := messagesReceived (streamStats (strm w)) + 1,
        lastMessage := system_now n (calls w)\<rparr>\<rparr>"
      by (simp add: v_def)
    show "?m v = Some (q, v')" by (rule q)
    show "strm w' = streamStats_update (messagesProcessed_update (\<lambda>c. c + 1)) (strm v')" if "q = Inr ()"
      using body q that by (auto simp: catchIO_def bindIO_def [of ?m] count_stream_def io_prims)
    show "reportError (''Message parsing error: '' @ what e)
        (onStream (streamStats_update (streamErrors_update (\<lambda>c. c + 1))) v') = Some (r, w')" if "q = Inl e" for e
      using body q that by (auto simp: catchIO_def bindIO_def [of ?m] count_stream_def)
  qed
qed

text \<open>Handling a message always ends.\<close>

definition total :: "('w, 'e, 'a) io \<Rightarrow> bool" where
  "total m \<longleftrightarrow> (\<forall>w. m w \<noteq> None)"

lemma total_intros:
  "total m \<Longrightarrow> (\<And>x. total (f x)) \<Longrightarrow> total (bindIO m f)"
  "total m \<Longrightarrow> (\<And>e. total (h e)) \<Longrightarrow> total (catchIO m h)"
  "total (returnIO x)" "total (liftIO v)" "total (getIO g)" "total (modifyIO u)" "total (systemNow n)"
  "total m \<Longrightarrow> total m2 \<Longrightarrow> total (if b then m else m2)"
  by (fastforce simp: total_def bindIO_def catchIO_def io_prims systemNow_def split: option.splits sum.splits)+

lemma total_fire: "total (fire h tag e)"
  unfolding fire_def by (intro total_intros)

lemma total_reportError: "total (reportError m)"
  unfolding reportError_def
  by (intro total_intros) (auto split: option.splits intro!: total_intros)

lemma total_dispatch: "total (dispatch J type sy json)"
  unfolding dispatch_def
  by (intro total_intros) (auto split: bool.splits option.splits intro!: total_intros total_fire)

lemma total_handleMessage: "total (handleMessage J n m)"
  unfolding handleMessage_def processEvent_def count_stream_def
  by (intro total_intros total_dispatch total_reportError)

section \<open>Filters\<close>

text \<open>
  C22: A message leads to at most one event, and only to one that the filters admit: its symbol is in a
  symbol filter that is set, and its exchange in an exchange filter that is set or missing from the
  message. Only market events are ever delivered: the handlers for orders and positions, which
  \<open>subscribeToOrderEvents\<close> and \<open>subscribeToPositionEvents\<close> install, are never called.
\<close>

theorem stream_delivery_filtered:
  assumes "json_lib J" "handleMessage J n m w = Some (r, w')"
  shows "\<exists>es. sEvents (strm w') = sEvents (strm w) @ es \<and> length es \<le> 1 \<and>
    (\<forall>e \<in> set es. isMarketEvent e \<and> admitted (strm w) e)"
  using assms(2)
proof (rule handleMessage_cases)
  fix v q v'
  assume v: "strm v = (strm w)\<lparr>streamStats := (streamStats (strm w))\<lparr>messagesReceived := messagesReceived (streamStats (strm w)) + 1,
        lastMessage := system_now n (calls w)\<rparr>\<rparr>"
    and run: "bindIO (liftIO (jx (j_parse J m))) (processEvent J) v = Some (q, v')"
    and ok: "q = Inr () \<Longrightarrow> strm w' = streamStats_update (messagesProcessed_update (\<lambda>c. c + 1)) (strm v')"
    and bad: "\<And>e. q = Inl e \<Longrightarrow> reportError (''Message parsing error: '' @ what e)
        (onStream (streamStats_update (streamErrors_update (\<lambda>c. c + 1))) v') = Some (r, w')"
  have "delivers (strm v) (strm v') (admitted (strm v))"
    using run by (cases "jx (j_parse J m)") (auto simp: io_prims dest: json_lib.processEvent_delivers [OF assms(1)])
  moreover have "admitted (strm v) = admitted (strm w)" by (auto simp: fun_eq_iff admitted_def v)
  moreover have "sEvents (strm w') = sEvents (strm v')"
    using ok bad by (cases q) (auto dest!: reportError_frame)
  ultimately show ?thesis by (simp add: delivers_def v)
qed

definition quietStream :: "StreamingImpl \<Rightarrow> stream_world" where
  "quietStream s = \<lparr>calls = 0, sent = [], sleeps = [], waits = [], http = http (sampleClient 0), strm = s\<rparr>"

definition tradeDoc :: jval where
  "tradeDoc = JObj [(''type'', JStr ''trade''), (''symbol'', JStr ''AAPL''), (''exch'', JStr ''Q''), (''price'', JStr ''189''),
     (''size'', JNum (DFin 100))]"

definition filteredStream :: StreamingImpl where
  "filteredStream = newStreamingImpl\<lparr>tradeHandler := Some (\<lambda>_. Inr ()), symbolFilter := {''AAPL''}\<rparr>"

text \<open>Witness: a trade that the filter admits.\<close>

theorem stream_delivery_filtered_witness:
  "\<exists>r w' es. handleMessage (jref (\<lambda>_. Inr tradeDoc)) okNet [] (quietStream filteredStream) = Some (r, w') \<and>
     sEvents (strm w') = es \<and> length es \<le> 1 \<and> (\<forall>e \<in> set es. eventSymbol e = ''AAPL'')"
proof -
  have "handleMessage (jref (\<lambda>_. Inr tradeDoc)) okNet [] (quietStream filteredStream) \<noteq> None"
    using total_handleMessage unfolding total_def by blast
  then obtain r w' where run: "handleMessage (jref (\<lambda>_. Inr tradeDoc)) okNet [] (quietStream filteredStream) = Some (r, w')"
    by fastforce
  from stream_delivery_filtered [OF jr.json_lib_axioms this] show ?thesis
    using run by (auto simp: quietStream_def filteredStream_def newStreamingImpl_def admitted_def)
qed

section \<open>Statistics\<close>

lemma reportError_stats: "reportError m w = Some (r, w') \<Longrightarrow> streamStats (strm w') = streamStats (strm w)"
  by (auto dest: reportError_frame)

lemma processEvent_frame:
  assumes "processEvent J json w = Some (r, w')"
  shows "streamStats (strm w') = streamStats (strm w) \<and> threadManager (strm w') = threadManager (strm w)"
proof -
  have d: "streamStats (strm v') = streamStats (strm v) \<and> threadManager (strm v') = threadManager (strm v)"
    if "dispatch J type sy json v = Some (q, v')" for type sy v q v'
    using dispatch_delivers [OF that] by (simp add: delivers_def)
  show ?thesis
    using assms
    by (auto simp: processEvent_def bindIO_def catchIO_def io_prims split: sum.splits if_splits option.splits
        dest!: d reportError_frame)
qed

lemma handleMessage_threads:
  assumes "handleMessage J n m w = Some (r, w')"
  shows "threadManager (strm w') = threadManager (strm w)"
  using assms
proof (rule handleMessage_cases)
  fix v q v'
  assume v: "strm v = (strm w)\<lparr>streamStats := (streamStats (strm w))\<lparr>messagesReceived := messagesReceived (streamStats (strm w)) + 1,
        lastMessage := system_now n (calls w)\<rparr>\<rparr>"
    and run: "bindIO (liftIO (jx (j_parse J m))) (processEvent J) v = Some (q, v')"
    and ok: "q = Inr () \<Longrightarrow> strm w' = streamStats_update (messagesProcessed_update (\<lambda>c. c + 1)) (strm v')"
    and bad: "\<And>e. q = Inl e \<Longrightarrow> reportError (''Message parsing error: '' @ what e)
        (onStream (streamStats_update (streamErrors_update (\<lambda>c. c + 1))) v') = Some (r, w')"
  have "threadManager (strm v') = threadManager (strm v)"
    using run by (cases "jx (j_parse J m)") (auto simp: io_prims dest: processEvent_frame)
  then show ?thesis
    using ok bad by (cases q) (auto simp: v dest!: reportError_frame)
qed

text \<open>
  The counters are separate atomics, and other threads and the handlers themselves can call the service
  while a message is handled. \<open>count_step\<close> therefore takes a message in the steps in which the thread
  touches the statistics: it is counted as received, the time is stamped, the message is read and its
  event handled, and it is counted as processed or failed. Between these steps every other operation may
  happen, \<open>resetStatistics\<close> apart; the thread itself does not move on.
\<close>

datatype message_phase = NoMessage | Counted string | Stamped string | Handled "unit fallible"

definition stampMessage :: "net \<Rightarrow> ('z, unit) stream_io" where
  "stampMessage n =
     bindIO (systemNow n) (\<lambda>now. modifyIO (onStream (streamStats_update (lastMessage_update (\<lambda>_. now)))))"

definition readMessage :: "'j json_api \<Rightarrow> string \<Rightarrow> ('z, unit) stream_io" where
  "readMessage J message = bindIO (liftIO (jx (j_parse J message))) (processEvent J)"

definition settleMessage :: "unit fallible \<Rightarrow> ('z, unit) stream_io" where
  "settleMessage outcome =
     (case outcome of
        Inr _ \<Rightarrow> count_stream messagesProcessed_update
      | Inl e \<Rightarrow> bindIO (count_stream streamErrors_update) (\<lambda>_. reportError (''Message parsing error: '' @ what e)))"

inductive count_step ::
  "'j stream_params \<Rightarrow> 'z stream_world_scheme client_ops \<Rightarrow> message_phase \<times> 'z stream_world_scheme \<Rightarrow>
     message_phase \<times> 'z stream_world_scheme \<Rightarrow> bool"
  for P C where
  service: "service_step P C w w' \<Longrightarrow> count_step P C (ph, w) (ph, w')"
| io: "sConnection (strm w) = Some ws \<Longrightarrow> wsEvent e ws = Some ws' \<Longrightarrow> (\<And>m. e \<noteq> Message m) \<Longrightarrow>
    ph = NoMessage \<or> \<not> threadMove e \<Longrightarrow> count_step P C (ph, w) (ph, onStream (sConnection_update (\<lambda>_. Some ws')) w)"
| receive: "sConnection (strm w) = Some ws \<Longrightarrow> wsEvent (Message m) ws = Some ws' \<Longrightarrow> wsCallback ws \<Longrightarrow>
    count_stream messagesReceived_update (onStream (sConnection_update (\<lambda>_. Some ws')) w) = Some (r, w') \<Longrightarrow>
    count_step P C (NoMessage, w) (Counted m, w')"
| stamp: "stampMessage (p_net P) w = Some (r, w') \<Longrightarrow> count_step P C (Counted m, w) (Stamped m, w')"
| handle: "readMessage (p_json P) m w = Some (outcome, w') \<Longrightarrow> count_step P C (Stamped m, w) (Handled outcome, w')"
| settle: "settleMessage outcome w = Some (r, w') \<Longrightarrow> count_step P C (Handled outcome, w) (NoMessage, w')"

definition count_run ::
  "'j stream_params \<Rightarrow> 'z stream_world_scheme client_ops \<Rightarrow> message_phase \<times> 'z stream_world_scheme \<Rightarrow>
     message_phase \<times> 'z stream_world_scheme \<Rightarrow> bool" where
  "count_run P C = (count_step P C)\<^sup>*\<^sup>*"

text \<open>Without interruption the steps are \<open>handleMessage\<close>.\<close>

lemma handleMessage_steps:
  "handleMessage J n m =
     bindIO (count_stream messagesReceived_update) (\<lambda>_. bindIO (stampMessage n) (\<lambda>_.
       (\<lambda>w. Option.bind (readMessage J m w) (\<lambda>(outcome, w'). settleMessage outcome w'))))"
  unfolding handleMessage_def stampMessage_def readMessage_def bindIO_assoc
  by (rule arg_cong [where f = "bindIO (count_stream messagesReceived_update)"], rule ext,
      rule arg_cong [where f = "bindIO (systemNow n)"], rule ext,
      rule arg_cong [where f = "bindIO _"], rule ext, rule ext)
    (auto simp: bindIO_def catchIO_def count_stream_def settleMessage_def io_prims split: option.splits sum.splits)

lemma handleMessage_runs:
  assumes "sConnection (strm w) = Some ws" "wsEvent (Message m) ws = Some ws'" "wsCallback ws"
    and "handleMessage (p_json P) (p_net P) m (onStream (sConnection_update (\<lambda>_. Some ws')) w) = Some (r, w')"
  shows "count_run P C (NoMessage, w) (NoMessage, w')"
proof -
  let ?w = "onStream (sConnection_update (\<lambda>_. Some ws')) w"
  obtain w1 where w1: "count_stream messagesReceived_update ?w = Some (Inr (), w1)"
    by (simp add: count_stream_def io_prims)
  obtain w2 where w2: "stampMessage (p_net P) w1 = Some (Inr (), w2)"
    by (simp add: stampMessage_def systemNow_def bindIO_def io_prims)
  obtain outcome w3 where w3: "readMessage (p_json P) m w2 = Some (outcome, w3)" "settleMessage outcome w3 = Some (r, w')"
    using assms(4) w1 w2 by (auto simp: handleMessage_steps bindIO_def bind_eq_Some_conv split: option.splits)
  have "count_step P C (NoMessage, w) (Counted m, w1)" by (rule count_step.receive [OF assms(1-3) w1])
  moreover have "count_step P C (Counted m, w1) (Stamped m, w2)" by (rule count_step.stamp [OF w2])
  moreover have "count_step P C (Stamped m, w2) (Handled outcome, w3)" by (rule count_step.handle [OF w3(1)])
  moreover have "count_step P C (Handled outcome, w3) (NoMessage, w')" by (rule count_step.settle [OF w3(2)])
  ultimately show ?thesis unfolding count_run_def by (meson rtranclp.rtrancl_into_rtrancl rtranclp.rtrancl_refl)
qed

text \<open>The messages that are received and not yet counted as processed or failed.\<close>

definition inHand :: "message_phase \<Rightarrow> int" where
  "inHand ph = (if ph = NoMessage then 0 else 1)"

definition tally :: "StreamingImpl \<Rightarrow> int \<times> int" where
  "tally s = (messagesReceived (streamStats s) - messagesProcessed (streamStats s) - streamErrors (streamStats s),
     reconnects (streamStats s))"

interpretation tally: service_property "\<lambda>s. tally s = c" for c
  by unfold_locales (simp_all add: tally_def)

lemma settleMessage_tally:
  assumes "settleMessage outcome w = Some (r, w')"
  shows "fst (tally (strm w')) = fst (tally (strm w)) - 1 \<and> snd (tally (strm w')) = snd (tally (strm w))"
  using assms by (cases outcome)
    (auto simp: settleMessage_def count_stream_def bindIO_def io_prims tally_def dest!: reportError_frame)

lemma readMessage_stats:
  assumes "readMessage J m w = Some (outcome, w')"
  shows "streamStats (strm w') = streamStats (strm w)"
  using assms by (cases "jx (j_parse J m)") (auto simp: readMessage_def io_prims dest: processEvent_frame)

text \<open>What is received and neither settled nor in hand stays the same.\<close>

lemma count_step_tally:
  assumes "count_step P C (ph, w) (ph', w')" "keepsStream C"
  shows "fst (tally (strm w')) - inHand ph' = fst (tally (strm w)) - inHand ph \<and>
    snd (tally (strm w')) = snd (tally (strm w))"
  using assms(1)
proof cases
  case service
  then show ?thesis using tally.service_keeps [OF service(2) assms(2) refl] by simp
next
  case (settle outcome r)
  then show ?thesis using settleMessage_tally [OF settle(3)] by (simp add: inHand_def)
next
  case (handle m outcome)
  then show ?thesis using readMessage_stats [OF handle(3)] by (simp add: inHand_def tally_def)
qed (auto simp: tally_def inHand_def count_stream_def stampMessage_def systemNow_def bindIO_def io_prims)

lemma count_run_tally:
  assumes "count_run P C x y" "keepsStream C"
  shows "fst (tally (strm (snd y))) - inHand (fst y) = fst (tally (strm (snd x))) - inHand (fst x) \<and>
    snd (tally (strm (snd y))) = snd (tally (strm (snd x)))"
  using assms(1) unfolding count_run_def
proof (induction rule: rtranclp_induct)
  case (step y z)
  from count_step_tally [of P C "fst y" "snd y" "fst z" "snd z", OF _ assms(2)] step.hyps(2) step.IH
  show ?case by simp
qed simp

text \<open>
  C23: The counters of the stream add up at every moment, also in the middle of a message and whatever
  operations run between its steps: from a new service on, or from a \<open>resetStatistics\<close> on whose stores no
  step of a message interrupts, up to the next one, the messages received are those processed, those
  failed and the one in hand, less the message that was in hand when the reset happened. So a reset
  that falls into a message, as it does when a handler calls it, leaves the counters of received and
  settled messages apart by one for good. The number of reconnects stays 0, since nothing ever counts
  one.
\<close>

theorem stream_statistics_balance:
  assumes "strm w = newStreamingImpl \<and> ph = NoMessage \<or> streamResetStatistics w0 = Some (r, w)"
    and "count_run P (tradierClient n) (ph, w) (ph', w')"
  shows "messagesReceived (getSnapshot (strm w')) =
      messagesProcessed (getSnapshot (strm w')) + streamErrors (getSnapshot (strm w')) + inHand ph' - inHand ph \<and>
    reconnects (getSnapshot (strm w')) = 0"
proof -
  have "tally (strm w) = (0, 0)"
    using assms(1) by (auto simp: newStreamingImpl_def tally_def emptyStreamStatistics_def streamResetStatistics_def io_prims)
  then show ?thesis
    using count_run_tally [OF assms(2) tradierClient_keepsStream] by (simp add: tally_def getSnapshot_def)
qed

text \<open>Witness: statistics that are reset while a message is in hand.\<close>

theorem stream_statistics_balance_witness:
  "\<exists>w w'. streamResetStatistics (quietStream newStreamingImpl) = Some (Inr (), w) \<and>
     count_run \<lparr>p_json = jref (\<lambda>_. Inl []), p_beast = sampleBeast, p_config = defaultConfig, p_net = okNet,
       p_dump = (\<lambda>_. Inr [])\<rparr> (tradierClient okNet) (Handled (Inr ()), w) (NoMessage, w') \<and>
     messagesReceived (getSnapshot (strm w')) =
       messagesProcessed (getSnapshot (strm w')) + streamErrors (getSnapshot (strm w')) - 1"
proof -
  let ?P = "\<lparr>p_json = jref (\<lambda>_. Inl []), p_beast = sampleBeast, p_config = defaultConfig, p_net = okNet,
       p_dump = (\<lambda>_. Inr [])\<rparr>"
  obtain w where w: "streamResetStatistics (quietStream newStreamingImpl) = Some (Inr (), w)"
    by (simp add: streamResetStatistics_def io_prims)
  obtain w' where "settleMessage (Inr ()) w = Some (Inr (), w')"
    by (simp add: settleMessage_def count_stream_def io_prims)
  then have "count_step ?P (tradierClient okNet) (Handled (Inr ()), w) (NoMessage, w')" by (rule count_step.settle)
  then have run: "count_run ?P (tradierClient okNet) (Handled (Inr ()), w) (NoMessage, w')" unfolding count_run_def by blast
  from stream_statistics_balance [OF disjI2 [OF w] run] show ?thesis using w run by (auto simp: inHand_def)
qed

section \<open>The heartbeat\<close>

definition stopped :: "StreamingImpl \<Rightarrow> bool" where
  "stopped s \<longleftrightarrow> tmStop (threadManager s) \<and> tmThreads (threadManager s) = []"

interpretation stp: stream_property stopped
  by unfold_locales (simp_all add: stopped_def addThread_def stopThreads_def)

definition threadsOk :: "StreamingImpl \<Rightarrow> bool" where
  "threadsOk s \<longleftrightarrow> tmStop (threadManager s) \<longrightarrow> tmThreads (threadManager s) = []"

interpretation tok: stream_property threadsOk
  by unfold_locales (auto simp: threadsOk_def addThread_def stopThreads_def Let_def)

interpretation abt: stream_property sAborted
  by unfold_locales simp_all

lemma disconnect_stops:
  assumes "threadsOk (strm w)" "streamDisconnect env w = Some (r, w')"
  shows "stopped (strm w')"
proof -
  let ?w1 = "onStream (threadManager_update stopThreads) (onStream (sConnected_update (\<lambda>_. False)) w)"
  let ?tail = "bindIO (onConnection (\<lambda>ws. map_option (\<lambda>ws'. (Inr (), ws')) (wsDisconnect (env_close env) ws)))
      (\<lambda>_. dropConnection (env\<lparr>env_close := waiting []\<rparr>))"
  have tail: "stp.K ?tail" by (intro keeps_intros stp.K_onConnection stp.K_drop)
  have w1: "stopped (strm ?w1)" using assms(1) by (auto simp: stopped_def threadsOk_def stopThreads_def)
  have "?tail ?w1 = Some (r, w')" using assms(2) by (simp add: streamDisconnect_def)
  from stp.K_step [OF tail this w1] show ?thesis .
qed

definition noHeartbeat :: string where
  "noHeartbeat = ''Failed to start heartbeat thread''"

definition heartbeatMissing :: "(string \<Rightarrow> unit fallible) \<Rightarrow> StreamingImpl \<Rightarrow> bool" where
  "heartbeatMissing h s \<longleftrightarrow> stopped s \<and> errorHandler s = Some h \<and> (sConnected s \<longrightarrow> noHeartbeat \<in> set (sErrors s))"

lemma missing_blocks:
  fixes h defines "I \<equiv> \<lambda>w :: 'z stream_world_scheme. heartbeatMissing h (strm w)"
  shows "keeps I (reportError m)" "keeps I (dropConnection env)" "keeps I (onConnection f)"
    "keeps I (bindIO (modifyIO (onStream (sConnected_update (\<lambda>_. True)))) (\<lambda>_.
       bindIO (systemNow n) (\<lambda>now.
       bindIO (modifyIO (onStream (streamStats_update (connectionStart_update (\<lambda>_. now))))) (\<lambda>_. startHeartbeat env))))"
  unfolding I_def keepsIO_def heartbeatMissing_def stopped_def
  by (auto simp: reportError_def dropConnection_def onConnection_def bindIO_def io_prims systemNow_def
      startHeartbeat_def addThread_def noHeartbeat_def split: option.splits sum.splits)

lemma connect_missing: "keeps (\<lambda>w. heartbeatMissing h (strm w)) (streamConnect B cfg n env)"
  unfolding streamConnect_def
  by (rule missing_blocks keeps_prims | simp add: heartbeatMissing_def stopped_def)+

text \<open>
  Once \<open>disconnect\<close> has run, as it does at the start of \<open>reconnect\<close>, the service never has a heartbeat
  again: the manager of its threads stays stopped, no thread is ever added, and a \<open>connect\<close> that ends
  connected reports that the heartbeat could not be started.
\<close>

theorem no_heartbeat_after_disconnect:
  assumes "strm w0 = newStreamingImpl" "stream_run P (tradierClient n) w0 w"
    and "streamDisconnect env w = Some (r, w1)" "stream_run P (tradierClient n) w1 w2"
  shows "threadCount (threadManager (strm w2)) = 0 \<and>
    (\<forall>env r w3 h. streamConnect B cfg nt env w2 = Some (r, w3) \<longrightarrow> \<not> sConnected (strm w2) \<longrightarrow> sConnected (strm w3) \<longrightarrow>
       errorHandler (strm w2) = Some h \<longrightarrow>
       threadCount (threadManager (strm w3)) = 0 \<and> ''Failed to start heartbeat thread'' \<in> set (sErrors (strm w3)))"
proof -
  have "threadsOk (strm w0)" by (simp add: assms(1) threadsOk_def newStreamingImpl_def)
  moreover have "threadsOk (strm v')" if "threadsOk (strm v)" "handleMessage (p_json P) (p_net P) m v = Some (q, v')" for m v q v'
    using that handleMessage_threads [OF that(2)] by (simp add: threadsOk_def)
  ultimately have "threadsOk (strm w)" using tok.run_keeps [OF assms(2) tradierClient_keepsStream] by blast
  then have "stopped (strm w1)" using assms(3) by (rule disconnect_stops)
  moreover have "stopped (strm v')" if "stopped (strm v)" "handleMessage (p_json P) (p_net P) m v = Some (q, v')" for m v q v'
    using that handleMessage_threads [OF that(2)] by (simp add: stopped_def)
  ultimately have w2: "stopped (strm w2)" using stp.run_keeps [OF assms(4) tradierClient_keepsStream] by blast
  have "threadCount (threadManager (strm w3)) = 0 \<and> ''Failed to start heartbeat thread'' \<in> set (sErrors (strm w3))"
    if "streamConnect B cfg nt env w2 = Some (r, w3)" "\<not> sConnected (strm w2)" "sConnected (strm w3)"
      "errorHandler (strm w2) = Some h" for env r w3 h
  proof -
    have "heartbeatMissing h (strm w2)" using w2 that(2,4) by (simp add: heartbeatMissing_def)
    then have "heartbeatMissing h (strm w3)" by (rule keepsIO_D [OF connect_missing _ that(1)])
    then show ?thesis using that(3) by (simp add: heartbeatMissing_def stopped_def threadCount_def noHeartbeat_def)
  qed
  then show ?thesis using w2 by (auto simp: stopped_def threadCount_def)
qed

text \<open>Witness: a service that is disconnected before it ever connected.\<close>

theorem no_heartbeat_after_disconnect_witness:
  "\<exists>w1. streamDisconnect \<lparr>env_connect = waiting [], env_close = waiting [], env_write = None, env_spawn = True\<rparr> (quietStream newStreamingImpl) =
       Some (Inr (), w1) \<and> threadCount (threadManager (strm w1)) = 0"
proof -
  let ?env = "\<lparr>env_connect = waiting [], env_close = waiting [], env_write = None, env_spawn = True\<rparr>"
  let ?P = "\<lparr>p_json = jref (\<lambda>_. Inl []), p_beast = sampleBeast, p_config = defaultConfig, p_net = okNet, p_dump = (\<lambda>_. Inr [])\<rparr>"
  obtain w1 where w1: "streamDisconnect ?env (quietStream newStreamingImpl) = Some (Inr (), w1)"
    by (simp add: streamDisconnect_def onConnection_def dropConnection_def bindIO_def io_prims quietStream_def newStreamingImpl_def)
  have refl: "stream_run ?P (tradierClient okNet) w w" for w :: stream_world by (simp add: stream_run_def)
  have "strm (quietStream newStreamingImpl) = newStreamingImpl" by (simp add: quietStream_def)
  from no_heartbeat_after_disconnect [OF this refl w1 refl, of sampleBeast defaultConfig okNet]
  show ?thesis using w1 by blast
qed

section \<open>Connections that the service cannot let go\<close>

lemma drop_dead:
  assumes "sConnection (strm w) = Some ws" "dead ws" "\<not> wsConnecting ws"
  shows "dropConnection env w = Some (Inr (), onStream (\<lambda>s. s\<lparr>sConnection := None, sAborted := True\<rparr>) w)"
proof -
  have "wsDestroy (env_close env) ws = Some ProgramTerminated"
    using assms(2,3) by (simp add: wsDestroy_def wsDisconnect_def dead_def joinable_def)
  then show ?thesis using assms(1) by (simp add: dropConnection_def)
qed

text \<open>
  A server that closes the stream takes the program with it: the service does not notice and still
  calls itself connected, and the next \<open>disconnect\<close>, which the destructor of the service also runs, drops
  the dead WebSocket and thereby ends the program.
\<close>

theorem server_close_ends_program:
  assumes "sConnection (strm w) = Some ws" "wsThread ws = Blocked"
  shows "\<exists>w1. stream_run P C w w1 \<and> getConnectionStatus (strm w1) = getConnectionStatus (strm w) \<and>
    (\<forall>env. \<exists>w2. streamDisconnect env w1 = Some (Inr (), w2) \<and> sAborted (strm w2))"
proof -
  let ?ws1 = "ws\<lparr>wsOpen := False, wsThread := Closing\<rparr>"
  let ?ws2 = "(onClose ?ws1)\<lparr>wsThread := Finished\<rparr>"
  let ?w = "\<lambda>x. onStream (sConnection_update (\<lambda>_. Some x)) w"
  have set: "onStream (sConnection_update (\<lambda>_. Some y)) (?w x) = ?w y" for x y by (simp add: onStream_def)
  have "stream_step P C w (?w ?ws1)"
    by (rule stream_step.io [OF assms(1), of ReadFails]) (simp_all add: assms(2))
  moreover have "stream_step P C (?w ?ws1) (?w ?ws2)"
    using stream_step.io [of "?w ?ws1" ?ws1 Close ?ws2 P C] by (simp add: set)
  ultimately have run: "stream_run P C w (?w ?ws2)" unfolding stream_run_def by (meson rtranclp.rtrancl_into_rtrancl rtranclp.rtrancl_refl)
  have dead: "dead ?ws2" "\<not> wsConnecting ?ws2" by (simp_all add: dead_def onClose_def)
  have "\<exists>w2. streamDisconnect env (?w ?ws2) = Some (Inr (), w2) \<and> sAborted (strm w2)" for env
  proof -
    let ?v = "onStream (threadManager_update stopThreads) (onStream (sConnected_update (\<lambda>_. False)) (?w ?ws2))"
    have "wsDisconnect (env_close env) ?ws2 = Some ?ws2" using dead by (simp add: wsDisconnect_def dead_def)
    then have "streamDisconnect env (?w ?ws2) =
        dropConnection (env\<lparr>env_close := waiting []\<rparr>) (onStream (sConnection_update (\<lambda>_. Some ?ws2)) ?v)"
      by (simp add: streamDisconnect_def onConnection_def bindIO_def io_prims)
    then show ?thesis using drop_dead [of "onStream (sConnection_update (\<lambda>_. Some ?ws2)) ?v" ?ws2] dead by simp
  qed
  then show ?thesis using run by (intro exI [of _ "?w ?ws2"]) (simp add: getConnectionStatus_def)
qed

definition openStream :: StreamingImpl where
  "openStream = newStreamingImpl\<lparr>sConnection := Some openSocket, sConnected := True\<rparr>"

text \<open>Witness: a service on the open connection.\<close>

theorem server_close_ends_program_witness:
  "\<exists>w1. getConnectionStatus (strm w1) = ''Connected'' \<and>
     (\<forall>env. \<exists>w2. streamDisconnect env w1 = Some (Inr (), w2) \<and> sAborted (strm (w2 :: stream_world)))"
proof -
  have "sConnection (strm (quietStream openStream)) = Some openSocket" "wsThread openSocket = Blocked"
    "getConnectionStatus (strm (quietStream openStream)) = ''Connected''"
    by (simp_all add: quietStream_def openStream_def openSocket_def getConnectionStatus_def)
  then show ?thesis
    using server_close_ends_program [of "quietStream openStream" openSocket
        "\<lparr>p_json = jref (\<lambda>_. Inl []), p_beast = sampleBeast, p_config = defaultConfig, p_net = okNet, p_dump = (\<lambda>_. Inr [])\<rparr>"
        "tradierClient okNet"] by metis
qed

lemma connect_over_dead:
  assumes "\<not> sConnected (strm w)" "isActive (currentSession (strm w))" "sConnection (strm w) = Some old" "dead old" "\<not> wsConnecting old"
    and "clientConnect B cfg (endpointOf (sessionUrl (currentSession (strm w)))) (accessToken cfg) = Inr ws"
    and "streamConnect B cfg n env w = Some (r, w')"
  shows "sAborted (strm w')"
proof -
  let ?ab = "\<lambda>w. sAborted (strm w)"
  let ?w1 = "onStream (\<lambda>s. s\<lparr>sConnection := None, sAborted := True\<rparr>) w"
  obtain rest h where split: "streamConnect B cfg n env w = catchIO (bindIO (dropConnection env) (\<lambda>_. rest)) h w"
    and keeps: "keeps ?ab rest" "\<And>e. keeps ?ab (h e)"
  proof
    show "streamConnect B cfg n env w = catchIO (bindIO (dropConnection env) (\<lambda>_.
        bindIO (modifyIO (onStream (sConnection_update (\<lambda>_. Some (setMessageHandler True ws))))) (\<lambda>_.
        bindIO (onConnection (\<lambda>ws. Some (case setAuthToken (accessToken cfg) ws of
                  Inl e \<Rightarrow> (Inl e, ws) | Inr ws' \<Rightarrow> (Inr (), ws')))) (\<lambda>_.
        bindIO (onConnection (wsConnect (env_connect env))) (\<lambda>_.
        bindIO (modifyIO (onStream (sConnected_update (\<lambda>_. True)))) (\<lambda>_.
        bindIO (systemNow n) (\<lambda>now.
        bindIO (modifyIO (onStream (streamStats_update (connectionStart_update (\<lambda>_. now))))) (\<lambda>_.
          startHeartbeat env))))))))
        (\<lambda>e. bindIO (reportError (''Connection error: '' @ what e)) (\<lambda>_.
               modifyIO (onStream (sConnected_update (\<lambda>_. False))))) w"
      using assms(1,2,6) by (simp add: streamConnect_def bindIO_def [of "getIO strm"] getIO_def catchIO_def
          bindIO_def [of "liftIO (Inr ws)"] liftIO_def)
  qed (intro abt.K_blocks; simp)+
  have "keeps ?ab (catchIO rest h)" using keeps by (intro keeps_intros)
  moreover have "catchIO rest h ?w1 = Some (r, w')"
    using assms(7) drop_dead [OF assms(3-5), of env] by (simp add: split catchIO_def bindIO_def)
  moreover have "?ab ?w1" by simp
  ultimately show ?thesis by (metis keepsIO_D)
qed

text \<open>
  A failed \<open>connect\<close> leaves its dead WebSocket behind: the next \<open>connect\<close> of the service, made to try
  again, replaces it and ends the program, whatever happens on the network then.
\<close>

theorem retry_after_failed_connect_ends_program:
  assumes "\<not> sConnected (strm w)" "isActive (currentSession (strm w))" "sConnection (strm w) = None" "errorHandler (strm w) = None"
    and "clientConnect B cfg (endpointOf (sessionUrl (currentSession (strm w)))) (accessToken cfg) = Inr ws"
    and "env_connect env = waiting [HandshakeFails, Close]"
  shows "\<exists>w1. streamConnect B cfg n env w = Some (Inr (), w1) \<and> sAborted (strm w1) = sAborted (strm w) \<and>
    (\<forall>env2 r w2. streamConnect B cfg n env2 w1 = Some (r, w2) \<longrightarrow> sAborted (strm w2))"
proof -
  have fresh: "\<not> wsConnected ws" "\<not> wsConnecting ws" "wsThread ws = NoThread"
    using assms(5) by (cases "init_tls B"; auto simp: clientConnect_def newWebSocket_def bindE_eq_Inr)+
  define ws1 where "ws1 = ws\<lparr>wsCallback := True, wsAuthToken := accessToken cfg, wsShouldStop := False, wsStream := True, wsOpen := False,
    wsConnected := False, wsConnecting := False, wsThread := Finished\<rparr>"
  define w1 where "w1 = onStream (\<lambda>s. s\<lparr>sConnection := Some ws1, sConnected := False\<rparr>) w"
  have "wsConnect (env_connect env) (ws\<lparr>wsCallback := True, wsAuthToken := accessToken cfg\<rparr>) =
      Some (Inl (ConnectionError (''WebSocket connection error: '' @
        what (ConnectionError ''Failed to establish WebSocket connection within timeout''))), ws1)"
    using fresh by (simp add: connect_simps assms(6) ws1_def)
  then have "streamConnect B cfg n env w = Some (Inr (), w1)"
    using assms(1-5) fresh
    by (simp add: streamConnect_def dropConnection_def onConnection_def reportError_def setAuthToken_def setMessageHandler_def
        bindIO_def catchIO_def io_prims w1_def onStream_def)
  moreover have "sAborted (strm w2)" if "streamConnect B cfg n env2 w1 = Some (r, w2)" for env2 r w2
    by (rule connect_over_dead [OF _ _ _ _ _ _ that, of ws1 ws]) (use assms(2,5) in \<open>simp_all add: w1_def ws1_def dead_def\<close>)
  ultimately show ?thesis by (auto simp: w1_def)
qed

definition readyStream :: StreamingImpl where
  "readyStream = newStreamingImpl\<lparr>currentSession := \<lparr>sessionUrl = ''/markets/events'', sessionId = ''s1'', sessionExpires = 0,
     isActive = True\<rparr>\<rparr>"

text \<open>Witness: a new service with a session, whose first handshake is refused.\<close>

theorem retry_after_failed_connect_ends_program_witness:
  "\<exists>w1. streamConnect sampleBeast defaultConfig okNet
       \<lparr>env_connect = waiting [HandshakeFails, Close], env_close = waiting [], env_write = None, env_spawn = True\<rparr> (quietStream readyStream) =
       Some (Inr (), w1) \<and> \<not> sAborted (strm w1)"
proof -
  let ?cc = "clientConnect sampleBeast defaultConfig (endpointOf (sessionUrl (currentSession readyStream))) (accessToken defaultConfig)"
  obtain ws where "?cc = Inr ws"
    by (cases ?cc) (auto simp: clientConnect_def newWebSocket_def parseUrl_def sampleBeast_def)
  moreover have "strm (quietStream readyStream) = readyStream" "\<not> sConnected readyStream" "isActive (currentSession readyStream)"
    "sConnection readyStream = None" "errorHandler readyStream = None" "\<not> sAborted readyStream"
    by (simp_all add: quietStream_def readyStream_def newStreamingImpl_def)
  ultimately show ?thesis
    using retry_after_failed_connect_ends_program [of "quietStream readyStream" sampleBeast defaultConfig ws
        "\<lparr>env_connect = waiting [HandshakeFails, Close], env_close = waiting [], env_write = None, env_spawn = True\<rparr>" okNet] by auto
qed

end
