(* ===== verification/Websocket_Handle.thy ===== *)
theory Websocket_Handle
  imports Websocket
begin

text \<open>
  \<^verbatim>\<open>websocket_client.cpp\<close>: \<open>WebSocketConnection\<close>, the handle that owns a \<open>WebSocketImpl\<close>. A handle is \<open>None\<close> after
  its contents were moved away. The schedule of what happens during an operation is its argument, as
  in the theory of the implementation.
\<close>

section \<open>Operations\<close>

type_synonym WebSocketConnection = "WebSocketImpl option"

definition connectionConnect ::
  "schedule \<Rightarrow> WebSocketConnection \<Rightarrow> (unit fallible \<times> WebSocketConnection) option" where
  "connectionConnect evs c =
     (case c of None \<Rightarrow> Some (Inr (), None) | Some ws \<Rightarrow> map_option (map_prod id Some) (wsConnect evs ws))"

definition connectionDisconnect :: "schedule \<Rightarrow> WebSocketConnection \<Rightarrow> WebSocketConnection option" where
  "connectionDisconnect evs c = (case c of None \<Rightarrow> Some None | Some ws \<Rightarrow> map_option Some (wsDisconnect evs ws))"

definition connectionSend ::
  "string option \<Rightarrow> string \<Rightarrow> WebSocketConnection \<Rightarrow> unit fallible \<times> WebSocketConnection" where
  "connectionSend outcome msg c =
     (case c of
        None \<Rightarrow> (Inl (ConnectionError ''WebSocket connection not initialized''), None)
      | Some ws \<Rightarrow> map_prod id Some (wsSend outcome msg ws))"

definition connectionSetMessageHandler :: "bool \<Rightarrow> WebSocketConnection \<Rightarrow> WebSocketConnection" where
  "connectionSetMessageHandler cb c = map_option (setMessageHandler cb) c"

definition connectionSetAuthToken :: "string \<Rightarrow> WebSocketConnection \<Rightarrow> WebSocketConnection fallible" where
  "connectionSetAuthToken token c =
     (case c of None \<Rightarrow> Inr None | Some ws \<Rightarrow> map_sum id Some (setAuthToken token ws))"

definition connectionIsConnected :: "WebSocketConnection \<Rightarrow> bool" where
  "connectionIsConnected c = (case c of None \<Rightarrow> False | Some ws \<Rightarrow> wsIsConnected ws)"

text \<open>The move constructor: the new handle and what is left of the other.\<close>

definition moveConnection :: "WebSocketConnection \<Rightarrow> WebSocketConnection \<times> WebSocketConnection" where
  "moveConnection other = (other, None)"

text \<open>
  The end of the owned object after \<open>disconnect\<close>; its destructor calls \<open>disconnect\<close> again, with the schedule \<open>evs2\<close>.
\<close>

definition destroyConnection :: "schedule \<Rightarrow> schedule \<Rightarrow> WebSocketConnection \<Rightarrow> destruction option" where
  "destroyConnection evs evs2 c =
     Option.bind (connectionDisconnect evs c)
       (\<lambda>c'. case c' of None \<Rightarrow> Some Destroyed | Some ws \<Rightarrow> wsDestroy evs2 ws)"

text \<open>
  Move assignment from another handle: the old object ends as in the destructor, and \<open>Inl\<close> is the end of the
  program. A handle assigned to itself keeps everything.
\<close>

definition assignConnection ::
  "bool \<Rightarrow> schedule \<Rightarrow> schedule \<Rightarrow> WebSocketConnection \<Rightarrow> WebSocketConnection \<Rightarrow>
     (destruction + WebSocketConnection \<times> WebSocketConnection) option" where
  "assignConnection same evs evs2 c other =
     (if same then Some (Inr (c, c))
      else map_option (\<lambda>d. if d = ProgramTerminated then Inl d else Inr (moveConnection other))
             (destroyConnection evs evs2 c))"

section \<open>Properties\<close>

lemma disconnect_idle:
  assumes "wsDisconnect evs ws = Some ws'"
  shows "wsDisconnect evs2 ws' = Some ws'"
  using assms by (cases rule: wsDisconnect_cases) (simp_all add: wsDisconnect_def joined_def)

text \<open>Disconnecting twice, as the destructors do, is like disconnecting once.\<close>

lemma destroyConnection_once: "destroyConnection evs evs2 (Some ws) = wsDestroy evs ws"
proof (cases "wsDisconnect evs ws")
  case (Some ws')
  then show ?thesis
    using disconnect_idle [OF Some, of evs2] by (simp add: destroyConnection_def connectionDisconnect_def wsDestroy_def)
qed (simp add: destroyConnection_def connectionDisconnect_def wsDestroy_def)

text \<open>
  A handle keeps or hands over its connection: moving and moving back changes nothing, a handle that was moved from
  ignores every call but \<open>send\<close>, which throws, and dies at once. A handle of a live connection that is assigned to
  closes that connection in order and takes the other over.
\<close>

lemma moved_from_handle:
  "fst (moveConnection c) = c"
  "connectionConnect evs (snd (moveConnection c)) = Some (Inr (), None)"
  "connectionDisconnect evs (snd (moveConnection c)) = Some None"
  "connectionSend outcome msg (snd (moveConnection c)) =
     (Inl (ConnectionError ''WebSocket connection not initialized''), None)"
  "connectionSetAuthToken token (snd (moveConnection c)) = Inr None"
  "\<not> connectionIsConnected (snd (moveConnection c))"
  "destroyConnection evs evs2 (snd (moveConnection c)) = Some Destroyed"
  by (simp_all add: moveConnection_def connectionConnect_def connectionDisconnect_def connectionSend_def
      connectionSetAuthToken_def connectionIsConnected_def destroyConnection_def)

theorem assign_live_handle:
  assumes "wsConnected ws" "wsDisconnect evs ws = Some ws'"
  shows "assignConnection False evs evs2 (Some ws) other = Some (Inr (other, None))"
proof -
  from assms(2) obtain ws3 where "ws' = joined ws3"
    using assms(1) by (cases rule: wsDisconnect_cases) auto
  then show ?thesis
    using assms(2) by (simp add: assignConnection_def destroyConnection_once wsDestroy_def joined_def joinable_def moveConnection_def)
qed

end
