(* ===== verification/Thread_Pool.thy ===== *)
theory Thread_Pool
  imports Api_Result "HOL-Library.Multiset"
begin

text \<open>
  \<^verbatim>\<open>common/async.hpp\<close>: \<open>ThreadPool\<close>. The pool's state is the record \<open>ThreadPool\<close> with one entry of \<open>workers\<close> per
  thread: a worker is about to lock the queue and test the condition (\<open>Awake\<close>), blocked in the condition
  variable (\<open>Asleep\<close>), executing a task, or gone. \<open>notices\<close> counts the calls of \<open>notify_one\<close> that callers of
  \<open>enqueue\<close> still have to make after they released the lock, \<open>noticeAll\<close> is the pending \<open>notify_all\<close> of
  \<open>shutdown\<close>. Each function is one critical section or one notification. A step of the threads is a
  \<open>pool_step\<close> or the \<open>spurious\<close> wake-up of a sleeper, which the standard allows and nothing may rely on; the
  world \<open>'w\<close> may change at any time.

  A task is a stateful computation; \<open>None\<close> means that it cannot finish in the given world, as when it
  waits for a future, and its effects take place when it finishes. Tasks do not submit tasks.
\<close>

section \<open>State and operations\<close>

type_synonym 'w task = "('w, exn, unit) io"

datatype 't worker = is_awake: Awake | is_asleep: Asleep | is_running: Running (work: 't) | is_exited: Exited

record 't ThreadPool =
  tasks :: "'t list"
  workers :: "'t worker list"
  stopped :: bool
  initialized :: bool
  notices :: nat
  noticeAll :: bool

definition newThreadPool :: "nat \<Rightarrow> 't ThreadPool" where
  "newThreadPool numThreads =
     (let numThreads = (if numThreads = 0 then 1 else numThreads)
      in \<lparr>tasks = [], workers = replicate numThreads Awake, stopped = False, initialized = True,
          notices = 0, noticeAll = False\<rparr>)"

text \<open>One turn of the loop of worker \<open>i\<close> under the lock, up to the wait, the task or the return.\<close>

definition workerTurn :: "nat \<Rightarrow> 't ThreadPool \<Rightarrow> 't ThreadPool option" where
  "workerTurn i p =
     (if i < length (workers p) \<and> is_awake (workers p ! i) then
        Some (
          if \<not> (stopped p \<or> tasks p \<noteq> []) then p\<lparr>workers := (workers p)[i := Asleep]\<rparr>
          else if stopped p \<and> tasks p = [] then p\<lparr>workers := (workers p)[i := Exited]\<rparr>
          else p\<lparr>tasks := tl (tasks p), workers := (workers p)[i := Running (hd (tasks p))]\<rparr>)
      else None)"

definition workerWakes :: "nat \<Rightarrow> 't ThreadPool \<Rightarrow> 't ThreadPool option" where
  "workerWakes i p =
     (if i < length (workers p) \<and> is_asleep (workers p ! i) then Some (p\<lparr>workers := (workers p)[i := Awake]\<rparr>)
      else None)"

text \<open>\<open>task()\<close>, whose exceptions are swallowed; the task and the next state of the pool.\<close>

definition workerFinishes :: "nat \<Rightarrow> 't ThreadPool \<Rightarrow> ('t \<times> 't ThreadPool) option" where
  "workerFinishes i p =
     (if i < length (workers p) \<and> is_running (workers p ! i)
      then Some (work (workers p ! i), p\<lparr>workers := (workers p)[i := Awake]\<rparr>) else None)"

definition enqueueTask :: "'t \<Rightarrow> 't ThreadPool \<Rightarrow> unit fallible \<times> 't ThreadPool" where
  "enqueueTask t p =
     (if stopped p then (Inl (RuntimeError ''ThreadPool is stopped''), p)
      else (Inr (), p\<lparr>tasks := tasks p @ [t], notices := Suc (notices p)\<rparr>))"

text \<open>\<open>notify_one\<close> wakes one sleeper \<open>i\<close>, if there is any.\<close>

definition notifyOne :: "nat \<Rightarrow> 't ThreadPool \<Rightarrow> 't ThreadPool option" where
  "notifyOne i p =
     (if notices p = 0 then None
      else if list_ex is_asleep (workers p) then
        map_option (\<lambda>q. q\<lparr>notices := notices p - 1\<rparr>) (workerWakes i p)
      else Some (p\<lparr>notices := notices p - 1\<rparr>))"

definition awaken :: "'t worker \<Rightarrow> 't worker" where
  "awaken x = (if is_asleep x then Awake else x)"

definition notifyAll :: "'t ThreadPool \<Rightarrow> 't ThreadPool option" where
  "notifyAll p =
     (if noticeAll p
      then Some (p\<lparr>workers := map awaken (workers p), noticeAll := False\<rparr>)
      else None)"

definition beginShutdown :: "'t ThreadPool \<Rightarrow> 't ThreadPool" where
  "beginShutdown p = (if \<not> initialized p then p else p\<lparr>stopped := True, noticeAll := True\<rparr>)"

text \<open>The rest of \<open>shutdown\<close>, which \<open>join\<close> lets run when every worker has returned.\<close>

definition endShutdown :: "'t ThreadPool \<Rightarrow> 't ThreadPool option" where
  "endShutdown p = (if list_all is_exited (workers p) then Some (p\<lparr>tasks := []\<rparr>) else None)"

definition queueSize :: "'t ThreadPool \<Rightarrow> nat" where
  "queueSize p = length (tasks p)"

definition poolIsActive :: "'t ThreadPool \<Rightarrow> bool" where
  "poolIsActive p \<longleftrightarrow> initialized p \<and> \<not> stopped p"

section \<open>Steps and runs\<close>

inductive pool_step :: "'w task ThreadPool \<times> 'w \<Rightarrow> 'w task ThreadPool \<times> 'w \<Rightarrow> bool" where
  turn: "workerTurn i p = Some p' \<Longrightarrow> pool_step (p, w) (p', w)"
| notice: "notifyOne i p = Some p' \<Longrightarrow> pool_step (p, w) (p', w)"
| notice_all: "notifyAll p = Some p' \<Longrightarrow> pool_step (p, w) (p', w)"
| finish: "workerFinishes i p = Some (t, p') \<Longrightarrow> t w = Some (r, w') \<Longrightarrow> pool_step (p, w) (p', w')"

inductive spurious :: "'w task ThreadPool \<times> 'w \<Rightarrow> 'w task ThreadPool \<times> 'w \<Rightarrow> bool" where
  wakes: "workerWakes i p = Some p' \<Longrightarrow> spurious (p, w) (p', w)"

inductive_cases pool_stepE [elim]: "pool_step (p, w) (p', w')"
inductive_cases spuriousE [elim]: "spurious (p, w) (p', w')"

text \<open>
  \<open>pool_run n acc begun fin p w\<close>: a pool of \<open>n\<close> threads has come to the state \<open>p\<close> and the world to \<open>w\<close> after
  \<open>enqueue\<close> accepted the tasks \<open>acc\<close>, workers took the tasks \<open>begun\<close> and finished the tasks \<open>fin\<close>, in this order.
\<close>

inductive pool_run ::
  "nat \<Rightarrow> 'w task list \<Rightarrow> 'w task list \<Rightarrow> 'w task list \<Rightarrow> 'w task ThreadPool \<Rightarrow> 'w \<Rightarrow> bool" for n where
  start: "pool_run n [] [] [] (newThreadPool n) w"
| other: "pool_run n acc begun fin p w \<Longrightarrow> pool_run n acc begun fin p w'"
| submit: "pool_run n acc begun fin p w \<Longrightarrow> enqueueTask t p = (r, p') \<Longrightarrow>
    pool_run n (if r = Inr () then acc @ [t] else acc) begun fin p' w"
| shutdown: "pool_run n acc begun fin p w \<Longrightarrow> pool_run n acc begun fin (beginShutdown p) w"
| turn: "pool_run n acc begun fin p w \<Longrightarrow> workerTurn i p = Some p' \<Longrightarrow>
    pool_run n acc (begun @ take (length (tasks p) - length (tasks p')) (tasks p)) fin p' w"
| wakes: "pool_run n acc begun fin p w \<Longrightarrow> workerWakes i p = Some p' \<Longrightarrow> pool_run n acc begun fin p' w"
| notice: "pool_run n acc begun fin p w \<Longrightarrow> notifyOne i p = Some p' \<Longrightarrow> pool_run n acc begun fin p' w"
| notice_all: "pool_run n acc begun fin p w \<Longrightarrow> notifyAll p = Some p' \<Longrightarrow> pool_run n acc begun fin p' w"
| finish: "pool_run n acc begun fin p w \<Longrightarrow> workerFinishes i p = Some (t, p') \<Longrightarrow> t w = Some (r, w') \<Longrightarrow>
    pool_run n acc begun (fin @ [t]) p' w'"

section \<open>The invariant\<close>

definition runningTasks :: "'t ThreadPool \<Rightarrow> 't multiset" where
  "runningTasks p = image_mset work (filter_mset is_running (mset (workers p)))"

definition awakeCount :: "'t ThreadPool \<Rightarrow> nat" where
  "awakeCount p = size (filter_mset is_awake (mset (workers p)))"

text \<open>No worker sleeps while there is a task for it, and none is left behind at the end.\<close>

definition workConserving :: "'t ThreadPool \<Rightarrow> bool" where
  "workConserving p \<longleftrightarrow>
     (list_ex is_asleep (workers p) \<longrightarrow> length (tasks p) \<le> awakeCount p + notices p \<and> (stopped p \<longrightarrow> noticeAll p)) \<and>
     (list_ex is_exited (workers p) \<longrightarrow> stopped p \<and> tasks p = [])"

definition pool_ok :: "nat \<Rightarrow> 't list \<Rightarrow> 't list \<Rightarrow> 't list \<Rightarrow> 't ThreadPool \<Rightarrow> bool" where
  "pool_ok n acc begun fin p \<longleftrightarrow>
     length (workers p) = max 1 n \<and> initialized p \<and>
     begun @ tasks p = acc \<and> mset begun = mset fin + runningTasks p \<and> workConserving p"

text \<open>What replacing one worker does to the counts.\<close>

lemma mset_update_nth: "i < length xs \<Longrightarrow> mset (xs[i := y]) = add_mset y (mset xs - {#xs ! i#})"
  by (simp add: mset_update)

lemma filter_update:
  assumes "i < length xs"
  shows "filter_mset P (mset (xs[i := y])) =
    (if P y then {#y#} else {#}) + (filter_mset P (mset xs) - (if P (xs ! i) then {#xs ! i#} else {#}))"
  using assms by (simp add: mset_update_nth)

lemma workers_update:
  assumes "i < length (workers p)"
  shows "runningTasks (p\<lparr>workers := (workers p)[i := x]\<rparr>) =
      (if is_running x then {#work x#} else {#}) + (runningTasks p - (if is_running (workers p ! i) then {#work (workers p ! i)#} else {#}))"
    and "awakeCount (p\<lparr>workers := (workers p)[i := x]\<rparr>) =
      (if is_awake x then 1 else 0) + (awakeCount p - (if is_awake (workers p ! i) then 1 else 0))"
  using assms nth_mem [OF assms]
  by (auto simp: runningTasks_def awakeCount_def filter_update image_mset_Diff size_Diff_singleton_if)

lemma running_member: "i < length (workers p) \<Longrightarrow> is_running (workers p ! i) \<Longrightarrow> work (workers p ! i) \<in># runningTasks p"
  by (auto simp: runningTasks_def)

lemma awake_member: "i < length (workers p) \<Longrightarrow> is_awake (workers p ! i) \<Longrightarrow> 0 < awakeCount p"
  using nth_mem [of i "workers p"] by (auto simp: awakeCount_def nonempty_has_size [symmetric] filter_mset_eq_conv)

lemma ex_update:
  assumes "list_ex P (xs[i := y])"
  shows "list_ex P xs \<or> P y"
  using assms set_update_subset_insert [of xs i y] by (auto simp: list_ex_iff)

lemma frame_updates [simp]:
  "runningTasks (p\<lparr>tasks := ts\<rparr>) = runningTasks p" "runningTasks (p\<lparr>notices := k\<rparr>) = runningTasks p"
  "runningTasks (p\<lparr>stopped := b\<rparr>) = runningTasks p" "runningTasks (p\<lparr>noticeAll := b\<rparr>) = runningTasks p"
  "awakeCount (p\<lparr>tasks := ts\<rparr>) = awakeCount p" "awakeCount (p\<lparr>notices := k\<rparr>) = awakeCount p"
  "awakeCount (p\<lparr>stopped := b\<rparr>) = awakeCount p" "awakeCount (p\<lparr>noticeAll := b\<rparr>) = awakeCount p"
  by (simp_all add: runningTasks_def awakeCount_def)


lemma pool_ok_start: "pool_ok n [] [] [] (newThreadPool n)"
  by (auto simp: pool_ok_def newThreadPool_def workConserving_def runningTasks_def Let_def list_ex_iff split: if_splits)

lemma pool_ok_enqueue:
  assumes "pool_ok n acc begun fin p" "enqueueTask t p = (r, p')"
  shows "pool_ok n (if r = Inr () then acc @ [t] else acc) begun fin p'"
  using assms by (auto simp: pool_ok_def enqueueTask_def workConserving_def split: if_splits)

lemma pool_ok_shutdown: "pool_ok n acc begun fin p \<Longrightarrow> pool_ok n acc begun fin (beginShutdown p)"
  by (auto simp: pool_ok_def beginShutdown_def workConserving_def)

lemma pool_ok_turn:
  assumes "pool_ok n acc begun fin p" "workerTurn i p = Some p'"
  shows "pool_ok n acc (begun @ take (length (tasks p) - length (tasks p')) (tasks p)) fin p'"
proof -
  have i: "i < length (workers p)" "is_awake (workers p ! i)" using assms(2) by (auto simp: workerTurn_def split: if_splits)
  then have nr: "\<not> is_running (workers p ! i)" "0 < awakeCount p" by (auto dest: worker.distinct_disc awake_member)
  consider "\<not> stopped p" "tasks p = []" "p' = p\<lparr>workers := (workers p)[i := Asleep]\<rparr>"
    | "stopped p" "tasks p = []" "p' = p\<lparr>workers := (workers p)[i := Exited]\<rparr>"
    | t ts where "tasks p = t # ts" "p' = p\<lparr>workers := (workers p)[i := Running t]\<rparr>\<lparr>tasks := ts\<rparr>"
    using assms(2) i by (cases "tasks p"; cases "stopped p") (auto simp: workerTurn_def)
  then show ?thesis
  proof cases
    case 1
    then show ?thesis using assms(1) i nr
      by (auto simp: pool_ok_def workConserving_def workers_update dest!: ex_update)
  next
    case 2
    then show ?thesis using assms(1) i nr
      by (auto simp: pool_ok_def workConserving_def workers_update dest!: ex_update)
  next
    case 3
    then show ?thesis using assms(1) i nr
      by (auto simp: pool_ok_def workConserving_def workers_update dest!: ex_update)
  qed
qed

lemma pool_ok_wakes:
  assumes "pool_ok n acc begun fin p" "workerWakes i p = Some p'"
  shows "pool_ok n acc begun fin p'" "awakeCount p' = Suc (awakeCount p)" "list_ex is_exited (workers p') \<Longrightarrow> list_ex is_exited (workers p)"
proof -
  have i: "i < length (workers p)" "is_asleep (workers p ! i)" "p' = p\<lparr>workers := (workers p)[i := Awake]\<rparr>"
    using assms(2) by (auto simp: workerWakes_def split: if_splits)
  then have "\<not> is_running (workers p ! i)" "\<not> is_awake (workers p ! i)" by (auto dest: worker.distinct_disc)
  then show "pool_ok n acc begun fin p'" "awakeCount p' = Suc (awakeCount p)" "list_ex is_exited (workers p') \<Longrightarrow> list_ex is_exited (workers p)"
    using assms(1) i by (auto simp: pool_ok_def workConserving_def workers_update dest!: ex_update)
qed


lemma pool_ok_notice:
  assumes "pool_ok n acc begun fin p" "notifyOne i p = Some p'"
  shows "pool_ok n acc begun fin p'"
proof (cases "list_ex is_asleep (workers p)")
  case True
  then obtain q where q: "workerWakes i p = Some q" "p' = q\<lparr>notices := notices p - 1\<rparr>" "notices p \<noteq> 0"
    using assms(2) by (auto simp: notifyOne_def split: if_splits)
  have same: "tasks q = tasks p" "stopped q = stopped p" "noticeAll q = noticeAll p"
    using q(1) by (auto simp: workerWakes_def split: if_splits)
  have "length (tasks p) \<le> awakeCount p + notices p" using True assms(1) by (simp add: pool_ok_def workConserving_def)
  then show ?thesis
    using pool_ok_wakes [OF assms(1) q(1)] q(2,3) same by (auto simp: pool_ok_def workConserving_def)
next
  case False
  then show ?thesis
    using assms by (auto simp: notifyOne_def pool_ok_def workConserving_def split: if_splits)
qed

lemma awaken_disc [simp]:
  "is_running (awaken x) = is_running x" "is_exited (awaken x) = is_exited x" "\<not> is_asleep (awaken x)"
  "is_running x \<Longrightarrow> work (awaken x) = work x"
  by (cases x; simp add: awaken_def)+

lemma running_awaken:
  "image_mset work (filter_mset is_running (image_mset awaken (mset xs))) = image_mset work (filter_mset is_running (mset xs))"
  by (induction xs) auto

lemma pool_ok_notice_all:
  assumes "pool_ok n acc begun fin p" "notifyAll p = Some p'"
  shows "pool_ok n acc begun fin p'"
proof -
  have p': "p' = p\<lparr>workers := map awaken (workers p), noticeAll := False\<rparr>"
    using assms(2) by (auto simp: notifyAll_def split: if_splits)
  then have "runningTasks p' = runningTasks p" "list_ex is_exited (workers p') = list_ex is_exited (workers p)"
    "\<not> list_ex is_asleep (workers p')"
    by (simp_all add: running_awaken awaken_disc list_ex_iff runningTasks_def)
  then show ?thesis using assms(1) by (simp add: pool_ok_def workConserving_def p')
qed

lemma pool_ok_finish:
  assumes "pool_ok n acc begun fin p" "workerFinishes i p = Some (t, p')"
  shows "pool_ok n acc begun (fin @ [t]) p'"
proof -
  have i: "i < length (workers p)" "is_running (workers p ! i)" "t = work (workers p ! i)"
      "p' = p\<lparr>workers := (workers p)[i := Awake]\<rparr>"
    using assms(2) by (auto simp: workerFinishes_def split: if_splits)
  then have "\<not> is_awake (workers p ! i)" "t \<in># runningTasks p" by (auto dest: worker.distinct_disc running_member)
  then show ?thesis
    using assms(1) i by (auto simp: pool_ok_def workConserving_def workers_update dest!: ex_update)
qed

lemma pool_run_ok: "pool_run n acc begun fin p w \<Longrightarrow> pool_ok n acc begun fin p"
  by (induction rule: pool_run.induct)
    (blast intro: pool_ok_start pool_ok_enqueue pool_ok_shutdown pool_ok_turn pool_ok_wakes pool_ok_notice
      pool_ok_notice_all pool_ok_finish)+


text \<open>
  C11: In every interleaving of callers, workers, notifications and spurious wake-ups the pool loses no
  task and wastes no worker. Tasks are begun in the order in which they were accepted, each at most once;
  those begun are finished or running, on at most as many workers as the pool has. As long as a worker
  sleeps, every queued task has an awake worker or a notification on its way, and no worker is gone before
  the pool is stopped and its queue empty.
\<close>

theorem pool_conserves_work:
  assumes "pool_run n acc begun fin p w"
  shows "begun @ tasks p = acc \<and> mset begun = mset fin + runningTasks p \<and> size (runningTasks p) \<le> max 1 n \<and>
    (list_ex is_asleep (workers p) \<longrightarrow> length (tasks p) \<le> awakeCount p + notices p \<and> (stopped p \<longrightarrow> noticeAll p)) \<and>
    (list_ex is_exited (workers p) \<longrightarrow> stopped p \<and> tasks p = [])"
proof -
  have ok: "pool_ok n acc begun fin p" using assms by (rule pool_run_ok)
  have "size (runningTasks p) \<le> size (mset (workers p))"
    unfolding runningTasks_def by (simp only: size_image_mset) (rule size_filter_mset_lesseq)
  then show ?thesis using ok by (simp add: pool_ok_def workConserving_def)
qed

definition idleTask :: "'w task" where
  "idleTask = returnIO ()"

text \<open>Witness: one worker that has fallen asleep when a task arrives.\<close>

lemma sleepy_run:
  "pool_run 1 [idleTask] [] [] \<lparr>tasks = [idleTask], workers = [Asleep], stopped = False, initialized = True,
     notices = 1, noticeAll = False\<rparr> (w :: 'w)"
proof -
  have "pool_run 1 [] [] [] \<lparr>tasks = [], workers = [Asleep], stopped = False, initialized = True,
      notices = 0, noticeAll = False\<rparr> w"
    using pool_run.turn [OF pool_run.start [of 1 w], of 0] by (simp add: newThreadPool_def workerTurn_def)
  from pool_run.submit [OF this, of idleTask] show ?thesis by (simp add: enqueueTask_def)
qed

theorem pool_conserves_work_witness:
  "length (tasks \<lparr>tasks = [idleTask :: unit task], workers = [Asleep], stopped = False, initialized = True,
     notices = 1, noticeAll = False\<rparr>) \<le>
   awakeCount \<lparr>tasks = [idleTask :: unit task], workers = [Asleep], stopped = False, initialized = True,
     notices = 1, noticeAll = False\<rparr> + 1"
  using pool_conserves_work [OF sleepy_run [of "()"]] by simp

section \<open>Refinement of an executor\<close>

text \<open>
  What a caller may assume of the pool, without workers and notifications: accepted tasks wait in order,
  at most \<open>n\<close> of them are in progress, and an executor that has been closed accepts nothing.
\<close>

record 't executor =
  waiting :: "'t list"
  progress :: "'t multiset"
  isOpen :: bool

inductive executor_step :: "nat \<Rightarrow> 't executor \<Rightarrow> 't executor \<Rightarrow> bool" for n where
  accept: "isOpen e \<Longrightarrow> executor_step n e (e\<lparr>waiting := waiting e @ [t]\<rparr>)"
| take_up: "waiting e = t # ts \<Longrightarrow> size (progress e) < n \<Longrightarrow>
    executor_step n e (e\<lparr>waiting := ts, progress := add_mset t (progress e)\<rparr>)"
| complete: "t \<in># progress e \<Longrightarrow> executor_step n e (e\<lparr>progress := progress e - {#t#}\<rparr>)"
| close: "executor_step n e (e\<lparr>isOpen := False\<rparr>)"

definition executorOf :: "'t ThreadPool \<Rightarrow> 't executor" where
  "executorOf p = \<lparr>waiting = tasks p, progress = runningTasks p, isOpen = \<not> stopped p\<rparr>"

lemma executorOf_fields [simp]:
  "waiting (executorOf p) = tasks p" "progress (executorOf p) = runningTasks p" "isOpen (executorOf p) = (\<not> stopped p)"
  by (simp_all add: executorOf_def)

lemma executorOf_eqI: "tasks q = tasks p \<Longrightarrow> runningTasks q = runningTasks p \<Longrightarrow> stopped q = stopped p \<Longrightarrow> executorOf q = executorOf p"
  by (simp add: executorOf_def)

lemma running_lt:
  assumes "i < length (workers p)" "\<not> is_running (workers p ! i)"
  shows "size (runningTasks p) < length (workers p)"
proof -
  have "workers p ! i \<in># mset (workers p)" using assms(1) by simp
  then have "size (filter_mset is_running (mset (workers p))) < size (mset (workers p))"
    using assms(2) by (metis filter_mset_eq_conv multiset_filter_subset mset_subset_size subset_mset.le_less)
  then show ?thesis by (simp add: runningTasks_def)
qed

lemma turn_refines:
  assumes "workerTurn i p = Some p'"
  shows "executorOf p' = executorOf p \<or> executor_step (length (workers p)) (executorOf p) (executorOf p')"
proof -
  have i: "i < length (workers p)" "is_awake (workers p ! i)" using assms by (auto simp: workerTurn_def split: if_splits)
  then have nr: "\<not> is_running (workers p ! i)" by (auto dest: worker.distinct_disc)
  show ?thesis
  proof (cases "tasks p")
    case Nil
    then have "executorOf p' = executorOf p"
      using assms i nr by (intro executorOf_eqI) (auto simp: workerTurn_def workers_update split: if_splits)
    then show ?thesis by simp
  next
    case (Cons t ts)
    have "executorOf p' = (executorOf p)\<lparr>waiting := ts, progress := add_mset t (progress (executorOf p))\<rparr>"
      using assms i nr Cons workers_update(1) [of i "p\<lparr>tasks := ts\<rparr>" "Running t"]
      by (auto simp: workerTurn_def executorOf_def split: if_splits)
    then show ?thesis using executor_step.take_up [of "executorOf p" t ts] running_lt [OF i(1) nr] Cons by simp
  qed
qed


lemma wakes_refines: "workerWakes i p = Some p' \<Longrightarrow> executorOf p' = executorOf p"
  by (auto simp: workerWakes_def workers_update dest: worker.distinct_disc split: if_splits intro!: executorOf_eqI)

lemma notice_refines: "notifyOne i p = Some p' \<Longrightarrow> executorOf p' = executorOf p"
  by (auto simp: notifyOne_def executorOf_def dest!: wakes_refines split: if_splits)

lemma notice_all_refines: "notifyAll p = Some p' \<Longrightarrow> executorOf p' = executorOf p"
  by (auto simp: notifyAll_def runningTasks_def running_awaken split: if_splits intro!: executorOf_eqI)

lemma finish_refines:
  assumes "workerFinishes i p = Some (t, p')"
  shows "executor_step n (executorOf p) (executorOf p')"
proof -
  have i: "i < length (workers p)" "is_running (workers p ! i)" "t = work (workers p ! i)"
      "p' = p\<lparr>workers := (workers p)[i := Awake]\<rparr>"
    using assms by (auto simp: workerFinishes_def split: if_splits)
  then have "executorOf p' = (executorOf p)\<lparr>progress := progress (executorOf p) - {#t#}\<rparr>"
    by (simp add: executorOf_def workers_update)
  then show ?thesis using executor_step.complete [of t "executorOf p" n] running_member [OF i(1,2)] i(3) by simp
qed

lemma submit_refines:
  assumes "enqueueTask t p = (r, p')"
  shows "executorOf p' = executorOf p \<or> executor_step n (executorOf p) (executorOf p')"
  using assms executor_step.accept [of "executorOf p" n t] by (auto simp: enqueueTask_def executorOf_def split: if_splits)

lemma shutdown_refines: "executorOf (beginShutdown p) = executorOf p \<or> executor_step n (executorOf p) (executorOf (beginShutdown p))"
  using executor_step.close [of n "executorOf p"] by (auto simp: beginShutdown_def executorOf_def)

lemma stutter: "R\<^sup>*\<^sup>* a b \<Longrightarrow> c = b \<or> R b c \<Longrightarrow> R\<^sup>*\<^sup>* a c"
  by (auto intro: rtranclp.rtrancl_into_rtrancl)

lemma run_refines:
  assumes "pool_run n acc begun fin p w"
  shows "(executor_step (max 1 n))\<^sup>*\<^sup>* \<lparr>waiting = [], progress = {#}, isOpen = True\<rparr> (executorOf p)"
  using assms
proof (induction rule: pool_run.induct)
  case (start w)
  have "executorOf (newThreadPool m) = \<lparr>waiting = [], progress = {#}, isOpen = True\<rparr>" for m
    by (simp add: executorOf_def newThreadPool_def runningTasks_def Let_def)
  then show ?case by (metis rtranclp.rtrancl_refl)
next
  case (turn acc begun fin p w i p')
  have "length (workers p) = max 1 n" using pool_run_ok [OF turn.hyps(1)] by (simp add: pool_ok_def)
  then show ?case using stutter [OF turn.IH] turn_refines [OF turn.hyps(2)] by simp
next
  case submit
  then show ?case using stutter submit_refines by metis
next
  case shutdown
  then show ?case using stutter shutdown_refines by metis
next
  case wakes
  then show ?case by (simp add: wakes_refines)
next
  case notice
  then show ?case by (simp add: notice_refines)
next
  case notice_all
  then show ?case by (simp add: notice_all_refines)
next
  case finish
  then show ?case using stutter finish_refines by metis
qed

text \<open>
  C12: The pool refines an executor. Every step of a worker or notifier leaves the abstract state alone or
  is a step of the executor with one slot per worker, and so every run of the pool is a run of the executor.
\<close>

theorem pool_refines_executor:
  "(pool_step (p, w) (p', w') \<longrightarrow>
      executorOf p' = executorOf p \<or> executor_step (length (workers p)) (executorOf p) (executorOf p')) \<and>
   (spurious (p, w) (p', w') \<longrightarrow> executorOf p' = executorOf p) \<and>
   (pool_run n acc begun fin q v \<longrightarrow>
      (executor_step (max 1 n))\<^sup>*\<^sup>* \<lparr>waiting = [], progress = {#}, isOpen = True\<rparr> (executorOf q))"
proof (intro conjI impI)
  assume "pool_step (p, w) (p', w')"
  then show "executorOf p' = executorOf p \<or> executor_step (length (workers p)) (executorOf p) (executorOf p')"
    by (auto dest: turn_refines notice_refines notice_all_refines finish_refines)
next
  assume "spurious (p, w) (p', w')"
  then show "executorOf p' = executorOf p" by (auto dest: wakes_refines)
next
  assume "pool_run n acc begun fin q v"
  then show "(executor_step (max 1 n))\<^sup>*\<^sup>* \<lparr>waiting = [], progress = {#}, isOpen = True\<rparr> (executorOf q)"
    by (rule run_refines)
qed

text \<open>Witness: the run with one task.\<close>

theorem pool_refines_executor_witness:
  "(executor_step (max 1 1))\<^sup>*\<^sup>* \<lparr>waiting = [], progress = {#}, isOpen = True\<rparr>
     (executorOf \<lparr>tasks = [idleTask :: unit task], workers = [Asleep], stopped = False, initialized = True,
        notices = 1, noticeAll = False\<rparr>)"
  using pool_refines_executor [THEN conjunct2, THEN conjunct2, rule_format, OF sleepy_run [of "()"]] .

section \<open>Shutdown\<close>

text \<open>What is left to do in a stopped pool: no step adds to it.\<close>

fun workerWork :: "'t worker \<Rightarrow> nat" where
  "workerWork Awake = 1"
| "workerWork Asleep = 2"
| "workerWork (Running t) = 2"
| "workerWork Exited = 0"

definition poolWork :: "'t ThreadPool \<Rightarrow> nat" where
  "poolWork p = 2 * length (tasks p) + sum_list (map workerWork (workers p)) + notices p + (if noticeAll p then 1 else 0)"

lemma work_update:
  assumes "i < length xs"
  shows "sum_list (map workerWork (xs[i := x])) + workerWork (xs ! i) = sum_list (map workerWork xs) + workerWork x"
proof -
  have "workerWork (xs ! i) \<le> sum_list (map workerWork xs)"
    using assms elem_le_sum_list [of i "map workerWork xs"] by simp
  then show ?thesis using assms by (simp add: map_update sum_list_update)
qed

lemma work_awaken: "sum_list (map workerWork (map awaken xs)) \<le> sum_list (map workerWork xs)"
proof (induction xs)
  case (Cons x xs)
  have "workerWork (awaken x) \<le> workerWork x" by (cases x) (simp_all add: awaken_def)
  then show ?case using Cons by simp
qed simp


lemma wakes_work:
  assumes "workerWakes i p = Some p'"
  shows "Suc (poolWork p') = poolWork p"
proof -
  have i: "i < length (workers p)" "workers p ! i = Asleep" "p' = p\<lparr>workers := (workers p)[i := Awake]\<rparr>"
    using assms by (auto simp: workerWakes_def is_asleep_def split: if_splits)
  then show ?thesis using work_update [OF i(1), of Awake] by (simp add: poolWork_def)
qed

lemma turn_work:
  assumes "workerTurn i p = Some p'" "stopped p"
  shows "poolWork p' < poolWork p"
proof -
  have i: "i < length (workers p)" "workers p ! i = Awake"
    using assms by (auto simp: workerTurn_def is_awake_def split: if_splits)
  show ?thesis
    using assms i work_update [OF i(1), of Exited] work_update [OF i(1), of "Running (hd (tasks p))"]
    by (cases "tasks p") (auto simp: workerTurn_def poolWork_def)
qed

lemma finish_work:
  assumes "workerFinishes i p = Some (t, p')"
  shows "poolWork p' < poolWork p"
proof -
  have i: "i < length (workers p)" "workers p ! i = Running t" "p' = p\<lparr>workers := (workers p)[i := Awake]\<rparr>"
    using assms by (auto simp: workerFinishes_def split: if_splits)
  then show ?thesis using work_update [OF i(1), of Awake] by (simp add: poolWork_def)
qed

lemma notice_work:
  assumes "notifyOne i p = Some p'"
  shows "poolWork p' < poolWork p"
proof (cases "list_ex is_asleep (workers p)")
  case True
  then obtain q where q: "workerWakes i p = Some q" "p' = q\<lparr>notices := notices p - 1\<rparr>"
    using assms by (auto simp: notifyOne_def split: if_splits)
  then have "notices q = notices p" by (auto simp: workerWakes_def split: if_splits)
  then have "poolWork p' \<le> poolWork q" using q(2) by (simp add: poolWork_def)
  then show ?thesis using wakes_work [OF q(1)] by simp
next
  case False
  then show ?thesis using assms by (auto simp: notifyOne_def poolWork_def split: if_splits)
qed

lemma notice_all_work: "notifyAll p = Some p' \<Longrightarrow> poolWork p' < poolWork p"
  using work_awaken [of "workers p"] by (auto simp: notifyAll_def poolWork_def split: if_splits)

lemmas step_work = turn_work finish_work notice_work notice_all_work

text \<open>The steps of the threads of a stopped pool, spurious ones included.\<close>

definition thread_step :: "'w task ThreadPool \<times> 'w \<Rightarrow> 'w task ThreadPool \<times> 'w \<Rightarrow> bool" where
  "thread_step s s' \<longleftrightarrow> pool_step s s' \<or> spurious s s'"

lemma step_stays_stopped:
  assumes "thread_step (p, w) (p', w')" "stopped p"
  shows "stopped p'"
  using assms by (auto simp: thread_step_def workerTurn_def workerWakes_def workerFinishes_def notifyOne_def notifyAll_def
      elim!: pool_stepE spuriousE split: if_splits)

lemma stopped_step_work:
  assumes "thread_step (p, w) (p', w')" "stopped p"
  shows "poolWork p' < poolWork p"
  using assms by (auto simp: thread_step_def elim!: pool_stepE spuriousE dest: step_work wakes_work)

lemma stopped_steps:
  assumes "(thread_step ^^ k) (p, w) (p', w')" "stopped p"
  shows "stopped p' \<and> k + poolWork p' \<le> poolWork p"
  using assms
proof (induction k arbitrary: p' w')
  case (Suc k)
  then obtain q v where q: "(thread_step ^^ k) (p, w) (q, v)" "thread_step (q, v) (p', w')" by auto
  then have "stopped q \<and> k + poolWork q \<le> poolWork p" using Suc by blast
  then show ?case using stopped_step_work [OF q(2)] step_stays_stopped [OF q(2)] by simp
qed simp

lemma thread_step_run:
  assumes "pool_run n acc begun fin p w" "thread_step (p, w) (p', w')"
  shows "\<exists>begun' fin'. pool_run n acc begun' fin' p' w'"
  using assms unfolding thread_step_def by (blast intro: pool_run.intros)

lemma thread_steps_run:
  assumes "(thread_step ^^ k) (p, w) (p', w')" "pool_run n acc begun fin p w"
  shows "\<exists>begun' fin'. pool_run n acc begun' fin' p' w'"
  using assms
proof (induction k arbitrary: p' w')
  case (Suc k)
  then obtain q v where q: "(thread_step ^^ k) (p, w) (q, v)" "thread_step (q, v) (p', w')" by auto
  then obtain b f where "pool_run n acc b f q v" using Suc.IH Suc.prems(2) by blast
  then show ?case using q(2) by (rule thread_step_run)
qed auto

text \<open>A stopped pool in which no thread can move has done everything, if its tasks can finish.\<close>

lemma stuck_drained:
  assumes "pool_run n acc begun fin p w" "stopped p" "\<forall>t \<in> set acc. \<forall>w. t w \<noteq> None"
    and "\<forall>s. \<not> pool_step (p, w) s"
  shows "endShutdown p = Some p \<and> mset fin = mset acc"
proof -
  have ok: "pool_ok n acc begun fin p" by (rule pool_run_ok [OF assms(1)])
  have "is_exited x" if x: "x \<in> set (workers p)" for x
  proof (cases x)
    case Awake
    obtain i where "i < length (workers p)" "workers p ! i = x" using x by (auto simp: in_set_conv_nth)
    then have "workerTurn i p \<noteq> None" using Awake by (simp add: workerTurn_def)
    then show ?thesis using assms(4) pool_step.turn by (metis not_None_eq)
  next
    case Asleep
    then have "list_ex is_asleep (workers p)" using x by (auto simp: list_ex_iff intro: bexI [of _ Asleep])
    then have "notifyAll p \<noteq> None" using ok assms(2) by (simp add: pool_ok_def workConserving_def notifyAll_def)
    then show ?thesis using assms(4) pool_step.notice_all by (metis not_None_eq)
  next
    case (Running t)
    obtain i where i: "i < length (workers p)" "workers p ! i = Running t" using x Running by (auto simp: in_set_conv_nth)
    then have "t \<in># mset begun" using ok running_member [of i p] by (simp add: pool_ok_def)
    then have "t w \<noteq> None" using ok assms(3) by (auto simp: pool_ok_def)
    then obtain r w' where "t w = Some (r, w')" by auto
    then have "pool_step (p, w) (p\<lparr>workers := (workers p)[i := Awake]\<rparr>, w')"
      using i by (intro pool_step.finish [of i p t]) (simp_all add: workerFinishes_def)
    then show ?thesis using assms(4) by metis
  qed simp
  then have all: "list_all is_exited (workers p)" by (simp add: list_all_iff)
  moreover have "workers p \<noteq> []" using ok by (auto simp: pool_ok_def)
  ultimately have "tasks p = []" using ok by (cases "workers p") (auto simp: pool_ok_def workConserving_def)
  moreover have "runningTasks p = {#}"
    using all by (auto simp: runningTasks_def list_all_iff filter_mset_eq_conv dest: worker.distinct_disc)
  ultimately show ?thesis using ok all by (auto simp: pool_ok_def endShutdown_def)
qed

text \<open>
  C13: \<open>shutdown\<close> terminates and drains the pool. After the pool is stopped its threads make at most \<open>poolWork\<close>
  moves, whatever the interleaving; and when none is possible any more, without counting on spurious
  wake-ups, every worker has returned, so that \<open>join\<close> lets \<open>shutdown\<close> end, every task that was ever accepted
  has been finished, and the final loop that empties the queue discards nothing. The tasks have to be ones
  that finish.
\<close>

theorem pool_shutdown_drains:
  assumes "pool_run n acc begun fin p w" "stopped p" "\<forall>t \<in> set acc. \<forall>w. t w \<noteq> None"
    and "(thread_step ^^ k) (p, w) (p', w')"
  shows "k \<le> poolWork p \<and>
    ((\<forall>s. \<not> pool_step (p', w') s) \<longrightarrow>
       endShutdown p' = Some p' \<and> (\<exists>begun' fin'. pool_run n acc begun' fin' p' w' \<and> mset fin' = mset acc))"
proof -
  obtain begun' fin' where run: "pool_run n acc begun' fin' p' w'" using thread_steps_run [OF assms(4,1)] by blast
  have "stopped p'" "k \<le> poolWork p" using stopped_steps [OF assms(4,2)] by auto
  then show ?thesis using stuck_drained [OF run _ assms(3)] run by blast
qed

text \<open>Witness: a pool of one thread that is stopped with a task in its queue.\<close>

theorem pool_shutdown_drains_witness:
  "0 \<le> poolWork (beginShutdown \<lparr>tasks = [idleTask :: unit task], workers = [Asleep], stopped = False, initialized = True,
     notices = 1, noticeAll = False\<rparr>) \<and>
   pool_run 1 [idleTask :: unit task] [] [] (beginShutdown \<lparr>tasks = [idleTask], workers = [Asleep], stopped = False,
     initialized = True, notices = 1, noticeAll = False\<rparr>) ()"
proof -
  let ?p = "beginShutdown \<lparr>tasks = [idleTask :: unit task], workers = [Asleep], stopped = False, initialized = True,
     notices = 1, noticeAll = False\<rparr>"
  have run: "pool_run 1 [idleTask] [] [] ?p ()" using pool_run.shutdown [OF sleepy_run [of "()"]] .
  have "stopped ?p" by (simp add: beginShutdown_def)
  moreover have "\<forall>t \<in> set [idleTask :: unit task]. \<forall>w. t w \<noteq> None" by (simp add: idleTask_def returnIO_def)
  moreover have "(thread_step ^^ 0) (?p, ()) (?p, ())" by simp
  ultimately show ?thesis using pool_shutdown_drains [OF run] run by blast
qed

end
