(* ===== verification/Async.thy ===== *)
theory Async
  imports Client Thread_Pool
begin

text \<open>
  \<^verbatim>\<open>common/async.hpp\<close> and \<^verbatim>\<open>common/simple_async.hpp\<close>: futures, \<open>enqueue\<close>, \<open>makeAsync\<close>, \<open>executeAsync\<close>,
  \<open>waitWithTimeout\<close>, \<open>Promise\<close> with \<open>then\<close> and \<open>catch_\<close>, and the variants on \<open>std::async\<close>.

  The shared states of the futures are cells of the world, numbered in the order of their creation; \<open>owners\<close>
  counts the \<open>shared_ptr\<close>s to the \<open>std::promise\<close> of a \<open>Promise\<close>, so that its \<open>weak_ptr\<close> can be locked as long as
  the count is positive. All cells of one world hold results of one type. A computation that waits for a
  cell without a value has no result (\<open>None\<close>) in that world. The functions that callers hand over may do
  anything to the world. A task runs as one step: the \<open>shared_ptr\<close> that \<open>lock\<close> returns lives only inside
  the task and is not counted among the owners, so a promise whose last owner goes away while a task of its
  own is running is outside the model.
\<close>

section \<open>Futures\<close>

datatype 'a cell = Unset | Stored "'a fallible"

record 'v async_world = http_world +
  futures :: "nat \<Rightarrow> 'v ApiResult cell"
  owners :: "nat \<Rightarrow> nat"
  nextFuture :: nat

type_synonym ('v, 'z, 'a) async_io = "(('v, 'z) async_world_scheme, exn, 'a) io"

definition storeCell :: "nat \<Rightarrow> 'v ApiResult fallible \<Rightarrow> ('v, 'z) async_world_scheme \<Rightarrow> ('v, 'z) async_world_scheme" where
  "storeCell i r w = (case futures w i of Unset \<Rightarrow> w\<lparr>futures := (futures w)(i := Stored r)\<rparr> | Stored _ \<Rightarrow> w)"

definition newCell :: "('v, 'z) async_world_scheme \<Rightarrow> nat \<times> ('v, 'z) async_world_scheme" where
  "newCell w = (nextFuture w, w\<lparr>nextFuture := Suc (nextFuture w), futures := (futures w)(nextFuture w := Unset)\<rparr>)"

definition futureGet :: "nat \<Rightarrow> ('v, 'z, 'v ApiResult) async_io" where
  "futureGet i w = (case futures w i of Unset \<Rightarrow> None | Stored r \<Rightarrow> Some (r, w))"

text \<open>\<open>std::packaged_task\<close>: the outcome of the function, an exception included, goes to the future.\<close>

definition packaged :: "nat \<Rightarrow> ('v, 'z, 'v ApiResult) async_io \<Rightarrow> ('v, 'z) async_world_scheme task" where
  "packaged i f w = (case f w of None \<Rightarrow> None | Some (r, w') \<Rightarrow> Some (Inr (), storeCell i r w'))"

text \<open>A task whose future is thrown away: only its effects are left.\<close>

definition detached :: "('w, exn, 'a) io \<Rightarrow> 'w task" where
  "detached f w = map_option (\<lambda>(r, w'). (Inr (), w')) (f w)"

section \<open>The thread pool\<close>

type_synonym ('v, 'z) pool_state = "('v, 'z) async_world_scheme task ThreadPool \<times> ('v, 'z) async_world_scheme"

definition enqueue ::
  "('v, 'z, 'v ApiResult) async_io \<Rightarrow> ('v, 'z) pool_state \<Rightarrow> nat fallible \<times> ('v, 'z) pool_state" where
  "enqueue func s =
     (case s of (p, w) \<Rightarrow>
        if stopped p then (Inl (RuntimeError ''ThreadPool is stopped''), s)
        else (case newCell w of (i, w') \<Rightarrow>
          (case enqueueTask (packaged i func) p of
             (Inl e, p') \<Rightarrow> (Inl e, (p', w'))
           | (Inr _, p') \<Rightarrow> (Inr i, (p', w')))))"

definition makeAsync ::
  "('v, 'z, 'v ApiResult) async_io \<Rightarrow> ('v, 'z) pool_state \<Rightarrow> nat fallible \<times> ('v, 'z) pool_state" where
  "makeAsync syncFunc = enqueue syncFunc"

definition callbackBody ::
  "('w, exn, 'a ApiResult) io \<Rightarrow> ('a ApiResult \<Rightarrow> ('w, exn, unit) io) \<Rightarrow> ('w, exn, unit) io" where
  "callbackBody syncFunc callback =
     catchIO (bindIO syncFunc callback) (\<lambda>e. callback (internalError (what e)))"

definition executeAsync ::
  "('w, exn, 'a ApiResult) io \<Rightarrow> ('a ApiResult \<Rightarrow> ('w, exn, unit) io) \<Rightarrow>
     'w task ThreadPool \<Rightarrow> unit fallible \<times> 'w task ThreadPool" where
  "executeAsync syncFunc callback p = enqueueTask (detached (callbackBody syncFunc callback)) p"

text \<open>\<open>inTime\<close>: the future got its value before the timeout.\<close>

definition waitWithTimeout :: "bool \<Rightarrow> nat \<Rightarrow> ('v, 'z, 'v ApiResult) async_io" where
  "waitWithTimeout inTime future =
     (if \<not> inTime then returnIO (internalError ''Operation timed out'') else futureGet future)"

section \<open>Promise\<close>

definition newPromise :: "('v, 'z) async_world_scheme \<Rightarrow> nat \<times> ('v, 'z) async_world_scheme" where
  "newPromise w = (case newCell w of (i, w') \<Rightarrow> (i, w'\<lparr>owners := (owners w')(i := 1)\<rparr>))"

text \<open>Copying a \<open>Promise\<close>, and the end of the life of one; the last one breaks an unset promise.\<close>

definition copyPromise :: "nat \<Rightarrow> ('v, 'z) async_world_scheme \<Rightarrow> ('v, 'z) async_world_scheme" where
  "copyPromise i w = w\<lparr>owners := (owners w)(i := Suc (owners w i))\<rparr>"

definition brokenPromise :: exn where
  "brokenPromise = RuntimeError ''std::future_error: Broken promise''"

definition dropPromise :: "nat \<Rightarrow> ('v, 'z) async_world_scheme \<Rightarrow> ('v, 'z) async_world_scheme" where
  "dropPromise i w =
     (let w' = w\<lparr>owners := (owners w)(i := owners w i - 1)\<rparr>
      in if owners w' i = 0 then storeCell i (Inl brokenPromise) w' else w')"

definition lockable :: "nat \<Rightarrow> ('v, 'z) async_world_scheme \<Rightarrow> bool" where
  "lockable i w \<longleftrightarrow> 0 < owners w i"

text \<open>\<open>set_value\<close>, whose \<open>future_error\<close> for a promise that has a value is ignored everywhere.\<close>

definition setValue :: "nat \<Rightarrow> 'v ApiResult \<Rightarrow> ('v, 'z, unit) async_io" where
  "setValue i r = modifyIO (storeCell i (Inr r))"

definition ifLocked :: "nat \<Rightarrow> ('v, 'z, unit) async_io \<Rightarrow> ('v, 'z, unit) async_io" where
  "ifLocked i m = bindIO (getIO (lockable i)) (\<lambda>alive. if alive then m else returnIO ())"

definition resolve :: "nat \<Rightarrow> 'v \<Rightarrow> ('v, 'z, unit) async_io" where
  "resolve i v = ifLocked i (setValue i (ofValue v))"

definition reject :: "nat \<Rightarrow> api_error \<Rightarrow> ('v, 'z, unit) async_io" where
  "reject i e = ifLocked i (setValue i (ofError e))"

definition handOver :: "nat \<Rightarrow> 'v ApiResult \<Rightarrow> ('v, 'z, unit) async_io" where
  "handOver nextPromise nextResult =
     (if isSuccess nextResult
      then bindIO (liftIO (resultValue nextResult)) (\<lambda>u. setValue nextPromise (ofValue u))
      else bindIO (liftIO (resultError nextResult)) (\<lambda>e. setValue nextPromise (ofError e)))"

definition thenTask ::
  "nat \<Rightarrow> ('v \<Rightarrow> ('v, 'z, 'v ApiResult) async_io) \<Rightarrow> nat \<Rightarrow> ('v, 'z, unit) async_io" where
  "thenTask currentFuture func nextPromise =
     catchIO
       (bindIO (futureGet currentFuture) (\<lambda>result.
        ifLocked nextPromise
          (if isSuccess result then
             bindIO (liftIO (resultValue result)) (\<lambda>v.
             bindIO (func v) (handOver nextPromise))
           else bindIO (liftIO (resultError result)) (\<lambda>e. setValue nextPromise (ofError e)))))
       (\<lambda>e. ifLocked nextPromise (setValue nextPromise (ofError (ApiErr 0 (what e) []))))"

definition catchTask ::
  "nat \<Rightarrow> (api_error \<Rightarrow> ('v, 'z, unit) async_io) \<Rightarrow> nat \<Rightarrow> ('v, 'z, unit) async_io" where
  "catchTask currentFuture errorHandler nextPromise =
     catchIO
       (bindIO (futureGet currentFuture) (\<lambda>result.
        ifLocked nextPromise
          (if isSuccess result then setValue nextPromise result
           else
             bindIO (liftIO (resultError result)) (\<lambda>e.
             bindIO (errorHandler e) (\<lambda>_. setValue nextPromise result)))))
       (\<lambda>e. bindIO (errorHandler (ApiErr 0 (what e) [])) (\<lambda>_.
              ifLocked nextPromise (setValue nextPromise (ofError (ApiErr 0 (what e) [])))))"

text \<open>\<open>then\<close> and \<open>catch_\<close> return the next promise; when \<open>enqueue\<close> throws, the local promise dies.\<close>

definition continueWith ::
  "(nat \<Rightarrow> ('v, 'z, unit) async_io) \<Rightarrow> ('v, 'z) pool_state \<Rightarrow> nat fallible \<times> ('v, 'z) pool_state" where
  "continueWith task s =
     (case s of (p, w) \<Rightarrow>
        (case newPromise w of (i, w') \<Rightarrow>
          (case enqueueTask (detached (task i)) p of
             (Inl e, p') \<Rightarrow> (Inl e, (p', dropPromise i w'))
           | (Inr _, p') \<Rightarrow> (Inr i, (p', w')))))"

definition promiseThen ::
  "nat \<Rightarrow> ('v \<Rightarrow> ('v, 'z, 'v ApiResult) async_io) \<Rightarrow> ('v, 'z) pool_state \<Rightarrow> nat fallible \<times> ('v, 'z) pool_state" where
  "promiseThen current func = continueWith (thenTask current func)"

definition promiseCatch ::
  "nat \<Rightarrow> (api_error \<Rightarrow> ('v, 'z, unit) async_io) \<Rightarrow> ('v, 'z) pool_state \<Rightarrow> nat fallible \<times> ('v, 'z) pool_state" where
  "promiseCatch current errorHandler = continueWith (catchTask current errorHandler)"

section \<open>Calls on threads of their own\<close>

text \<open>
  \<open>std::async(std::launch::async, f)\<close> starts a thread; \<open>refusal\<close> is the message of the \<open>std::system_error\<close> when the
  operating system has none. The state has the threads that have not finished.
\<close>

type_synonym ('v, 'z) thread_state = "('v, 'z) async_world_scheme task list \<times> ('v, 'z) async_world_scheme"

definition makeSimpleAsync ::
  "string option \<Rightarrow> ('v, 'z, 'v ApiResult) async_io \<Rightarrow> ('v, 'z) thread_state \<Rightarrow> nat fallible \<times> ('v, 'z) thread_state" where
  "makeSimpleAsync refusal syncFunc s =
     (case refusal of
        Some m \<Rightarrow> (Inl (RuntimeError m), s)
      | None \<Rightarrow> (case s of (ts, w) \<Rightarrow>
          (case newCell w of (i, w') \<Rightarrow> (Inr i, (ts @ [packaged i syncFunc], w')))))"

definition threadFinishes :: "nat \<Rightarrow> ('v, 'z) thread_state \<Rightarrow> ('v, 'z) thread_state option" where
  "threadFinishes k s =
     (case s of (ts, w) \<Rightarrow>
        if k < length ts then map_option (\<lambda>(r, w'). (take k ts @ drop (Suc k) ts, w')) ((ts ! k) w) else None)"

text \<open>
  \<open>executeSimpleAsync\<close>: the future of the second \<open>std::async\<close> is a temporary, whose destructor waits for its
  thread, which in turn waits for the first. The call is over when the callback is. \<open>refusal2\<close> is the
  failure to start the second thread; the first one is then waited for as well.
\<close>

definition executeSimpleAsync ::
  "string option \<Rightarrow> string option \<Rightarrow> ('w, exn, 'a ApiResult) io \<Rightarrow> ('a ApiResult \<Rightarrow> ('w, exn, unit) io) \<Rightarrow>
     ('w, exn, unit) io" where
  "executeSimpleAsync refusal refusal2 syncFunc callback =
     (case refusal of
        Some m \<Rightarrow> throwIO (RuntimeError m)
      | None \<Rightarrow>
          (case refusal2 of
             Some m \<Rightarrow> bindIO (detached syncFunc) (\<lambda>_. throwIO (RuntimeError m))
           | None \<Rightarrow> detached (callbackBody syncFunc callback)))"

end
