(* ===== verification/Async_Properties.thy ===== *)
theory Async_Properties
  imports Async
begin

text \<open>
  What futures and promises guarantee: a value that has been stored stays, \<open>then\<close> continues with the value,
  the error or the exception of its promise, and where this fails: a chain of \<open>then\<close> whose links are
  temporaries is cut, and continuations that wait inside the pool can hold all its workers for ever.
\<close>

section \<open>Stored values stay\<close>

definition settled :: "nat \<Rightarrow> 'v ApiResult fallible \<Rightarrow> ('v, 'z) async_world_scheme \<Rightarrow> bool" where
  "settled i x w \<longleftrightarrow> i < nextFuture w \<and> futures w i = Stored x"

lemma settled_store: "settled i x w \<Longrightarrow> settled i x (storeCell j r w)"
  by (auto simp: settled_def storeCell_def split: cell.splits)

lemma settled_new: "settled i x w \<Longrightarrow> newCell w = (j, w') \<Longrightarrow> settled i x w'"
  by (auto simp: settled_def newCell_def)

lemma settled_promise: "settled i x w \<Longrightarrow> newPromise w = (j, w') \<Longrightarrow> settled i x w'"
  by (auto simp: newPromise_def settled_def newCell_def split: prod.splits)

lemma settled_owners: "settled i x w \<Longrightarrow> settled i x (w\<lparr>owners := f\<rparr>)"
  by (simp add: settled_def)

lemma settled_drop: "settled i x w \<Longrightarrow> settled i x (dropPromise j w)"
  by (simp add: dropPromise_def Let_def settled_owners settled_store)

lemma keeps_get [keeps_intros]: "keeps (settled i x) (futureGet j)"
  by (auto simp: keepsIO_def futureGet_def split: cell.splits)

lemma keeps_set [keeps_intros]: "keeps (settled i x) (setValue j r)"
  by (simp add: setValue_def keepsIO_def io_prims settled_store)

lemma keeps_ifLocked [keeps_intros]: "keeps I m \<Longrightarrow> keeps I (ifLocked j m)"
  unfolding ifLocked_def by (intro keeps_intros)

lemma keeps_then: "(\<And>v. keeps (settled i x) (f v)) \<Longrightarrow> keeps (settled i x) (thenTask j f k)"
  unfolding thenTask_def handOver_def by (intro keeps_intros)

lemma keeps_catch: "(\<And>e. keeps (settled i x) (h e)) \<Longrightarrow> keeps (settled i x) (catchTask j h k)"
  unfolding catchTask_def by (intro keeps_intros)

lemma keeps_packaged: "keeps (settled i x) f \<Longrightarrow> keeps (settled i x) (packaged j f)"
  by (auto simp: keepsIO_def packaged_def settled_store split: option.splits)

text \<open>
  The operations on futures and promises, and the tasks of the library around functions of the callers
  that leave stored values alone.
\<close>

definition respectful :: "('v, 'z, 'a) async_io \<Rightarrow> bool" where
  "respectful m \<longleftrightarrow> (\<forall>i x. keeps (settled i x) m)"

inductive future_step :: "('v, 'z) async_world_scheme \<Rightarrow> ('v, 'z) async_world_scheme \<Rightarrow> bool" where
  new: "newPromise w = (i, w') \<Longrightarrow> future_step w w'"
| package: "newCell w = (i, w') \<Longrightarrow> future_step w w'"
| copy: "future_step w (copyPromise i w)"
| drop: "future_step w (dropPromise i w)"
| resolve: "resolve i v w = Some (r, w') \<Longrightarrow> future_step w w'"
| reject: "reject i e w = Some (r, w') \<Longrightarrow> future_step w w'"
| get: "futureGet i w = Some (q, w') \<Longrightarrow> future_step w w'"
| wait: "waitWithTimeout inTime i w = Some (q, w') \<Longrightarrow> future_step w w'"
| continuation: "(\<And>v. respectful (f v)) \<Longrightarrow> thenTask i f j w = Some (r, w') \<Longrightarrow> future_step w w'"
| recovery: "(\<And>e. respectful (h e)) \<Longrightarrow> catchTask i h j w = Some (r, w') \<Longrightarrow> future_step w w'"
| task: "respectful f \<Longrightarrow> packaged i f w = Some (r, w') \<Longrightarrow> future_step w w'"

lemma future_step_settled: "future_step w w' \<Longrightarrow> settled i x w \<Longrightarrow> settled i x w'"
proof (induction rule: future_step.induct)
  case (copy w j)
  then show ?case by (simp add: copyPromise_def settled_owners)
next
  case (resolve j v w r w')
  have "keeps (settled i x) (resolve j v)" unfolding resolve_def by (intro keeps_intros)
  then show ?case using resolve by (blast dest: keepsIO_D)
next
  case (reject j e w r w')
  have "keeps (settled i x) (reject j e)" unfolding reject_def by (intro keeps_intros)
  then show ?case using reject by (blast dest: keepsIO_D)
next
  case (wait inTime j w q w')
  have "keeps (settled i x) (waitWithTimeout inTime j)" unfolding waitWithTimeout_def by (intro keeps_intros)
  then show ?case using wait by (blast dest: keepsIO_D)
next
  case (get j w q w')
  then show ?case by (blast dest: keepsIO_D [OF keeps_get])
next
  case (continuation f j k w r w')
  then have "keeps (settled i x) (thenTask j f k)" by (intro keeps_then) (simp add: respectful_def)
  then show ?case using continuation by (blast dest: keepsIO_D)
next
  case (recovery h j k w r w')
  then have "keeps (settled i x) (catchTask j h k)" by (intro keeps_catch) (simp add: respectful_def)
  then show ?case using recovery by (blast dest: keepsIO_D)
next
  case (task f j w r w')
  then have "keeps (settled i x) (packaged j f)" by (intro keeps_packaged) (simp add: respectful_def)
  then show ?case using task by (blast dest: keepsIO_D)
qed (blast intro: settled_promise settled_new settled_drop)+

lemma settled_get: "settled i x w1 \<Longrightarrow> future_step\<^sup>*\<^sup>* w1 w2 \<Longrightarrow> futureGet i w2 = Some (x, w2)"
proof -
  assume "settled i x w1" "future_step\<^sup>*\<^sup>* w1 w2"
  from this(2,1) have "settled i x w2" by (induction rule: rtranclp_induct) (blast intro: future_step_settled)+
  then show ?thesis by (auto simp: settled_def futureGet_def)
qed

text \<open>
  C26: The first result of a promise is the only one. Once a promise that nobody has answered yet is
  resolved, every \<open>get\<close> of its future yields that value; once it is rejected, that error; and once its
  last owner is gone, the exception for a broken promise, whatever is done to promises and futures in
  between: further \<open>resolve\<close> and \<open>reject\<close> calls, continuations, the death of the promise included.
\<close>

theorem promise_first_result_wins:
  assumes "i < nextFuture w" "futures w i = Unset"
  shows "(lockable i w \<and> resolve i v w = Some (r, w1) \<and> future_step\<^sup>*\<^sup>* w1 w2 \<longrightarrow>
      r = Inr () \<and> futureGet i w2 = Some (Inr (ofValue v), w2)) \<and>
    (lockable i w \<and> reject i e w = Some (r, w1) \<and> future_step\<^sup>*\<^sup>* w1 w2 \<longrightarrow>
      r = Inr () \<and> futureGet i w2 = Some (Inr (ofError e), w2)) \<and>
    (owners w i = 1 \<and> future_step\<^sup>*\<^sup>* (dropPromise i w) w2 \<longrightarrow> futureGet i w2 = Some (Inl brokenPromise, w2))"
proof (intro conjI impI; elim conjE)
  assume "lockable i w" "resolve i v w = Some (r, w1)" and run: "future_step\<^sup>*\<^sup>* w1 w2"
  then have "r = Inr () \<and> settled i (Inr (ofValue v)) w1"
    using assms by (auto simp: resolve_def ifLocked_def setValue_def io_prims storeCell_def settled_def)
  with settled_get [OF _ run] show "r = Inr ()" "futureGet i w2 = Some (Inr (ofValue v), w2)" by blast+
next
  assume "lockable i w" "reject i e w = Some (r, w1)" and run: "future_step\<^sup>*\<^sup>* w1 w2"
  then have "r = Inr () \<and> settled i (Inr (ofError e)) w1"
    using assms by (auto simp: reject_def ifLocked_def setValue_def io_prims storeCell_def settled_def)
  with settled_get [OF _ run] show "r = Inr ()" "futureGet i w2 = Some (Inr (ofError e), w2)" by blast+
next
  assume "owners w i = 1" and run: "future_step\<^sup>*\<^sup>* (dropPromise i w) w2"
  then have "settled i (Inl brokenPromise) (dropPromise i w)"
    using assms by (simp add: dropPromise_def Let_def storeCell_def settled_def)
  then show "futureGet i w2 = Some (Inl brokenPromise, w2)" using run by (rule settled_get)
qed

definition noFutures :: "'v async_world" where
  "noFutures = \<lparr>calls = 0, sent = [], sleeps = [], waits = [],
     http = \<lparr>config = defaultConfig, rateLimiter = newRateLimiter 0 60 60000, rateLimitEnabled = False,
       maxRetries = 0, initialRetryDelay = 1000, backoffMultiplier = DFin 2, retriesEnabled = False, stats = noStatistics\<rparr>,
     futures = (\<lambda>_. Unset), owners = (\<lambda>_. 0), nextFuture = 0\<rparr>"

text \<open>Witness: a promise that is resolved, rejected and dropped.\<close>

theorem promise_first_result_wins_witness:
  "\<exists>w2. futureGet 0 w2 = Some (Inr (ofValue (7 :: int)), w2 :: int async_world) \<and> \<not> lockable 0 w2"
proof -
  let ?w = "snd (newPromise noFutures) :: int async_world"
  obtain w1 where w1: "resolve 0 7 ?w = Some (Inr (), w1)" "lockable 0 w1"
    by (simp add: newPromise_def newCell_def noFutures_def resolve_def ifLocked_def lockable_def setValue_def storeCell_def io_prims)
  have w: "0 < nextFuture ?w" "futures ?w 0 = Unset" "lockable 0 ?w"
    by (simp_all add: newPromise_def newCell_def noFutures_def lockable_def)
  obtain w2 where w2: "reject 0 (ApiErr 500 [] []) w1 = Some (Inr (), w2)" "owners w2 0 = owners w1 0"
    using w1(2) by (auto simp: reject_def ifLocked_def setValue_def storeCell_def io_prims split: cell.splits)
  have own: "owners w1 0 = 1"
    using w1(1) by (auto simp: newPromise_def newCell_def noFutures_def resolve_def ifLocked_def lockable_def setValue_def
        storeCell_def io_prims split: cell.splits)
  have "future_step\<^sup>*\<^sup>* w1 (dropPromise 0 w2)"
    using future_step.reject [OF w2(1)] future_step.drop [of w2 0] by (meson converse_rtranclp_into_rtranclp rtranclp.rtrancl_refl)
  moreover have "\<not> lockable 0 (dropPromise 0 w2)"
    using w2(2) own by (simp add: lockable_def dropPromise_def Let_def storeCell_def split: cell.splits)
  ultimately show ?thesis using promise_first_result_wins [OF w(1,2)] w(3) w1(1) by blast
qed

section \<open>Continuations\<close>

text \<open>What \<open>then\<close> hands to the next promise: the continuation's result, or the error, or the exception.\<close>

definition continued ::
  "'v ApiResult fallible \<Rightarrow> ('v \<Rightarrow> ('v, 'z, 'v ApiResult) async_io) \<Rightarrow> ('v, 'z, 'v ApiResult) async_io" where
  "continued outcome func =
     (case outcome of
        Inl e \<Rightarrow> returnIO (ofError (ApiErr 0 (what e) []))
      | Inr result \<Rightarrow>
          (case value_opt result of
             Some v \<Rightarrow> catchIO (func v) (\<lambda>e. returnIO (ofError (ApiErr 0 (what e) [])))
           | None \<Rightarrow> returnIO result))"

lemma handOver_ok: "result_ok r \<Longrightarrow> handOver k r = setValue k r"
  by (erule result_ok_cases) (simp_all add: handOver_def isSuccess_def resultValue_def resultError_def)

text \<open>
  C27: A continuation that is attached to a promise gets exactly the outcome of it: when the task of \<open>then\<close>
  runs, the next promise is given the result of the function on the value, or the error that the promise was
  rejected with, without the function being called, or an error with status 0 and the message of the
  exception that the future or the function threw. It waits until the promise has an outcome. The next
  promise has to be alive, and the function must not take part in its ownership.
\<close>

theorem then_continues:
  assumes "lockable k w" "\<And>x. futures w i = Stored (Inr x) \<Longrightarrow> result_ok x"
    and "\<And>v u q u'. f v u = Some (q, u') \<Longrightarrow> owners u' k = owners u k \<and> (\<forall>x. q = Inr x \<longrightarrow> result_ok x)"
  shows "thenTask i f k w =
    (case futures w i of
       Unset \<Rightarrow> None
     | Stored outcome \<Rightarrow> bindIO (continued outcome f) (setValue k) w)"
proof (cases "futures w i")
  case Unset
  then show ?thesis by (simp add: thenTask_def futureGet_def catchIO_def bindIO_def)
next
  case (Stored outcome)
  have locked: "ifLocked k m u = m u" if "lockable k u" for m u using that by (simp add: ifLocked_def)
  show ?thesis
  proof (cases outcome)
    case (Inl e)
    then show ?thesis using Stored assms(1)
      by (simp add: thenTask_def futureGet_def catchIO_def bindIO_def [of "futureGet i"] locked continued_def)
  next
    case (Inr result)
    have "result_ok result" using assms(2) Stored Inr by simp
    then show ?thesis
    proof (rule result_ok_cases)
      fix e assume "result = ofError e"
      then show ?thesis using Stored Inr assms(1)
        by (simp add: thenTask_def futureGet_def catchIO_def bindIO_def [of "futureGet i"] locked continued_def
            isSuccess_def resultError_def setValue_def io_prims)
    next
      fix v assume v: "result = ofValue v"
      have "thenTask i f k w =
          catchIO (bindIO (f v) (handOver k)) (\<lambda>e. ifLocked k (setValue k (ofError (ApiErr 0 (what e) [])))) w"
        using Stored Inr v assms(1)
        by (simp add: thenTask_def futureGet_def catchIO_def bindIO_def [of "futureGet i"] locked isSuccess_def resultValue_def)
      also have "\<dots> = bindIO (continued outcome f) (setValue k) w"
      proof (cases "f v w")
        case None
        then show ?thesis using Inr v by (simp add: continued_def catchIO_def bindIO_def)
      next
        case (Some qu)
        obtain q u where qu: "qu = (q, u)" by (cases qu)
        have u: "lockable k u" "\<And>x. q = Inr x \<Longrightarrow> result_ok x" using assms(1,3) Some qu by (auto simp: lockable_def)
        then show ?thesis using Some qu Inr v
          by (cases q) (simp_all add: continued_def catchIO_def bindIO_def handOver_ok locked setValue_def io_prims)
      qed
      finally show ?thesis by (simp add: Stored)
    qed
  qed
qed

definition twoPromises :: "int async_world" where
  "twoPromises = noFutures\<lparr>futures := (\<lambda>_. Unset)(0 := Stored (Inr (ofValue 3))), owners := (\<lambda>_. 0)(1 := 1), nextFuture := 2\<rparr>"

text \<open>Witness: a promise that was resolved with 3, and a continuation that adds one.\<close>

theorem then_continues_witness:
  "thenTask 0 (\<lambda>v. returnIO (ofValue (v + 1))) 1 twoPromises = Some (Inr (), storeCell 1 (Inr (ofValue 4)) twoPromises)"
proof -
  let ?f = "\<lambda>v. returnIO (ofValue (v + 1)) :: (int, unit, int ApiResult) async_io"
  have "thenTask 0 ?f 1 twoPromises = (case futures twoPromises 0 of
       Unset \<Rightarrow> None | Stored outcome \<Rightarrow> bindIO (continued outcome ?f) (setValue 1) twoPromises)"
    by (rule then_continues) (auto simp: twoPromises_def lockable_def returnIO_def)
  then show ?thesis by (simp add: twoPromises_def continued_def setValue_def io_prims)
qed

text \<open>A link of a chain: the promise between two continuations, after its last \<open>Promise\<close> object is gone.\<close>

definition linkBroken :: "nat \<Rightarrow> ('v, 'z) async_world_scheme \<Rightarrow> bool" where
  "linkBroken m w \<longleftrightarrow> \<not> lockable m w \<and> futures w m = Stored (Inl brokenPromise)"

lemma enqueueTask_accepts: "enqueueTask t p = (Inr (), p') \<longleftrightarrow> \<not> stopped p \<and> p' = p\<lparr>tasks := tasks p @ [t], notices := Suc (notices p)\<rparr>"
  by (auto simp: enqueueTask_def)

lemma continueWith_accepts:
  assumes "continueWith task (p, w) = (Inr i, (p', w'))"
  shows "newPromise w = (i, w') \<and> tasks p' = tasks p @ [detached (task i)]"
  using assms by (auto simp: continueWith_def enqueueTask_def split: prod.splits if_splits sum.splits)

text \<open>
  A chain \<open>p.then(f).then(g)\<close> is cut in the middle. The promise that the first \<open>then\<close> returns is a temporary
  that dies at the end of the expression, and its task only holds a weak reference. If the pool has not run
  the first task by then, it never calls \<open>f\<close>, whatever \<open>p\<close> is resolved with, and the last promise is given a
  broken-promise error with status 0 instead of a result.
\<close>

theorem dropped_link_breaks_chain:
  assumes "promiseThen i f (p, w) = (Inr m, (p1, w1))" "promiseThen m g (p1, w1) = (Inr l, (p2, w2))"
  shows "\<exists>t1 t2. tasks p2 = tasks p @ [t1, t2] \<and> linkBroken m (dropPromise m w2) \<and>
    (\<forall>v x. linkBroken m v \<longrightarrow> futures v i = Stored (Inr x) \<longrightarrow> t1 v = Some (Inr (), v)) \<and>
    (\<forall>v. linkBroken m v \<longrightarrow> lockable l v \<longrightarrow>
       t2 v = Some (Inr (), storeCell l (Inr (ofError (ApiErr 0 (what brokenPromise) []))) v))"
proof -
  have t1: "newPromise w = (m, w1)" "tasks p1 = tasks p @ [detached (thenTask i f m)]"
    using continueWith_accepts [OF assms(1) [unfolded promiseThen_def]] by auto
  have t2: "newPromise w1 = (l, w2)" "tasks p2 = tasks p1 @ [detached (thenTask m g l)]"
    using continueWith_accepts [OF assms(2) [unfolded promiseThen_def]] by auto
  have "linkBroken m (dropPromise m w2)"
    using t1(1) t2(1) by (auto simp: newPromise_def newCell_def linkBroken_def lockable_def dropPromise_def storeCell_def)
  moreover have "detached (thenTask i f m) v = Some (Inr (), v)" if "linkBroken m v" "futures v i = Stored (Inr x)" for v x
    using that by (simp add: detached_def thenTask_def futureGet_def catchIO_def bindIO_def ifLocked_def linkBroken_def io_prims)
  moreover have "detached (thenTask m g l) v = Some (Inr (), storeCell l (Inr (ofError (ApiErr 0 (what brokenPromise) []))) v)"
    if "linkBroken m v" "lockable l v" for v
    using that by (simp add: detached_def thenTask_def futureGet_def catchIO_def bindIO_def ifLocked_def linkBroken_def setValue_def io_prims)
  ultimately show ?thesis using t1(2) t2(2) by auto
qed

text \<open>Witness: a chain of two links on a new pool.\<close>

theorem dropped_link_breaks_chain_witness:
  "\<exists>p1 w1 p2 w2. promiseThen 0 (\<lambda>v. returnIO (ofValue v)) (newThreadPool 4, twoPromises) = (Inr 2, (p1, w1)) \<and>
     promiseThen 2 (\<lambda>v. returnIO (ofValue v)) (p1, w1) = (Inr 3, (p2, w2)) \<and> linkBroken 2 (dropPromise 2 w2)"
proof -
  let ?f = "\<lambda>v. returnIO (ofValue v) :: (int, unit, int ApiResult) async_io"
  obtain p1 w1 where 1: "promiseThen 0 ?f (newThreadPool 4, twoPromises) = (Inr 2, (p1, w1))" "nextFuture w1 = 3" "\<not> stopped p1"
    by (simp add: promiseThen_def continueWith_def newPromise_def newCell_def twoPromises_def newThreadPool_def enqueueTask_def)
  obtain p2 w2 where 2: "promiseThen 2 ?f (p1, w1) = (Inr 3, (p2, w2))"
    using 1(2,3) by (simp add: promiseThen_def continueWith_def newPromise_def newCell_def enqueueTask_def)
  show ?thesis using dropped_link_breaks_chain [OF 1(1) 2] 1(1) 2 by blast
qed

section \<open>Waiting inside the pool\<close>

text \<open>A pool whose workers all run tasks that cannot finish does nothing any more.\<close>

lemma held_step:
  assumes "thread_step (p, w) (p', w')" "\<forall>x \<in> set (workers p). is_running x \<and> work x w = None"
  shows "w' = w \<and> tasks p' = tasks p \<and> workers p' = workers p"
proof -
  have run: "is_running (workers p ! i)" "work (workers p ! i) w = None" if "i < length (workers p)" for i
    using assms(2) that by auto
  have none: "workerTurn i p = None" "workerWakes i p = None" for i
    using run(1) by (auto simp: workerTurn_def workerWakes_def dest: worker.distinct_disc)
  have "\<not> list_ex is_asleep (workers p)" using assms(2) by (auto simp: list_ex_iff dest: worker.distinct_disc)
  moreover have "map awaken (workers p) = workers p"
    using assms(2) by (intro map_idI) (auto simp: awaken_def dest: worker.distinct_disc)
  ultimately show ?thesis
    using assms(1) run(2) none
    by (auto simp: thread_step_def notifyOne_def notifyAll_def workerFinishes_def elim!: pool_stepE spuriousE split: if_splits)
qed

lemma held_steps:
  assumes "thread_step\<^sup>*\<^sup>* (p, w) s" "\<forall>x \<in> set (workers p). is_running x \<and> work x w = None"
  shows "snd s = w \<and> tasks (fst s) = tasks p \<and> workers (fst s) = workers p"
  using assms(1)
proof (induction rule: rtranclp_induct)
  case (step s s')
  then show ?case using held_step [of "fst s" "snd s" "fst s'" "snd s'"] assms(2) by (cases s; cases s') auto
qed simp

lemma submit_all:
  "pool_run n ts [] [] ((newThreadPool n)\<lparr>tasks := ts, notices := length ts\<rparr>) w"
proof (induction ts rule: rev_induct)
  case Nil
  show ?case using pool_run.start [of n w] by (simp add: newThreadPool_def Let_def)
next
  case (snoc t ts)
  from pool_run.submit [OF snoc, of t] show ?case by (simp add: enqueueTask_def newThreadPool_def Let_def)
qed

lemma fill_pool:
  assumes "0 < n" "k \<le> n" "n \<le> length ts"
  shows "pool_run n ts (take k ts) [] \<lparr>tasks = drop k ts, workers = map Running (take k ts) @ replicate (n - k) Awake,
     stopped = False, initialized = True, notices = length ts, noticeAll = False\<rparr> w"
  using assms(2)
proof (induction k)
  case 0
  show ?case using submit_all [of n ts w] assms(1) by (simp add: newThreadPool_def)
next
  case (Suc k)
  let ?p = "\<lparr>tasks = drop k ts, workers = map Running (take k ts) @ replicate (n - k) Awake,
     stopped = False, initialized = True, notices = length ts, noticeAll = False\<rparr>"
  have k: "k < length ts" "k < n" using Suc.prems assms(3) by auto
  have at: "(map Running (take k ts) @ replicate (n - k) Awake) ! k = Awake" using k by (simp add: nth_append)
  have upd: "(map Running (take k ts) @ replicate (n - k) Awake)[k := Running (ts ! k)] =
      map Running (take (Suc k) ts) @ replicate (n - Suc k) Awake"
    using k by (simp add: list_update_append take_Suc_conv_app_nth Suc_diff_Suc [symmetric])
  have turn: "workerTurn k ?p = Some (?p\<lparr>tasks := drop (Suc k) ts, workers := map Running (take (Suc k) ts) @ replicate (n - Suc k) Awake\<rparr>)"
    using k at upd by (simp add: workerTurn_def hd_drop_conv_nth drop_Suc tl_drop)
  have "pool_run n ts (take k ts) [] ?p w" using Suc by simp
  from pool_run.turn [OF this turn] show ?case using k by (simp add: take_Suc_conv_app_nth Suc_diff_le hd_drop_conv_nth take_Suc)
qed

text \<open>
  C34: Continuations can hold the pool for ever. A pool of \<open>n\<close> threads that is given \<open>n\<close> continuations of a promise
  without a value and then the task that would produce the value comes to a state in which every worker
  waits for the promise and the producer is still in the queue, and no move of the threads, in any order,
  ever takes it out: the promise stays without a value.
\<close>

theorem continuations_hold_pool:
  assumes "0 < n" "length ks = n" "futures w i = Unset"
  shows "\<exists>p. pool_run n (map (\<lambda>k. detached (thenTask i f k)) ks @ [producer]) (map (\<lambda>k. detached (thenTask i f k)) ks) [] p w \<and>
    (\<forall>p' w'. thread_step\<^sup>*\<^sup>* (p, w) (p', w') \<longrightarrow> tasks p' = [producer] \<and> futures w' i = Unset)"
proof -
  let ?ts = "map (\<lambda>k. detached (thenTask i f k)) ks"
  let ?p = "\<lparr>tasks = [producer], workers = map Running ?ts, stopped = False, initialized = True, notices = Suc n, noticeAll = False\<rparr>"
  have "pool_run n (?ts @ [producer]) ?ts [] ?p w"
    using fill_pool [OF assms(1), of n "?ts @ [producer]" w] assms(2) by simp
  moreover have "detached (thenTask i f k) w = None" for k
    using assms(3) by (simp add: detached_def thenTask_def futureGet_def catchIO_def bindIO_def)
  then have held: "\<forall>x \<in> set (workers ?p). is_running x \<and> work x w = None" by auto
  then have "tasks p' = [producer] \<and> futures w' i = Unset" if "thread_step\<^sup>*\<^sup>* (?p, w) (p', w')" for p' w'
    using held_steps [OF that] assms(3) by simp
  ultimately show ?thesis by blast
qed

text \<open>Witness: a pool of one thread.\<close>

theorem continuations_hold_pool_witness:
  "\<exists>p. pool_run 1 [detached (thenTask 1 (\<lambda>v. returnIO (ofValue v)) 2), detached (resolve 1 5)]
      [detached (thenTask 1 (\<lambda>v. returnIO (ofValue v)) 2)] [] p twoPromises \<and>
    (\<forall>p' w'. thread_step\<^sup>*\<^sup>* (p, twoPromises) (p', w') \<longrightarrow> tasks p' = [detached (resolve 1 5)] \<and> futures w' 1 = Unset)"
  using continuations_hold_pool [of 1 "[2]" twoPromises 1 "\<lambda>v. returnIO (ofValue v)" "detached (resolve 1 5)"]
  by (simp add: twoPromises_def)

section \<open>Callbacks\<close>

text \<open>A callback that appends its argument to a log and then does as \<open>verdict\<close> says.\<close>

definition logging :: "('a ApiResult list \<Rightarrow> 'w \<Rightarrow> 'w) \<Rightarrow> ('a ApiResult \<Rightarrow> unit fallible) \<Rightarrow> 'a ApiResult \<Rightarrow> ('w, exn, unit) io" where
  "logging put verdict r = bindIO (modifyIO (put [r])) (\<lambda>_. liftIO (verdict r))"

text \<open>
  \<open>executeSimpleAsync\<close>, despite its name, is a synchronous call: it returns only after the operation and the
  callback, with the operation's effects in the world followed by those of the callback. The callback gets
  the operation's result; it gets an internal error with the exception's message when the operation throws,
  and when the callback itself throws it is called a second time, with an internal error for an operation
  that succeeded.
\<close>

theorem executeSimpleAsync_blocks:
  assumes "syncFunc w = Some (r, w1)"
  shows "executeSimpleAsync None None syncFunc callback w =
    (case r of
       Inl e \<Rightarrow> detached (callback (internalError (what e))) w1
     | Inr res \<Rightarrow>
         (case callback res w1 of
            None \<Rightarrow> None
          | Some (Inr _, w2) \<Rightarrow> Some (Inr (), w2)
          | Some (Inl e, w2) \<Rightarrow> detached (callback (internalError (what e))) w2))"
proof (cases r)
  case (Inl e)
  then show ?thesis using assms by (simp add: executeSimpleAsync_def callbackBody_def detached_def catchIO_def bindIO_def)
next
  case (Inr res)
  then show ?thesis using assms
    by (auto simp: executeSimpleAsync_def callbackBody_def detached_def catchIO_def bindIO_def split: option.splits sum.splits)
qed

text \<open>Witness: a callback that throws on every success is called twice.\<close>

theorem executeSimpleAsync_blocks_witness:
  "executeSimpleAsync None None (returnIO (ofValue (1 :: int)))
     (logging (\<lambda>rs w. w @ rs) (\<lambda>r. if isSuccess r then Inl (RuntimeError ''no'') else Inr ())) [] =
   Some (Inr (), [ofValue 1, internalError ''no''])"
proof -
  let ?cb = "logging (\<lambda>rs w. w @ rs) (\<lambda>r. if isSuccess r then Inl (RuntimeError ''no'') else Inr ())
    :: int ApiResult \<Rightarrow> (int ApiResult list, exn, unit) io"
  have cb: "?cb (ofValue 1) [] = Some (Inl (RuntimeError ''no''), [ofValue 1])"
    "?cb (internalError ''no'') [ofValue 1] = Some (Inr (), [ofValue 1, internalError ''no''])"
    by (simp_all add: logging_def io_prims isSuccess_def internalError_def ofCategory_def)
  have "returnIO (ofValue (1 :: int)) [] = Some (Inr (ofValue 1), [] :: int ApiResult list)" by (simp add: returnIO_def)
  from executeSimpleAsync_blocks [of "returnIO (ofValue (1 :: int))", OF this, of ?cb] cb show ?thesis by (simp add: detached_def)
qed

end
