(* ===== verification/Market_Async.thy ===== *)
theory Market_Async
  imports Market Async_Properties
begin

text \<open>
  The asynchronous variants of \<open>MarketService\<close> in \<^verbatim>\<open>market.cpp\<close> and \<^verbatim>\<open>market.hpp\<close>: seven start a thread of their own,
  fourteen go through the thread pool, two take a callback. The world of a call has the futures of the
  type of its result; \<open>refusal\<close> is the failure to start a thread.
\<close>

definition getQuotesAsync ::
  "string option \<Rightarrow> 'j json_api \<Rightarrow> (int \<Rightarrow> int) \<Rightarrow> (Quote list, 'z) async_world_scheme client_ops \<Rightarrow> string list \<Rightarrow> bool \<Rightarrow>
     (Quote list, 'z) thread_state \<Rightarrow> nat fallible \<times> (Quote list, 'z) thread_state" where
  "getQuotesAsync refusal J z C symbols greeks = makeSimpleAsync refusal (getQuotes J z C symbols greeks)"

definition getQuotesPostAsync ::
  "string option \<Rightarrow> 'j json_api \<Rightarrow> (int \<Rightarrow> int) \<Rightarrow> (Quote list, 'z) async_world_scheme client_ops \<Rightarrow> string list \<Rightarrow> bool \<Rightarrow>
     (Quote list, 'z) thread_state \<Rightarrow> nat fallible \<times> (Quote list, 'z) thread_state" where
  "getQuotesPostAsync refusal J z C symbols greeks = makeSimpleAsync refusal (getQuotesPost J z C symbols greeks)"

definition getQuoteAsync ::
  "string option \<Rightarrow> 'j json_api \<Rightarrow> (int \<Rightarrow> int) \<Rightarrow> (Quote, 'z) async_world_scheme client_ops \<Rightarrow> string \<Rightarrow> bool \<Rightarrow>
     (Quote, 'z) thread_state \<Rightarrow> nat fallible \<times> (Quote, 'z) thread_state" where
  "getQuoteAsync refusal J z C symbol greeks = makeSimpleAsync refusal (getQuote J z C symbol greeks)"

definition getOptionChainAsync ::
  "string option \<Rightarrow> 'j json_api \<Rightarrow> (int \<Rightarrow> int) \<Rightarrow> (OptionChain list, 'z) async_world_scheme client_ops \<Rightarrow> string \<Rightarrow> string \<Rightarrow> bool \<Rightarrow>
     (OptionChain list, 'z) thread_state \<Rightarrow> nat fallible \<times> (OptionChain list, 'z) thread_state" where
  "getOptionChainAsync refusal J z C symbol expiration greeks = makeSimpleAsync refusal (getOptionChain J z C symbol expiration greeks)"

definition getOptionStrikesAsync ::
  "string option \<Rightarrow> 'j json_api \<Rightarrow> (double list, 'z) async_world_scheme client_ops \<Rightarrow> string \<Rightarrow> string \<Rightarrow> bool \<Rightarrow>
     (double list, 'z) thread_state \<Rightarrow> nat fallible \<times> (double list, 'z) thread_state" where
  "getOptionStrikesAsync refusal J C symbol expiration includeAllRoots = makeSimpleAsync refusal (getOptionStrikes J C symbol expiration includeAllRoots)"

definition getOptionExpirationsAsync ::
  "string option \<Rightarrow> 'j json_api \<Rightarrow> (Expiration list, 'z) async_world_scheme client_ops \<Rightarrow> string \<Rightarrow> bool \<Rightarrow> bool \<Rightarrow> bool \<Rightarrow> bool \<Rightarrow>
     (Expiration list, 'z) thread_state \<Rightarrow> nat fallible \<times> (Expiration list, 'z) thread_state" where
  "getOptionExpirationsAsync refusal J C symbol includeAllRoots strikes contractSize expirationType = makeSimpleAsync refusal (getOptionExpirations J C symbol includeAllRoots strikes contractSize expirationType)"

definition lookupOptionSymbolsAsync ::
  "string option \<Rightarrow> 'j json_api \<Rightarrow> (OptionSymbol list, 'z) async_world_scheme client_ops \<Rightarrow> string \<Rightarrow>
     (OptionSymbol list, 'z) thread_state \<Rightarrow> nat fallible \<times> (OptionSymbol list, 'z) thread_state" where
  "lookupOptionSymbolsAsync refusal J C underlying = makeSimpleAsync refusal (lookupOptionSymbols J C underlying)"

definition getHistoricalDataAsync ::
  "'j json_api \<Rightarrow> (HistoricalData list, 'z) async_world_scheme client_ops \<Rightarrow> string \<Rightarrow> string \<Rightarrow> string \<Rightarrow> string \<Rightarrow> string \<Rightarrow>
     (HistoricalData list, 'z) pool_state \<Rightarrow> nat fallible \<times> (HistoricalData list, 'z) pool_state" where
  "getHistoricalDataAsync J C symbol interval start until sessionFilter = makeAsync (getHistoricalData J C symbol interval start until sessionFilter)"

definition getTimeSalesAsync ::
  "'j json_api \<Rightarrow> (TimeSalesData list, 'z) async_world_scheme client_ops \<Rightarrow> string \<Rightarrow> string \<Rightarrow> string \<Rightarrow> string \<Rightarrow> string \<Rightarrow>
     (TimeSalesData list, 'z) pool_state \<Rightarrow> nat fallible \<times> (TimeSalesData list, 'z) pool_state" where
  "getTimeSalesAsync J C symbol interval start until sessionFilter = makeAsync (getTimeSales J C symbol interval start until sessionFilter)"

definition getETBListAsync ::
  "'j json_api \<Rightarrow> (Security list, 'z) async_world_scheme client_ops \<Rightarrow>
     (Security list, 'z) pool_state \<Rightarrow> nat fallible \<times> (Security list, 'z) pool_state" where
  "getETBListAsync J C = makeAsync (getETBList J C)"

definition getClockAsync ::
  "'j json_api \<Rightarrow> (MarketClock, 'z) async_world_scheme client_ops \<Rightarrow> bool \<Rightarrow>
     (MarketClock, 'z) pool_state \<Rightarrow> nat fallible \<times> (MarketClock, 'z) pool_state" where
  "getClockAsync J C delayed = makeAsync (getClock J C delayed)"

definition getCalendarAsync ::
  "'j json_api \<Rightarrow> int \<times> int \<Rightarrow> (MarketCalendar, 'z) async_world_scheme client_ops \<Rightarrow> string \<Rightarrow> string \<Rightarrow>
     (MarketCalendar, 'z) pool_state \<Rightarrow> nat fallible \<times> (MarketCalendar, 'z) pool_state" where
  "getCalendarAsync J junk C month year = makeAsync (getCalendar J junk C month year)"

definition searchSymbolsAsync ::
  "'j json_api \<Rightarrow> (Security list, 'z) async_world_scheme client_ops \<Rightarrow> string \<Rightarrow> bool \<Rightarrow>
     (Security list, 'z) pool_state \<Rightarrow> nat fallible \<times> (Security list, 'z) pool_state" where
  "searchSymbolsAsync J C query indexes = makeAsync (searchSymbols J C query indexes)"

definition lookupSymbolsAsync ::
  "'j json_api \<Rightarrow> (Security list, 'z) async_world_scheme client_ops \<Rightarrow> string \<Rightarrow> string \<Rightarrow> string \<Rightarrow>
     (Security list, 'z) pool_state \<Rightarrow> nat fallible \<times> (Security list, 'z) pool_state" where
  "lookupSymbolsAsync J C query exchanges types = makeAsync (lookupSymbols J C query exchanges types)"

definition getCompanyInfoAsync ::
  "'j json_api \<Rightarrow> (CompanyFundamentals, 'z) async_world_scheme client_ops \<Rightarrow> string \<Rightarrow>
     (CompanyFundamentals, 'z) pool_state \<Rightarrow> nat fallible \<times> (CompanyFundamentals, 'z) pool_state" where
  "getCompanyInfoAsync J C symbol = makeAsync (getCompanyInfo J C symbol)"

definition getCorporateCalendarAsync ::
  "'j json_api \<Rightarrow> (CorporateCalendarEvent list, 'z) async_world_scheme client_ops \<Rightarrow> string \<Rightarrow>
     (CorporateCalendarEvent list, 'z) pool_state \<Rightarrow> nat fallible \<times> (CorporateCalendarEvent list, 'z) pool_state" where
  "getCorporateCalendarAsync J C symbol = makeAsync (getCorporateCalendar J C symbol)"

definition getDividendsAsync ::
  "'j json_api \<Rightarrow> (Dividend list, 'z) async_world_scheme client_ops \<Rightarrow> string \<Rightarrow>
     (Dividend list, 'z) pool_state \<Rightarrow> nat fallible \<times> (Dividend list, 'z) pool_state" where
  "getDividendsAsync J C symbol = makeAsync (getDividends J C symbol)"

definition getCorporateActionsAsync ::
  "'j json_api \<Rightarrow> (CorporateActions, 'z) async_world_scheme client_ops \<Rightarrow> string \<Rightarrow>
     (CorporateActions, 'z) pool_state \<Rightarrow> nat fallible \<times> (CorporateActions, 'z) pool_state" where
  "getCorporateActionsAsync J C symbol = makeAsync (getCorporateActions J C symbol)"

definition getFinancialRatiosAsync ::
  "'j json_api \<Rightarrow> (FinancialRatios list, 'z) async_world_scheme client_ops \<Rightarrow> string \<Rightarrow>
     (FinancialRatios list, 'z) pool_state \<Rightarrow> nat fallible \<times> (FinancialRatios list, 'z) pool_state" where
  "getFinancialRatiosAsync J C symbol = makeAsync (getFinancialRatios J C symbol)"

definition getFinancialStatementsAsync ::
  "'j json_api \<Rightarrow> (FinancialStatement, 'z) async_world_scheme client_ops \<Rightarrow> string \<Rightarrow>
     (FinancialStatement, 'z) pool_state \<Rightarrow> nat fallible \<times> (FinancialStatement, 'z) pool_state" where
  "getFinancialStatementsAsync J C symbol = makeAsync (getFinancialStatements J C symbol)"

definition getPriceStatisticsAsync ::
  "'j json_api \<Rightarrow> (PriceStatistics, 'z) async_world_scheme client_ops \<Rightarrow> string \<Rightarrow>
     (PriceStatistics, 'z) pool_state \<Rightarrow> nat fallible \<times> (PriceStatistics, 'z) pool_state" where
  "getPriceStatisticsAsync J C symbol = makeAsync (getPriceStatistics J C symbol)"

definition getQuotesCallback ::
  "string option \<Rightarrow> string option \<Rightarrow> 'j json_api \<Rightarrow> (int \<Rightarrow> int) \<Rightarrow> 'w client_ops \<Rightarrow> string list \<Rightarrow> bool \<Rightarrow> (Quote list ApiResult \<Rightarrow> ('w, exn, unit) io) \<Rightarrow>
     ('w, exn, unit) io" where
  "getQuotesCallback refusal refusal2 J z C symbols greeks callback =
     executeSimpleAsync refusal refusal2 (getQuotes J z C symbols greeks) callback"

definition getQuoteCallback ::
  "string option \<Rightarrow> string option \<Rightarrow> 'j json_api \<Rightarrow> (int \<Rightarrow> int) \<Rightarrow> 'w client_ops \<Rightarrow> string \<Rightarrow> bool \<Rightarrow> (Quote ApiResult \<Rightarrow> ('w, exn, unit) io) \<Rightarrow>
     ('w, exn, unit) io" where
  "getQuoteCallback refusal refusal2 J z C symbol greeks callback =
     executeSimpleAsync refusal refusal2 (getQuote J z C symbol greeks) callback"

definition quoteExecuteAsync ::
  "string option \<Rightarrow> 'j json_api \<Rightarrow> (int \<Rightarrow> int) \<Rightarrow> (Quote list, 'z) async_world_scheme client_ops \<Rightarrow> QuoteRequest \<Rightarrow>
     (Quote list, 'z) thread_state \<Rightarrow> nat fallible \<times> (Quote list, 'z) thread_state" where
  "quoteExecuteAsync refusal J z C r =
     (if reqUsePost r then getQuotesPostAsync refusal J z C (reqSymbols r) (reqGreeks r)
      else getQuotesAsync refusal J z C (reqSymbols r) (reqGreeks r))"

section \<open>The asynchronous calls are the synchronous ones\<close>

text \<open>
  \<open>threadDelivers start f\<close>: \<open>start\<close> makes a new future without a value and a thread; when that thread finishes, in
  whatever world it does, the future has the outcome of \<open>f\<close> there and the world is the one \<open>f\<close> leaves, up to
  that future. \<open>poolDelivers\<close> says the same of a task of the pool, which a stopped pool refuses.
\<close>

definition threadDelivers ::
  "(('v, 'z) thread_state \<Rightarrow> nat fallible \<times> ('v, 'z) thread_state) \<Rightarrow> ('v, 'z, 'v ApiResult) async_io \<Rightarrow> bool" where
  "threadDelivers start f \<longleftrightarrow>
     (\<forall>ts w. \<exists>i t w'. start (ts, w) = (Inr i, (ts @ [t], w')) \<and> i = nextFuture w \<and> futures w' i = Unset \<and>
        (\<forall>us v r v'. f v = Some (r, v') \<longrightarrow> futures v' i = Unset \<longrightarrow>
           threadFinishes (length us) (us @ [t], v) = Some (us, storeCell i r v') \<and>
           futureGet i (storeCell i r v') = Some (r, storeCell i r v')))"

definition poolDelivers ::
  "(('v, 'z) pool_state \<Rightarrow> nat fallible \<times> ('v, 'z) pool_state) \<Rightarrow> ('v, 'z, 'v ApiResult) async_io \<Rightarrow> bool" where
  "poolDelivers start f \<longleftrightarrow>
     (\<forall>p w. if stopped p then start (p, w) = (Inl (RuntimeError ''ThreadPool is stopped''), (p, w))
        else \<exists>i t w'. start (p, w) = (Inr i, (p\<lparr>tasks := tasks p @ [t], notices := Suc (notices p)\<rparr>, w')) \<and>
          i = nextFuture w \<and> futures w' i = Unset \<and>
          (\<forall>v r v'. f v = Some (r, v') \<longrightarrow> futures v' i = Unset \<longrightarrow>
             t v = Some (Inr (), storeCell i r v') \<and> futureGet i (storeCell i r v') = Some (r, storeCell i r v')))"

lemma stored_get: "futures v i = Unset \<Longrightarrow> futureGet i (storeCell i r v) = Some (r, storeCell i r v)"
  by (simp add: storeCell_def futureGet_def)

lemma makeSimpleAsync_delivers: "threadDelivers (makeSimpleAsync None f) f"
  by (auto simp: threadDelivers_def makeSimpleAsync_def newCell_def threadFinishes_def packaged_def stored_get)

lemma makeAsync_delivers: "poolDelivers (makeAsync f) f"
  by (auto simp: poolDelivers_def makeAsync_def enqueue_def newCell_def enqueueTask_def packaged_def stored_get)

text \<open>
  C28: Every asynchronous operation of \<open>MarketService\<close> delivers what the synchronous one returns: its future
  gets the outcome that the operation has in the world in which its thread runs, and the operation's effects
  are the only ones. Without a refused thread or a stopped pool each call has a future.
\<close>

theorem market_async_delivers:
  "threadDelivers (getQuotesAsync None J z C0 symbols greeks) (getQuotes J z C0 symbols greeks) \<and>
   threadDelivers (getQuotesPostAsync None J z C1 symbols greeks) (getQuotesPost J z C1 symbols greeks) \<and>
   threadDelivers (getQuoteAsync None J z C2 symbol greeks) (getQuote J z C2 symbol greeks) \<and>
   threadDelivers (getOptionChainAsync None J z C3 symbol expiration greeks) (getOptionChain J z C3 symbol expiration greeks) \<and>
   threadDelivers (getOptionStrikesAsync None J C4 symbol expiration includeAllRoots) (getOptionStrikes J C4 symbol expiration includeAllRoots) \<and>
   threadDelivers (getOptionExpirationsAsync None J C5 symbol includeAllRoots strikes contractSize expirationType) (getOptionExpirations J C5 symbol includeAllRoots strikes contractSize expirationType) \<and>
   threadDelivers (lookupOptionSymbolsAsync None J C6 underlying) (lookupOptionSymbols J C6 underlying) \<and>
   threadDelivers (quoteExecuteAsync None J z C7 r) (execute J z C7 r) \<and>
   poolDelivers (getHistoricalDataAsync J C8 symbol interval start until sessionFilter) (getHistoricalData J C8 symbol interval start until sessionFilter) \<and>
   poolDelivers (getTimeSalesAsync J C9 symbol interval start until sessionFilter) (getTimeSales J C9 symbol interval start until sessionFilter) \<and>
   poolDelivers (getETBListAsync J C10) (getETBList J C10) \<and>
   poolDelivers (getClockAsync J C11 delayed) (getClock J C11 delayed) \<and>
   poolDelivers (getCalendarAsync J junk C12 month year) (getCalendar J junk C12 month year) \<and>
   poolDelivers (searchSymbolsAsync J C13 query indexes) (searchSymbols J C13 query indexes) \<and>
   poolDelivers (lookupSymbolsAsync J C14 query exchanges types) (lookupSymbols J C14 query exchanges types) \<and>
   poolDelivers (getCompanyInfoAsync J C15 symbol) (getCompanyInfo J C15 symbol) \<and>
   poolDelivers (getCorporateCalendarAsync J C16 symbol) (getCorporateCalendar J C16 symbol) \<and>
   poolDelivers (getDividendsAsync J C17 symbol) (getDividends J C17 symbol) \<and>
   poolDelivers (getCorporateActionsAsync J C18 symbol) (getCorporateActions J C18 symbol) \<and>
   poolDelivers (getFinancialRatiosAsync J C19 symbol) (getFinancialRatios J C19 symbol) \<and>
   poolDelivers (getFinancialStatementsAsync J C20 symbol) (getFinancialStatements J C20 symbol) \<and>
   poolDelivers (getPriceStatisticsAsync J C21 symbol) (getPriceStatistics J C21 symbol)"
  unfolding getQuotesAsync_def getQuotesPostAsync_def getQuoteAsync_def getOptionChainAsync_def getOptionStrikesAsync_def
    getOptionExpirationsAsync_def lookupOptionSymbolsAsync_def getHistoricalDataAsync_def getTimeSalesAsync_def getETBListAsync_def
    getClockAsync_def getCalendarAsync_def searchSymbolsAsync_def lookupSymbolsAsync_def getCompanyInfoAsync_def
    getCorporateCalendarAsync_def getDividendsAsync_def getCorporateActionsAsync_def getFinancialRatiosAsync_def getFinancialStatementsAsync_def
    getPriceStatisticsAsync_def
    quoteExecuteAsync_def execute_def
  by (simp add: makeSimpleAsync_delivers makeAsync_delivers)

lemma quotes_never_throw:
  "getQuotes J z C symbols greeks w \<noteq> Some (Inl e, w')" "getQuote J z C symbol greeks w \<noteq> Some (Inl e, w')"
  by (auto simp: getQuote_def getQuotes_def tryExecuteIO_def bindIO_def io_prims split: option.splits sum.splits if_splits)

text \<open>
  The callback variants of \<open>getQuotes\<close> and \<open>getQuote\<close> return after their callback has run, and hand it the result
  of the synchronous operation; a callback that does not throw is called exactly once.
\<close>

theorem market_callbacks_are_synchronous:
  assumes "\<And>r w. \<exists>w'. callback r w = Some (Inr (), w')" "\<And>r w. \<exists>w'. callback1 r w = Some (Inr (), w')"
  shows "getQuotesCallback None None J z C symbols greeks callback = bindIO (getQuotes J z C symbols greeks) callback \<and>
    getQuoteCallback None None J z C1 symbol greeks callback1 = bindIO (getQuote J z C1 symbol greeks) callback1"
proof -
  have plain: "executeSimpleAsync None None f cb = bindIO f cb"
    if never: "\<And>w e w'. f w \<noteq> Some (Inl e, w')" and total: "\<And>r w. \<exists>w'. cb r w = Some (Inr (), w')"
    for f :: "('x, exn, 'y ApiResult) io" and cb
  proof
    fix w
    show "executeSimpleAsync None None f cb w = bindIO f cb w"
    proof (cases "f w")
      case None
      then show ?thesis by (simp add: executeSimpleAsync_def detached_def callbackBody_def catchIO_def bindIO_def)
    next
      case (Some q)
      obtain res v where q: "f w = Some (Inr res, v)" using Some never by (cases q; cases "fst q") auto
      then show ?thesis using total [of res v]
        by (auto simp: executeSimpleAsync_def callbackBody_def detached_def catchIO_def bindIO_def)
    qed
  qed
  show ?thesis unfolding getQuotesCallback_def getQuoteCallback_def
    by (intro conjI plain quotes_never_throw assms)
qed

text \<open>Witness: callbacks that count their calls.\<close>

theorem market_callbacks_are_synchronous_witness:
  "getQuotesCallback None None (jref (\<lambda>_. Inl [])) (\<lambda>t. t) \<lparr>cl_get = \<lambda>_ _. throwIO (ConnectionError []),
      cl_post = \<lambda>_ _. throwIO (ConnectionError []), cl_put = \<lambda>_ _. throwIO (ConnectionError []),
      cl_del = \<lambda>_ _. throwIO (ConnectionError [])\<rparr> [] False (\<lambda>_. modifyIO Suc) (0 :: nat) = Some (Inr (), 1)"
proof -
  let ?C = "\<lparr>cl_get = \<lambda>_ _. throwIO (ConnectionError []), cl_post = \<lambda>_ _. throwIO (ConnectionError []),
      cl_put = \<lambda>_ _. throwIO (ConnectionError []), cl_del = \<lambda>_ _. throwIO (ConnectionError [])\<rparr> :: nat client_ops"
  have "\<exists>w'. modifyIO Suc w = Some (Inr () :: unit fallible, w')" for w by (simp add: modifyIO_def)
  from market_callbacks_are_synchronous [of "\<lambda>_. modifyIO Suc" "\<lambda>_. modifyIO Suc", OF this this, of "jref (\<lambda>_. Inl [])" "\<lambda>t. t" ?C "[]" False]
  show ?thesis by (simp add: getQuotes_def tryExecuteIO_def whenE_def io_prims bindIO_def)
qed

end
