(* ===== verification/Logger.thy ===== *)
theory Logger
  imports Dates "HOL-Library.Sublist"
begin

text \<open>
  \<^verbatim>\<open>common/debug.hpp\<close> and \<^verbatim>\<open>common/debug.cpp\<close>: the \<open>Logger\<close> with its optional thread, the files of
  \<open>ScopedFileLogger\<close>, and the functions that log requests, responses and errors. \<open>stderrLines\<close> are the lines on
  \<open>std::cerr\<close>. The thread is at one of the program points of \<open>processLogQueue\<close>; it holds \<open>queueMutex_\<close> at
  \<open>AboutToBlock\<close> and \<open>AtQueue\<close>. Each function is one of its moves or one step of a caller.

  \<open>lz\<close> is the offset of the local time zone at a time, \<open>tid\<close> the printed id of the calling thread, and \<open>fs\<close>
  says which files can be opened for writing.
\<close>

section \<open>State\<close>

datatype Level = LEVEL_NONE | LEVEL_ERROR | LEVEL_WARN | LEVEL_INFO | LEVEL_DEBUG | LEVEL_TRACE

fun levelNumber :: "Level \<Rightarrow> nat" where
  "levelNumber LEVEL_NONE = 0"
| "levelNumber LEVEL_ERROR = 1"
| "levelNumber LEVEL_WARN = 2"
| "levelNumber LEVEL_INFO = 3"
| "levelNumber LEVEL_DEBUG = 4"
| "levelNumber LEVEL_TRACE = 5"

instantiation Level :: linorder
begin

definition less_eq_Level :: "Level \<Rightarrow> Level \<Rightarrow> bool" where
  "a \<le> b \<longleftrightarrow> levelNumber a \<le> levelNumber b"

definition less_Level :: "Level \<Rightarrow> Level \<Rightarrow> bool" where
  "a < b \<longleftrightarrow> levelNumber a < levelNumber b"

instance
proof
  fix a b :: Level
  assume "a \<le> b" "b \<le> a"
  then show "a = b" by (cases a; cases b) (simp_all add: less_eq_Level_def)
qed (auto simp: less_eq_Level_def less_Level_def)

end

fun levelToString :: "Level \<Rightarrow> string" where
  "levelToString LEVEL_ERROR = ''ERROR''"
| "levelToString LEVEL_WARN = ''WARN ''"
| "levelToString LEVEL_INFO = ''INFO ''"
| "levelToString LEVEL_DEBUG = ''DEBUG''"
| "levelToString LEVEL_TRACE = ''TRACE''"
| "levelToString LEVEL_NONE = ''NONE ''"

datatype log_thread =
    NoLogThread | AtLoop | AboutToBlock | Sleeping | Notified | AtQueue | Printing string | LoopDone

record Logger =
  logLevel :: Level
  logEnabled :: bool
  asyncLogging :: bool
  logThread :: log_thread
  logQueue :: "string list"
  stopLogging :: bool
  droppedMessages :: nat
  stderrLines :: "string list"

definition MAX_QUEUE_SIZE :: nat where
  "MAX_QUEUE_SIZE = 10000"

definition newLogger :: Logger where
  "newLogger = \<lparr>logLevel = LEVEL_NONE, logEnabled = False, asyncLogging = False, logThread = NoLogThread,
     logQueue = [], stopLogging = False, droppedMessages = 0, stderrLines = []\<rparr>"

section \<open>Settings\<close>

definition setLevel :: "Level \<Rightarrow> Logger \<Rightarrow> Logger" where
  "setLevel level l = l\<lparr>logLevel := level\<rparr>"

definition getLevel :: "Logger \<Rightarrow> Level" where
  "getLevel l = logLevel l"

definition setEnabled :: "bool \<Rightarrow> Logger \<Rightarrow> Logger" where
  "setEnabled b l = l\<lparr>logEnabled := b\<rparr>"

definition isEnabled :: "Logger \<Rightarrow> bool" where
  "isEnabled l = logEnabled l"

definition getDroppedMessageCount :: "Logger \<Rightarrow> nat" where
  "getDroppedMessageCount l = droppedMessages l"

definition resetDroppedMessageCount :: "Logger \<Rightarrow> Logger" where
  "resetDroppedMessageCount l = l\<lparr>droppedMessages := 0\<rparr>"

definition getQueueSize :: "Logger \<Rightarrow> nat" where
  "getQueueSize l = (if \<not> asyncLogging l then 0 else length (logQueue l))"

section \<open>The thread\<close>

text \<open>\<open>enableAsyncLogging(true)\<close>, and the three steps of \<open>enableAsyncLogging(false)\<close>: the flag, the notification, \<open>join\<close>.\<close>

definition enableAsync :: "Logger \<Rightarrow> Logger" where
  "enableAsync l =
     (if \<not> asyncLogging l then l\<lparr>asyncLogging := True, stopLogging := False, logThread := AtLoop\<rparr> else l)"

definition requestStop :: "Logger \<Rightarrow> Logger" where
  "requestStop l = (if asyncLogging l then l\<lparr>stopLogging := True\<rparr> else l)"

definition notifyThread :: "Logger \<Rightarrow> Logger" where
  "notifyThread l = (if logThread l = Sleeping then l\<lparr>logThread := Notified\<rparr> else l)"

definition joinThread :: "Logger \<Rightarrow> Logger option" where
  "joinThread l =
     (if \<not> asyncLogging l then Some l
      else if logThread l = LoopDone then Some (l\<lparr>logThread := NoLogThread, asyncLogging := False\<rparr>)
      else None)"

text \<open>The moves of \<open>processLogQueue\<close>: \<open>waitTest\<close> is the test of the condition under the lock.\<close>

definition waitTest :: "Logger \<Rightarrow> Logger" where
  "waitTest l = l\<lparr>logThread := if logQueue l \<noteq> [] \<or> stopLogging l then AtQueue else AboutToBlock\<rparr>"

definition threadMove :: "Logger \<Rightarrow> Logger option" where
  "threadMove l =
     (case logThread l of
        AtLoop \<Rightarrow> Some (if stopLogging l then l\<lparr>logThread := LoopDone\<rparr> else waitTest l)
      | AboutToBlock \<Rightarrow> Some (l\<lparr>logThread := Sleeping\<rparr>)
      | Notified \<Rightarrow> Some (waitTest l)
      | AtQueue \<Rightarrow>
          Some (if logQueue l \<noteq> [] \<and> \<not> stopLogging l
                then l\<lparr>logQueue := tl (logQueue l), logThread := Printing (hd (logQueue l))\<rparr>
                else l\<lparr>logThread := AtLoop\<rparr>)
      | Printing m \<Rightarrow> Some (l\<lparr>stderrLines := stderrLines l @ [m], logThread := AtQueue\<rparr>)
      | _ \<Rightarrow> None)"

definition mutexFree :: "Logger \<Rightarrow> bool" where
  "mutexFree l \<longleftrightarrow> logThread l \<notin> {AboutToBlock, AtQueue}"

section \<open>Messages\<close>

definition localtime :: "(int \<Rightarrow> int) \<Rightarrow> int \<Rightarrow> tm" where
  "localtime lz t = gmtime (t + lz t)"

definition millisOf :: "int \<Rightarrow> int" where
  "millisOf now = (if 0 \<le> now then ms_of_ns now mod 1000 else - (- ms_of_ns now mod 1000))"

definition logText :: "(int \<Rightarrow> int) \<Rightarrow> string \<Rightarrow> int \<Rightarrow> Level \<Rightarrow> string \<Rightarrow> string" where
  "logText lz tid now level message =
     ''['' @ put_time ''%H:%M:%S'' (localtime lz (truncSeconds now)) @ ''.'' @ pad0 3 (to_string (millisOf now)) @
     ''] ['' @ levelToString level @ ''] [T:'' @ take 4 tid @ ''] '' @ message"

definition droppedNotice :: "nat \<Rightarrow> string" where
  "droppedNotice k = ''[LOG_ERROR] Dropped '' @ to_string_nat k @ '' log messages due to queue overflow''"

text \<open>What becomes of a finished line.\<close>

definition pushLine :: "string \<Rightarrow> Logger \<Rightarrow> Logger" where
  "pushLine text l =
     (if asyncLogging l then
        if length (logQueue l) < MAX_QUEUE_SIZE then notifyThread (l\<lparr>logQueue := logQueue l @ [text]\<rparr>)
        else
          let l = l\<lparr>droppedMessages := Suc (droppedMessages l)\<rparr>
          in if droppedMessages l mod 1000 = 0
             then l\<lparr>stderrLines := stderrLines l @ [droppedNotice (droppedMessages l)]\<rparr> else l
      else l\<lparr>stderrLines := stderrLines l @ [text]\<rparr>)"

definition passesLevel :: "Level \<Rightarrow> Logger \<Rightarrow> bool" where
  "passesLevel level l \<longleftrightarrow> \<not> (\<not> logEnabled l \<or> logLevel l < level)"

record log_env =
  log_net :: net
  log_zone :: "int \<Rightarrow> int"
  log_tid :: string
  log_fs :: "string \<Rightarrow> bool"

record log_world = world +
  logger :: Logger
  logFiles :: "string \<rightharpoonup> string"

type_synonym ('z, 'a) log_io = "('z log_world_scheme, exn, 'a) io"

definition onLogger :: "(Logger \<Rightarrow> Logger) \<Rightarrow> 'z log_world_scheme \<Rightarrow> 'z log_world_scheme" where
  "onLogger f w = w\<lparr>logger := f (logger w)\<rparr>"

definition logIO :: "log_env \<Rightarrow> Level \<Rightarrow> string \<Rightarrow> ('z, unit) log_io" where
  "logIO E level message =
     bindIO (getIO logger) (\<lambda>l.
       if \<not> passesLevel level l then returnIO ()
       else
         bindIO (systemNow (log_net E)) (\<lambda>now.
           modifyIO (onLogger (pushLine (logText (log_zone E) (log_tid E) now level message)))))"

definition logError :: "log_env \<Rightarrow> string \<Rightarrow> ('z, unit) log_io" where
  "logError E message = logIO E LEVEL_ERROR message"

definition logWarn :: "log_env \<Rightarrow> string \<Rightarrow> ('z, unit) log_io" where
  "logWarn E message = logIO E LEVEL_WARN message"

definition logInfo :: "log_env \<Rightarrow> string \<Rightarrow> ('z, unit) log_io" where
  "logInfo E message = logIO E LEVEL_INFO message"

definition logDebug :: "log_env \<Rightarrow> string \<Rightarrow> ('z, unit) log_io" where
  "logDebug E message = logIO E LEVEL_DEBUG message"

definition logTrace :: "log_env \<Rightarrow> string \<Rightarrow> ('z, unit) log_io" where
  "logTrace E message = logIO E LEVEL_TRACE message"

text \<open>The macros \<open>DEBUG_LOG\<close>, \<open>TRACE_LOG\<close> and \<open>ERROR_LOG\<close> test the logger first.\<close>

definition whenEnabled :: "('z, unit) log_io \<Rightarrow> ('z, unit) log_io" where
  "whenEnabled m = bindIO (getIO logger) (\<lambda>l. if isEnabled l then m else returnIO ())"

definition DEBUG_LOG :: "log_env \<Rightarrow> string \<Rightarrow> ('z, unit) log_io" where
  "DEBUG_LOG E message = whenEnabled (logDebug E message)"

definition TRACE_LOG :: "log_env \<Rightarrow> string \<Rightarrow> ('z, unit) log_io" where
  "TRACE_LOG E message = whenEnabled (logTrace E message)"

definition ERROR_LOG :: "log_env \<Rightarrow> string \<Rightarrow> ('z, unit) log_io" where
  "ERROR_LOG E message = whenEnabled (logError E message)"

fun logLines :: "log_env \<Rightarrow> Level \<Rightarrow> string list \<Rightarrow> ('z, unit) log_io" where
  "logLines E level [] = returnIO ()"
| "logLines E level (m # ms) = bindIO (logIO E level m) (\<lambda>_. logLines E level ms)"

definition logThreadInfo :: "log_env \<Rightarrow> string \<Rightarrow> string \<Rightarrow> ('z, unit) log_io" where
  "logThreadInfo E operation details =
     logDebug E (''Thread['' @ log_tid E @ ''] '' @ operation @ (if details \<noteq> [] then '': '' @ details else []))"

definition logPerformanceMetric :: "log_env \<Rightarrow> string \<Rightarrow> int \<Rightarrow> ('z, unit) log_io" where
  "logPerformanceMetric E operation duration = logInfo E (''PERF: '' @ operation @ '' took '' @ to_string duration @ ''ms'')"

text \<open>\<open>PerformanceTimer\<close>: the constructor and the destructor.\<close>

record PerformanceTimer =
  timedOperation :: string
  timerStart :: int

definition newPerformanceTimer :: "log_env \<Rightarrow> string \<Rightarrow> ('z, PerformanceTimer) log_io" where
  "newPerformanceTimer E operation =
     bindIO (steadyNow (log_net E)) (\<lambda>now. returnIO \<lparr>timedOperation = operation, timerStart = now\<rparr>)"

definition endPerformanceTimer :: "log_env \<Rightarrow> PerformanceTimer \<Rightarrow> ('z, unit) log_io" where
  "endPerformanceTimer E t =
     bindIO (steadyNow (log_net E)) (\<lambda>now.
       logPerformanceMetric E (timedOperation t) (ms_of_ns (now - timerStart t)))"

section \<open>Configurations\<close>

definition configureProductionLogging :: "Logger \<Rightarrow> Logger" where
  "configureProductionLogging l = enableAsync (setLevel LEVEL_INFO (setEnabled True l))"

text \<open>The first part of \<open>configureDebugLogging\<close>, before the thread is joined.\<close>

definition configureDebugLogging :: "Logger \<Rightarrow> Logger" where
  "configureDebugLogging l = requestStop (setLevel LEVEL_DEBUG (setEnabled True l))"

definition enableDebugLogging :: "Level \<Rightarrow> Logger \<Rightarrow> Logger" where
  "enableDebugLogging level l = setLevel level (setEnabled True l)"

definition disableDebugLogging :: "Logger \<Rightarrow> Logger" where
  "disableDebugLogging l = setEnabled False l"

text \<open>\<open>LoggerSession\<close>: the constructor saves level and switch, the destructor restores them.\<close>

record LoggerSession =
  originalLevel :: Level
  wasEnabled :: bool

definition beginSession :: "Level \<Rightarrow> Logger \<Rightarrow> LoggerSession \<times> Logger" where
  "beginSession level l = (\<lparr>originalLevel = getLevel l, wasEnabled = isEnabled l\<rparr>, setEnabled True (setLevel level l))"

definition endSession :: "LoggerSession \<Rightarrow> Logger \<Rightarrow> Logger" where
  "endSession s l = setEnabled (wasEnabled s) (setLevel (originalLevel s) l)"

section \<open>Files\<close>

record ScopedFileLogger =
  sfFilename :: string
  sfAutoDelete :: bool

definition newScopedFileLogger :: "log_env \<Rightarrow> string \<Rightarrow> bool \<Rightarrow> ('z, ScopedFileLogger) log_io" where
  "newScopedFileLogger E filename autoDelete =
     (if \<not> log_fs E filename then throwIO (RuntimeError (''Failed to open log file: '' @ filename))
      else
        bindIO (modifyIO (logFiles_update (\<lambda>fs. fs(filename \<mapsto> case fs filename of None \<Rightarrow> [] | Some c \<Rightarrow> c)))) (\<lambda>_.
          returnIO \<lparr>sfFilename = filename, sfAutoDelete = autoDelete\<rparr>))"

definition appendFile :: "ScopedFileLogger \<Rightarrow> string \<Rightarrow> ('z, unit) log_io" where
  "appendFile f text =
     modifyIO (logFiles_update (\<lambda>fs. fs(sfFilename f \<mapsto> (case fs (sfFilename f) of None \<Rightarrow> [] | Some c \<Rightarrow> c) @ text)))"

definition fileLog :: "log_env \<Rightarrow> ScopedFileLogger \<Rightarrow> string \<Rightarrow> ('z, unit) log_io" where
  "fileLog E f message =
     bindIO (systemNow (log_net E)) (\<lambda>now.
       appendFile f (''['' @ put_time ''%Y-%m-%d %H:%M:%S'' (localtime (log_zone E) (truncSeconds now)) @ ''] '' @ message @ [CHR 0x0A]))"

definition endScopedFileLogger :: "ScopedFileLogger \<Rightarrow> ('z, unit) log_io" where
  "endScopedFileLogger f =
     modifyIO (logFiles_update (\<lambda>fs. if sfAutoDelete f then fs(sfFilename f := None) else fs))"

definition saveResponseToFile :: "log_env \<Rightarrow> string \<Rightarrow> string \<Rightarrow> ('z, unit) log_io" where
  "saveResponseToFile E response filename =
     catchIO
       (bindIO (newScopedFileLogger E filename False) (\<lambda>f.
        bindIO (fileLog E f response) (\<lambda>_. endScopedFileLogger f)))
       (\<lambda>e. returnIO ())"

section \<open>Requests, responses and errors\<close>

definition headerLine :: "string \<times> string \<Rightarrow> string" where
  "headerLine kv =
     (case kv of (key, val) \<Rightarrow>
        if key = ''Authorization'' then ''  '' @ key @ '': '' @ take 12 val @ ''...'' else ''  '' @ key @ '': '' @ val)"

definition requestLines :: "string \<Rightarrow> string \<Rightarrow> params \<Rightarrow> string \<Rightarrow> string list" where
  "requestLines verb url hs content =
     [''=== HTTP REQUEST ==='', ''Method: '' @ verb, ''URL: '' @ url, ''Headers:''] @ map headerLine hs @
     (if content \<noteq> [] then [''Body: '' @ content] else []) @ [''=== END REQUEST ==='']"

definition logHttpRequest :: "log_env \<Rightarrow> string \<Rightarrow> string \<Rightarrow> params \<Rightarrow> string \<Rightarrow> ('z, unit) log_io" where
  "logHttpRequest E verb url hs content = logLines E LEVEL_DEBUG (requestLines verb url hs content)"

definition bodyPreview :: "string \<Rightarrow> string" where
  "bodyPreview text = take 200 text @ (if 200 < length text then ''...'' else [])"

definition responseLines :: "string \<Rightarrow> Response \<Rightarrow> string list" where
  "responseLines ep response =
     [''=== HTTP RESPONSE ==='', ''Endpoint: '' @ ep, ''Status: '' @ to_string (status response), ''Response Headers:''] @
     map (\<lambda>(key, val). ''  '' @ key @ '': '' @ val) (headers response) @
     [''Body Preview: '' @ bodyPreview (body response)]"

definition logHttpResponse :: "log_env \<Rightarrow> string \<Rightarrow> Response \<Rightarrow> bool \<Rightarrow> ('z, unit) log_io" where
  "logHttpResponse E ep response saveToFile =
     bindIO (logLines E LEVEL_DEBUG (responseLines ep response)) (\<lambda>_.
     bindIO
       (if saveToFile \<and> status response \<noteq> 200 then
          bindIO (systemNow (log_net E)) (\<lambda>now.
            let filename = ''debug_response_'' @ to_string (status response) @ ''_'' @ to_string (truncSeconds now) @ ''.html''
            in catchIO
                 (bindIO (saveResponseToFile E (body response) filename) (\<lambda>_.
                    logDebug E (''Full response saved to: '' @ filename)))
                 (\<lambda>e. logDebug E (''Failed to save response to file: '' @ what e)))
        else returnIO ()) (\<lambda>_.
       logDebug E ''=== END RESPONSE ===''))"

definition logApiError :: "log_env \<Rightarrow> string \<Rightarrow> string \<Rightarrow> Response option \<Rightarrow> ('z, unit) log_io" where
  "logApiError E operation error response =
     logLines E LEVEL_ERROR
       ([''=== API ERROR ==='', ''Operation: '' @ operation, ''Error: '' @ error] @
        (case response of
           None \<Rightarrow> []
         | Some r \<Rightarrow> [''HTTP Status: '' @ to_string (status r), ''Response Body Preview: '' @ take 300 (body r)]) @
        [''=== END API ERROR ===''])"

definition looksLikeHtml :: "string \<Rightarrow> bool" where
  "looksLikeHtml text \<longleftrightarrow> has_substring ''<html'' text \<or> has_substring ''<!DOCTYPE'' text"

definition logJsonParseError :: "log_env \<Rightarrow> string \<Rightarrow> string \<Rightarrow> string \<Rightarrow> ('z, unit) log_io" where
  "logJsonParseError E operation jsonError responseBody =
     bindIO (logLines E LEVEL_ERROR
       [''=== JSON PARSE ERROR ==='', ''Operation: '' @ operation, ''JSON Error: '' @ jsonError,
        ''Response Body (first 500 chars):'', take 500 responseBody]) (\<lambda>_.
     bindIO
       (if looksLikeHtml responseBody then
          bindIO (logLines E LEVEL_ERROR
            [''*** Response appears to be HTML instead of JSON! ***'',
             ''*** This usually indicates authentication failure ***'']) (\<lambda>_.
          catchIO
            (bindIO (saveResponseToFile E responseBody ''json_parse_error_response.html'') (\<lambda>_.
               logError E ''Full HTML response saved to: json_parse_error_response.html''))
            (\<lambda>e. logError E ''Failed to save HTML response to file''))
        else returnIO ()) (\<lambda>_.
       logError E ''=== END JSON PARSE ERROR ===''))"

end
