(* ===== verification/Logger_Properties.thy ===== *)
theory Logger_Properties
  imports Logger
begin

text \<open>
  What the logger guarantees: accepted lines are written in order and at most once, the queue is bounded and
  drops are counted, and of an access token only its beginning is ever logged. Switching the thread off can
  leave the caller waiting, and it leaves queued lines behind.
\<close>

section \<open>Runs\<close>

text \<open>
  \<open>log_run acc fin drops l\<close>: the logger has come to \<open>l\<close> after its queue accepted the lines \<open>acc\<close>, its thread wrote the
  lines \<open>fin\<close>, and \<open>drops\<close> lines were dropped since the counter was last reset. A line is queued when the mutex
  is free; \<open>notified\<close> is also the spurious wake-up.
\<close>

inductive log_run :: "string list \<Rightarrow> string list \<Rightarrow> nat \<Rightarrow> Logger \<Rightarrow> bool" where
  new: "log_run [] [] 0 newLogger"
| level: "log_run acc fin d l \<Longrightarrow> log_run acc fin d (setLevel lev l)"
| switch: "log_run acc fin d l \<Longrightarrow> log_run acc fin d (setEnabled b l)"
| reset: "log_run acc fin d l \<Longrightarrow> log_run acc fin 0 (resetDroppedMessageCount l)"
| enable: "log_run acc fin d l \<Longrightarrow> log_run acc fin d (enableAsync l)"
| stop: "log_run acc fin d l \<Longrightarrow> log_run acc fin d (requestStop l)"
| notified: "log_run acc fin d l \<Longrightarrow> log_run acc fin d (notifyThread l)"
| join: "log_run acc fin d l \<Longrightarrow> joinThread l = Some l' \<Longrightarrow> log_run acc fin d l'"
| move: "log_run acc fin d l \<Longrightarrow> threadMove l = Some l' \<Longrightarrow>
    log_run acc (fin @ (case logThread l of Printing m \<Rightarrow> [m] | _ \<Rightarrow> [])) d l'"
| push_now: "log_run acc fin d l \<Longrightarrow> \<not> asyncLogging l \<Longrightarrow> log_run acc fin d (pushLine text l)"
| push_queue: "log_run acc fin d l \<Longrightarrow> asyncLogging l \<Longrightarrow> mutexFree l \<Longrightarrow>
    log_run (acc @ (if length (logQueue l) < MAX_QUEUE_SIZE then [text] else [])) fin
      (if length (logQueue l) < MAX_QUEUE_SIZE then d else Suc d) (pushLine text l)"

definition inFlight :: "Logger \<Rightarrow> string list" where
  "inFlight l = (case logThread l of Printing m \<Rightarrow> [m] | _ \<Rightarrow> [])"

definition logger_ok :: "string list \<Rightarrow> string list \<Rightarrow> nat \<Rightarrow> Logger \<Rightarrow> bool" where
  "logger_ok acc fin d l \<longleftrightarrow>
     fin @ inFlight l @ logQueue l = acc \<and> length (logQueue l) \<le> MAX_QUEUE_SIZE \<and> droppedMessages l = d \<and>
     subseq fin (stderrLines l) \<and> (asyncLogging l \<longleftrightarrow> logThread l \<noteq> NoLogThread)"

lemmas logger_defs = logger_ok_def inFlight_def

lemma subseq_snoc: "subseq xs ys \<Longrightarrow> subseq xs (ys @ [y])"
  by (metis append_Nil2 list_emb_append_mono list_emb_Nil)

lemma logger_ok_notify: "logger_ok acc fin d l \<Longrightarrow> logger_ok acc fin d (notifyThread l)"
  by (auto simp: logger_defs notifyThread_def)

lemma logger_ok_move:
  assumes "logger_ok acc fin d l" "threadMove l = Some l'"
  shows "logger_ok acc (fin @ (case logThread l of Printing m \<Rightarrow> [m] | _ \<Rightarrow> [])) d l'"
proof (cases "logThread l")
  case (Printing m)
  then show ?thesis using assms by (auto simp: logger_defs threadMove_def list_emb_append_mono)
next
  case AtQueue
  then show ?thesis using assms by (cases "logQueue l") (auto simp: logger_defs threadMove_def split: if_splits)
qed (use assms in \<open>auto simp: logger_defs threadMove_def waitTest_def split: if_splits\<close>)

lemma logger_ok_push_now: "logger_ok acc fin d l \<Longrightarrow> \<not> asyncLogging l \<Longrightarrow> logger_ok acc fin d (pushLine text l)"
  by (auto simp: logger_defs pushLine_def subseq_snoc)

lemma logger_ok_push_queue:
  assumes "logger_ok acc fin d l" "asyncLogging l"
  shows "logger_ok (acc @ (if length (logQueue l) < MAX_QUEUE_SIZE then [text] else [])) fin
      (if length (logQueue l) < MAX_QUEUE_SIZE then d else Suc d) (pushLine text l)"
proof (cases "length (logQueue l) < MAX_QUEUE_SIZE")
  case True
  have "logger_ok (acc @ [text]) fin d (l\<lparr>logQueue := logQueue l @ [text]\<rparr>)"
    using assms True by (auto simp: logger_defs split: log_thread.splits)
  then show ?thesis using True assms(2) by (simp add: pushLine_def logger_ok_notify)
next
  case False
  then show ?thesis using assms by (auto simp: logger_defs pushLine_def Let_def subseq_snoc)
qed

lemma log_run_ok: "log_run acc fin d l \<Longrightarrow> logger_ok acc fin d l"
proof (induction rule: log_run.induct)
  case new
  show ?case by (simp add: logger_defs newLogger_def)
next
  case join
  then show ?case by (auto simp: logger_defs joinThread_def split: if_splits)
next
  case enable
  then show ?case by (auto simp: logger_defs enableAsync_def)
next
  case push_queue
  then show ?case using logger_ok_push_queue by blast
qed (auto simp: logger_ok_notify logger_ok_move logger_ok_push_now,
     auto simp: logger_defs setLevel_def setEnabled_def resetDroppedMessageCount_def requestStop_def)

text \<open>
  C32: The logging thread neither loses, repeats nor reorders what it accepted, and its memory is bounded: in
  every run the lines it has written, the one it is writing and those in the queue are, in this order, the
  accepted lines; the written ones appear on \<open>stderr\<close> in order; the queue has at most 10000 lines, and a line is
  turned away only when it is full, which the counter of dropped messages records.
\<close>

theorem logger_keeps_order:
  assumes "log_run acc fin d l"
  shows "fin @ inFlight l @ logQueue l = acc \<and> subseq fin (stderrLines l) \<and> length (logQueue l) \<le> 10000 \<and>
    getDroppedMessageCount l = d \<and>
    (asyncLogging l \<longrightarrow> 10000 \<le> length (logQueue l) \<longrightarrow> (\<forall>text. logQueue (pushLine text l) = logQueue l))"
  using log_run_ok [OF assms]
  by (auto simp: logger_ok_def MAX_QUEUE_SIZE_def getDroppedMessageCount_def pushLine_def Let_def)

text \<open>Witness: one line that the thread is about to write, and one in the queue.\<close>

definition busyLogger :: Logger where
  "busyLogger = newLogger\<lparr>asyncLogging := True, logThread := Printing ''a'', logQueue := [''b'']\<rparr>"

lemma busyLogger_run: "log_run [''a'', ''b''] [] 0 busyLogger"
proof -
  let ?l = "enableAsync newLogger"
  have "log_run [] [] 0 ?l" by (intro log_run.enable log_run.new)
  then have "log_run [''a''] [] 0 (pushLine ''a'' ?l)"
    using log_run.push_queue [of "[]" "[]" 0 ?l "''a''"]
    by (simp add: enableAsync_def newLogger_def mutexFree_def MAX_QUEUE_SIZE_def)
  then have "log_run [''a'', ''b''] [] 0 (pushLine ''b'' (pushLine ''a'' ?l))"
    using log_run.push_queue [of "[''a'']" "[]" 0 "pushLine ''a'' ?l" "''b''"]
    by (simp add: enableAsync_def newLogger_def mutexFree_def MAX_QUEUE_SIZE_def pushLine_def notifyThread_def)
  then have "log_run [''a'', ''b''] [] 0 (newLogger\<lparr>asyncLogging := True, logThread := AtLoop, logQueue := [''a'', ''b'']\<rparr>)"
    by (simp add: enableAsync_def newLogger_def MAX_QUEUE_SIZE_def pushLine_def notifyThread_def)
  from log_run.move [OF this] have "log_run [''a'', ''b''] [] 0 (newLogger\<lparr>asyncLogging := True, logThread := AtQueue, logQueue := [''a'', ''b'']\<rparr>)"
    by (simp add: threadMove_def waitTest_def newLogger_def)
  from log_run.move [OF this] show ?thesis by (simp add: threadMove_def newLogger_def busyLogger_def)
qed

theorem logger_keeps_order_witness: "[] @ inFlight busyLogger @ logQueue busyLogger = [''a'', ''b'']"
  using logger_keeps_order [OF busyLogger_run] by simp

section \<open>Switching the thread off\<close>

fun threadMoves :: "nat \<Rightarrow> Logger \<Rightarrow> Logger option" where
  "threadMoves 0 l = Some l"
| "threadMoves (Suc k) l = Option.bind (threadMove l) (threadMoves k)"

text \<open>
  Whether \<open>enableAsyncLogging(false)\<close> returns depends on a race. The flag is set without the mutex, so the
  notification is lost on a thread that has tested its condition but does not sleep yet: it then falls asleep
  with the flag set and cannot move, and \<open>join\<close> waits until somebody else logs a line. At every other point the thread ends after at
  most four moves and \<open>join\<close> returns; the lines in the queue are left there, unwritten and no longer counted.
\<close>

theorem logger_disable_race:
  assumes "log_run acc fin d l" "asyncLogging l"
  shows "if logThread l = AboutToBlock
    then \<exists>l1. threadMove (notifyThread (requestStop l)) = Some l1 \<and> stopLogging l1 \<and> threadMove l1 = None \<and> joinThread l1 = None
    else \<exists>k \<le> 4. \<exists>l1 l2. threadMoves k (notifyThread (requestStop l)) = Some l1 \<and> joinThread l1 = Some l2 \<and>
      logQueue l2 = logQueue l \<and> getQueueSize l2 = 0"
proof (cases "logThread l = AboutToBlock")
  case True
  then show ?thesis using assms(2) by (simp add: requestStop_def notifyThread_def threadMove_def joinThread_def)
next
  case False
  let ?l = "notifyThread (requestStop l)"
  have thread: "logThread l \<noteq> NoLogThread" using log_run_ok [OF assms(1)] assms(2) by (simp add: logger_ok_def)
  have "\<exists>k \<le> 4. \<exists>l1. threadMoves k ?l = Some l1 \<and> logThread l1 = LoopDone \<and> asyncLogging l1 \<and> logQueue l1 = logQueue l"
    using False thread assms(2)
    by (cases "logThread l")
      (auto simp: requestStop_def notifyThread_def threadMove_def waitTest_def numeral_eq_Suc
        intro: exI [of _ 0] exI [of _ "Suc 0"] exI [of _ "Suc (Suc 0)"] exI [of _ "Suc (Suc (Suc 0))"])
  then show ?thesis using False by (auto simp: joinThread_def getQueueSize_def)
qed

text \<open>Witness: the logger with two lines.\<close>

theorem logger_disable_race_witness:
  "\<exists>k \<le> 4. \<exists>l1 l2. threadMoves k (notifyThread (requestStop busyLogger)) = Some l1 \<and> joinThread l1 = Some l2 \<and>
     logQueue l2 = [''b''] \<and> getQueueSize l2 = 0"
proof -
  have "asyncLogging busyLogger" "logThread busyLogger \<noteq> AboutToBlock" "logQueue busyLogger = [''b'']"
    by (simp_all add: busyLogger_def)
  then show ?thesis using logger_disable_race [OF busyLogger_run] by simp
qed

section \<open>What is written\<close>

text \<open>\<open>log\<close> writes nothing above the level, and nothing while the logger is off.\<close>

lemma logIO_filter: "\<not> passesLevel level (logger w) \<Longrightarrow> logIO E level message w = Some (Inr (), w)"
  by (simp add: logIO_def io_prims)

lemma levels_nested: "a \<le> b \<Longrightarrow> passesLevel b l \<Longrightarrow> passesLevel a l"
  by (auto simp: passesLevel_def)

lemma session_restores:
  "getLevel (endSession (fst (beginSession lev l)) l') = getLevel l" "isEnabled (endSession (fst (beginSession lev l)) l') = isEnabled l"
  by (simp_all add: beginSession_def endSession_def setLevel_def setEnabled_def getLevel_def isEnabled_def)

lemma map_headerLine_put:
  assumes "take 12 a = take 12 b"
  shows "map headerLine (map_put ''Authorization'' a hs) = map headerLine (map_put ''Authorization'' b hs)"
  by (induction hs) (auto simp: headerLine_def assms)

text \<open>
  C33: The log does not tell access tokens apart: whatever is logged of a request depends on the value of its
  \<open>Authorization\<close> header only through the first twelve characters, which are \<open>Bearer\<close>, a blank and five
  characters of the token. Two requests that differ in nothing else leave the same lines and the same world.
\<close>

theorem log_hides_token:
  assumes "take 5 token = take 5 token'"
  shows "logHttpRequest E verb url (map_put ''Authorization'' (''Bearer '' @ token) hs) content =
    logHttpRequest E verb url (map_put ''Authorization'' (''Bearer '' @ token') hs) content"
proof -
  have "take 12 (''Bearer '' @ token) = take 12 (''Bearer '' @ token')" using assms by simp
  from map_headerLine_put [OF this, of hs] show ?thesis by (simp only: logHttpRequest_def requestLines_def)
qed

definition sampleLogEnv :: log_env where
  "sampleLogEnv = \<lparr>log_net = sampleNet (\<lambda>_ _. Inl []), log_zone = (\<lambda>_. 3600), log_tid = ''140213'', log_fs = (\<lambda>_. False)\<rparr>"

text \<open>Witness: two tokens with a common beginning.\<close>

theorem log_hides_token_witness:
  "logHttpRequest sampleLogEnv ''GET'' ''/user'' (map_put ''Authorization'' (''Bearer '' @ ''abcde12345'') []) [] =
   logHttpRequest sampleLogEnv ''GET'' ''/user'' (map_put ''Authorization'' (''Bearer '' @ ''abcdeXYZ'') []) []"
  by (rule log_hides_token) simp

text \<open>A failure to save is swallowed.\<close>

lemma save_never_throws: "\<exists>w'. saveResponseToFile E text filename w = Some (Inr (), w')"
  by (simp add: saveResponseToFile_def newScopedFileLogger_def fileLog_def appendFile_def endScopedFileLogger_def
      catchIO_def bindIO_def systemNow_def io_prims)

lemma save_unopened: "\<not> log_fs E filename \<Longrightarrow> saveResponseToFile E text filename = returnIO ()"
  by (simp add: saveResponseToFile_def newScopedFileLogger_def)

text \<open>
  The log says that a response was saved when it was not: with files that cannot be opened,
  \<open>logJsonParseError\<close> of an HTML page still writes that the page has been saved; all it does is to log these
  lines, so no file is written, and the line about a failure never appears.
\<close>

theorem save_failure_unnoticed:
  assumes "\<And>filename. \<not> log_fs E filename" "looksLikeHtml responseBody"
  shows "logJsonParseError E operation jsonError responseBody =
      logLines E LEVEL_ERROR [''=== JSON PARSE ERROR ==='', ''Operation: '' @ operation, ''JSON Error: '' @ jsonError,
        ''Response Body (first 500 chars):'', take 500 responseBody, ''*** Response appears to be HTML instead of JSON! ***'',
        ''*** This usually indicates authentication failure ***'',
        ''Full HTML response saved to: json_parse_error_response.html'', ''=== END JSON PARSE ERROR ==='']"
proof -
  have never: "catchIO (logError E m) h = logError E m" for m h
    by (auto simp: fun_eq_iff logError_def logIO_def catchIO_def bindIO_def systemNow_def io_prims)
  have last: "logError E m = bindIO (logIO E LEVEL_ERROR m) (\<lambda>_. returnIO ())" for m
    by (auto simp: fun_eq_iff logError_def bindIO_def returnIO_def split: option.splits sum.splits)
  show ?thesis
    using assms(2)
    by (simp add: logJsonParseError_def save_unopened [OF assms(1)] never) (simp add: last bindIO_assoc)
qed

text \<open>Witness: a file system on which nothing can be opened.\<close>

theorem save_failure_unnoticed_witness:
  "logJsonParseError sampleLogEnv ''op'' ''bad'' ''<html>'' =
      logLines sampleLogEnv LEVEL_ERROR [''=== JSON PARSE ERROR ==='', ''Operation: '' @ ''op'', ''JSON Error: '' @ ''bad'',
        ''Response Body (first 500 chars):'', take 500 ''<html>'', ''*** Response appears to be HTML instead of JSON! ***'',
        ''*** This usually indicates authentication failure ***'',
        ''Full HTML response saved to: json_parse_error_response.html'', ''=== END JSON PARSE ERROR ==='']"
  by (rule save_failure_unnoticed) (simp_all add: sampleLogEnv_def looksLikeHtml_def)

end
