(* ===== verification/Simd.thy ===== *)
theory Simd
  imports Streaming "HOL-Library.Multiset"
begin

text \<open>
  \<^verbatim>\<open>simd/streaming_simd.cpp\<close> with \<^verbatim>\<open>simd/streaming_simd.hpp\<close> and the dispatcher of \<^verbatim>\<open>simd/simd_traits.hpp\<close>: the bulk
  conversion of JSON values to numbers and the bulk processing of events, each in a plain version and in
  one that works on blocks. An array is a list. A conversion yields the written part of the output array,
  whose length is the returned count; processing yields the count or the exception and, in order, the
  events that were handed to the handlers.
\<close>

section \<open>Numbers\<close>

text \<open>
  \<open>std::from_chars\<close>: no white space, no plus sign, no hexadecimal numbers. \<open>None\<close> is an error code; a number that
  is too large, or rounds to zero without being zero, is out of range.
\<close>

definition charsRange :: "bool \<Rightarrow> rat \<Rightarrow> double option" where
  "charsRange neg a =
     (let r = round64 a in if a \<noteq> 0 \<and> (r = DInf False \<or> d_val r = 0) then None else Some (d_signed neg a))"

definition from_chars :: "string \<Rightarrow> double option" where
  "from_chars s =
     (let neg = (s \<noteq> [] \<and> hd s = CHR ''-''); t = (if neg then tl s else s); l = map lower t
      in if is_prefix ''inf'' l then Some (DInf neg)
         else if is_prefix ''nan'' l then Some (DNaN neg)
         else (case mantissa is_digit t of (i, f, r) \<Rightarrow>
                 if i @ f = [] then None
                 else charsRange neg (of_nat (read_nat (i @ f)) * pow10 (exponentOf (CHR ''e'') r - int (length f)))))"

definition scalarNumber :: "'j json_api \<Rightarrow> 'j \<Rightarrow> double option fallible" where
  "scalarNumber J x =
     (if j_is_number J x then map_sum id Some (jx (j_double J x))
      else if j_is_string J x then
        Inr (case j_string J x of Inl m \<Rightarrow> None | Inr str \<Rightarrow> if str \<noteq> [] then stod str else None)
      else Inr None)"

definition avx2Number :: "'j json_api \<Rightarrow> 'j \<Rightarrow> double option fallible" where
  "avx2Number J x =
     (if j_is_number J x then map_sum id Some (jx (j_double J x))
      else if j_is_string J x then
        map_sum id (\<lambda>str. if str \<noteq> [] then from_chars str else None) (jx (j_string J x))
      else Inr None)"

definition valids :: "double option list \<Rightarrow> double list" where
  "valids = List.map_filter id"

definition bulkNumbersScalar :: "'j json_api \<Rightarrow> 'j list \<Rightarrow> double list fallible" where
  "bulkNumbersScalar J xs = map_sum id valids (traverseE (scalarNumber J) xs)"

text \<open>Blocks of four, then the rest with the plain conversion.\<close>

fun bulkNumbersAvx2 :: "'j json_api \<Rightarrow> 'j list \<Rightarrow> double list fallible" where
  "bulkNumbersAvx2 J (a # b # c # d # xs) =
     bindE (traverseE (avx2Number J) [a, b, c, d]) (\<lambda>vs.
     bindE (bulkNumbersAvx2 J xs) (\<lambda>ws. Inr (valids vs @ ws)))"
| "bulkNumbersAvx2 J xs = bulkNumbersScalar J xs"

definition bulkNumbersAvx512 :: "'j json_api \<Rightarrow> 'j list \<Rightarrow> double list fallible" where
  "bulkNumbersAvx512 J xs = bulkNumbersScalar J xs"

section \<open>Events\<close>

record handlers =
  onTrade :: "TradeEvent handler"
  onQuote :: "QuoteEvent handler"

text \<open>The body of the \<open>try\<close> block: the event that was handed over, and whether it counts as processed.\<close>

definition offerTrade :: "'j json_api \<Rightarrow> handlers \<Rightarrow> string \<Rightarrow> string fallible \<Rightarrow> 'j \<Rightarrow> stream_event list \<times> nat" where
  "offerTrade J hs type sy json =
     (case onTrade hs of
        None \<Rightarrow> ([], 0)
      | Some h \<Rightarrow>
          (case bindE sy (\<lambda>symbol. readTrade J type symbol json) of
             Inl e \<Rightarrow> ([], 0)
           | Inr event \<Rightarrow> ([OnTrade event], case h event of Inl e \<Rightarrow> 0 | Inr _ \<Rightarrow> 1)))"

definition offerQuote :: "'j json_api \<Rightarrow> handlers \<Rightarrow> string \<Rightarrow> string fallible \<Rightarrow> 'j \<Rightarrow> stream_event list \<times> nat" where
  "offerQuote J hs type sy json =
     (case onQuote hs of
        None \<Rightarrow> ([], 0)
      | Some h \<Rightarrow>
          (case bindE sy (\<lambda>symbol. readQuote J type symbol json) of
             Inl e \<Rightarrow> ([], 0)
           | Inr event \<Rightarrow> ([OnQuote event], case h event of Inl e \<Rightarrow> 0 | Inr _ \<Rightarrow> 1)))"

definition offer :: "'j json_api \<Rightarrow> handlers \<Rightarrow> string \<Rightarrow> string fallible \<Rightarrow> 'j \<Rightarrow> stream_event list \<times> nat" where
  "offer J hs type sy json =
     (if type = ''trade'' \<and> onTrade hs \<noteq> None then offerTrade J hs type sy json
      else if type = ''quote'' \<and> onQuote hs \<noteq> None then offerQuote J hs type sy json
      else ([], 0))"

definition typeOf :: "'j json_api \<Rightarrow> 'j \<Rightarrow> string fallible" where
  "typeOf J json = bindE (atE J json ''type'') (\<lambda>x. jx (j_string J x))"

definition symbolOf :: "'j json_api \<Rightarrow> 'j \<Rightarrow> string fallible" where
  "symbolOf J json = jx (j_value_string J json ''symbol'' [])"

type_synonym batch = "nat fallible \<times> stream_event list"

definition afterOffer :: "stream_event list \<times> nat \<Rightarrow> batch \<Rightarrow> batch" where
  "afterOffer x b = (map_sum id (\<lambda>k. snd x + k) (fst b), fst x @ snd b)"

text \<open>In the plain version the symbol is read before the \<open>try\<close> block.\<close>

fun bulkEventsScalar :: "'j json_api \<Rightarrow> handlers \<Rightarrow> 'j list \<Rightarrow> batch" where
  "bulkEventsScalar J hs [] = (Inr 0, [])"
| "bulkEventsScalar J hs (json # events) =
     (if \<not> j_contains J json ''type'' then bulkEventsScalar J hs events
      else
        (case typeOf J json of
           Inl e \<Rightarrow> (Inl e, [])
         | Inr type \<Rightarrow>
             (case symbolOf J json of
                Inl e \<Rightarrow> (Inl e, [])
              | Inr symbol \<Rightarrow> afterOffer (offer J hs type (Inr symbol) json) (bulkEventsScalar J hs events))))"

text \<open>The loop over the rest in the version with blocks: the symbol is read in the \<open>try\<close> block.\<close>

fun bulkEventsRest :: "'j json_api \<Rightarrow> handlers \<Rightarrow> 'j list \<Rightarrow> batch" where
  "bulkEventsRest J hs [] = (Inr 0, [])"
| "bulkEventsRest J hs (json # events) =
     (if \<not> j_contains J json ''type'' then bulkEventsRest J hs events
      else
        (case typeOf J json of
           Inl e \<Rightarrow> (Inl e, [])
         | Inr type \<Rightarrow> afterOffer (offer J hs type (symbolOf J json) json) (bulkEventsRest J hs events)))"

text \<open>A block: all types, then the trades, then the quotes.\<close>

definition classify :: "'j json_api \<Rightarrow> 'j \<Rightarrow> string fallible" where
  "classify J json = (if j_contains J json ''type'' then typeOf J json else Inr [])"

definition blockPass ::
  "(string \<Rightarrow> 'j \<Rightarrow> stream_event list \<times> nat) \<Rightarrow> string \<Rightarrow> (string \<times> 'j) list \<Rightarrow> stream_event list \<times> nat" where
  "blockPass give wanted tjs =
     (let os = map (\<lambda>(type, json). give type json) (filter (\<lambda>(type, json). type = wanted) tjs)
      in (concat (map fst os), sum_list (map snd os)))"

definition blockEvents :: "'j json_api \<Rightarrow> handlers \<Rightarrow> (string \<times> 'j) list \<Rightarrow> stream_event list \<times> nat" where
  "blockEvents J hs tjs =
     (let trades = blockPass (\<lambda>type json. offerTrade J hs type (symbolOf J json) json) ''trade'' tjs;
          quotes = blockPass (\<lambda>type json. offerQuote J hs type (symbolOf J json) json) ''quote'' tjs
      in (fst trades @ fst quotes, snd trades + snd quotes))"

definition chunk_size :: nat where
  "chunk_size = 8"

text \<open>\<open>chunks\<close> blocks, then the rest.\<close>

fun bulkChunks :: "'j json_api \<Rightarrow> handlers \<Rightarrow> nat \<Rightarrow> 'j list \<Rightarrow> batch" where
  "bulkChunks J hs 0 events = bulkEventsRest J hs events"
| "bulkChunks J hs (Suc chunks) events =
     (case traverseE (classify J) (take chunk_size events) of
        Inl e \<Rightarrow> (Inl e, [])
      | Inr types \<Rightarrow>
          afterOffer (blockEvents J hs (zip types (take chunk_size events)))
            (bulkChunks J hs chunks (drop chunk_size events)))"

definition bulkEventsAvx2 :: "'j json_api \<Rightarrow> handlers \<Rightarrow> 'j list \<Rightarrow> batch" where
  "bulkEventsAvx2 J hs events = bulkChunks J hs (length events div chunk_size) events"

definition bulkEventsAvx512 :: "'j json_api \<Rightarrow> handlers \<Rightarrow> 'j list \<Rightarrow> batch" where
  "bulkEventsAvx512 J hs events = bulkEventsAvx2 J hs events"

section \<open>Dispatch\<close>

text \<open>The macros that select an implementation at compile time.\<close>

record simd_config =
  SIMD_ENABLED :: bool
  AVX2_AVAILABLE :: bool
  AVX512_AVAILABLE :: bool

definition SIMD_ACTIVE :: "simd_config \<Rightarrow> bool" where
  "SIMD_ACTIVE c \<longleftrightarrow> SIMD_ENABLED c \<and> (AVX2_AVAILABLE c \<or> AVX512_AVAILABLE c)"

definition SIMD_DOUBLE_WIDTH :: "simd_config \<Rightarrow> nat" where
  "SIMD_DOUBLE_WIDTH c = (if SIMD_ACTIVE c then if AVX512_AVAILABLE c then 8 else 4 else 1)"

definition SIMD_FLOAT_WIDTH :: "simd_config \<Rightarrow> nat" where
  "SIMD_FLOAT_WIDTH c = (if SIMD_ACTIVE c then if AVX512_AVAILABLE c then 16 else 8 else 1)"

definition simdDispatch :: "simd_config \<Rightarrow> 'f \<Rightarrow> 'f \<Rightarrow> 'f \<Rightarrow> 'f" where
  "simdDispatch c scalar avx2 avx512 =
     (if SIMD_ACTIVE c then
        if AVX512_AVAILABLE c then avx512 else if AVX2_AVAILABLE c then avx2 else scalar
      else scalar)"

definition bulk_string_to_double :: "simd_config \<Rightarrow> 'j json_api \<Rightarrow> 'j list \<Rightarrow> double list fallible" where
  "bulk_string_to_double c J = simdDispatch c (bulkNumbersScalar J) (bulkNumbersAvx2 J) (bulkNumbersAvx512 J)"

definition bulk_process_events :: "simd_config \<Rightarrow> 'j json_api \<Rightarrow> handlers \<Rightarrow> 'j list \<Rightarrow> batch" where
  "bulk_process_events c J hs =
     simdDispatch c (bulkEventsScalar J hs) (bulkEventsAvx2 J hs) (bulkEventsAvx512 J hs)"

section \<open>The conversions agree\<close>

text \<open>
  A text that both conversions read alike: no white space or plus sign in front, no hexadecimal number, and a
  value that is zero, too large, or has a normal number next to it.
\<close>

definition decimalValue :: "string \<Rightarrow> rat" where
  "decimalValue t = (case mantissa is_digit t of (i, f, r) \<Rightarrow>
     of_nat (read_nat (i @ f)) * pow10 (exponentOf (CHR ''e'') r - int (length f)))"

definition unsigned :: "string \<Rightarrow> string" where
  "unsigned s = (if s \<noteq> [] \<and> hd s = CHR ''-'' then tl s else s)"

definition plainNumber :: "string \<Rightarrow> bool" where
  "plainNumber s \<longleftrightarrow>
     s \<noteq> [] \<and> \<not> is_space (hd s) \<and> hd s \<noteq> CHR ''+'' \<and> \<not> is_prefix ''0x'' (map lower (unsigned s)) \<and>
     (let a = decimalValue (unsigned s)
      in a = 0 \<or> round64 a = DInf False \<or> pow2 (- 1022) \<le> d_val (round64 a))"

lemma pow2_pos: "0 < pow2 k"
  by (simp add: pow2_def)

lemma from_chars_plain:
  assumes "plainNumber s"
  shows "from_chars s = stod s"
proof -
  have s: "s \<noteq> []" "dropWhile is_space s = s" "signOf s = (hd s = CHR ''-'', unsigned s)"
    using assms by (cases s; auto simp: plainNumber_def signOf_def unsigned_def)+
  have range: "charsRange neg a = inRange neg a" if "a = 0 \<or> round64 a = DInf False \<or> pow2 (- 1022) \<le> d_val (round64 a)" for neg a
    using that pow2_pos [of "- 1022"] by (auto simp: charsRange_def inRange_def Let_def)
  obtain i f r where m: "mantissa is_digit (unsigned s) = (i, f, r)" by (cases "mantissa is_digit (unsigned s)")
  define a where "a = of_nat (read_nat (i @ f)) * pow10 (exponentOf (CHR ''e'') r - int (length f))"
  have "decimalValue (unsigned s) = a" by (simp add: decimalValue_def m a_def)
  then have eq: "charsRange neg a = inRange neg a" for neg
    using range assms by (auto simp: plainNumber_def Let_def)
  have t: "(if s \<noteq> [] \<and> hd s = CHR ''-'' then tl s else s) = unsigned s" by (simp add: unsigned_def)
  have hex: "\<not> is_prefix ''0x'' (map lower (unsigned s))" using assms by (simp add: plainNumber_def)
  have "stod s = (if is_prefix ''inf'' (map lower (unsigned s)) then Some (DInf (hd s = CHR ''-''))
       else if is_prefix ''nan'' (map lower (unsigned s)) then Some (DNaN (hd s = CHR ''-''))
       else if i @ f = [] then None else inRange (hd s = CHR ''-'') a)"
    unfolding stod_def s(2,3) Let_def prod.case m a_def using hex by (simp only: simp_thms if_False)
  moreover have "from_chars s = (if is_prefix ''inf'' (map lower (unsigned s)) then Some (DInf (hd s = CHR ''-''))
       else if is_prefix ''nan'' (map lower (unsigned s)) then Some (DNaN (hd s = CHR ''-''))
       else if i @ f = [] then None else charsRange (hd s = CHR ''-'') a)"
    unfolding from_chars_def Let_def t prod.case m a_def using s(1) by (simp only: simp_thms)
  ultimately show ?thesis by (simp only: eq)
qed

definition readsAlike :: "'j json_api \<Rightarrow> 'j \<Rightarrow> bool" where
  "readsAlike J x \<longleftrightarrow>
     j_is_string J x \<longrightarrow> (case j_string J x of Inl m \<Rightarrow> False | Inr str \<Rightarrow> str = [] \<or> plainNumber str)"

lemma avx2Number_plain: "readsAlike J x \<Longrightarrow> avx2Number J x = scalarNumber J x"
  by (auto simp: readsAlike_def avx2Number_def scalarNumber_def jx_def from_chars_plain split: sum.splits)

lemma valids_append: "valids (xs @ ys) = valids xs @ valids ys"
  by (simp add: valids_def map_filter_def)

lemma traverseE_append: "traverseE f (xs @ ys) = bindE (traverseE f xs) (\<lambda>vs. bindE (traverseE f ys) (\<lambda>ws. Inr (vs @ ws)))"
proof (induction xs)
  case Nil
  show ?case by (cases "traverseE f ys") auto
next
  case (Cons x xs)
  show ?case by (simp add: Cons bindE_assoc)
qed

lemma bulkNumbers_agree:
  assumes "\<And>x. x \<in> set xs \<Longrightarrow> avx2Number J x = scalarNumber J x"
  shows "bulkNumbersAvx2 J xs = bulkNumbersScalar J xs"
  using assms
proof (induction J xs rule: bulkNumbersAvx2.induct)
  case (1 J a b c d xs)
  have four: "traverseE (avx2Number J) [a, b, c, d] = traverseE (scalarNumber J) [a, b, c, d]"
    by (intro traverseE_cong refl 1(2)) auto
  show ?case
  proof (cases "traverseE (scalarNumber J) [a, b, c, d]")
    case (Inl e)
    show ?thesis
      using traverseE_append [of "scalarNumber J" "[a, b, c, d]" xs]
      unfolding bulkNumbersAvx2.simps(1) four Inl bulkNumbersScalar_def by simp
  next
    case (Inr vs)
    have rest: "bulkNumbersAvx2 J xs = bulkNumbersScalar J xs"
      using 1(1) 1(2) four Inr by simp
    show ?thesis
      using traverseE_append [of "scalarNumber J" "[a, b, c, d]" xs]
      unfolding bulkNumbersAvx2.simps(1) four rest Inr bulkNumbersScalar_def
      by (cases "traverseE (scalarNumber J) xs") (simp_all add: valids_append)
  qed
qed simp_all

section \<open>The batches agree\<close>

definition tradesOf :: "stream_event list \<Rightarrow> stream_event list" where
  "tradesOf = filter (\<lambda>e. case e of OnTrade _ \<Rightarrow> True | _ \<Rightarrow> False)"

definition quotesOf :: "stream_event list \<Rightarrow> stream_event list" where
  "quotesOf = filter (\<lambda>e. case e of OnQuote _ \<Rightarrow> True | _ \<Rightarrow> False)"

text \<open>What the reads before a \<open>try\<close> block need: a type that is a string, and a symbol that is a string or absent.\<close>

definition batchReadable :: "'j json_api \<Rightarrow> 'j \<Rightarrow> bool" where
  "batchReadable J json \<longleftrightarrow>
     (j_contains J json ''type'' \<longrightarrow> \<not> isl (typeOf J json) \<and> \<not> isl (symbolOf J json))"

text \<open>The reference: every event with a type is offered to the handlers, in order.\<close>

definition offerEvent :: "'j json_api \<Rightarrow> handlers \<Rightarrow> 'j \<Rightarrow> stream_event list \<times> nat" where
  "offerEvent J hs json =
     (case classify J json of Inl e \<Rightarrow> ([], 0) | Inr type \<Rightarrow> offer J hs type (symbolOf J json) json)"

definition delivered :: "'j json_api \<Rightarrow> handlers \<Rightarrow> 'j list \<Rightarrow> stream_event list" where
  "delivered J hs events = concat (map (fst \<circ> offerEvent J hs) events)"

definition processedCount :: "'j json_api \<Rightarrow> handlers \<Rightarrow> 'j list \<Rightarrow> nat" where
  "processedCount J hs events = sum_list (map (snd \<circ> offerEvent J hs) events)"

lemma offer_cases:
  "offer J hs type sy json =
     (if type = ''trade'' then offerTrade J hs type sy json
      else if type = ''quote'' then offerQuote J hs type sy json else ([], 0))"
  by (auto simp: offer_def offerTrade_def offerQuote_def)

lemma tradesOf_simps [simp]:
  "tradesOf [] = []"
  "tradesOf (xs @ ys) = tradesOf xs @ tradesOf ys"
  "tradesOf (fst (offerTrade J hs type sy json)) = fst (offerTrade J hs type sy json)"
  "tradesOf (fst (offerQuote J hs type sy json)) = []"
  by (auto simp: tradesOf_def offerTrade_def offerQuote_def split: option.splits sum.splits)

lemma quotesOf_simps [simp]:
  "quotesOf [] = []"
  "quotesOf (xs @ ys) = quotesOf xs @ quotesOf ys"
  "quotesOf (fst (offerQuote J hs type sy json)) = fst (offerQuote J hs type sy json)"
  "quotesOf (fst (offerTrade J hs type sy json)) = []"
  by (auto simp: quotesOf_def offerTrade_def offerQuote_def split: option.splits sum.splits)

lemma offer_count: "snd (offer J hs type sy json) \<le> length (fst (offer J hs type sy json))"
  by (auto simp: offer_cases offerTrade_def offerQuote_def split: option.splits sum.splits)

text \<open>
  A batch delivers trades and quotes only, and each number in them is a value of its C++ type, \<open>int\<close> or \<open>long\<close>,
  or undefined.
\<close>

definition fits :: "(int \<Rightarrow> bool) \<Rightarrow> int option \<Rightarrow> bool" where
  "fits P v \<longleftrightarrow> (case v of None \<Rightarrow> True | Some i \<Rightarrow> P i)"

definition is_long :: "int \<Rightarrow> bool" where
  "is_long i \<longleftrightarrow> - (2 ^ 63) \<le> i \<and> i < 2 ^ 63"

definition eventTyped :: "stream_event \<Rightarrow> bool" where
  "eventTyped e =
     (case e of
        OnTrade t \<Rightarrow> fits is_int32 (teSize t) \<and> fits is_long (teCvol t)
      | OnQuote q \<Rightarrow> fits is_int32 (qeBidSize q) \<and> fits is_int32 (qeAskSize q)
      | _ \<Rightarrow> False)"

definition tradesAndQuotes :: "stream_event list \<Rightarrow> bool" where
  "tradesAndQuotes es \<longleftrightarrow> list_all eventTyped es"

lemma cast_fits: "fits is_int32 (castInt x)" "fits is_long (castLong x)"
  by (auto simp: fits_def castInt_def castLong_def d_trunc_def is_long_def Let_def split: option.splits)

lemma readTrade_typed: "readTrade J type sy json = Inr e \<Longrightarrow> eventTyped (OnTrade e)"
  by (auto simp: readTrade_def assign_def eventTyped_def cast_fits bindE_eq_Inr map_sum_eq_Inr)

lemma readQuote_typed: "readQuote J type sy json = Inr e \<Longrightarrow> eventTyped (OnQuote e)"
  by (auto simp: readQuote_def assign_def eventTyped_def cast_fits bindE_eq_Inr map_sum_eq_Inr)

lemma tradesAndQuotes_simps [simp]:
  "tradesAndQuotes []"
  "tradesAndQuotes (xs @ ys) \<longleftrightarrow> tradesAndQuotes xs \<and> tradesAndQuotes ys"
  "tradesAndQuotes (fst (offerTrade J hs type sy json))"
  "tradesAndQuotes (fst (offerQuote J hs type sy json))"
  by (auto simp: tradesAndQuotes_def offerTrade_def offerQuote_def bindE_eq_Inr readTrade_typed readQuote_typed
      split: option.splits sum.splits)

lemma tradesAndQuotes_offer [simp]: "tradesAndQuotes (fst (offer J hs type sy json))"
  by (simp add: offer_cases)

lemma tradesAndQuotes_offerEvent [simp]: "tradesAndQuotes (fst (offerEvent J hs json))"
  by (simp add: offerEvent_def split: sum.splits)

lemma tradesAndQuotes_delivered [simp]: "tradesAndQuotes (delivered J hs events)"
  by (induction events) (simp_all add: delivered_def)

lemma mset_tradesAndQuotes: "tradesAndQuotes es \<Longrightarrow> mset es = mset (tradesOf es) + mset (quotesOf es)"
  by (induction es) (auto simp: tradesAndQuotes_def eventTyped_def tradesOf_def quotesOf_def split: stream_event.splits)

text \<open>
  The contract of a batch processor: a batch whose reads succeed is processed to the end, the count is that of the
  reference, and the trades, as the quotes, arrive in the order of the reference. Nothing is promised about the
  order between trades and quotes.
\<close>

locale batch_processor =
  fixes process :: "'j json_api \<Rightarrow> handlers \<Rightarrow> 'j list \<Rightarrow> batch"
  assumes count: "list_all (batchReadable J) events \<Longrightarrow> fst (process J hs events) = Inr (processedCount J hs events)"
    and trades: "list_all (batchReadable J) events \<Longrightarrow>
      tradesOf (snd (process J hs events)) = tradesOf (delivered J hs events)"
    and quotes: "list_all (batchReadable J) events \<Longrightarrow>
      quotesOf (snd (process J hs events)) = quotesOf (delivered J hs events)"
    and kinds: "tradesAndQuotes (snd (process J hs events))"
begin

lemma delivers_mset:
  assumes "list_all (batchReadable J) events"
  shows "mset (snd (process J hs events)) = mset (delivered J hs events)"
  using assms by (simp add: mset_tradesAndQuotes kinds trades quotes)

lemma delivers_each:
  assumes "list_all (batchReadable J) events"
  shows "set (snd (process J hs events)) = (\<Union>json \<in> set events. set (fst (offerEvent J hs json)))"
  using delivers_mset [OF assms, THEN mset_eq_setD] by (auto simp: delivered_def)

end

lemma offerEvent_type:
  "j_contains J json ''type'' \<Longrightarrow> offerEvent J hs json =
     (case typeOf J json of Inl e \<Rightarrow> ([], 0) | Inr type \<Rightarrow> offer J hs type (symbolOf J json) json)"
  "\<not> j_contains J json ''type'' \<Longrightarrow> offerEvent J hs json = ([], 0)"
  by (simp_all add: classify_def offerEvent_def offer_cases)

lemma reference_simps [simp]:
  "delivered J hs [] = []"
  "delivered J hs (json # events) = fst (offerEvent J hs json) @ delivered J hs events"
  "processedCount J hs [] = 0"
  "processedCount J hs (json # events) = snd (offerEvent J hs json) + processedCount J hs events"
  by (simp_all add: delivered_def processedCount_def)

lemma bulkEventsScalar_reference:
  "list_all (batchReadable J) events \<Longrightarrow>
     bulkEventsScalar J hs events = (Inr (processedCount J hs events), delivered J hs events)"
proof (induction events)
  case (Cons json events)
  then show ?case
    by (cases "j_contains J json ''type''"; cases "typeOf J json"; cases "symbolOf J json")
      (simp_all add: batchReadable_def afterOffer_def offerEvent_type)
qed simp

text \<open>With blocks it is enough that the types can be read.\<close>

definition typeReadable :: "'j json_api \<Rightarrow> 'j \<Rightarrow> bool" where
  "typeReadable J json \<longleftrightarrow> \<not> isl (classify J json)"

lemma batchReadable_type: "batchReadable J json \<Longrightarrow> typeReadable J json"
  by (simp add: batchReadable_def typeReadable_def classify_def)

lemma bulkEventsRest_reference:
  "list_all (typeReadable J) events \<Longrightarrow>
     bulkEventsRest J hs events = (Inr (processedCount J hs events), delivered J hs events)"
proof (induction events)
  case (Cons json events)
  then show ?case
    by (cases "j_contains J json ''type''"; cases "typeOf J json")
      (simp_all add: typeReadable_def classify_def afterOffer_def offerEvent_type)
qed simp

lemma blockPass_simps [simp]:
  "blockPass give wanted [] = ([], 0)"
  "blockPass give wanted ((type, json) # tjs) =
     (if type = wanted then (fst (give type json) @ fst (blockPass give wanted tjs),
                             snd (give type json) + snd (blockPass give wanted tjs))
      else blockPass give wanted tjs)"
  by (simp_all add: blockPass_def Let_def)

lemma blockPass_kinds [simp]:
  "quotesOf (fst (blockPass (\<lambda>type json. offerTrade J hs type (symbolOf J json) json) wanted tjs)) = []"
  "tradesOf (fst (blockPass (\<lambda>type json. offerQuote J hs type (symbolOf J json) json) wanted tjs)) = []"
  by (induction tjs) auto

lemma block_reference:
  assumes "traverseE (classify J) events = Inr types"
  shows "tradesOf (fst (blockEvents J hs (zip types events))) = tradesOf (delivered J hs events) \<and>
    quotesOf (fst (blockEvents J hs (zip types events))) = quotesOf (delivered J hs events) \<and>
    snd (blockEvents J hs (zip types events)) = processedCount J hs events \<and>
    tradesAndQuotes (fst (blockEvents J hs (zip types events)))"
  using assms
proof (induction events arbitrary: types)
  case Nil
  then show ?case by (simp add: blockEvents_def Let_def)
next
  case (Cons json events)
  then obtain type rest where "classify J json = Inr type" "traverseE (classify J) events = Inr rest"
    "types = type # rest"
    by (cases "classify J json"; cases "traverseE (classify J) events") auto
  then show ?case
    using Cons.IH [of rest] by (auto simp: blockEvents_def Let_def offerEvent_def offer_cases)
qed

lemma traverse_types:
  "list_all (typeReadable J) events \<Longrightarrow> \<exists>types. traverseE (classify J) events = Inr types"
proof (induction events)
  case (Cons json events)
  then show ?case by (cases "classify J json") (auto simp: typeReadable_def)
qed simp

lemma reference_append:
  "delivered J hs (xs @ ys) = delivered J hs xs @ delivered J hs ys"
  "processedCount J hs (xs @ ys) = processedCount J hs xs + processedCount J hs ys"
  by (simp_all add: delivered_def processedCount_def)

lemma bulkChunks_reference:
  assumes "list_all (typeReadable J) events"
  shows "fst (bulkChunks J hs n events) = Inr (processedCount J hs events) \<and>
    tradesOf (snd (bulkChunks J hs n events)) = tradesOf (delivered J hs events) \<and>
    quotesOf (snd (bulkChunks J hs n events)) = quotesOf (delivered J hs events)"
  using assms
proof (induction n arbitrary: events)
  case 0
  then show ?case by (simp add: bulkEventsRest_reference)
next
  case (Suc n)
  let ?now = "take chunk_size events" and ?later = "drop chunk_size events"
  have "list_all (typeReadable J) (?now @ ?later)" using Suc.prems by simp
  then have r: "list_all (typeReadable J) ?now" "list_all (typeReadable J) ?later"
    by (simp_all only: list_all_append)
  from r(1) obtain types where t: "traverseE (classify J) ?now = Inr types" using traverse_types by blast
  have parts: "delivered J hs events = delivered J hs ?now @ delivered J hs ?later"
    "processedCount J hs events = processedCount J hs ?now + processedCount J hs ?later"
    by (simp_all flip: reference_append)
  show ?case
    using Suc.IH [OF r(2)] block_reference [OF t, of hs] by (simp add: t afterOffer_def parts)
qed

lemma bulkEventsRest_kinds: "tradesAndQuotes (snd (bulkEventsRest J hs events))"
  by (induction events) (auto simp: afterOffer_def split: sum.splits)

lemma bulkEventsScalar_kinds: "tradesAndQuotes (snd (bulkEventsScalar J hs events))"
  by (induction events) (auto simp: afterOffer_def split: sum.splits)

lemma bulkChunks_kinds: "tradesAndQuotes (snd (bulkChunks J hs n events))"
proof (induction n arbitrary: events)
  case (Suc n)
  then show ?case by (auto simp: afterOffer_def block_reference split: sum.splits)
qed (simp add: bulkEventsRest_kinds)

interpretation plain: batch_processor bulkEventsScalar
  by unfold_locales (simp_all add: bulkEventsScalar_reference bulkEventsScalar_kinds)

interpretation blocks: batch_processor bulkEventsAvx2
  by unfold_locales (auto simp: bulkEventsAvx2_def bulkChunks_reference bulkChunks_kinds
      batchReadable_type list_all_iff)

interpretation blocks512: batch_processor bulkEventsAvx512
  by unfold_locales (simp_all add: bulkEventsAvx512_def blocks.count blocks.trades blocks.quotes blocks.kinds)

interpretation selected: batch_processor "bulk_process_events c" for c
  by unfold_locales
    (auto simp: bulk_process_events_def simdDispatch_def plain.count plain.trades plain.quotes plain.kinds
      blocks.count blocks.trades blocks.quotes blocks.kinds
      blocks512.count blocks512.trades blocks512.quotes blocks512.kinds)

section \<open>Properties\<close>

text \<open>
  C29: whichever implementation the build selects, a batch whose types and symbols can be read is processed to the
  end with the count of the plain version, the same trades in the same order, the same quotes in the same order, and
  so the same events altogether.
\<close>

theorem simd_events_agree:
  assumes "list_all (batchReadable J) events"
  shows "fst (bulk_process_events c J hs events) = fst (bulkEventsScalar J hs events) \<and>
    fst (bulkEventsScalar J hs events) = Inr (processedCount J hs events) \<and>
    snd (bulkEventsScalar J hs events) = delivered J hs events \<and>
    tradesOf (snd (bulk_process_events c J hs events)) = tradesOf (delivered J hs events) \<and>
    quotesOf (snd (bulk_process_events c J hs events)) = quotesOf (delivered J hs events) \<and>
    mset (snd (bulk_process_events c J hs events)) = mset (delivered J hs events)"
  using assms
  by (simp add: selected.count selected.trades selected.quotes selected.delivers_mset bulkEventsScalar_reference)

definition quoteJson :: jval where
  "quoteJson = JObj [(''type'', JStr ''quote''), (''symbol'', JStr ''F''), (''bid'', JStr ''12'')]"

definition tradeJson :: jval where
  "tradeJson = JObj [(''type'', JStr ''trade''), (''symbol'', JStr ''F''), (''price'', JStr ''12'')]"

definition badSymbolJson :: jval where
  "badSymbolJson = JObj [(''type'', JStr ''trade''), (''symbol'', JObj []), (''price'', JStr ''12'')]"

definition avx2Build :: simd_config where
  "avx2Build = \<lparr>SIMD_ENABLED = True, AVX2_AVAILABLE = True, AVX512_AVAILABLE = False\<rparr>"

definition acceptAll :: handlers where
  "acceptAll = \<lparr>onTrade = Some (\<lambda>_. Inr ()), onQuote = Some (\<lambda>_. Inr ())\<rparr>"

lemma sample_json_readable:
  "batchReadable (jref p) quoteJson" "batchReadable (jref p) tradeJson"
  "typeReadable (jref p) badSymbolJson" "isl (symbolOf (jref p) badSymbolJson)"
  "j_contains (jref p) badSymbolJson ''type''" "typeOf (jref p) badSymbolJson = Inr ''trade''"
  by (simp_all add: batchReadable_def typeReadable_def classify_def typeOf_def symbolOf_def quoteJson_def tradeJson_def
      badSymbolJson_def jref_def jx_def atE_def)

theorem simd_events_agree_witness:
  "mset (snd (bulk_process_events avx2Build (jref (\<lambda>_. Inl [])) acceptAll
       [quoteJson, tradeJson, quoteJson, tradeJson, quoteJson, tradeJson, quoteJson, tradeJson, tradeJson])) =
   mset (delivered (jref (\<lambda>_. Inl [])) acceptAll
       [quoteJson, tradeJson, quoteJson, tradeJson, quoteJson, tradeJson, quoteJson, tradeJson, tradeJson])"
  using simd_events_agree [of "jref (\<lambda>_. Inl [])"
      "[quoteJson, tradeJson, quoteJson, tradeJson, quoteJson, tradeJson, quoteJson, tradeJson, tradeJson]"
      avx2Build acceptAll]
  by (simp add: sample_json_readable)

text \<open>
  An event whose symbol is not a string ends the plain version with an exception, so that no later event of the
  batch is delivered; the versions with blocks skip that event and process the rest.
\<close>

theorem simd_bad_symbol_diverges:
  assumes "list_all (batchReadable J) xs" and "j_contains J json ''type''" and "typeOf J json = Inr type"
    and "symbolOf J json = Inl e" and "list_all (typeReadable J) ys"
  shows "bulkEventsScalar J hs (xs @ json # ys) = (Inl e, delivered J hs xs) \<and>
    fst (bulkEventsAvx2 J hs (xs @ json # ys)) = Inr (processedCount J hs xs + processedCount J hs ys) \<and>
    tradesOf (snd (bulkEventsAvx2 J hs (xs @ json # ys))) = tradesOf (delivered J hs (xs @ ys))"
proof -
  have "bulkEventsScalar J hs (xs @ json # ys) = (Inl e, delivered J hs xs)"
    using assms(1)
  proof (induction xs)
    case (Cons x xs)
    then show ?case
      by (cases "j_contains J x ''type''"; cases "typeOf J x"; cases "symbolOf J x")
        (simp_all add: batchReadable_def afterOffer_def offerEvent_type)
  qed (use assms in simp)
  moreover have "list_all (typeReadable J) (xs @ json # ys)"
    using assms by (auto simp: list_all_iff typeReadable_def classify_def batchReadable_def)
  moreover have "offerEvent J hs json = ([], 0)"
    using assms by (simp add: offerEvent_type offer_cases offerTrade_def offerQuote_def split: option.splits)
  ultimately show ?thesis
    by (simp add: bulkEventsAvx2_def bulkChunks_reference reference_append)
qed

theorem simd_bad_symbol_diverges_witness:
  "isl (fst (bulkEventsScalar (jref (\<lambda>_. Inl [])) acceptAll [quoteJson, badSymbolJson, tradeJson])) \<and>
   \<not> isl (fst (bulkEventsAvx2 (jref (\<lambda>_. Inl [])) acceptAll [quoteJson, badSymbolJson, tradeJson]))"
proof -
  obtain e where "symbolOf (jref (\<lambda>_. Inl [])) badSymbolJson = Inl e"
    using sample_json_readable(4) by (auto simp: isl_def)
  then show ?thesis
    using simd_bad_symbol_diverges [of "jref (\<lambda>_. Inl [])" "[quoteJson]" badSymbolJson "''trade''" e "[tradeJson]" acceptAll]
    by (simp add: sample_json_readable batchReadable_type)
qed

text \<open>
  C30: whichever implementation the build selects, the bulk conversion writes the same numbers in the same order, when
  every non-empty text among the values is a plain number: no leading white space or plus sign, not hexadecimal, and
  not in the subnormal range.
\<close>

theorem simd_numbers_agree:
  assumes "list_all (readsAlike J) xs"
  shows "bulk_string_to_double c J xs = bulkNumbersScalar J xs"
  using assms
  by (simp add: bulk_string_to_double_def simdDispatch_def bulkNumbersAvx512_def bulkNumbers_agree avx2Number_plain
      list_all_iff)

lemma round64_numeral: "numeral k < (2 ^ 53 :: int) \<Longrightarrow> round64 (numeral k) = DFin (numeral k)"
  using round64_int [of "numeral k"] by simp

lemma sample_decimal:
  "mantissa is_digit ''12'' = (''12'', [], [])" "decimalValue ''12'' = 12" "pow2 (- 1022) \<le> 12"
  by (simp_all add: mantissa_def decimalValue_def is_digit_def read_nat_def char_digit_def pow10_def exponentOf_def pow2_def)

lemma sample_stod: "stod ''12'' = Some (DFin 12)" "stod '' 12'' = Some (DFin 12)"
  by (simp_all add: stod_def signOf_def is_space_def lower_def sample_decimal inRange_def round64_numeral d_signed_def
      Let_def read_nat_def char_digit_def pow10_def exponentOf_def pow2_def)

lemma sample_plain: "plainNumber ''12''" "from_chars '' 12'' = None"
  by (simp_all add: plainNumber_def from_chars_def unsigned_def sample_decimal is_space_def lower_def mantissa_def
      is_digit_def round64_numeral)

lemma sample_jref:
  "readsAlike (jref p) (JStr ''12'')" "readsAlike (jref p) (JStr [])" "readsAlike (jref p) JNull"
  "scalarNumber (jref p) (JStr ''12'') = Inr (Some (DFin 12))" "scalarNumber (jref p) (JStr []) = Inr None"
  "scalarNumber (jref p) JNull = Inr None" "scalarNumber (jref p) (JStr '' 12'') = Inr (Some (DFin 12))"
  "avx2Number (jref p) (JStr '' 12'') = Inr None"
  by (simp_all add: readsAlike_def scalarNumber_def avx2Number_def jref_def jx_def sample_stod sample_plain)

theorem simd_numbers_agree_witness:
  "bulk_string_to_double avx2Build (jref (\<lambda>_. Inl [])) [JStr ''12'', JNull, JStr [], JStr ''12'', JStr ''12''] =
   Inr [DFin 12, DFin 12, DFin 12]"
  using simd_numbers_agree [of "jref (\<lambda>_. Inl [])" "[JStr ''12'', JNull, JStr [], JStr ''12'', JStr ''12'']" avx2Build]
  by (simp add: sample_jref bulkNumbersScalar_def valids_def map_filter_def)

text \<open>With a space in front the plain version converts a text and the version with blocks drops it.\<close>

theorem simd_leading_space_diverges:
  "bulkNumbersScalar (jref p) (replicate 4 (JStr '' 12'')) = Inr (replicate 4 (DFin 12)) \<and>
   bulkNumbersAvx2 (jref p) (replicate 4 (JStr '' 12'')) = Inr []"
  by (simp add: eval_nat_numeral sample_jref bulkNumbersScalar_def valids_def map_filter_def)

end
