(* ===== verification/Handles.thy ===== *)
theory Handles
  imports Encoding
begin

text \<open>
  The classes that own resources of libcurl and OpenSSL: \<open>CurlHandle\<close> and \<open>CurlSlist\<close> of \<^verbatim>\<open>common/http_client.cpp\<close>,
  \<open>CurlSession\<close>, \<open>CurlHeaders\<close>, \<open>SecureString\<close> and \<open>CryptoContext\<close> of \<^verbatim>\<open>auth.cpp\<close>. The other theories model the
  values these objects carry; here the resources themselves are cells of a heap, an object is the pointer it
  holds, and a C++ program is a sequence of constructions, moves, assignments, member calls and destructions. The
  outcome \<open>None\<close> of an operation is undefined behaviour: freeing or using a cell that is not allocated.

  The locale \<open>owning\<close> is the contract of a class that owns at most one cell, \<open>tight_owning\<close> that of a class that never
  drops one.
\<close>

section \<open>Resources\<close>

type_synonym pointer = "nat option"

record 'r heap =
  cells :: "nat \<Rightarrow> 'r option"
  nextCell :: nat

definition heap_ok :: "'r heap \<Rightarrow> bool" where
  "heap_ok h \<longleftrightarrow> (\<forall>a. nextCell h \<le> a \<longrightarrow> cells h a = None)"

definition allocate :: "'r \<Rightarrow> 'r heap \<Rightarrow> pointer \<times> 'r heap" where
  "allocate r h = (Some (nextCell h), h\<lparr>cells := (cells h)(nextCell h \<mapsto> r), nextCell := Suc (nextCell h)\<rparr>)"

definition release :: "nat \<Rightarrow> 'r heap \<Rightarrow> 'r heap option" where
  "release a h = (if cells h a = None then None else Some (h\<lparr>cells := (cells h)(a := None)\<rparr>))"

text \<open>
  \<open>curl_easy_init\<close> and \<open>curl_slist_append\<close> return null when \<open>ok\<close> is false. A list that could not be extended is left as it
  is, as libcurl documents.
\<close>

definition easyInit :: "bool \<Rightarrow> unit heap \<Rightarrow> pointer \<times> unit heap" where
  "easyInit ok h = (if ok then allocate () h else (None, h))"

definition slistAppend :: "bool \<Rightarrow> string \<Rightarrow> pointer \<Rightarrow> string list heap \<Rightarrow> (pointer \<times> string list heap) option" where
  "slistAppend ok line p h =
     (case p of
        None \<Rightarrow> Some (if ok then allocate [line] h else (None, h))
      | Some a \<Rightarrow>
          (case cells h a of
             None \<Rightarrow> None
           | Some ls \<Rightarrow> Some (if ok then (Some a, h\<lparr>cells := (cells h)(a \<mapsto> ls @ [line])\<rparr>) else (None, h))))"

section \<open>The classes\<close>

subsection \<open>CurlHandle\<close>

definition newCurlHandle :: "bool \<Rightarrow> unit heap \<Rightarrow> pointer fallible \<times> unit heap" where
  "newCurlHandle ok h =
     (let (p, h') = easyInit ok h
      in if p = None then (Inl (ConnectionError ''Failed to initialize CURL''), h') else (Inr p, h'))"

definition destroyCurlHandle :: "pointer \<Rightarrow> unit heap \<Rightarrow> unit heap option" where
  "destroyCurlHandle p h = (case p of Some a \<Rightarrow> release a h | None \<Rightarrow> Some h)"

text \<open>The new object and what the old one holds afterwards.\<close>

definition moveCurlHandle :: "pointer \<Rightarrow> pointer \<times> pointer" where
  "moveCurlHandle other = (other, None)"

text \<open>\<open>same\<close> is \<open>this == &other\<close>.\<close>

definition assignCurlHandle ::
  "bool \<Rightarrow> pointer \<Rightarrow> pointer \<Rightarrow> unit heap \<Rightarrow> (pointer \<times> pointer \<times> unit heap) option" where
  "assignCurlHandle same this other h =
     (if \<not> same then
        (case (case this of Some a \<Rightarrow> release a h | None \<Rightarrow> Some h) of
           None \<Rightarrow> None
         | Some h' \<Rightarrow> Some (other, None, h'))
      else Some (this, other, h))"

definition resetCurlHandle :: "pointer \<Rightarrow> unit heap \<Rightarrow> (pointer \<times> unit heap) option" where
  "resetCurlHandle p h =
     (case p of Some a \<Rightarrow> if cells h a = None then None else Some (p, h) | None \<Rightarrow> Some (p, h))"

subsection \<open>CurlSession\<close>

definition newCurlSession :: "bool \<Rightarrow> unit heap \<Rightarrow> pointer fallible \<times> unit heap" where
  "newCurlSession ok h =
     (let (p, h') = easyInit ok h
      in if p = None then (Inl (ConnectionError ''Failed to initialize CURL for auth''), h') else (Inr p, h'))"

definition destroyCurlSession :: "pointer \<Rightarrow> unit heap \<Rightarrow> unit heap option" where
  "destroyCurlSession p h = (case p of Some a \<Rightarrow> release a h | None \<Rightarrow> Some h)"

definition moveCurlSession :: "pointer \<Rightarrow> pointer \<times> pointer" where
  "moveCurlSession other = (other, None)"

definition assignCurlSession ::
  "bool \<Rightarrow> pointer \<Rightarrow> pointer \<Rightarrow> unit heap \<Rightarrow> (pointer \<times> pointer \<times> unit heap) option" where
  "assignCurlSession same this other h =
     (if \<not> same then
        (case (case this of Some a \<Rightarrow> release a h | None \<Rightarrow> Some h) of
           None \<Rightarrow> None
         | Some h' \<Rightarrow> Some (other, None, h'))
      else Some (this, other, h))"

subsection \<open>CurlSlist\<close>

definition destroyCurlSlist :: "pointer \<Rightarrow> string list heap \<Rightarrow> string list heap option" where
  "destroyCurlSlist p h = (case p of Some a \<Rightarrow> release a h | None \<Rightarrow> Some h)"

definition moveCurlSlist :: "pointer \<Rightarrow> pointer \<times> pointer" where
  "moveCurlSlist other = (other, None)"

definition assignCurlSlist ::
  "bool \<Rightarrow> pointer \<Rightarrow> pointer \<Rightarrow> string list heap \<Rightarrow> (pointer \<times> pointer \<times> string list heap) option" where
  "assignCurlSlist same this other h =
     (if \<not> same then
        (case (case this of Some a \<Rightarrow> release a h | None \<Rightarrow> Some h) of
           None \<Rightarrow> None
         | Some h' \<Rightarrow> Some (other, None, h'))
      else Some (this, other, h))"

text \<open>\<open>list_ = curl_slist_append(list_, ...)\<close>: the outcome, what the object holds and the heap.\<close>

definition appendCurlSlist ::
  "bool \<Rightarrow> string \<Rightarrow> pointer \<Rightarrow> string list heap \<Rightarrow> (unit fallible \<times> pointer \<times> string list heap) option" where
  "appendCurlSlist ok line p h =
     (case slistAppend ok line p h of
        None \<Rightarrow> None
      | Some (p', h') \<Rightarrow>
          Some (if p' = None then Inl (ConnectionError ''Failed to append CURL header'') else Inr (), p', h'))"

subsection \<open>CurlHeaders\<close>

definition destroyCurlHeaders :: "pointer \<Rightarrow> string list heap \<Rightarrow> string list heap option" where
  "destroyCurlHeaders p h = (case p of Some a \<Rightarrow> release a h | None \<Rightarrow> Some h)"

definition moveCurlHeaders :: "pointer \<Rightarrow> pointer \<times> pointer" where
  "moveCurlHeaders other = (other, None)"

definition assignCurlHeaders ::
  "bool \<Rightarrow> pointer \<Rightarrow> pointer \<Rightarrow> string list heap \<Rightarrow> (pointer \<times> pointer \<times> string list heap) option" where
  "assignCurlHeaders same this other h =
     (if \<not> same then
        (case (case this of Some a \<Rightarrow> release a h | None \<Rightarrow> Some h) of
           None \<Rightarrow> None
         | Some h' \<Rightarrow> Some (other, None, h'))
      else Some (this, other, h))"

definition appendCurlHeaders ::
  "bool \<Rightarrow> string \<Rightarrow> pointer \<Rightarrow> string list heap \<Rightarrow> (unit fallible \<times> pointer \<times> string list heap) option" where
  "appendCurlHeaders ok line p h =
     (case slistAppend ok line p h of
        None \<Rightarrow> None
      | Some (p', h') \<Rightarrow>
          Some (if p' = None then Inl (ConnectionError ''Failed to append CURL header'') else Inr (), p', h'))"

section \<open>Programs that use a class\<close>

text \<open>
  \<open>construct ok\<close> is the constructor, \<open>use ok line\<close> the member function that touches the resource: \<open>reset\<close>, \<open>append\<close>, or
  none.
\<close>

record 'r owning_class =
  construct :: "bool \<Rightarrow> 'r heap \<Rightarrow> pointer fallible \<times> 'r heap"
  destroy :: "pointer \<Rightarrow> 'r heap \<Rightarrow> 'r heap option"
  moveFrom :: "pointer \<Rightarrow> pointer \<times> pointer"
  assignFrom :: "bool \<Rightarrow> pointer \<Rightarrow> pointer \<Rightarrow> 'r heap \<Rightarrow> (pointer \<times> pointer \<times> 'r heap) option"
  use :: "bool \<Rightarrow> string \<Rightarrow> pointer \<Rightarrow> 'r heap \<Rightarrow> (pointer \<times> 'r heap) option"

definition curlHandleClass :: "unit owning_class" where
  "curlHandleClass = \<lparr>construct = newCurlHandle, destroy = destroyCurlHandle, moveFrom = moveCurlHandle,
     assignFrom = assignCurlHandle, use = (\<lambda>ok line. resetCurlHandle)\<rparr>"

definition curlSessionClass :: "unit owning_class" where
  "curlSessionClass = \<lparr>construct = newCurlSession, destroy = destroyCurlSession, moveFrom = moveCurlSession,
     assignFrom = assignCurlSession, use = (\<lambda>ok line p h. Some (p, h))\<rparr>"

definition curlSlistClass :: "string list owning_class" where
  "curlSlistClass = \<lparr>construct = (\<lambda>ok h. (Inr None, h)), destroy = destroyCurlSlist, moveFrom = moveCurlSlist,
     assignFrom = assignCurlSlist, use = (\<lambda>ok line p h. map_option snd (appendCurlSlist ok line p h))\<rparr>"

definition curlHeadersClass :: "string list owning_class" where
  "curlHeadersClass = \<lparr>construct = (\<lambda>ok h. (Inr None, h)), destroy = destroyCurlHeaders, moveFrom = moveCurlHeaders,
     assignFrom = assignCurlHeaders, use = (\<lambda>ok line p h. map_option snd (appendCurlHeaders ok line p h))\<rparr>"

text \<open>The objects that are in scope, by name, and the heap. A step to \<open>None\<close> is undefined behaviour.\<close>

record 'r owners =
  objects :: "nat \<Rightarrow> pointer option"
  heap :: "'r heap"

definition noOwners :: "'r owners" where
  "noOwners = \<lparr>objects = Map.empty, heap = \<lparr>cells = Map.empty, nextCell = 0\<rparr>\<rparr>"

inductive class_step :: "'r owning_class \<Rightarrow> 'r owners \<Rightarrow> 'r owners option \<Rightarrow> bool" for C where
  constructed: "objects s x = None \<Longrightarrow> construct C ok (heap s) = (Inr p, h) \<Longrightarrow>
    class_step C s (Some (s\<lparr>objects := (objects s)(x \<mapsto> p), heap := h\<rparr>))"
| refused: "construct C ok (heap s) = (Inl e, h) \<Longrightarrow> class_step C s (Some (s\<lparr>heap := h\<rparr>))"
| destroyed: "objects s x = Some p \<Longrightarrow>
    class_step C s (map_option (\<lambda>h. s\<lparr>objects := (objects s)(x := None), heap := h\<rparr>) (destroy C p (heap s)))"
| moved: "objects s y = Some p \<Longrightarrow> objects s x = None \<Longrightarrow> moveFrom C p = (q, p') \<Longrightarrow>
    class_step C s (Some (s\<lparr>objects := (objects s)(x \<mapsto> q, y \<mapsto> p')\<rparr>))"
| assigned: "objects s x = Some p \<Longrightarrow> objects s y = Some q \<Longrightarrow>
    class_step C s (map_option (\<lambda>(p', q', h). s\<lparr>objects := (objects s)(y \<mapsto> q', x \<mapsto> p'), heap := h\<rparr>)
      (assignFrom C (x = y) p q (heap s)))"
| used: "objects s x = Some p \<Longrightarrow>
    class_step C s (map_option (\<lambda>(p', h). s\<lparr>objects := (objects s)(x \<mapsto> p'), heap := h\<rparr>) (use C ok line p (heap s)))"

inductive class_runs :: "'r owning_class \<Rightarrow> 'r owners \<Rightarrow> 'r owners option \<Rightarrow> bool" for C s where
  start: "class_runs C s (Some s)"
| step: "class_runs C s (Some t) \<Longrightarrow> class_step C t u \<Longrightarrow> class_runs C s u"

text \<open>What is allocated, what is owned, and states in which every pointer is valid and has one owner.\<close>

definition allocated :: "'r owners \<Rightarrow> nat set" where
  "allocated s = dom (cells (heap s))"

definition ownedIn :: "(nat \<Rightarrow> pointer option) \<Rightarrow> nat set" where
  "ownedIn f = {a. \<exists>x. f x = Some (Some a)}"

definition unique :: "(nat \<Rightarrow> pointer option) \<Rightarrow> bool" where
  "unique f \<longleftrightarrow> (\<forall>x y a. f x = Some (Some a) \<longrightarrow> f y = Some (Some a) \<longrightarrow> x = y)"

definition sound :: "'r owners \<Rightarrow> bool" where
  "sound s \<longleftrightarrow> heap_ok (heap s) \<and> ownedIn (objects s) \<subseteq> allocated s \<and> unique (objects s)"

definition leaked :: "'r owners \<Rightarrow> nat set" where
  "leaked s = allocated s - ownedIn (objects s)"

section \<open>What a step does to ownership\<close>

abbreviation holdsNothing :: "pointer option \<Rightarrow> bool" where
  "holdsNothing q \<equiv> q = None \<or> q = Some None"

lemma ownedIn_fill:
  assumes "holdsNothing (f x)"
  shows "ownedIn (f(x \<mapsto> q)) = set_option q \<union> ownedIn f"
proof -
  have "f x \<noteq> Some (Some a)" for a using assms by auto
  then have "(\<exists>y. (f(x \<mapsto> q)) y = Some (Some a)) \<longleftrightarrow> q = Some a \<or> (\<exists>y. f y = Some (Some a))" for a
    by (metis fun_upd_apply option.inject)
  then have "ownedIn (f(x \<mapsto> q)) = {a. q = Some a} \<union> ownedIn f" unfolding ownedIn_def by blast
  then show ?thesis by (cases q) auto
qed

lemma ownedIn_empty:
  assumes "unique f" "f x = Some p" "holdsNothing q"
  shows "ownedIn (f(x := q)) = ownedIn f - set_option p"
proof -
  have q: "q \<noteq> Some (Some a)" for a using assms(3) by auto
  have "(\<exists>y. (f(x := q)) y = Some (Some a)) \<longleftrightarrow> (\<exists>y. f y = Some (Some a)) \<and> p \<noteq> Some a" for a
    using q assms(1,2) unfolding unique_def by (metis fun_upd_apply option.inject)
  then have "ownedIn (f(x := q)) = ownedIn f - {a. p = Some a}" unfolding ownedIn_def by blast
  then show ?thesis by (cases p) auto
qed

lemma ownedIn_none:
  assumes "holdsNothing (f x)" "holdsNothing q"
  shows "ownedIn (f(x := q)) = ownedIn f"
proof -
  have "f x \<noteq> Some (Some a)" "q \<noteq> Some (Some a)" for a using assms by auto
  then have "(\<exists>y. (f(x := q)) y = Some (Some a)) \<longleftrightarrow> (\<exists>y. f y = Some (Some a))" for a
    by (metis fun_upd_apply)
  then show ?thesis unfolding ownedIn_def by blast
qed

lemma unique_empty: "unique f \<Longrightarrow> holdsNothing q \<Longrightarrow> unique (f(x := q))"
  by (auto simp: unique_def)

lemma unique_fill:
  assumes "unique f" "\<And>a. p = Some a \<Longrightarrow> a \<notin> ownedIn f"
  shows "unique (f(x \<mapsto> p))"
  using assms by (auto simp: unique_def ownedIn_def)

text \<open>An object that holds nothing gets a new cell.\<close>

lemma own_new:
  assumes "sound s" "holdsNothing (objects s x)"
    and "t = s\<lparr>objects := (objects s)(x \<mapsto> fst (allocate v (heap s))), heap := snd (allocate v (heap s))\<rparr>"
  shows "sound t \<and> leaked t = leaked s"
proof -
  let ?n = "nextCell (heap s)"
  have new: "?n \<notin> allocated s" "?n \<notin> ownedIn (objects s)"
    using assms(1) by (auto simp: sound_def allocated_def heap_ok_def)
  have "ownedIn (objects t) = insert ?n (ownedIn (objects s))"
    using ownedIn_fill [where f = "objects s", OF assms(2), of "Some ?n"] by (simp add: assms(3) allocate_def)
  moreover have "allocated t = insert ?n (allocated s)" by (simp add: assms(3) allocated_def allocate_def)
  moreover have "heap_ok (heap t)" using assms(1) by (auto simp: assms(3) sound_def heap_ok_def allocate_def)
  moreover have "unique (objects t)"
    using assms(1) new(2) unique_fill [of "objects s" "Some ?n" x] by (simp add: assms(3) sound_def allocate_def)
  ultimately show ?thesis using assms(1) new unfolding sound_def leaked_def by auto
qed

text \<open>An object that holds nothing appears, stays or goes.\<close>

lemma own_null:
  assumes "sound s" "holdsNothing (objects s x)" "holdsNothing q" "t = s\<lparr>objects := (objects s)(x := q)\<rparr>"
  shows "sound t \<and> leaked t = leaked s"
proof -
  have "ownedIn (objects t) = ownedIn (objects s)"
    using ownedIn_none [where f = "objects s", OF assms(2,3)] by (simp add: assms(4))
  then show ?thesis
    using assms(1,3) unique_empty [of "objects s" q x] by (simp add: assms(4) sound_def leaked_def allocated_def)
qed

text \<open>The cell of an object is freed.\<close>

lemma own_freed:
  assumes "sound s" "objects s x = Some (Some a)" "holdsNothing q"
    and "t = s\<lparr>objects := (objects s)(x := q), heap := (heap s)\<lparr>cells := (cells (heap s))(a := None)\<rparr>\<rparr>"
  shows "sound t \<and> leaked t = leaked s"
proof -
  have "ownedIn (objects t) = ownedIn (objects s) - {a}"
    using ownedIn_empty [where f = "objects s", OF _ assms(2,3)] assms(1) by (simp add: assms(4) sound_def)
  moreover have "allocated t = allocated s - {a}" "a \<in> ownedIn (objects s)"
    using assms(2) by (auto simp: assms(4) allocated_def ownedIn_def)
  moreover have "heap_ok (heap t)" using assms(1) by (simp add: assms(4) sound_def heap_ok_def)
  moreover have "unique (objects t)" using assms(1,3) unique_empty by (simp add: assms(4) sound_def)
  ultimately show ?thesis using assms(1) unfolding sound_def leaked_def by blast
qed

text \<open>An object forgets its cell without freeing it.\<close>

lemma own_forgotten:
  assumes "sound s" "objects s x = Some p" "t = s\<lparr>objects := (objects s)(x \<mapsto> None)\<rparr>"
  shows "sound t \<and> leaked s \<subseteq> leaked t"
  using assms(1) ownedIn_empty [where f = "objects s", OF _ assms(2), of "Some None"] unique_empty [of "objects s" "Some None" x]
  by (auto simp: assms(3) sound_def leaked_def allocated_def)

text \<open>The pointer of \<open>y\<close> goes to \<open>x\<close>.\<close>

lemma own_transferred:
  assumes "sound s" "holdsNothing (objects s x)" "objects s y = Some q" "x \<noteq> y"
    and "t = s\<lparr>objects := (objects s)(y \<mapsto> None, x \<mapsto> q)\<rparr>"
  shows "sound t \<and> leaked t = leaked s"
proof -
  let ?f = "(objects s)(y \<mapsto> None)"
  have u: "unique (objects s)" using assms(1) by (simp add: sound_def)
  have q: "set_option q \<subseteq> ownedIn (objects s)" using assms(3) by (auto simp: ownedIn_def)
  have f: "ownedIn ?f = ownedIn (objects s) - set_option q" "unique ?f"
    using ownedIn_empty [OF u assms(3), of "Some None"] unique_empty [OF u, of "Some None"] by auto
  have "holdsNothing (?f x)" using assms(2,4) by simp
  then have "ownedIn (objects t) = ownedIn (objects s)" using ownedIn_fill [of ?f x q] f(1) q by (auto simp: assms(5))
  moreover have "unique (objects t)" using unique_fill [OF f(2), of q x] f(1) by (auto simp: assms(5))
  ultimately show ?thesis using assms(1) by (simp add: assms(5) sound_def leaked_def allocated_def)
qed

text \<open>The contents of cells change.\<close>

lemma own_same:
  assumes "sound s" "dom (cells h) = dom (cells (heap s))" "nextCell h = nextCell (heap s)" "objects s x = Some p"
    and "t = s\<lparr>objects := (objects s)(x \<mapsto> p), heap := h\<rparr>"
  shows "sound t \<and> leaked t = leaked s"
proof -
  have "objects t = objects s" using assms(4) by (simp add: assms(5) fun_upd_idem)
  moreover have "allocated t = allocated s" using assms(2) by (simp add: assms(5) allocated_def)
  moreover have "heap_ok h" using assms(1-3) unfolding sound_def heap_ok_def by (metis domIff)
  ultimately show ?thesis using assms(1) by (simp add: assms(5) sound_def leaked_def allocated_def)
qed

section \<open>The contract of the classes\<close>

definition keeps_cell :: "'r owning_class \<Rightarrow> bool" where
  "keeps_cell C \<longleftrightarrow> (\<forall>ok line p h p' h'. use C ok line p h = Some (p', h') \<longrightarrow> p \<noteq> None \<longrightarrow> p' \<noteq> None)"

locale owning =
  fixes C :: "'r owning_class"
  assumes construct_law: "construct C ok h = (Inl e, h') \<Longrightarrow> h' = h"
      "construct C ok h = (Inr p, h') \<Longrightarrow> (p = None \<and> h' = h) \<or> (\<exists>v. (p, h') = allocate v h)"
    and destroy_law: "destroy C None h = Some h" "destroy C (Some a) h = release a h"
    and move_law: "moveFrom C p = (p, None)"
    and assign_law: "assignFrom C True p p h = Some (p, p, h)"
      "assignFrom C False p q h = map_option (\<lambda>h'. (q, None, h')) (destroy C p h)"
    and use_law: "pred_option (\<lambda>a. cells h a \<noteq> None) p \<Longrightarrow> \<exists>p' h'. use C ok line p h = Some (p', h') \<and>
      ((p' = p \<and> dom (cells h') = dom (cells h) \<and> nextCell h' = nextCell h) \<or> (p' = None \<and> h' = h) \<or>
       (p = None \<and> (\<exists>v. (p', h') = allocate v h)))"
begin

lemma valid: "sound s \<Longrightarrow> objects s x = Some (Some a) \<Longrightarrow> cells (heap s) a \<noteq> None"
  by (auto simp: sound_def ownedIn_def allocated_def)

lemma freed:
  assumes "sound s" "objects s x = Some p" "holdsNothing q"
  shows "\<exists>h. destroy C p (heap s) = Some h \<and>
    sound (s\<lparr>objects := (objects s)(x := q), heap := h\<rparr>) \<and> leaked (s\<lparr>objects := (objects s)(x := q), heap := h\<rparr>) = leaked s"
proof (cases p)
  case None
  then show ?thesis using own_null [OF assms(1) _ assms(3) refl, of x] assms(2) by (simp add: destroy_law)
next
  case (Some a)
  then show ?thesis
    using own_freed [OF assms(1) _ assms(3) refl] valid [OF assms(1)] assms(2) by (simp add: destroy_law release_def)
qed

lemma step_sound:
  assumes "class_step C s u" "sound s"
  shows "\<exists>t. u = Some t \<and> sound t \<and> leaked s \<subseteq> leaked t \<and> (keeps_cell C \<longrightarrow> leaked t = leaked s)"
  using assms(1)
proof cases
  case (constructed x ok p h)
  from construct_law(2) [OF constructed(3)] show ?thesis
  proof (elim disjE conjE exE)
    assume "p = None" "h = heap s"
    then show ?thesis
      using own_null [OF assms(2) _ _ refl, of x "Some None"] constructed(1,2) by simp
  next
    fix v assume "(p, h) = allocate v (heap s)"
    then have "p = fst (allocate v (heap s))" "h = snd (allocate v (heap s))" by (metis fst_conv snd_conv)+
    then show ?thesis
      using own_new [OF assms(2) _ refl, of x v] constructed(1,2) by simp
  qed
next
  case (refused ok e h)
  then show ?thesis using construct_law(1) [OF refused(2)] assms(2) by simp
next
  case (destroyed x p)
  then show ?thesis using freed [OF assms(2) destroyed(2), of None] by auto
next
  case (moved y p x q p')
  then show ?thesis
    using own_transferred [OF assms(2) _ moved(2) _ refl, of x]
    by (cases "x = y") (auto simp: move_law fun_upd_twist)
next
  case (assigned x p y q)
  show ?thesis
  proof (cases "x = y")
    case True
    then have "u = Some s" using assigned by (simp add: assign_law fun_upd_idem)
    then show ?thesis using assms(2) by simp
  next
    case False
    obtain h where h: "destroy C p (heap s) = Some h" "sound (s\<lparr>objects := (objects s)(x := Some None), heap := h\<rparr>)"
        "leaked (s\<lparr>objects := (objects s)(x := Some None), heap := h\<rparr>) = leaked s"
      using freed [OF assms(2) assigned(2), of "Some None"] by auto
    define v where "v = s\<lparr>objects := (objects s)(x := Some None), heap := h\<rparr>"
    have "u = Some (v\<lparr>objects := (objects v)(y \<mapsto> None, x \<mapsto> q)\<rparr>)"
      using assigned False h(1) by (simp add: v_def assign_law fun_upd_twist)
    moreover have "objects v x = Some None" "objects v y = Some q" using assigned(3) False by (simp_all add: v_def)
    ultimately show ?thesis
      using own_transferred [of v x y q] False h(2,3) unfolding v_def [symmetric] by simp
  qed
next
  case (used x p ok line)
  have "pred_option (\<lambda>a. cells (heap s) a \<noteq> None) p"
    using valid [OF assms(2)] used(2) by (cases p) auto
  then obtain p' h' where use: "use C ok line p (heap s) = Some (p', h')" and effect:
      "(p' = p \<and> dom (cells h') = dom (cells (heap s)) \<and> nextCell h' = nextCell (heap s)) \<or> (p' = None \<and> h' = heap s) \<or>
       (p = None \<and> (\<exists>v. (p', h') = allocate v (heap s)))"
    using use_law [of "heap s" p ok line] by blast
  let ?t = "s\<lparr>objects := (objects s)(x \<mapsto> p'), heap := h'\<rparr>"
  have u: "u = Some ?t" using used(1) use by simp
  from effect show ?thesis
  proof (elim disjE conjE exE)
    assume "p' = p" "dom (cells h') = dom (cells (heap s))" "nextCell h' = nextCell (heap s)"
    then show ?thesis using own_same [OF assms(2) _ _ used(2) refl] u by simp
  next
    assume drop: "p' = None" "h' = heap s"
    then have t: "?t = s\<lparr>objects := (objects s)(x \<mapsto> None)\<rparr>" by simp
    have "leaked ?t = leaked s" if "keeps_cell C"
    proof -
      have "p = None" using that use drop(1) unfolding keeps_cell_def by blast
      then show ?thesis using own_null [OF assms(2) _ _ t] used(2) by simp
    qed
    then show ?thesis using own_forgotten [OF assms(2) used(2) t] u by simp
  next
    fix v assume "p = None" "(p', h') = allocate v (heap s)"
    then show ?thesis using own_new [OF assms(2) _ refl, of x v] used(2) u by (metis fst_conv order_refl snd_conv)
  qed
qed

lemma runs_sound:
  assumes "class_runs C s u" "sound s"
  shows "\<exists>t. u = Some t \<and> sound t \<and> leaked s \<subseteq> leaked t \<and> (keeps_cell C \<longrightarrow> leaked t = leaked s)"
  using assms(1)
proof induction
  case start
  then show ?case using assms(2) by simp
next
  case (step t u)
  then obtain t' where t': "sound t" "leaked s \<subseteq> leaked t" "keeps_cell C \<longrightarrow> leaked t = leaked s" by auto
  then show ?case using step_sound [OF step.hyps(2) t'(1)] by fastforce
qed

end

locale tight_owning = owning +
  assumes use_keeps: "keeps_cell C"
begin

lemma runs_tight:
  assumes "class_runs C s u" "sound s"
  shows "\<exists>t. u = Some t \<and> sound t \<and> leaked t = leaked s"
  using runs_sound [OF assms] use_keeps by auto

end

interpretation curlHandle: tight_owning curlHandleClass
proof
  fix ok h e h' p
  show "h' = h" if "construct curlHandleClass ok h = (Inl e, h')"
    using that by (auto simp: curlHandleClass_def newCurlHandle_def easyInit_def allocate_def split: if_splits)
  show "(p = None \<and> h' = h) \<or> (\<exists>v. (p, h') = allocate v h)" if "construct curlHandleClass ok h = (Inr p, h')"
    using that by (auto simp: curlHandleClass_def newCurlHandle_def easyInit_def allocate_def split: if_splits)
next
  fix h :: "unit heap" and p q :: pointer and a ok line
  show "destroy curlHandleClass None h = Some h" "destroy curlHandleClass (Some a) h = release a h"
    "moveFrom curlHandleClass p = (p, None)" "assignFrom curlHandleClass True p p h = Some (p, p, h)"
    "assignFrom curlHandleClass False p q h = map_option (\<lambda>h'. (q, None, h')) (destroy curlHandleClass p h)"
    by (auto simp: curlHandleClass_def destroyCurlHandle_def moveCurlHandle_def assignCurlHandle_def split: option.splits)
  show "\<exists>p' h'. use curlHandleClass ok line p h = Some (p', h') \<and>
      ((p' = p \<and> dom (cells h') = dom (cells h) \<and> nextCell h' = nextCell h) \<or> (p' = None \<and> h' = h) \<or>
       (p = None \<and> (\<exists>v. (p', h') = allocate v h)))" if "pred_option (\<lambda>a. cells h a \<noteq> None) p"
    using that by (cases p) (simp_all add: curlHandleClass_def resetCurlHandle_def)
next
  show "keeps_cell curlHandleClass"
    by (auto simp: keeps_cell_def curlHandleClass_def resetCurlHandle_def split: option.splits if_splits)
qed

interpretation curlSession: tight_owning curlSessionClass
proof
  fix ok h e h' p
  show "h' = h" if "construct curlSessionClass ok h = (Inl e, h')"
    using that by (auto simp: curlSessionClass_def newCurlSession_def easyInit_def allocate_def split: if_splits)
  show "(p = None \<and> h' = h) \<or> (\<exists>v. (p, h') = allocate v h)" if "construct curlSessionClass ok h = (Inr p, h')"
    using that by (auto simp: curlSessionClass_def newCurlSession_def easyInit_def allocate_def split: if_splits)
next
  fix h :: "unit heap" and p q :: pointer and a ok line
  show "destroy curlSessionClass None h = Some h" "destroy curlSessionClass (Some a) h = release a h"
    "moveFrom curlSessionClass p = (p, None)" "assignFrom curlSessionClass True p p h = Some (p, p, h)"
    "assignFrom curlSessionClass False p q h = map_option (\<lambda>h'. (q, None, h')) (destroy curlSessionClass p h)"
    by (auto simp: curlSessionClass_def destroyCurlSession_def moveCurlSession_def assignCurlSession_def split: option.splits)
  show "\<exists>p' h'. use curlSessionClass ok line p h = Some (p', h') \<and>
      ((p' = p \<and> dom (cells h') = dom (cells h) \<and> nextCell h' = nextCell h) \<or> (p' = None \<and> h' = h) \<or>
       (p = None \<and> (\<exists>v. (p', h') = allocate v h)))"
    by (simp add: curlSessionClass_def)
next
  show "keeps_cell curlSessionClass" by (simp add: keeps_cell_def curlSessionClass_def)
qed

lemma slistAppend_effect:
  assumes "pred_option (\<lambda>a. cells h a \<noteq> None) p"
  shows "\<exists>p' h'. slistAppend ok line p h = Some (p', h') \<and>
    ((p' = p \<and> dom (cells h') = dom (cells h) \<and> nextCell h' = nextCell h) \<or> (p' = None \<and> h' = h) \<or>
     (p = None \<and> (\<exists>v. (p', h') = allocate v h)))"
proof (cases p)
  case None
  then show ?thesis by (cases ok) (auto simp: slistAppend_def allocate_def)
next
  case (Some a)
  then obtain ls where "cells h a = Some ls" using assms by auto
  then show ?thesis using Some by (cases ok) (auto simp: slistAppend_def)
qed

lemma append_pointer:
  "map_option snd (appendCurlSlist ok line p h) = slistAppend ok line p h"
  "map_option snd (appendCurlHeaders ok line p h) = slistAppend ok line p h"
  by (simp_all add: appendCurlSlist_def appendCurlHeaders_def split: option.splits prod.splits)

interpretation curlSlist: owning curlSlistClass
proof
  fix h h' :: "string list heap" and p q :: pointer and a ok line e
  show "h' = h" if "construct curlSlistClass ok h = (Inl e, h')" using that by (simp add: curlSlistClass_def)
  show "(p = None \<and> h' = h) \<or> (\<exists>v. (p, h') = allocate v h)" if "construct curlSlistClass ok h = (Inr p, h')"
    using that by (simp add: curlSlistClass_def)
  show "destroy curlSlistClass None h = Some h" "destroy curlSlistClass (Some a) h = release a h"
    "moveFrom curlSlistClass p = (p, None)" "assignFrom curlSlistClass True p p h = Some (p, p, h)"
    "assignFrom curlSlistClass False p q h = map_option (\<lambda>h'. (q, None, h')) (destroy curlSlistClass p h)"
    by (auto simp: curlSlistClass_def destroyCurlSlist_def moveCurlSlist_def assignCurlSlist_def split: option.splits)
  show "\<exists>p' h'. use curlSlistClass ok line p h = Some (p', h') \<and>
      ((p' = p \<and> dom (cells h') = dom (cells h) \<and> nextCell h' = nextCell h) \<or> (p' = None \<and> h' = h) \<or>
       (p = None \<and> (\<exists>v. (p', h') = allocate v h)))" if "pred_option (\<lambda>a. cells h a \<noteq> None) p"
    using slistAppend_effect [OF that] by (simp add: curlSlistClass_def append_pointer)
qed

interpretation curlHeaders: owning curlHeadersClass
proof
  fix h h' :: "string list heap" and p q :: pointer and a ok line e
  show "h' = h" if "construct curlHeadersClass ok h = (Inl e, h')" using that by (simp add: curlHeadersClass_def)
  show "(p = None \<and> h' = h) \<or> (\<exists>v. (p, h') = allocate v h)" if "construct curlHeadersClass ok h = (Inr p, h')"
    using that by (simp add: curlHeadersClass_def)
  show "destroy curlHeadersClass None h = Some h" "destroy curlHeadersClass (Some a) h = release a h"
    "moveFrom curlHeadersClass p = (p, None)" "assignFrom curlHeadersClass True p p h = Some (p, p, h)"
    "assignFrom curlHeadersClass False p q h = map_option (\<lambda>h'. (q, None, h')) (destroy curlHeadersClass p h)"
    by (auto simp: curlHeadersClass_def destroyCurlHeaders_def moveCurlHeaders_def assignCurlHeaders_def split: option.splits)
  show "\<exists>p' h'. use curlHeadersClass ok line p h = Some (p', h') \<and>
      ((p' = p \<and> dom (cells h') = dom (cells h) \<and> nextCell h' = nextCell h) \<or> (p' = None \<and> h' = h) \<or>
       (p = None \<and> (\<exists>v. (p', h') = allocate v h)))" if "pred_option (\<lambda>a. cells h a \<noteq> None) p"
    using slistAppend_effect [OF that] by (simp add: curlHeadersClass_def append_pointer)
qed

section \<open>What the classes guarantee\<close>

lemma noOwners_sound: "sound noOwners" "leaked noOwners = {}"
  by (simp_all add: noOwners_def sound_def leaked_def allocated_def heap_ok_def ownedIn_def unique_def)

text \<open>
  C37: The sessions of libcurl are freed exactly once: whatever constructions, moves, assignments (to itself included), resets
  and destructions a program performs on \<open>CurlHandle\<close> or \<open>CurlSession\<close> objects, no session is used or freed after it was freed,
  every session has exactly one owner, and no session is left when no object is left.
\<close>

theorem curl_sessions_owned:
  assumes "class_runs C noOwners u" "C = curlHandleClass \<or> C = curlSessionClass"
  shows "\<exists>s. u = Some s \<and> unique (objects s) \<and> allocated s = ownedIn (objects s) \<and>
    (if objects s = Map.empty then allocated s = {} else True)"
proof -
  obtain s where s: "u = Some s" "sound s" "leaked s = {}"
    using assms curlHandle.runs_tight [OF _ noOwners_sound(1), of u] curlSession.runs_tight [OF _ noOwners_sound(1), of u]
    unfolding noOwners_sound(2) by blast
  then have "allocated s = ownedIn (objects s)" by (auto simp: sound_def leaked_def)
  moreover have "ownedIn (Map.empty :: nat \<Rightarrow> pointer option) = {}" by (simp add: ownedIn_def)
  ultimately show ?thesis using s by (auto simp: sound_def)
qed

text \<open>Witness: two sessions, one assigned to the other, which frees the first.\<close>

theorem curl_sessions_owned_witness:
  "\<exists>s. class_runs curlSessionClass noOwners (Some s) \<and> objects s = [0 \<mapsto> Some 1, 1 \<mapsto> None] \<and> allocated s = {1}"
proof -
  let ?h1 = "\<lparr>cells = [0 \<mapsto> ()], nextCell = 1\<rparr>"
  let ?h2 = "\<lparr>cells = [0 \<mapsto> (), 1 \<mapsto> ()], nextCell = 2\<rparr>"
  let ?s1 = "\<lparr>objects = [0 \<mapsto> Some 0], heap = ?h1\<rparr>"
  let ?s2 = "\<lparr>objects = [0 \<mapsto> Some 0, 1 \<mapsto> Some 1], heap = ?h2\<rparr>"
  have 1: "class_step curlSessionClass noOwners (Some ?s1)"
    using class_step.constructed [of noOwners 0 curlSessionClass True "Some 0" ?h1]
    by (simp add: noOwners_def curlSessionClass_def newCurlSession_def easyInit_def allocate_def)
  have 2: "class_step curlSessionClass ?s1 (Some ?s2)"
    using class_step.constructed [of ?s1 1 curlSessionClass True "Some 1" ?h2]
    by (simp add: curlSessionClass_def newCurlSession_def easyInit_def allocate_def numeral_2_eq_2)
  obtain t where t: "class_step curlSessionClass ?s2 (Some t)" "objects t = [0 \<mapsto> Some 1, 1 \<mapsto> None]"
    using class_step.assigned [of ?s2 0 "Some 0" 1 "Some 1" curlSessionClass]
    by (simp add: curlSessionClass_def assignCurlSession_def release_def fun_upd_twist)
  have run: "class_runs curlSessionClass noOwners (Some t)"
    by (rule class_runs.step [OF class_runs.step [OF class_runs.step [OF class_runs.start 1] 2] t(1)])
  have "ownedIn [0 \<mapsto> Some 1, 1 \<mapsto> None] = {1 :: nat}" by (auto simp: ownedIn_def split: if_splits)
  then show ?thesis using curl_sessions_owned [OF run] run t(2) by auto
qed

text \<open>
  C38: A header list that cannot be extended is lost: when \<open>curl_slist_append\<close> fails on a list that has entries, \<open>append\<close> of \<open>CurlSlist\<close>
  and of \<open>CurlHeaders\<close> stores the null pointer over the list and throws, and whatever the program does afterwards, destroying
  every object included, the list stays allocated without an owner. No list is ever freed twice.
\<close>

theorem failed_append_leaks:
  assumes "C = curlSlistClass \<or> C = curlHeadersClass" "class_runs C noOwners (Some s)" "objects s x = Some (Some a)"
    and "use C False line (Some a) (heap s) = Some (p, h)"
    and "class_runs C (s\<lparr>objects := (objects s)(x \<mapsto> p), heap := h\<rparr>) u"
  shows "appendCurlSlist False line (Some a) (heap s) = Some (Inl (ConnectionError ''Failed to append CURL header''), None, heap s) \<and>
    appendCurlHeaders False line (Some a) (heap s) = Some (Inl (ConnectionError ''Failed to append CURL header''), None, heap s) \<and>
    (\<exists>t. u = Some t \<and> a \<in> allocated t \<and> a \<notin> ownedIn (objects t))"
proof -
  have C: "owning C" using assms(1) curlSlist.owning_axioms curlHeaders.owning_axioms by auto
  have s: "sound s" using owning.runs_sound [OF C assms(2) noOwners_sound(1)] by simp
  obtain ls where cell: "cells (heap s) a = Some ls" using owning.valid [OF C s assms(3)] by blast
  then have fail: "slistAppend False line (Some a) (heap s) = Some (None, heap s)" by (simp add: slistAppend_def)
  then have p: "p = None" "h = heap s"
    using assms(1,4) by (auto simp: curlSlistClass_def curlHeadersClass_def append_pointer)
  let ?s = "s\<lparr>objects := (objects s)(x \<mapsto> p), heap := h\<rparr>"
  have s': "?s = s\<lparr>objects := (objects s)(x \<mapsto> None)\<rparr>" by (simp add: p)
  have "a \<notin> ownedIn (objects ?s)"
    using ownedIn_empty [of "objects s" x "Some a" "Some None"] s assms(3) by (simp add: s' sound_def)
  moreover have "a \<in> allocated ?s" using cell by (auto simp: allocated_def p)
  ultimately have "a \<in> leaked ?s" by (simp add: leaked_def)
  moreover have "sound ?s" using own_forgotten [OF s assms(3) s'] by simp
  ultimately obtain t where "u = Some t" "a \<in> leaked t"
    using owning.runs_sound [OF C assms(5)] by blast
  then show ?thesis using fail by (simp add: leaked_def appendCurlSlist_def appendCurlHeaders_def)
qed

text \<open>Witness: a list of one header; the second append fails, and the object is destroyed.\<close>

theorem failed_append_leaks_witness:
  "\<exists>s u t. class_runs curlSlistClass noOwners (Some s) \<and> cells (heap s) 0 = Some [''Accept: application/json''] \<and>
     class_runs curlSlistClass (s\<lparr>objects := (objects s)(0 \<mapsto> None)\<rparr>) u \<and>
     u = Some t \<and> objects t = Map.empty \<and> 0 \<in> allocated t"
proof -
  let ?line = "''Accept: application/json''"
  let ?h = "\<lparr>cells = [0 \<mapsto> [?line]], nextCell = 1\<rparr>"
  let ?s1 = "noOwners\<lparr>objects := [0 \<mapsto> None]\<rparr> :: string list owners"
  let ?s = "\<lparr>objects = [0 \<mapsto> Some 0], heap = ?h\<rparr>"
  let ?t = "\<lparr>objects = Map.empty, heap = ?h\<rparr>"
  have 1: "class_step curlSlistClass noOwners (Some ?s1)"
    using class_step.constructed [of noOwners 0 curlSlistClass True None "heap noOwners"]
    by (simp add: noOwners_def curlSlistClass_def)
  have "use curlSlistClass True ?line None (heap ?s1) = Some (Some 0, ?h)"
    by (simp add: curlSlistClass_def append_pointer slistAppend_def allocate_def noOwners_def)
  then have 2: "class_step curlSlistClass ?s1 (Some ?s)"
    using class_step.used [of ?s1 0 None curlSlistClass True ?line] by (simp add: noOwners_def)
  have run: "class_runs curlSlistClass noOwners (Some ?s)"
    by (rule class_runs.step [OF class_runs.step [OF class_runs.start 1] 2])
  have fail: "use curlSlistClass False ?line (Some 0) (heap ?s) = Some (None, ?h)"
    by (simp add: curlSlistClass_def append_pointer slistAppend_def)
  have null: "?s\<lparr>objects := (objects ?s)(0 \<mapsto> None), heap := ?h\<rparr> = ?s\<lparr>objects := (objects ?s)(0 \<mapsto> None)\<rparr>" by simp
  have "class_step curlSlistClass (?s\<lparr>objects := (objects ?s)(0 \<mapsto> None)\<rparr>) (Some ?t)"
    using class_step.destroyed [of "?s\<lparr>objects := (objects ?s)(0 \<mapsto> None)\<rparr>" 0 None curlSlistClass]
    by (simp add: curlSlistClass_def destroyCurlSlist_def)
  then have rest: "class_runs curlSlistClass (?s\<lparr>objects := (objects ?s)(0 \<mapsto> None), heap := ?h\<rparr>) (Some ?t)"
    unfolding null by (rule class_runs.step [OF class_runs.start])
  have "0 \<in> allocated ?t"
    using failed_append_leaks [OF _ run _ fail rest] by simp
  then show ?thesis using run rest unfolding null by (intro exI [of _ ?s] exI [of _ "Some ?t"] exI [of _ ?t]) simp
qed

section \<open>CryptoContext\<close>

definition newCryptoContext :: "bool \<Rightarrow> unit heap \<Rightarrow> pointer fallible \<times> unit heap" where
  "newCryptoContext ok h =
     (let (p, h') = (if ok then allocate () h else (None, h))
      in if p = None then (Inl (RuntimeError ''Failed to create crypto context''), h') else (Inr p, h'))"

definition destroyCryptoContext :: "pointer \<Rightarrow> unit heap \<Rightarrow> unit heap option" where
  "destroyCryptoContext p h = (case p of Some a \<Rightarrow> release a h | None \<Rightarrow> Some h)"

text \<open>A block with a \<open>CryptoContext\<close> as its first local, as in \<open>AuthService::sha256\<close>: it is destroyed on every way out.\<close>

definition withCryptoContext :: "bool \<Rightarrow> 'a fallible \<Rightarrow> unit heap \<Rightarrow> ('a fallible \<times> unit heap) option" where
  "withCryptoContext ok outcome h =
     (case newCryptoContext ok h of
        (Inl e, h') \<Rightarrow> Some (Inl e, h')
      | (Inr p, h') \<Rightarrow> map_option (\<lambda>h''. (outcome, h'')) (destroyCryptoContext p h'))"

lemma withCryptoContext_balanced:
  assumes "heap_ok h"
  shows "\<exists>r h'. withCryptoContext ok outcome h = Some (r, h') \<and> cells h' = cells h \<and>
    r = (if ok then outcome else Inl (RuntimeError ''Failed to create crypto context''))"
proof -
  have "cells h (nextCell h) = None" using assms by (simp add: heap_ok_def)
  then have "(cells h)(nextCell h := None) = cells h" by (simp add: fun_upd_idem)
  then show ?thesis
    by (simp add: withCryptoContext_def newCryptoContext_def destroyCryptoContext_def allocate_def release_def)
qed

section \<open>SecureString\<close>

text \<open>
  The objects in scope are the contents of their vectors; \<open>buffers\<close> are the contents that buffers had when their memory was
  given back by an operation of the class. A moved-from vector is empty.
\<close>

definition cleanse :: "byte list \<Rightarrow> byte list" where
  "cleanse d = map (\<lambda>_. 0) d"

definition secureOfString :: "string \<Rightarrow> byte list" where
  "secureOfString str = bytes str"

text \<open>\<open>RAND_bytes\<close> has filled the vector with \<open>d\<close> and succeeded or not.\<close>

definition secureOfRandom :: "bool \<Rightarrow> byte list \<Rightarrow> byte list fallible" where
  "secureOfRandom ok d = (if \<not> ok then Inl (RuntimeError ''Failed to generate random bytes'') else Inr d)"

definition destroySecureString :: "byte list \<Rightarrow> byte list" where
  "destroySecureString d = (if d \<noteq> [] then cleanse d else d)"

definition moveSecureString :: "byte list \<Rightarrow> byte list \<times> byte list" where
  "moveSecureString other = (other, [])"

text \<open>What the two objects hold and the buffers given back.\<close>

definition assignSecureString :: "bool \<Rightarrow> byte list \<Rightarrow> byte list \<Rightarrow> byte list \<times> byte list \<times> byte list list" where
  "assignSecureString same this other =
     (if \<not> same then (other, [], [if this \<noteq> [] then cleanse this else this]) else (this, other, []))"

definition secureToString :: "byte list \<Rightarrow> string" where
  "secureToString d = map (\<lambda>b. char_of (unat b)) d"

record secures =
  strings :: "nat \<Rightarrow> byte list option"
  buffers :: "byte list list"

inductive secure_step :: "secures \<Rightarrow> secures \<Rightarrow> bool" where
  fromString: "strings s x = None \<Longrightarrow>
    secure_step s (s\<lparr>strings := (strings s)(x \<mapsto> secureOfString str)\<rparr>)"
| fromRandom: "strings s x = None \<Longrightarrow> secureOfRandom ok d = Inr d' \<Longrightarrow>
    secure_step s (s\<lparr>strings := (strings s)(x \<mapsto> d')\<rparr>)"
| destroyed: "strings s x = Some d \<Longrightarrow>
    secure_step s (s\<lparr>strings := (strings s)(x := None), buffers := buffers s @ [destroySecureString d]\<rparr>)"
| moved: "strings s y = Some d \<Longrightarrow> strings s x = None \<Longrightarrow> moveSecureString d = (d', e) \<Longrightarrow>
    secure_step s (s\<lparr>strings := (strings s)(x \<mapsto> d', y \<mapsto> e)\<rparr>)"
| assigned: "strings s x = Some d \<Longrightarrow> strings s y = Some e \<Longrightarrow> assignSecureString (x = y) d e = (d', e', bs) \<Longrightarrow>
    secure_step s (s\<lparr>strings := (strings s)(y \<mapsto> e', x \<mapsto> d'), buffers := buffers s @ bs\<rparr>)"

definition cleansed :: "secures \<Rightarrow> bool" where
  "cleansed s \<longleftrightarrow> list_all (list_all (\<lambda>b. b = 0)) (buffers s)"

text \<open>Every buffer that an object of the class gives back has been overwritten with zeros.\<close>

lemma secure_step_cleansed: "secure_step s t \<Longrightarrow> cleansed s \<Longrightarrow> cleansed t"
  by (induction rule: secure_step.induct)
    (auto simp: cleansed_def destroySecureString_def assignSecureString_def cleanse_def list_all_iff split: if_splits)

text \<open>A failed construction gives its buffer back as \<open>RAND_bytes\<close> left it, and the contents survive a round trip.\<close>

lemma secureToString_inverse: "secureToString (secureOfString str) = str"
proof -
  have "char_of (unat (of_nat (of_char c) :: byte)) = c" for c
  proof -
    have "(of_char c :: nat) < 2 ^ 8" using of_char_less_256 [of c] by simp
    then have "unat (of_nat (of_char c) :: byte) = of_char c"
      by (simp add: unat_of_nat take_bit_nat_eq_self)
    then show ?thesis by (simp add: char_of_char)
  qed
  then show ?thesis by (simp add: secureToString_def secureOfString_def bytes_def comp_def)
qed

text \<open>
  The bytes of a \<open>SecureString\<close> do not outlive it: in every sequence of constructions, moves, assignments and
  destructions, every buffer the class gives back to the allocator is all zeros.
\<close>

theorem secure_strings_cleansed:
  assumes "secure_step\<^sup>*\<^sup>* \<lparr>strings = Map.empty, buffers = []\<rparr> s" "b \<in> set (concat (buffers s))"
  shows "b = 0"
proof -
  have "cleansed s"
    using assms(1)
  proof (induction rule: rtranclp_induct)
    case base
    show ?case by (simp add: cleansed_def)
  next
    case (step y z)
    then show ?case using secure_step_cleansed by blast
  qed
  then show ?thesis using assms(2) by (auto simp: cleansed_def list_all_iff)
qed

text \<open>Witness: a secret that is moved, and both objects destroyed.\<close>

theorem secure_strings_cleansed_witness:
  "\<exists>s. secure_step\<^sup>*\<^sup>* \<lparr>strings = Map.empty, buffers = []\<rparr> s \<and> buffers s = [[], [0, 0]] \<and>
     list_all (\<lambda>b. b = 0) (concat (buffers s))"
proof -
  let ?s0 = "\<lparr>strings = Map.empty, buffers = []\<rparr>"
  let ?s1 = "\<lparr>strings = [0 \<mapsto> [107, 101]], buffers = []\<rparr>"
  let ?s2 = "\<lparr>strings = [1 \<mapsto> [107, 101], 0 \<mapsto> []], buffers = []\<rparr>"
  let ?s3 = "\<lparr>strings = [1 \<mapsto> [107, 101]], buffers = [[]]\<rparr>"
  let ?s4 = "\<lparr>strings = Map.empty, buffers = [[], [0, 0]]\<rparr>"
  have "secure_step ?s0 ?s1"
    using secure_step.fromString [of ?s0 0 "''ke''"] by (simp add: secureOfString_def bytes_def of_char_def)
  moreover have "secure_step ?s1 ?s2"
    using secure_step.moved [of ?s1 0 "[107, 101]" 1] by (simp add: moveSecureString_def)
  moreover have "secure_step ?s2 ?s3"
    using secure_step.destroyed [of ?s2 0 "[]"] by (simp add: destroySecureString_def fun_upd_twist)
  moreover have "secure_step ?s3 ?s4"
    using secure_step.destroyed [of ?s3 1 "[107, 101]"] by (simp add: destroySecureString_def cleanse_def)
  ultimately have run: "secure_step\<^sup>*\<^sup>* ?s0 ?s4" by (meson converse_rtranclp_into_rtranclp rtranclp.rtrancl_refl)
  have "list_all (\<lambda>b. b = 0) (concat (buffers ?s4))"
    unfolding list_all_iff using secure_strings_cleansed [OF run] by blast
  then show ?thesis using run by (intro exI [of _ ?s4]) simp
qed

end
