(* ===== verification/Service_Objects.thy ===== *)
theory Service_Objects
  imports Streaming Auth
begin

text \<open>
  The objects around the services: the special members of \<open>StreamingService\<close>, the accessors of \<open>StreamStatistics\<close> and the getters
  of \<open>AuthService\<close>. A \<open>StreamingService\<close> object is its \<open>impl_\<close>, which is null after the object was moved from; \<open>None\<close> as the
  outcome of an operation on it is undefined behaviour.
\<close>

section \<open>StreamingService\<close>

definition newStreamingService :: "StreamingImpl option" where
  "newStreamingService = Some newStreamingImpl"

text \<open>\<open>Impl::~Impl\<close> disconnects.\<close>

definition destroyImpl :: "stream_env \<Rightarrow> StreamingImpl \<Rightarrow> 'z stream_world_scheme \<Rightarrow> 'z stream_world_scheme option" where
  "destroyImpl env impl w = map_option snd (streamDisconnect env (w\<lparr>strm := impl\<rparr>))"

text \<open>\<open>~StreamingService\<close> calls \<open>impl_->disconnect()\<close>, then the member destroys its object.\<close>

definition destroyStreamingService ::
  "stream_env \<Rightarrow> StreamingImpl option \<Rightarrow> 'z stream_world_scheme \<Rightarrow> 'z stream_world_scheme option" where
  "destroyStreamingService env impl w =
     (case impl of
        None \<Rightarrow> None
      | Some s \<Rightarrow>
          (case streamDisconnect env (w\<lparr>strm := s\<rparr>) of
             None \<Rightarrow> None
           | Some (_, w') \<Rightarrow> destroyImpl env (strm w') w'))"

definition moveStreamingService :: "StreamingImpl option \<Rightarrow> StreamingImpl option \<times> StreamingImpl option" where
  "moveStreamingService other = (other, None)"

text \<open>\<open>same\<close> is \<open>this == &other\<close>; the old \<open>impl_\<close> of the target is destroyed.\<close>

definition assignStreamingService ::
  "stream_env \<Rightarrow> bool \<Rightarrow> StreamingImpl option \<Rightarrow> StreamingImpl option \<Rightarrow> 'z stream_world_scheme \<Rightarrow>
     (StreamingImpl option \<times> StreamingImpl option \<times> 'z stream_world_scheme) option" where
  "assignStreamingService env same this other w =
     (if \<not> same then
        (case this of
           None \<Rightarrow> Some (other, None, w)
         | Some s \<Rightarrow> map_option (\<lambda>w'. (other, None, w')) (destroyImpl env s w))
      else Some (this, other, w))"

text \<open>
  The lifetime of a moved-from object always ends in undefined behaviour, unless it was assigned a new \<open>impl_\<close> before; a
  service that was never connected is destroyed without trouble.
\<close>

lemma moved_service_dies:
  "destroyStreamingService env (snd (moveStreamingService impl)) w = None"
  "assignStreamingService env False this other w = Some (this', other', w') \<Longrightarrow>
     destroyStreamingService env other' v = None"
  by (auto simp: moveStreamingService_def assignStreamingService_def destroyStreamingService_def
      split: if_splits option.splits)

lemma unconnected_disconnect:
  "sConnection s = None \<Longrightarrow> \<exists>t. streamDisconnect env (w\<lparr>strm := s\<rparr>) = Some (Inr (), w\<lparr>strm := t\<rparr>) \<and>
     sConnection t = None \<and> sAborted t = sAborted s"
  by (intro exI [of _ "threadManager_update stopThreads (s\<lparr>sConnected := False\<rparr>)"])
    (simp add: streamDisconnect_def onConnection_def dropConnection_def bindIO_def io_prims onStream_def)

lemma unconnected_service_destroyed:
  assumes "sConnection s = None"
  shows "\<exists>w'. destroyStreamingService env (Some s) w = Some w' \<and> sAborted (strm w') = sAborted s"
proof -
  obtain t where t: "streamDisconnect env (w\<lparr>strm := s\<rparr>) = Some (Inr (), w\<lparr>strm := t\<rparr>)" "sConnection t = None"
      "sAborted t = sAborted s"
    using unconnected_disconnect [OF assms] by blast
  obtain u where "streamDisconnect env ((w\<lparr>strm := t\<rparr>)\<lparr>strm := t\<rparr>) = Some (Inr (), (w\<lparr>strm := t\<rparr>)\<lparr>strm := u\<rparr>)"
      "sAborted u = sAborted t"
    using unconnected_disconnect [OF t(2)] by blast
  then show ?thesis using t by (auto simp: destroyStreamingService_def destroyImpl_def)
qed

section \<open>StreamStatistics\<close>

definition setConnectionStart :: "int \<Rightarrow> StreamStatistics \<Rightarrow> StreamStatistics" where
  "setConnectionStart time s = s\<lparr>connectionStart := time\<rparr>"

definition setLastMessage :: "int \<Rightarrow> StreamStatistics \<Rightarrow> StreamStatistics" where
  "setLastMessage time s = s\<lparr>lastMessage := time\<rparr>"

definition getConnectionStart :: "StreamStatistics \<Rightarrow> int" where
  "getConnectionStart s = connectionStart s"

definition getLastMessage :: "StreamStatistics \<Rightarrow> int" where
  "getLastMessage s = lastMessage s"

definition copyStreamStatistics :: "StreamStatistics \<Rightarrow> StreamStatistics" where
  "copyStreamStatistics other =
     \<lparr>messagesReceived = messagesReceived other, messagesProcessed = messagesProcessed other,
      streamErrors = streamErrors other, reconnects = reconnects other,
      connectionStart = connectionStart other, lastMessage = lastMessage other\<rparr>"

definition assignStreamStatistics :: "bool \<Rightarrow> StreamStatistics \<Rightarrow> StreamStatistics \<Rightarrow> StreamStatistics" where
  "assignStreamStatistics same this other =
     (if \<not> same then
        this\<lparr>messagesReceived := messagesReceived other, messagesProcessed := messagesProcessed other,
          streamErrors := streamErrors other, reconnects := reconnects other,
          connectionStart := connectionStart other, lastMessage := lastMessage other\<rparr>
      else this)"

lemma streamStatistics_copies:
  "copyStreamStatistics s = s" "assignStreamStatistics False t s = s" "assignStreamStatistics True s s = s"
  by (simp_all add: copyStreamStatistics_def assignStreamStatistics_def)

section \<open>Getters of AuthService\<close>

definition authGetConfig :: "AuthService \<Rightarrow> AuthConfig" where
  "authGetConfig s = authConfig s"

definition isSandboxMode :: "Config \<Rightarrow> bool" where
  "isSandboxMode clientConfig = sandboxMode clientConfig"

definition getEndpoints :: "AuthService \<Rightarrow> AuthEndpoints" where
  "getEndpoints s = endpoints s"

text \<open>The endpoints are fixed when the service is made: they follow the mode of the client at that time.\<close>

lemma setConfig_endpoints:
  "authGetConfig (setConfig cfg s) = cfg" "getEndpoints (setConfig cfg s) = getEndpoints s"
  by (simp_all add: authGetConfig_def getEndpoints_def setConfig_def)

end
