(* ===== verification/Console.thy ===== *)
theory Console
  imports Order_Flow Account
begin

text \<open>
  The console of the example programs: \<open>std::cin\<close> is the list of the lines that are still to be read,
  \<open>std::cout\<close> and \<open>std::cerr\<close> are the texts written so far. The functions that print a value are the text they
  print. \<open>fixedText k\<close> is a \<open>double\<close> printed with \<open>std::fixed\<close> and \<open>std::setprecision(k)\<close>; every \<open>double\<close> the programs print
  comes after these manipulators.

  \<open>converse c m inp Q\<close> is the total correctness of a piece of a program that talks to the server through a client of
  configuration \<open>c\<close> and to the user, whose remaining input lines are \<open>inp\<close>: it ends, and \<open>Q\<close> holds of its result, the
  requests it sent and the input it left.
\<close>

section \<open>Reading and writing\<close>

record console_world = http_world +
  consoleIn :: "string list"
  consoleOut :: string
  consoleErr :: string

type_synonym ('z, 'a) console_io = "('z console_world_scheme, exn, 'a) io"

definition printOut :: "string \<Rightarrow> ('z, unit) console_io" where
  "printOut text = modifyIO (consoleOut_update (\<lambda>t. t @ text))"

definition printErr :: "string \<Rightarrow> ('z, unit) console_io" where
  "printErr text = modifyIO (consoleErr_update (\<lambda>t. t @ text))"

text \<open>\<open>std::getline\<close> leaves the string empty at the end of the input.\<close>

definition readLine :: "('z, string) console_io" where
  "readLine w =
     (case consoleIn w of [] \<Rightarrow> Some (Inr [], w) | l # ls \<Rightarrow> Some (Inr l, w\<lparr>consoleIn := ls\<rparr>))"

definition endLine :: string where
  "endLine = [CHR 0x0A]"

fun linesText :: "string list \<Rightarrow> string" where
  "linesText [] = []"
| "linesText (l # ls) = l @ endLine @ linesText ls"

text \<open>Bytes outside ASCII: the check mark, the cross, the warning sign and the lock.\<close>

definition bytesText :: "nat list \<Rightarrow> string" where
  "bytesText = map char_of"

definition checkMark :: string where
  "checkMark = bytesText [0xE2, 0x9C, 0x93]"

definition crossMark :: string where
  "crossMark = bytesText [0xE2, 0x9C, 0x97]"

definition warningSign :: string where
  "warningSign = bytesText [0xE2, 0x9A, 0xA0, 0xEF, 0xB8, 0x8F]"

definition lockSign :: string where
  "lockSign = bytesText [0xF0, 0x9F, 0x94, 0x92]"

fun fixedText :: "nat \<Rightarrow> double \<Rightarrow> string" where
  "fixedText k (DNaN s) = (if s then ''-nan'' else ''nan'')"
| "fixedText k (DInf s) = (if s then ''-inf'' else ''inf'')"
| "fixedText k DNegZero = ''-0.'' @ replicate k (CHR ''0'')"
| "fixedText k (DFin r) =
     (let v = nat (round_half_even (\<bar>r\<bar> * 10 ^ k))
      in (if r < 0 then ''-'' else []) @ to_string_nat (v div 10 ^ k) @ ''.'' @ pad0 k (to_string_nat (v mod 10 ^ k)))"

text \<open>\<open>std::left\<close> with \<open>std::setw(n)\<close>.\<close>

definition padRight :: "nat \<Rightarrow> string \<Rightarrow> string" where
  "padRight n s = s @ replicate (n - length s) (CHR '' '')"

definition yesNo :: "bool \<Rightarrow> string" where
  "yesNo b = (if b then ''Yes'' else ''No'')"

text \<open>\<open>TradierClient client(config)\<close>: the client of the services that are used afterwards.\<close>

definition makeClient :: "net \<Rightarrow> Config \<Rightarrow> ('z, unit) http_io" where
  "makeClient n cfg = bindIO (newTradierClient n cfg) (\<lambda>h. modifyIO (onHttp (\<lambda>_. h)))"

text \<open>Six decimals agree with \<open>std::to_string\<close>.\<close>

lemma fixedText_6: "fixedText 6 x = to_string_double x"
proof (cases x)
  case DNegZero
  have "replicate 6 (CHR ''0'') = ''000000''" by code_simp
  then show ?thesis using DNegZero by simp
qed (simp_all add: fixed6_def micros_def Let_def)

lemma padRight_length: "length (padRight n s) = max n (length s)"
  by (simp add: padRight_def)

section \<open>A client as its constructor leaves it\<close>

definition fresh :: "Config \<Rightarrow> 'z http_world_scheme \<Rightarrow> bool" where
  "fresh c w \<longleftrightarrow> config (http w) = c \<and> \<not> retriesEnabled (http w) \<and> \<not> rateLimitEnabled (http w)"

text \<open>What one call of such a client may do with its request: \<open>k\<close> is how often libcurl gets it.\<close>

definition answers :: "net \<Rightarrow> request \<Rightarrow> exn + Response \<Rightarrow> nat \<Rightarrow> bool" where
  "answers n req r k \<longleftrightarrow> k \<le> 1 \<and> (\<forall>resp. r = Inr resp \<longrightarrow> k = 1 \<and> isReply n req resp) \<and>
     (reliable n \<longrightarrow> k = 1 \<and> (\<forall>t. (\<forall>i. curl_easy_perform n i req = Inr t) \<longrightarrow> r = Inr (receive t)))"

lemma single_answers:
  fixes w :: "'z http_world_scheme"
  shows "\<exists>r c k. performSingleRequest n meth ep ps w =
       Some (r, w\<lparr>calls := c, sent := sent w @ replicate k (preparedRequest n (config (http w)) meth ep ps)\<rparr>) \<and>
     answers n (preparedRequest n (config (http w)) meth ep ps) r k \<and> (\<forall>e. r = Inl e \<longrightarrow> (\<exists>m. e = ConnectionError m))"
proof -
  let ?req = "preparedRequest n (config (http w)) meth ep ps"
  consider (early) m c where "\<not> reliable n"
      "performSingleRequest n meth ep ps w = Some (Inl (ConnectionError m), w\<lparr>calls := c\<rparr>)"
    | (perform) c where "performSingleRequest n meth ep ps w = curlPerform n ?req (w\<lparr>calls := c\<rparr>)"
    by (cases n meth ep ps w rule: performSingleRequest_steps)
      (use performSingleRequest_reliable in blast)+
  then show ?thesis
  proof cases
    case early
    then show ?thesis
      by (intro exI [of _ "Inl (ConnectionError m)"] exI [of _ c] exI [of _ 0]) (simp add: answers_def)
  next
    case perform
    let ?r = "case curl_easy_perform n c ?req of
        Inl m \<Rightarrow> Inl (ConnectionError (''CURL error: '' @ m)) | Inr t \<Rightarrow> Inr (receive t)"
    have "performSingleRequest n meth ep ps w =
        Some (?r, w\<lparr>calls := Suc c, sent := sent w @ replicate 1 ?req\<rparr>)"
      unfolding perform curlPerform_def Let_def tick_def by (simp split: sum.splits)
    moreover have "answers n ?req ?r 1" "\<forall>e. ?r = Inl e \<longrightarrow> (\<exists>m. e = ConnectionError m)"
      by (auto simp: answers_def isReply_def split: sum.splits)
    ultimately show ?thesis by blast
  qed
qed

lemma performRequest_fresh:
  fixes w :: "'z http_world_scheme"
  assumes "fresh c w"
  shows "\<exists>r w' k. performRequest n meth ep ps w = Some (r, w') \<and> fresh c w' \<and>
     http_world.more w' = http_world.more w \<and> sent w' = sent w @ replicate k (preparedRequest n c meth ep ps) \<and>
     answers n (preparedRequest n c meth ep ps) r k"
proof -
  define v where "v = count totalRequests_update (tick w)"
  let ?req = "preparedRequest n c meth ep ps"
  have v: "config (http v) = c" "sent v = sent w" "http_world.more v = http_world.more w" "fresh c v"
    using assms by (simp_all add: v_def fresh_def count_def onHttp_def tick_def)
  have slot: "acquireSlot n (count totalRequests_update (tick w)) = Some (Inr (), v)"
    using assms by (simp add: acquireSlot_def fresh_def v_def)
  obtain r d k where single: "performSingleRequest n meth ep ps v =
      Some (r, v\<lparr>calls := d, sent := sent w @ replicate k ?req\<rparr>)" and ans: "answers n ?req r k"
      and err: "\<forall>e. r = Inl e \<longrightarrow> (\<exists>m. e = ConnectionError m)"
    using single_answers [of n meth ep ps v] unfolding v by blast
  define u where "u = v\<lparr>calls := d, sent := sent w @ replicate k ?req\<rparr>"
  have u: "fresh c u" "http_world.more u = http_world.more w" "sent u = sent w @ replicate k ?req"
    using v by (simp_all add: fresh_def u_def)
  have limit: "retryLimit (http v) = 0" using v(4) by (simp add: fresh_def retryLimit_def)
  have loop: "requestLoop (retryLimit (http v)) (performSingleRequest n meth ep ps) 0 resp v = Some (r, u)" for resp
    using single err limit unfolding u_def [symmetric]
    by (subst requestLoop.simps) (auto split: sum.splits exn.splits)
  have record_fresh: "fresh c (recordOutcome t resp (tick u))" for t resp
    using u(1) by (simp add: fresh_def recordOutcome_def Let_def)
  show ?thesis
  proof (cases r)
    case (Inl e)
    then have "performRequest n meth ep ps w = Some (r, u)"
      unfolding performRequest_loop [OF slot] by (simp add: bindIO_def loop)
    then show ?thesis using u ans by blast
  next
    case (Inr resp)
    then have "\<exists>t. performRequest n meth ep ps w = Some (r, recordOutcome t resp (tick u))"
      unfolding performRequest_loop [OF slot] by (auto simp: bindIO_def loop steadyNow_def io_prims)
    moreover have "http_world.more (recordOutcome t resp (tick u)) = http_world.more w"
      "sent (recordOutcome t resp (tick u)) = sent w @ replicate k ?req" for t
      using u by (simp_all add: tick_def)
    ultimately show ?thesis using record_fresh ans by blast
  qed
qed

lemma makeClient_outcome:
  fixes w :: "'z http_world_scheme"
  shows "\<exists>r w'. makeClient n cfg w = Some (r, w') \<and> sent w' = sent w \<and> http_world.more w' = http_world.more w \<and>
     (case r of
        Inr u \<Rightarrow> curl_easy_init n (calls w) \<and> accessToken cfg \<noteq> [] \<and> fresh cfg w'
      | Inl e \<Rightarrow> \<not> (curl_easy_init n (calls w) \<and> accessToken cfg \<noteq> []))"
  by (auto simp: makeClient_def newTradierClient_def newHttpClient_def curlInit_def steadyNow_def bindIO_def io_prims
      fresh_def onHttp_def tick_def)

text \<open>The library does not touch the console, and the console does not touch the client.\<close>

lemma console_of_more:
  fixes w w' :: "'z console_world_scheme"
  assumes "http_world.more w' = http_world.more w"
  shows "consoleIn w' = consoleIn w" "consoleOut w' = consoleOut w" "consoleErr w' = consoleErr w"
  using assms by (cases w; cases w'; simp)+

lemma console_frame [simp]:
  "sent (consoleOut_update f w) = sent w" "http (consoleOut_update f w) = http w"
  "sent (consoleErr_update f w) = sent w" "http (consoleErr_update f w) = http w"
  "sent (consoleIn_update g w) = sent w" "http (consoleIn_update g w) = http w"
  "consoleIn (sleepFor d w) = consoleIn w" "consoleOut (sleepFor d w) = consoleOut w"
  by (cases w; simp add: sleepFor_def)+

section \<open>Conversations\<close>

definition converse ::
  "Config \<Rightarrow> ('z, 'a) console_io \<Rightarrow> string list \<Rightarrow> (exn + 'a \<Rightarrow> request list \<Rightarrow> string list \<Rightarrow> bool) \<Rightarrow> bool" where
  "converse c m inp Q \<longleftrightarrow>
     (\<forall>w. fresh c w \<longrightarrow> consoleIn w = inp \<longrightarrow>
        (\<exists>r w' reqs out. m w = Some (r, w') \<and> fresh c w' \<and> sent w' = sent w @ reqs \<and>
           consoleOut w' = consoleOut w @ out \<and> Q r reqs (consoleIn w')))"

lemma converse_weaken:
  assumes "converse c m inp Q" "\<And>r reqs inp'. Q r reqs inp' \<Longrightarrow> R r reqs inp'"
  shows "converse c m inp R"
  using assms unfolding converse_def by blast

lemma converse_bind:
  fixes m :: "('z, 'a) console_io"
  assumes "converse c m inp Q"
    and "\<And>x reqs inp'. Q (Inr x) reqs inp' \<Longrightarrow> converse c (f x) inp' (\<lambda>r reqs'. R r (reqs @ reqs'))"
    and "\<And>e reqs inp'. Q (Inl e) reqs inp' \<Longrightarrow> R (Inl e) reqs inp'"
  shows "converse c (bindIO m f) inp R"
  unfolding converse_def
proof (intro allI impI)
  fix w :: "'z console_world_scheme" assume "fresh c w" "consoleIn w = inp"
  then obtain r v reqs out where m: "m w = Some (r, v)" "fresh c v" "sent v = sent w @ reqs"
      "consoleOut v = consoleOut w @ out" "Q r reqs (consoleIn v)"
    using assms(1) unfolding converse_def by blast
  show "\<exists>r w' reqs out. bindIO m f w = Some (r, w') \<and> fresh c w' \<and> sent w' = sent w @ reqs \<and>
      consoleOut w' = consoleOut w @ out \<and> R r reqs (consoleIn w')"
  proof (cases r)
    case (Inl e)
    then show ?thesis using m assms(3) by (auto simp: bindIO_def)
  next
    case (Inr x)
    then obtain r' w' reqs' out' where "f x v = Some (r', w')" "fresh c w'" "sent w' = sent v @ reqs'"
        "consoleOut w' = consoleOut v @ out'" "R r' (reqs @ reqs') (consoleIn w')"
      using m assms(2) [of x reqs "consoleIn v"] unfolding converse_def by blast
    then show ?thesis using m Inr by (auto simp: bindIO_def)
  qed
qed

lemma converse_bind_total:
  assumes "converse c m inp (\<lambda>r reqs inp'. \<exists>x. r = Inr x \<and> Q x reqs inp')"
    and "\<And>x reqs inp'. Q x reqs inp' \<Longrightarrow> converse c (f x) inp' (\<lambda>r reqs'. R r (reqs @ reqs'))"
  shows "converse c (bindIO m f) inp R"
  using assms by (auto intro: converse_bind)

lemma converse_bind_unit:
  assumes "converse c m inp (\<lambda>r reqs inp'. r = Inr () \<and> Q reqs inp')"
    and "\<And>reqs inp'. Q reqs inp' \<Longrightarrow> converse c (f ()) inp' (\<lambda>r reqs'. R r (reqs @ reqs'))"
  shows "converse c (bindIO m f) inp R"
  using assms by (auto intro: converse_bind)

lemma converse_conj:
  fixes m :: "('z, 'a) console_io"
  assumes "converse c m inp Q" "converse c m inp R"
  shows "converse c m inp (\<lambda>r reqs inp'. Q r reqs inp' \<and> R r reqs inp')"
  unfolding converse_def
proof (intro allI impI)
  fix w :: "'z console_world_scheme" assume w: "fresh c w" "consoleIn w = inp"
  obtain r w' reqs out where 1: "m w = Some (r, w')" "fresh c w'" "sent w' = sent w @ reqs"
      "consoleOut w' = consoleOut w @ out" "Q r reqs (consoleIn w')"
    using assms(1) w unfolding converse_def by blast
  moreover obtain reqs' where "sent w' = sent w @ reqs'" "R r reqs' (consoleIn w')"
    using assms(2) w 1(1) unfolding converse_def by fastforce
  ultimately show "\<exists>r w' reqs out. m w = Some (r, w') \<and> fresh c w' \<and> sent w' = sent w @ reqs \<and>
      consoleOut w' = consoleOut w @ out \<and> Q r reqs (consoleIn w') \<and> R r reqs (consoleIn w')"
    by auto
qed

text \<open>Steps that only talk to the user.\<close>

lemma converse_modify:
  fixes u :: "'z console_world_scheme \<Rightarrow> 'z console_world_scheme"
  assumes "\<And>w. http (u w) = http w \<and> sent (u w) = sent w \<and> consoleIn (u w) = consoleIn w \<and>
      (\<exists>out. consoleOut (u w) = consoleOut w @ out)"
    and "R (Inr ()) [] inp"
  shows "converse c (modifyIO u) inp R"
  unfolding converse_def
proof (intro allI impI)
  fix w :: "'z console_world_scheme" assume w: "fresh c w" "consoleIn w = inp"
  obtain out where "consoleOut (u w) = consoleOut w @ out" using assms(1) [of w] by blast
  then show "\<exists>r w' reqs out. modifyIO u w = Some (r, w') \<and> fresh c w' \<and> sent w' = sent w @ reqs \<and>
      consoleOut w' = consoleOut w @ out \<and> R r reqs (consoleIn w')"
    using assms(1) [of w] assms(2) w
    by (intro exI [of _ "Inr ()"] exI [of _ "u w"] exI [of _ "[]"] exI [of _ out]) (simp add: fresh_def io_prims)
qed

lemma converse_prims:
  "R (Inr ()) [] inp \<Longrightarrow> converse c (printOut s) inp R"
  "R (Inr ()) [] inp \<Longrightarrow> converse c (printErr s) inp R"
  "R (Inr ()) [] inp \<Longrightarrow> converse c (modifyIO (sleepFor d)) inp R"
  unfolding printOut_def printErr_def by (rule converse_modify; simp)+

lemma converse_lift:
  "R v [] inp \<Longrightarrow> converse c (liftIO v) inp R"
  "R (Inr x) [] inp \<Longrightarrow> converse c (returnIO x) inp R"
  by (auto simp: converse_def io_prims)

lemma converse_silent:
  assumes "\<And>R. R (Inr x) [] inp \<Longrightarrow> converse c m inp R" "converse c (f x) inp R"
  shows "converse c (bindIO m f) inp R"
  by (rule converse_bind [where Q = "\<lambda>r reqs inp'. r = Inr x \<and> reqs = [] \<and> inp' = inp"])
    (use assms in auto)

lemma converse_print:
  "converse c (f ()) inp R \<Longrightarrow> converse c (bindIO (printOut s) f) inp R"
  "converse c (f ()) inp R \<Longrightarrow> converse c (bindIO (modifyIO (sleepFor d)) f) inp R"
  by (rule converse_silent; simp add: converse_prims)+

text \<open>The next line of the input and the rest.\<close>

definition nextLine :: "string list \<Rightarrow> string" where
  "nextLine inp = (case inp of [] \<Rightarrow> [] | l # ls \<Rightarrow> l)"

lemma converse_readLine:
  "R (Inr (nextLine inp)) [] (tl inp) \<Longrightarrow> converse c readLine inp R"
  by (auto simp: converse_def readLine_def nextLine_def fresh_def split: list.splits)

section \<open>Service calls in a conversation\<close>

definition served ::
  "net \<Rightarrow> 'p fallible \<Rightarrow> ('p \<Rightarrow> request) \<Rightarrow> (Response \<Rightarrow> 'a fallible) \<Rightarrow> 'a ApiResult \<Rightarrow> request list \<Rightarrow> bool" where
  "served n check req interp res reqs \<longleftrightarrow> result_ok res \<and>
     (case check of
        Inl e \<Rightarrow> reqs = [] \<and> \<not> isSuccess res
      | Inr p \<Rightarrow> \<exists>q k operation. answers n (req p) q k \<and> reqs = replicate k (req p) \<and>
          res = tryExecute (bindE q interp) operation)"

lemma ofValue_success: "isSuccess (ofValue v) = True" "resultValue (ofValue v) = Inr v"
  by (simp_all add: isSuccess_def ofValue_def resultValue_def)

lemma isSuccess_tryExecute:
  fixes m :: "'a fallible"
  shows "isSuccess (tryExecute m operation) \<longleftrightarrow> (\<exists>v. m = Inr v)"
proof (cases m)
  case (Inl e)
  then show ?thesis using failsWith_tryExecute [of e operation, where ?'a = 'a] by (simp add: isSuccess_def failsWith_def)
qed (simp add: tryExecute_def isSuccess_def ofValue_def)

lemma served_success:
  assumes "served n check req interp res reqs" "isSuccess res"
  obtains p resp v where "check = Inr p" "reqs = [req p]" "isReply n (req p) resp" "interp resp = Inr v" "res = ofValue v"
proof (cases check)
  case (Inl e)
  then show thesis using assms by (simp add: served_def)
next
  case (Inr p)
  then obtain q k operation where q: "answers n (req p) q k" "reqs = replicate k (req p)"
      "res = tryExecute (bindE q interp) operation"
    using assms(1) unfolding served_def by auto
  then obtain resp v where "q = Inr resp" "interp resp = Inr v"
    using assms(2) by (auto simp: isSuccess_tryExecute bindE_eq_Inr)
  then show thesis using that [OF Inr, of resp v] q by (simp add: answers_def tryExecute_def)
qed

lemma served_requests:
  assumes "served n check req interp res reqs"
  shows "reqs = [] \<or> (\<exists>p. check = Inr p \<and> reqs = [req p])"
  using assms unfolding served_def answers_def
  by (cases check) (auto simp: le_Suc_eq)

lemma served_reliable:
  assumes "served n check req interp res reqs" "check = Inr p" "reliable n"
  shows "reqs = [req p] \<and> (\<forall>t v. (\<forall>i. curl_easy_perform n i (req p) = Inr t) \<longrightarrow> interp (receive t) = Inr v \<longrightarrow>
     res = ofValue v)"
  using assms by (auto simp: served_def answers_def tryExecute_def)

lemma converse_service:
  fixes run :: "('z, 'a ApiResult) console_io"
  assumes "service_call run check call interp operation"
    and "\<And>p. call p = performRequest n meth ep (qs p)"
  shows "converse c run inp (\<lambda>r reqs inp'. \<exists>res. r = Inr res \<and> inp' = inp \<and>
     served n check (\<lambda>p. preparedRequest n c meth ep (qs p)) interp res reqs)"
  unfolding converse_def
proof (intro allI impI)
  fix w :: "'z console_world_scheme" assume w: "fresh c w" "consoleIn w = inp"
  let ?req = "\<lambda>p. preparedRequest n c meth ep (qs p)"
  show "\<exists>r w' reqs out. run w = Some (r, w') \<and> fresh c w' \<and> sent w' = sent w @ reqs \<and>
      consoleOut w' = consoleOut w @ out \<and> (\<exists>res. r = Inr res \<and> consoleIn w' = inp \<and> served n check ?req interp res reqs)"
  proof (cases check)
    case (Inl e)
    then obtain res where run: "run w = Some (Inr res, w)" "failsWith 0 res"
      using service_call.rejects [OF assms(1) Inl] by blast
    moreover have "result_ok res" using service_call.never_throws [OF assms(1) run(1)] by blast
    ultimately show ?thesis using w Inl by (simp add: served_def failsWith_def isSuccess_def)
  next
    case (Inr p)
    obtain q w' k where call: "call p w = Some (q, w')" "fresh c w'" "http_world.more w' = http_world.more w"
        "sent w' = sent w @ replicate k (?req p)" "answers n (?req p) q k"
      using performRequest_fresh [OF w(1), of n meth ep "qs p"] unfolding assms(2) by blast
    then have run: "run w = Some (Inr (tryExecute (bindE q interp) operation), w')"
      using service_call.sends_once [OF assms(1) Inr] by simp
    moreover have "result_ok (tryExecute (bindE q interp) operation)"
      using service_call.never_throws [OF assms(1) run] by blast
    then have "served n check ?req interp (tryExecute (bindE q interp) operation) (replicate k (?req p))"
      using call(5) Inr by (auto simp: served_def)
    ultimately show ?thesis
      using call console_of_more [OF call(3)] w(2) by (intro exI) auto
  qed
qed

text \<open>The branch in which a result is an error: \<open>text << result.error().what()\<close> on \<open>std::cerr\<close>.\<close>

definition complain :: "string \<Rightarrow> 'a ApiResult \<Rightarrow> ('z, unit) console_io" where
  "complain text r =
     bindIO (liftIO (resultError r)) (\<lambda>e. printErr (linesText [crossMark @ '' '' @ text @ what (ApiError e)]))"

lemma converse_complain:
  assumes "served n check req interp res reqs" "\<not> isSuccess res" "R (Inr ()) [] inp"
  shows "converse c (complain text res) inp R"
proof -
  have "isError res" using assms(1,2) by (auto simp: served_def result_ok_def)
  then obtain e where "resultError res = Inr e" by (auto simp: isError_def resultError_def)
  then show ?thesis using assms(3) by (simp add: complain_def converse_prims)
qed

text \<open>A service call, then the branch of its success or the complaint.\<close>

lemma converse_call:
  fixes run :: "('z, 'a ApiResult) console_io"
  assumes "service_call run check call interp operation"
    and "\<And>p. call p = performRequest n meth ep (qs p)"
    and "\<And>p resp v. check = Inr p \<Longrightarrow> interp resp = Inr v \<Longrightarrow>
      converse c (f (ofValue v)) inp (\<lambda>r reqs. R r (preparedRequest n c meth ep (qs p) # reqs))"
    and "\<And>p. check = Inr p \<Longrightarrow> R (Inr ()) [preparedRequest n c meth ep (qs p)] inp"
    and "R (Inr ()) [] inp"
    and "\<And>res. \<not> isSuccess res \<Longrightarrow> f res = complain failure res"
  shows "converse c (bindIO run f) inp R"
proof (rule converse_bind_total [where Q = "\<lambda>res reqs inp'. inp' = inp \<and>
    served n check (\<lambda>p. preparedRequest n c meth ep (qs p)) interp res reqs"])
  show "converse c run inp (\<lambda>r reqs inp'. \<exists>res. r = Inr res \<and> inp' = inp \<and>
      served n check (\<lambda>p. preparedRequest n c meth ep (qs p)) interp res reqs)"
    by (rule converse_service [OF assms(1,2)])
next
  fix res reqs inp'
  assume s: "inp' = inp \<and> served n check (\<lambda>p. preparedRequest n c meth ep (qs p)) interp res reqs"
  show "converse c (f res) inp' (\<lambda>r reqs'. R r (reqs @ reqs'))"
  proof (cases "isSuccess res")
    case True
    then obtain p resp v where ok: "check = Inr p" "reqs = [preparedRequest n c meth ep (qs p)]"
        "interp resp = Inr v" "res = ofValue v"
      by (rule served_success [OF conjunct2 [OF s]])
    show ?thesis using assms(3) [OF ok(1,3)] s by (simp add: ok(2,4))
  next
    case False
    have "R (Inr ()) (reqs @ []) inp'"
      using served_requests [OF conjunct2 [OF s]] assms(4,5) s by auto
    then have "converse c (complain failure res) inp' (\<lambda>r reqs'. R r (reqs @ reqs'))"
      by (intro converse_complain [OF conjunct2 [OF s] False])
    then show ?thesis by (simp only: assms(6) [OF False])
  qed
qed

text \<open>With the documented conversion, a service that reads a member of the document reports the default value.\<close>

lemma member_documented:
  assumes "conversion_documented J cv" "\<And>x. \<not> j_is_object J x \<Longrightarrow> parser x = Inr d"
    and "expectSafe J failure parseFailure (memberAs J cv key formatError parser) resp = Inr v"
  shows "v = d"
proof -
  have "parser (cv p) = Inr d" for p
    by (rule assms(2)) (use assms(1) in \<open>simp add: conversion_documented_def\<close>)
  then show ?thesis
    using assms(3)
    by (auto simp: expectSafe_def parseResponseSafe_def Let_def memberAs_def throwApi_def bindE_eq_Inr
        split: if_splits option.splits sum.splits)
qed

section \<open>Programs\<close>

text \<open>
  The frame of the programs: a greeting, the configuration, the client, then the conversation; an exception ends
  the program with exit status 1. \<open>ready\<close> is when the client can be made.
\<close>

definition programBody ::
  "net \<Rightarrow> string \<Rightarrow> Config fallible \<Rightarrow> (Config \<Rightarrow> string) \<Rightarrow> (Config \<Rightarrow> ('z, int) console_io) \<Rightarrow> ('z, int) console_io" where
  "programBody n greeting loaded summary rest =
     bindIO (printOut greeting) (\<lambda>_.
     bindIO (liftIO loaded) (\<lambda>cfg.
     bindIO (printOut (summary cfg)) (\<lambda>_.
     bindIO (makeClient n cfg) (\<lambda>_. rest cfg))))"

definition program ::
  "net \<Rightarrow> string \<Rightarrow> Config fallible \<Rightarrow> (Config \<Rightarrow> string) \<Rightarrow> (Config \<Rightarrow> ('z, int) console_io) \<Rightarrow> (exn \<Rightarrow> string) \<Rightarrow>
     ('z, int) console_io" where
  "program n greeting loaded summary rest trouble =
     catchIO (programBody n greeting loaded summary rest) (\<lambda>e. bindIO (printErr (trouble e)) (\<lambda>_. returnIO 1))"

definition ready :: "net \<Rightarrow> Config fallible \<Rightarrow> 'z world_scheme \<Rightarrow> bool" where
  "ready n loaded w \<longleftrightarrow> (\<exists>cfg. loaded = Inr cfg \<and> accessToken cfg \<noteq> []) \<and> curl_easy_init n (calls w)"

lemma ready_iff: "ready n (Inr cfg) w \<longleftrightarrow> accessToken cfg \<noteq> [] \<and> curl_easy_init n (calls w)"
  "\<not> ready n (Inl e) w"
  by (simp_all add: ready_def)

lemma program_fails:
  fixes w v :: "'z console_world_scheme"
  assumes "m w = Some (Inl e, v)" "sent v = sent w" "consoleOut v = consoleOut w @ greeting @ out"
  shows "\<exists>w'. catchIO m (\<lambda>e. bindIO (printErr (trouble e)) (\<lambda>_. returnIO 1)) w = Some (Inr 1, w') \<and>
     sent w' = sent w \<and> consoleOut w' = consoleOut w @ greeting @ out"
  using assms by (simp add: catchIO_def printErr_def io_prims)

lemma program_outcome:
  fixes w :: "'z console_world_scheme"
  assumes "\<And>cfg. loaded = Inr cfg \<Longrightarrow>
      converse cfg (rest cfg) (consoleIn w) (\<lambda>r reqs inp'. \<exists>x. r = Inr x \<and> Q cfg x reqs inp')"
  shows "\<exists>x w' reqs out. program n greeting loaded summary rest trouble w = Some (Inr x, w') \<and>
     sent w' = sent w @ reqs \<and> consoleOut w' = consoleOut w @ greeting @ out \<and>
     (if ready n loaded w then \<exists>cfg. loaded = Inr cfg \<and> Q cfg x reqs (consoleIn w') else x = 1 \<and> reqs = [])"
proof (cases loaded)
  case (Inl e)
  have "programBody n greeting loaded summary rest w = Some (Inl e, consoleOut_update (\<lambda>t. t @ greeting) w)"
    by (simp add: programBody_def Inl printOut_def io_prims)
  from program_fails [where m = "programBody n greeting loaded summary rest", OF this, of greeting "[]" trouble] show ?thesis
    unfolding program_def by (auto simp: ready_iff Inl intro: exI [of _ "[]"])
next
  case (Inr cfg)
  define v where "v = consoleOut_update (\<lambda>t. (t @ greeting) @ summary cfg) w"
  have v: "consoleIn v = consoleIn w" "consoleOut v = consoleOut w @ greeting @ summary cfg" "sent v = sent w"
    "calls v = calls w"
    by (cases w; simp add: v_def)+
  have m: "programBody n greeting loaded summary rest w = bindIO (makeClient n cfg) (\<lambda>_. rest cfg) v"
    by (simp add: programBody_def Inr printOut_def v_def o_def)
  obtain r u where u: "makeClient n cfg v = Some (r, u)" "sent u = sent v" "http_world.more u = http_world.more v"
      "case r of Inr _ \<Rightarrow> curl_easy_init n (calls v) \<and> accessToken cfg \<noteq> [] \<and> fresh cfg u
        | Inl _ \<Rightarrow> \<not> (curl_easy_init n (calls v) \<and> accessToken cfg \<noteq> [])"
    using makeClient_outcome [of n cfg v] by blast
  note console = console_of_more [OF u(3)]
  show ?thesis
  proof (cases r)
    case (Inl e)
    have "programBody n greeting loaded summary rest w = Some (Inl e, u)"
      unfolding m by (simp add: bindIO_def u(1) Inl)
    from program_fails [where m = "programBody n greeting loaded summary rest", OF this, of greeting "summary cfg" trouble]
    show ?thesis
      using u v console Inl unfolding program_def by (auto simp: ready_iff Inr)
  next
    case ok: (Inr _)
    then have "fresh cfg u" "consoleIn u = consoleIn w" using u(4) v console by auto
    then obtain x w' reqs out where run: "rest cfg u = Some (Inr x, w')" "sent w' = sent u @ reqs"
        "consoleOut w' = consoleOut u @ out" "Q cfg x reqs (consoleIn w')"
      using assms [OF Inr] unfolding converse_def by blast
    then have "program n greeting loaded summary rest trouble w = Some (Inr x, w')"
      unfolding program_def catchIO_def m by (simp add: bindIO_def u(1) ok)
    moreover have "ready n loaded w" using u(4) v ok by (simp add: Inr ready_iff)
    ultimately show ?thesis using run u v console Inr by auto
  qed
qed

section \<open>A sample console\<close>

definition exampleConsole :: "string list \<Rightarrow> console_world" where
  "exampleConsole inp = \<lparr>calls = 0, sent = [], sleeps = [], waits = [], http = http (sampleClient 0),
     consoleIn = inp, consoleOut = [], consoleErr = []\<rparr>"

definition ackTransfer :: transfer where
  "ackTransfer = \<lparr>responseCode = 200, headerLines = [], bodyChunks = [''ack'']\<rparr>"

lemma ackNet_facts:
  "reliable ackNet" "escape_documented ackNet" "curl_easy_perform ackNet i req = Inr ackTransfer"
  "success (receive ackTransfer)" "\<exists>v. parseResponse ackJson (receive ackTransfer) (parseOrderPreview ackJson) = Some v"
proof -
  show "reliable ackNet" "escape_documented ackNet" "curl_easy_perform ackNet i req = Inr ackTransfer"
    by (simp_all add: ackNet_def sampleNet_reliable sampleNet_escape) (simp add: sampleNet_def ackTransfer_def)
  show "success (receive ackTransfer)" by code_simp
  have "\<not> Option.is_none (parseResponse ackJson (receive ackTransfer) (parseOrderPreview ackJson))" by code_simp
  then show "\<exists>v. parseResponse ackJson (receive ackTransfer) (parseOrderPreview ackJson) = Some v"
    by (auto simp: Option.is_none_def)
qed

lemma ackJson_documented: "conversion_documented ackJson (\<lambda>p. JStr (safeToString ackJson p))"
  by (simp add: conversion_documented_def ackJson_def jref_def)

end
