(* ===== verification/Example_Trading.thy ===== *)
theory Example_Trading
  imports Console
begin

text \<open>
  \<^verbatim>\<open>examples/basic/simple_trading_fixed.cpp\<close>: the program that previews and places a market order after asking
  the user, looks at its status, offers to cancel it and previews a limit order. The environment is \<open>getenv\<close>; \<open>J\<close>, \<open>z\<close>,
  \<open>cv\<close> and \<open>n\<close> are the parameters of the library.
\<close>

section \<open>Printing\<close>

definition printOrderPreview :: "OrderPreview \<Rightarrow> string" where
  "printOrderPreview preview = linesText [
     endLine @ ''=== Order Preview ==='',
     ''Status: '' @ previewStatus preview,
     ''Symbol: '' @ previewSymbol preview,
     ''Quantity: '' @ fixedText 2 (previewQuantity preview),
     ''Side: '' @ (if previewSide preview = BUY then ''BUY'' else ''SELL''),
     ''Type: '' @ (if previewType preview = MARKET then ''MARKET'' else ''LIMIT''),
     ''Duration: '' @ (if previewDuration preview = DAY then ''DAY'' else ''GTC''),
     ''Estimated Cost: $'' @ fixedText 2 (cost preview),
     ''Commission: $'' @ fixedText 2 (commission preview),
     ''Fees: $'' @ fixedText 2 (fees preview),
     ''Margin Change: $'' @ fixedText 2 (marginChange preview),
     ''Order Valid: '' @ yesNo (previewResult preview)]"

definition printOrderConfirmation :: "OrderResponse \<Rightarrow> string" where
  "printOrderConfirmation order = linesText (
     [endLine @ ''=== Order Confirmation ==='',
      ''Order ID: '' @ to_string (orderId order),
      ''Status: '' @ orderStatus order] @
     (case partnerId order of None \<Rightarrow> [] | Some p \<Rightarrow> [''Partner ID: '' @ p]))"

definition printOrderStatus :: "Order \<Rightarrow> string" where
  "printOrderStatus order = linesText (
     [endLine @ ''=== Order Status ==='',
      ''Order ID: '' @ to_string (ordId order),
      ''Symbol: '' @ ordSymbol order,
      ''Type: '' @ ordType order,
      ''Side: '' @ ordSide order,
      ''Quantity: '' @ fixedText 4 (ordQuantity order),
      ''Status: '' @ ordStatus order] @
     (if d_lt (DFin 0) (ordPrice order) then [''Price: $'' @ fixedText 4 (ordPrice order)] else []) @
     (if d_lt (DFin 0) (ordFilled order) then [''Filled Quantity: '' @ fixedText 4 (ordFilled order)] else []) @
     (case ordTag order of None \<Rightarrow> [] | Some t \<Rightarrow> [''Tag: '' @ t]))"

section \<open>Configuration\<close>

text \<open>\<open>getConfigFromEnvironment\<close> of this program.\<close>

definition tradingConfig :: "(string \<Rightarrow> string option) \<Rightarrow> Config fallible" where
  "tradingConfig getenv =
     (let token = getenv ''TRADIER_SANDBOX_KEY'';
          accountNum = getenv ''TRADIER_SANDBOX_ACCT'';
          usingSandbox = (token \<noteq> None \<and> accountNum \<noteq> None);
          (token, usingSandbox) =
            (if token = None \<or> accountNum = None then (getenv ''TRADIER_PRODUCTION_KEY'', False)
             else (token, usingSandbox))
      in case token of
           None \<Rightarrow> Inl (RuntimeError (
             linesText [''Environment variables not set.'',
               ''For sandbox: Set TRADIER_SANDBOX_KEY and TRADIER_SANDBOX_ACCT'',
               ''For production: Set TRADIER_PRODUCTION_KEY''] @
             ''Get your tokens from: https://documentation.tradier.com/getting-started''))
         | Some t \<Rightarrow>
             (case accountNum of
                None \<Rightarrow> Inl (RuntimeError (
                  linesText [''Account number not set.'', ''For sandbox: Set TRADIER_SANDBOX_ACCT''] @
                  ''This is required for trading operations.''))
              | Some a \<Rightarrow> Inr (defaultConfig\<lparr>accessToken := t, accountNumber := a, sandboxMode := usingSandbox,
                  timeoutSeconds := 30\<rparr>)))"

section \<open>The program\<close>

definition saysYes :: "string \<Rightarrow> bool" where
  "saysYes response \<longleftrightarrow> response = ''y'' \<or> response = ''Y'' \<or> response = ''yes'' \<or> response = ''Yes''"

definition getUserConfirmation :: "string \<Rightarrow> ('z, bool) console_io" where
  "getUserConfirmation prompt =
     bindIO (printOut (endLine @ prompt @ '' (y/N): '')) (\<lambda>_.
     bindIO readLine (\<lambda>response. returnIO (saysYes response)))"

definition marketOrder :: OrderRequest where
  "marketOrder = (newOrderRequest BUY MARKET)\<lparr>symbol := ''AAPL'', quantity := DFin 1, duration := DAY\<rparr>"

definition limitOrder :: OrderRequest where
  "limitOrder = (newOrderRequest BUY LIMIT)\<lparr>symbol := ''AAPL'', quantity := DFin 1, duration := DAY,
     price := Some (DFin 149)\<rparr>"

definition offerCancel ::
  "'j json_api \<Rightarrow> 'z console_world_scheme client_ops \<Rightarrow> Config \<Rightarrow> OrderResponse \<Rightarrow> Order \<Rightarrow> ('z, unit) console_io" where
  "offerCancel J C cfg placedOrder currentOrder =
     (if ordStatus currentOrder = ''open'' \<or> ordStatus currentOrder = ''pending'' then
        bindIO (getUserConfirmation ''Order is still pending. Cancel it?'') (\<lambda>confirmed.
          if confirmed then
            bindIO (printOut (linesText [endLine @ ''--- Cancelling Order ---''])) (\<lambda>_.
            bindIO (cancelOrder J C (accountNumber cfg) (orderId placedOrder)) (\<lambda>cancelResult.
              if isSuccess cancelResult then printOut (linesText [checkMark @ '' Order cancelled successfully''])
              else complain ''Failed to cancel order: '' cancelResult))
          else returnIO ())
      else printOut (linesText [''Order has been '' @ ordStatus currentOrder @ '' and cannot be cancelled.'']))"

definition monitorOrder ::
  "'j json_api \<Rightarrow> (int \<Rightarrow> int) \<Rightarrow> 'j conversion \<Rightarrow> 'z console_world_scheme client_ops \<Rightarrow> Config \<Rightarrow> OrderResponse \<Rightarrow>
     ('z, unit) console_io" where
  "monitorOrder J z cv C cfg placedOrder =
     bindIO (printOut (linesText [endLine @ ''--- Monitoring Order Status ---''])) (\<lambda>_.
     bindIO (modifyIO (sleepFor (Some 2000))) (\<lambda>_.
     bindIO (getOrder J z cv C (accountNumber cfg) (orderId placedOrder)) (\<lambda>statusResult.
       if isSuccess statusResult then
         bindIO (printOut (linesText [checkMark @ '' Order status retrieved''])) (\<lambda>_.
         bindIO (liftIO (resultValue statusResult)) (\<lambda>order.
         bindIO (printOut (printOrderStatus order)) (\<lambda>_.
         offerCancel J C cfg placedOrder order)))
       else complain ''Failed to get order status: '' statusResult)))"

definition placeMarketOrder ::
  "'j json_api \<Rightarrow> (int \<Rightarrow> int) \<Rightarrow> 'j conversion \<Rightarrow> 'z console_world_scheme client_ops \<Rightarrow> Config \<Rightarrow>
     ('z, unit) console_io" where
  "placeMarketOrder J z cv C cfg =
     bindIO (printOut (linesText [endLine @ ''--- Placing Market Order ---''])) (\<lambda>_.
     bindIO (placeOrder J C (accountNumber cfg) marketOrder) (\<lambda>orderResult.
       if isSuccess orderResult then
         bindIO (printOut (linesText [checkMark @ '' Market order placed successfully!''])) (\<lambda>_.
         bindIO (liftIO (resultValue orderResult)) (\<lambda>placedOrder.
         bindIO (printOut (printOrderConfirmation placedOrder)) (\<lambda>_.
         monitorOrder J z cv C cfg placedOrder)))
       else complain ''Failed to place order: '' orderResult))"

definition marketOrderStage ::
  "'j json_api \<Rightarrow> (int \<Rightarrow> int) \<Rightarrow> 'j conversion \<Rightarrow> 'z console_world_scheme client_ops \<Rightarrow> Config \<Rightarrow>
     ('z, unit) console_io" where
  "marketOrderStage J z cv C cfg =
     bindIO (printOut (linesText [endLine @ ''--- Market Order Preview ---'',
       ''Previewing market buy order for 1 shares of AAPL...''])) (\<lambda>_.
     bindIO (previewOrder J C (accountNumber cfg) marketOrder) (\<lambda>previewResult.
       if isSuccess previewResult then
         bindIO (printOut (linesText [checkMark @ '' Order preview successful''])) (\<lambda>_.
         bindIO (liftIO (resultValue previewResult)) (\<lambda>preview.
         bindIO (printOut (printOrderPreview preview)) (\<lambda>_.
         bindIO (getUserConfirmation ''Proceed with placing this market order? (Sandbox only)'') (\<lambda>confirmed.
           if confirmed then placeMarketOrder J z cv C cfg
           else printOut (linesText [''Order placement cancelled by user.''])))))
       else complain ''Order preview failed: '' previewResult))"

definition limitOrderStage ::
  "'j json_api \<Rightarrow> 'z console_world_scheme client_ops \<Rightarrow> Config \<Rightarrow> ('z, unit) console_io" where
  "limitOrderStage J C cfg =
     bindIO (printOut (linesText [endLine @ ''--- Limit Order Example (Preview Only) ---'',
       ''Previewing limit buy order for 1 shares of AAPL at $'' @ fixedText 2 (DFin 149) @ ''...''])) (\<lambda>_.
     bindIO (previewOrder J C (accountNumber cfg) limitOrder) (\<lambda>limitPreviewResult.
       if isSuccess limitPreviewResult then
         bindIO (printOut (linesText [checkMark @ '' Limit order preview successful''])) (\<lambda>_.
         bindIO (liftIO (resultValue limitPreviewResult)) (\<lambda>preview.
         printOut (printOrderPreview preview)))
       else complain ''Limit order preview failed: '' limitPreviewResult))"

definition safetyNotice :: string where
  "safetyNotice = linesText [
     ''=== libtradier Simple Trading Example ==='',
     ''This example demonstrates basic trading operations in SANDBOX mode.'',
     endLine @ warningSign @ ''  SAFETY NOTICE: This example uses sandbox mode only.'',
     ''    No real money or securities will be traded.'']"

definition configSummary :: "Config \<Rightarrow> string" where
  "configSummary cfg = linesText [
     endLine @ checkMark @ '' Configuration loaded'',
     ''  Environment: '' @ (if sandboxMode cfg then ''Sandbox '' @ lockSign else ''Production '' @ warningSign),
     ''  Account: '' @ accountNumber cfg]"

definition tradingClosing :: string where
  "tradingClosing = linesText [
     endLine @ ''=== Trading Example completed successfully ==='',
     endLine @ ''Key takeaways:'',
     ''- Always preview orders before placing them'',
     ''- Monitor order status after placement'',
     ''- Use appropriate order types for your strategy'',
     ''- Test thoroughly in sandbox before production use'']"

definition tradingTroubleshooting :: "exn \<Rightarrow> string" where
  "tradingTroubleshooting e = linesText [
     endLine @ crossMark @ '' Error: '' @ what e,
     endLine @ ''Troubleshooting:'',
     ''1. Ensure both TRADIER_ACCESS_TOKEN and TRADIER_ACCOUNT_NUMBER are set'',
     ''2. Verify your sandbox credentials are valid'',
     ''3. Check that the account has sufficient buying power'',
     ''4. Ensure you'' @ [CHR 0x27] @ ''re using a valid, tradeable symbol'']"

definition tradingSession ::
  "'j json_api \<Rightarrow> (int \<Rightarrow> int) \<Rightarrow> 'j conversion \<Rightarrow> net \<Rightarrow> Config \<Rightarrow> ('z, int) console_io" where
  "tradingSession J z cv n cfg =
     bindIO (printOut (linesText [checkMark @ '' Trading service initialized''])) (\<lambda>_.
     bindIO (marketOrderStage J z cv (tradierClient n) cfg) (\<lambda>_.
     bindIO (limitOrderStage J (tradierClient n) cfg) (\<lambda>_.
     bindIO (printOut tradingClosing) (\<lambda>_. returnIO 0))))"

definition simpleTradingMain ::
  "'j json_api \<Rightarrow> (int \<Rightarrow> int) \<Rightarrow> 'j conversion \<Rightarrow> net \<Rightarrow> (string \<Rightarrow> string option) \<Rightarrow> ('z, int) console_io" where
  "simpleTradingMain J z cv n getenv =
     program n safetyNotice (tradingConfig getenv) configSummary (tradingSession J z cv n) tradingTroubleshooting"

section \<open>The conversation\<close>

definition agrees :: "string list \<Rightarrow> bool" where
  "agrees inp \<longleftrightarrow> saysYes (nextLine inp)"

text \<open>The requests of the program: previews, the submission, the query of the status and the cancellation.\<close>

definition ordersPath :: "Config \<Rightarrow> string" where
  "ordersPath c = ''/accounts/'' @ accountNumber c @ ''/orders''"

definition previewRequest :: "net \<Rightarrow> Config \<Rightarrow> OrderRequest \<Rightarrow> request" where
  "previewRequest n c order =
     preparedRequest n c ''POST'' (''/accounts/'' @ accountNumber c @ ''/orders/preview'') (orderParams order)"

definition submission :: "net \<Rightarrow> Config \<Rightarrow> OrderRequest \<Rightarrow> request" where
  "submission n c order = preparedRequest n c ''POST'' (ordersPath c) (orderParams order)"

definition statusRequest :: "net \<Rightarrow> Config \<Rightarrow> int \<Rightarrow> request" where
  "statusRequest n c oid = preparedRequest n c ''GET'' (''/accounts/'' @ accountNumber c @ ''/orders/'' @ to_string oid) []"

definition cancellation :: "net \<Rightarrow> Config \<Rightarrow> int \<Rightarrow> request" where
  "cancellation n c oid = preparedRequest n c ''DELETE'' (''/accounts/'' @ accountNumber c @ ''/orders/'' @ to_string oid) []"

text \<open>What may be sent: after a successful submission, after a successful preview, and in the whole program.\<close>

definition monitoring :: "net \<Rightarrow> Config \<Rightarrow> bool \<Rightarrow> string list \<Rightarrow> request list \<Rightarrow> bool" where
  "monitoring n c cancellable inp reqs \<longleftrightarrow>
     (\<exists>oid. reqs = [] \<or> reqs = [statusRequest n c oid] \<or>
        (cancellable \<and> agrees inp \<and> reqs = [statusRequest n c oid, cancellation n c oid]))"

definition placing :: "net \<Rightarrow> Config \<Rightarrow> bool \<Rightarrow> string list \<Rightarrow> request list \<Rightarrow> bool" where
  "placing n c cancellable inp reqs \<longleftrightarrow>
     reqs = [] \<or> (\<exists>rest. reqs = submission n c marketOrder # rest \<and> monitoring n c cancellable inp rest)"

definition trading :: "net \<Rightarrow> Config \<Rightarrow> bool \<Rightarrow> string list \<Rightarrow> request list \<Rightarrow> bool" where
  "trading n c cancellable inp reqs \<longleftrightarrow>
     reqs = [] \<or> reqs = [previewRequest n c marketOrder] \<or>
     (\<exists>rest. reqs = previewRequest n c marketOrder # rest \<and> agrees inp \<and> placing n c cancellable (tl inp) rest)"

lemma converse_confirm:
  assumes "converse c (f (agrees inp)) (tl inp) R"
  shows "converse c (bindIO (getUserConfirmation prompt) f) inp R"
  unfolding getUserConfirmation_def bindIO_assoc
proof (rule converse_print)
  show "converse c (bindIO readLine (\<lambda>x. bindIO (returnIO (saysYes x)) f)) inp R"
    by (rule converse_bind [where Q = "\<lambda>r reqs inp'. r = Inr (nextLine inp) \<and> reqs = [] \<and> inp' = tl inp"])
      (use assms in \<open>auto intro: converse_readLine simp: agrees_def\<close>)
qed

lemma monitorOrder_converses:
  "converse c (monitorOrder J z cv (tradierClient n) c placed) inp
     (\<lambda>r reqs inp'. r = Inr () \<and> monitoring n c (\<not> conversion_documented J cv) inp reqs)"
  (is "converse c _ inp ?R")
  unfolding monitorOrder_def
proof (intro converse_print converse_call [OF getOrder.service_call_axioms,
      where meth = "''GET''" and ep = "''/accounts/'' @ accountNumber c @ ''/orders/'' @ to_string (orderId placed)" and
        qs = "\<lambda>_. []"])
  let ?status = "statusRequest n c (orderId placed)"
  fix p :: unit and resp order
  assume parsed: "expectSafe J ''Failed to get order: '' (RuntimeError ''Failed to parse order response'')
      (memberAs J cv ''order'' ''Invalid order response format'' (parseOrder J z)) resp = Inr order"
  have order: "order = emptyOrder" if "conversion_documented J cv"
    by (rule member_documented [OF that parsers_on_strings(5) parsed])
  have "converse c (offerCancel J (tradierClient n) c placed order) inp (\<lambda>r reqs. ?R r (?status # reqs))"
  proof (cases "ordStatus order = ''open'' \<or> ordStatus order = ''pending''")
    case True
    then have free: "\<not> conversion_documented J cv" using order by (auto simp: emptyOrder_def)
    show ?thesis
    proof (cases "agrees inp")
      case agreed: True
      show ?thesis
        unfolding offerCancel_def if_P [OF True]
        by (rule converse_confirm, unfold if_P [OF agreed], intro converse_print,
            rule converse_call [OF cancelOrder.service_call_axioms, where meth = "''DELETE''" and
              ep = "''/accounts/'' @ accountNumber c @ ''/orders/'' @ to_string (orderId placed)" and qs = "\<lambda>_. []"])
          (auto intro!: converse_prims simp: monitoring_def statusRequest_def cancellation_def free agreed ofValue_success)
    next
      case False
      then show ?thesis
        unfolding offerCancel_def if_P [OF True]
        by (intro converse_confirm) (auto intro!: converse_lift simp: monitoring_def)
    qed
  next
    case False
    then show ?thesis
      unfolding offerCancel_def by (auto intro!: converse_prims simp: monitoring_def)
  qed
  then show "converse c
      (if isSuccess (ofValue order)
       then bindIO (printOut (linesText [checkMark @ '' Order status retrieved''])) (\<lambda>_.
         bindIO (liftIO (resultValue (ofValue order))) (\<lambda>order.
         bindIO (printOut (printOrderStatus order)) (\<lambda>_. offerCancel J (tradierClient n) c placed order)))
       else complain ''Failed to get order status: '' (ofValue order)) inp
      (\<lambda>r reqs. ?R r (preparedRequest n c ''GET''
         (''/accounts/'' @ accountNumber c @ ''/orders/'' @ to_string (orderId placed)) [] # reqs))"
    unfolding ofValue_success if_True bindIO_prims statusRequest_def by (intro converse_print)
qed (auto simp: monitoring_def statusRequest_def)

lemma placeMarketOrder_converses:
  "converse c (placeMarketOrder J z cv (tradierClient n) c) inp
     (\<lambda>r reqs inp'. r = Inr () \<and> placing n c (\<not> conversion_documented J cv) inp reqs)"
  unfolding placeMarketOrder_def
proof (intro converse_print converse_call [OF placeOrder.service_call_axioms,
      where meth = "''POST''" and ep = "''/accounts/'' @ accountNumber c @ ''/orders''" and qs = "\<lambda>p. p"])
  fix p placed
  assume "bindE (requireValidAccountNumber (accountNumber c)) (\<lambda>_. buildParams marketOrder) = Inr p"
  then have p: "preparedRequest n c ''POST'' (''/accounts/'' @ accountNumber c @ ''/orders'') p = submission n c marketOrder"
    by (simp add: order_check_accepts submission_def ordersPath_def)
  show "converse c
      (if isSuccess (ofValue placed)
       then bindIO (printOut (linesText [checkMark @ '' Market order placed successfully!''])) (\<lambda>_.
         bindIO (liftIO (resultValue (ofValue placed))) (\<lambda>placedOrder.
         bindIO (printOut (printOrderConfirmation placedOrder)) (\<lambda>_.
         monitorOrder J z cv (tradierClient n) c placedOrder)))
       else complain ''Failed to place order: '' (ofValue placed)) inp
      (\<lambda>r reqs inp'. r = Inr () \<and> placing n c (\<not> conversion_documented J cv) inp
         (preparedRequest n c ''POST'' (''/accounts/'' @ accountNumber c @ ''/orders'') p # reqs))"
    unfolding ofValue_success if_True bindIO_prims p
    by (intro converse_print converse_weaken [OF monitorOrder_converses]) (auto simp: placing_def)
  show "Inr () = Inr () \<and> placing n c (\<not> conversion_documented J cv) inp
      [preparedRequest n c ''POST'' (''/accounts/'' @ accountNumber c @ ''/orders'') p]"
    unfolding p by (simp add: placing_def monitoring_def)
qed (auto simp: placing_def)

lemma marketOrderStage_converses:
  "converse c (marketOrderStage J z cv (tradierClient n) c) inp
     (\<lambda>r reqs inp'. r = Inr () \<and> trading n c (\<not> conversion_documented J cv) inp reqs)"
  unfolding marketOrderStage_def
proof (intro converse_print converse_call [OF previewOrder.service_call_axioms,
      where meth = "''POST''" and ep = "''/accounts/'' @ accountNumber c @ ''/orders/preview''" and qs = "\<lambda>p. p"])
  fix p preview
  assume "bindE (requireValidAccountNumber (accountNumber c)) (\<lambda>_. buildParams marketOrder) = Inr p"
  then have p: "preparedRequest n c ''POST'' (''/accounts/'' @ accountNumber c @ ''/orders/preview'') p =
      previewRequest n c marketOrder"
    by (simp add: order_check_accepts previewRequest_def)
  have "converse c (if b then placeMarketOrder J z cv (tradierClient n) c else printOut s) (tl inp)
      (\<lambda>r reqs inp'. r = Inr () \<and> trading n c (\<not> conversion_documented J cv) inp (previewRequest n c marketOrder # reqs))"
    if "b = agrees inp" for b s
    using that
    by (cases b) (auto simp: trading_def intro!: converse_prims converse_weaken [OF placeMarketOrder_converses])
  then show "converse c
      (if isSuccess (ofValue preview)
       then bindIO (printOut (linesText [checkMark @ '' Order preview successful''])) (\<lambda>_.
         bindIO (liftIO (resultValue (ofValue preview))) (\<lambda>preview.
         bindIO (printOut (printOrderPreview preview)) (\<lambda>_.
         bindIO (getUserConfirmation ''Proceed with placing this market order? (Sandbox only)'') (\<lambda>confirmed.
           if confirmed then placeMarketOrder J z cv (tradierClient n) c
           else printOut (linesText [''Order placement cancelled by user.''])))))
       else complain ''Order preview failed: '' (ofValue preview)) inp
      (\<lambda>r reqs inp'. r = Inr () \<and> trading n c (\<not> conversion_documented J cv) inp
         (preparedRequest n c ''POST'' (''/accounts/'' @ accountNumber c @ ''/orders/preview'') p # reqs))"
    unfolding ofValue_success if_True bindIO_prims p by (intro converse_print converse_confirm) blast
  show "Inr () = Inr () \<and> trading n c (\<not> conversion_documented J cv) inp
      [preparedRequest n c ''POST'' (''/accounts/'' @ accountNumber c @ ''/orders/preview'') p]"
    unfolding p by (simp add: trading_def)
qed (auto simp: trading_def)

lemma limitOrderStage_converses:
  "converse c (limitOrderStage J (tradierClient n) c) inp
     (\<lambda>r reqs inp'. r = Inr () \<and> (reqs = [] \<or> reqs = [previewRequest n c limitOrder]))"
  unfolding limitOrderStage_def
proof (intro converse_print converse_call [OF previewOrder.service_call_axioms,
      where meth = "''POST''" and ep = "''/accounts/'' @ accountNumber c @ ''/orders/preview''" and qs = "\<lambda>p. p"])
  fix p preview
  assume "bindE (requireValidAccountNumber (accountNumber c)) (\<lambda>_. buildParams limitOrder) = Inr p"
  then have p: "preparedRequest n c ''POST'' (''/accounts/'' @ accountNumber c @ ''/orders/preview'') p =
      previewRequest n c limitOrder"
    by (simp add: order_check_accepts previewRequest_def)
  show "converse c
      (if isSuccess (ofValue preview)
       then bindIO (printOut (linesText [checkMark @ '' Limit order preview successful''])) (\<lambda>_.
         bindIO (liftIO (resultValue (ofValue preview))) (\<lambda>preview. printOut (printOrderPreview preview)))
       else complain ''Limit order preview failed: '' (ofValue preview)) inp
      (\<lambda>r reqs inp'. r = Inr () \<and> (preparedRequest n c ''POST'' (''/accounts/'' @ accountNumber c @ ''/orders/preview'') p # reqs = [] \<or>
         preparedRequest n c ''POST'' (''/accounts/'' @ accountNumber c @ ''/orders/preview'') p # reqs = [previewRequest n c limitOrder]))"
    unfolding ofValue_success if_True bindIO_prims p by (intro converse_print converse_prims) simp
  show "Inr () = Inr () \<and> ([preparedRequest n c ''POST'' (''/accounts/'' @ accountNumber c @ ''/orders/preview'') p] = [] \<or>
      [preparedRequest n c ''POST'' (''/accounts/'' @ accountNumber c @ ''/orders/preview'') p] = [previewRequest n c limitOrder])"
    unfolding p by simp
qed auto

lemma tradingSession_converses:
  "converse c (tradingSession J z cv n c) inp (\<lambda>r reqs inp'. \<exists>x. r = Inr x \<and> x = 0 \<and>
     (\<exists>market limit. reqs = market @ limit \<and> trading n c (\<not> conversion_documented J cv) inp market \<and>
        (limit = [] \<or> limit = [previewRequest n c limitOrder])))"
  unfolding tradingSession_def
  by (intro converse_print converse_bind_unit [OF marketOrderStage_converses]
      converse_bind_unit [OF limitOrderStage_converses] converse_lift) blast

section \<open>What the program does\<close>

lemma simpleTrading_outcome:
  "\<exists>x w' reqs out. simpleTradingMain J z cv n getenv w = Some (Inr x, w') \<and> sent w' = sent w @ reqs \<and>
     consoleOut w' = consoleOut w @ safetyNotice @ out \<and>
     (if ready n (tradingConfig getenv) w
      then \<exists>c. tradingConfig getenv = Inr c \<and> x = 0 \<and>
        (\<exists>market limit. reqs = market @ limit \<and>
           trading n c (\<not> conversion_documented J cv) (consoleIn w) market \<and>
           (limit = [] \<or> limit = [previewRequest n c limitOrder]))
      else x = 1 \<and> reqs = [])"
  unfolding simpleTradingMain_def by (rule program_outcome) (rule tradingSession_converses)

text \<open>Requests that submit an order: a POST to the orders of an account.\<close>

definition endsWith :: "string \<Rightarrow> string \<Rightarrow> bool" where
  "endsWith t s \<longleftrightarrow> length t \<le> length s \<and> drop (length s - length t) s = t"

lemma endsWith_skip:
  "length t \<le> length u \<Longrightarrow> endsWith t (s @ u) = endsWith t u"
  "length t \<le> length u \<Longrightarrow> endsWith t (x # u) = endsWith t u"
  by (auto simp: endsWith_def Suc_diff_le)

definition submitsOrder :: "request \<Rightarrow> bool" where
  "submitsOrder req \<longleftrightarrow> CURLOPT_VERB req = HTTPPOST \<and> endsWith ''/orders'' (CURLOPT_URL req)"

lemma program_requests:
  "CURLOPT_VERB (statusRequest n c oid) = HTTPGET" "CURLOPT_VERB (cancellation n c oid) = CUSTOMREQUEST ''DELETE''"
  "CURLOPT_VERB (previewRequest n c order) = HTTPPOST" "CURLOPT_VERB (submission n c order) = HTTPPOST"
  "CURLOPT_URL (previewRequest n c order) = baseUrl c @ ordersPath c @ ''/preview''"
  "CURLOPT_URL (submission n c order) = baseUrl c @ ordersPath c"
  "CURLOPT_POSTFIELDS (previewRequest n c order) = CURLOPT_POSTFIELDS (submission n c order)"
  by (simp_all add: statusRequest_def cancellation_def previewRequest_def submission_def preparedRequest_def
      curlRequest_def requestUrl_def buildUrl_def formMethod_def ordersPath_def)

lemma submitsOrder_requests:
  "\<not> submitsOrder (statusRequest n c oid)" "\<not> submitsOrder (cancellation n c oid)"
  "\<not> submitsOrder (previewRequest n c order)" "submitsOrder (submission n c order)"
  by (simp_all add: submitsOrder_def program_requests ordersPath_def endsWith_skip) (simp_all add: endsWith_def)

lemma trading_shape:
  assumes "trading n c b inp market"
  shows "length market \<le> 4 \<and> ((\<forall>q \<in> set market. \<not> submitsOrder q) \<or>
     (agrees inp \<and> (\<exists>rest. market = previewRequest n c marketOrder # submission n c marketOrder # rest \<and>
        (\<forall>q \<in> set rest. \<not> submitsOrder q))))"
  using assms unfolding trading_def placing_def monitoring_def
  by (elim disjE exE conjE) (auto simp: submitsOrder_requests)

lemma trading_no_cancel:
  "trading n c False inp market \<Longrightarrow> q \<in> set market \<Longrightarrow> CURLOPT_VERB q \<noteq> CUSTOMREQUEST ''DELETE''"
  unfolding trading_def placing_def monitoring_def by (elim disjE exE conjE) (auto simp: program_requests)

lemma submission_form:
  assumes "escape_documented n"
  shows "\<exists>form. CURLOPT_POSTFIELDS (submission n c order) = Some form \<and> map_of (decodePairs form) = orderForm order"
  using preparedRequest_post(3) [OF orderParams_nonempty assms, of "ordersPath c" c order]
  by (auto simp: submission_def ordersPath_def orderParams_form)

text \<open>A position of the list of requests that submits an order.\<close>

lemma submission_position:
  assumes "\<forall>q \<in> set tail. \<not> submitsOrder q" "i < length (p # s # tail)" "\<not> submitsOrder p" "submitsOrder ((p # s # tail) ! i)"
  shows "i = 1"
proof (cases i)
  case 0
  then show ?thesis using assms by simp
next
  case (Suc j)
  then show ?thesis using assms by (cases j) (auto dest: nth_mem)
qed

text \<open>A run either submits no order, or begins with the preview and the submission after a yes.\<close>

lemma simpleTrading_requests:
  assumes "simpleTradingMain J z cv n getenv w = Some (r, w')"
  shows "\<exists>reqs. sent w' = sent w @ reqs \<and> length reqs \<le> 5 \<and>
    ((\<forall>q \<in> set reqs. \<not> submitsOrder q) \<or>
     (\<exists>c tail. tradingConfig getenv = Inr c \<and> agrees (consoleIn w) \<and>
        reqs = previewRequest n c marketOrder # submission n c marketOrder # tail \<and> (\<forall>q \<in> set tail. \<not> submitsOrder q)))"
proof (cases "ready n (tradingConfig getenv) w")
  case False
  then show ?thesis using simpleTrading_outcome [of J z cv n getenv w] assms by auto
next
  case True
  then obtain reqs c market limit where w': "sent w' = sent w @ reqs" and c: "tradingConfig getenv = Inr c"
      "reqs = market @ limit" "trading n c (\<not> conversion_documented J cv) (consoleIn w) market"
      and limit: "limit = [] \<or> limit = [previewRequest n c limitOrder]"
    using simpleTrading_outcome [of J z cv n getenv w] assms by auto
  note shape = trading_shape [OF c(3)]
  have limit': "\<forall>q \<in> set limit. \<not> submitsOrder q" "length limit \<le> 1"
    using limit by (auto simp: submitsOrder_requests)
  have "length reqs \<le> 5" using shape limit'(2) by (simp add: c(2))
  moreover have "(\<forall>q \<in> set reqs. \<not> submitsOrder q) \<or> (\<exists>tail. agrees (consoleIn w) \<and>
      reqs = previewRequest n c marketOrder # submission n c marketOrder # tail \<and> (\<forall>q \<in> set tail. \<not> submitsOrder q))"
    using shape limit'(1) c(2) by fastforce
  ultimately show ?thesis using w' c(1) by blast
qed

text \<open>
  C8: The trading example submits an order only when it is told to: however the server answers, the program makes at most
  five requests, and one of them submits an order only if it is the second, the user's first input line was a
  yes, the request before it was a preview with the same form, and the form decodes to the market order for one share
  of AAPL; so no run submits two orders.
\<close>

theorem trading_example_one_order:
  assumes "simpleTradingMain J z cv n getenv w = Some (r, w')" "escape_documented n"
  shows "\<exists>reqs. sent w' = sent w @ reqs \<and> length reqs \<le> 5 \<and>
    (\<forall>i < length reqs. submitsOrder (reqs ! i) \<longrightarrow> i = 1 \<and> agrees (consoleIn w) \<and>
       (\<exists>c form. tradingConfig getenv = Inr c \<and>
          CURLOPT_URL (reqs ! 0) = baseUrl c @ ordersPath c @ ''/preview'' \<and> CURLOPT_POSTFIELDS (reqs ! 0) = Some form \<and>
          CURLOPT_URL (reqs ! 1) = baseUrl c @ ordersPath c \<and> CURLOPT_POSTFIELDS (reqs ! 1) = Some form \<and>
          map_of (decodePairs form) = orderForm marketOrder))"
proof -
  obtain reqs where reqs: "sent w' = sent w @ reqs" "length reqs \<le> 5" and
      shape: "(\<forall>q \<in> set reqs. \<not> submitsOrder q) \<or>
        (\<exists>c tail. tradingConfig getenv = Inr c \<and> agrees (consoleIn w) \<and>
           reqs = previewRequest n c marketOrder # submission n c marketOrder # tail \<and> (\<forall>q \<in> set tail. \<not> submitsOrder q))"
    using simpleTrading_requests [OF assms(1)] by blast
  show ?thesis
  proof (cases "\<forall>q \<in> set reqs. \<not> submitsOrder q")
    case True
    then show ?thesis using reqs by (intro exI [of _ reqs]) simp
  next
    case False
    then obtain c tail where c: "tradingConfig getenv = Inr c" "agrees (consoleIn w)" and
        one: "reqs = previewRequest n c marketOrder # submission n c marketOrder # tail" "\<forall>q \<in> set tail. \<not> submitsOrder q"
      using shape by blast
    obtain form where form: "CURLOPT_POSTFIELDS (submission n c marketOrder) = Some form"
        "map_of (decodePairs form) = orderForm marketOrder"
      using submission_form [OF assms(2)] by blast
    have "i = 1" if "i < length reqs" "submitsOrder (reqs ! i)" for i
      using submission_position [OF one(2) _ submitsOrder_requests(3)] that unfolding one(1) by blast
    moreover have "CURLOPT_POSTFIELDS (reqs ! 0) = Some form" "CURLOPT_POSTFIELDS (reqs ! 1) = Some form"
      "CURLOPT_URL (reqs ! 0) = baseUrl c @ ordersPath c @ ''/preview''" "CURLOPT_URL (reqs ! 1) = baseUrl c @ ordersPath c"
      by (simp_all add: one(1) program_requests form(1))
    ultimately show ?thesis using c form(2) reqs by blast
  qed
qed

text \<open>
  The trading example ends: whatever the environment, the user and the server do, \<open>main\<close> returns, with 0 when there is a
  configuration with a token and libcurl starts and with 1 otherwise; a rejected preview or order does not change the exit
  status.
\<close>

theorem trading_example_ends:
  "\<exists>w'. simpleTradingMain J z cv n getenv w = Some (Inr (if ready n (tradingConfig getenv) w then 0 else 1), w')"
  using simpleTrading_outcome [of J z cv n getenv w] by (auto split: if_splits)

text \<open>
  The trading example never cancels an order: with the documented conversion the status of every order it looks up is
  empty, so that the offer to cancel is never made.
\<close>

theorem trading_example_never_cancels:
  assumes "simpleTradingMain J z cv n getenv w = Some (r, w')" "conversion_documented J cv"
    and "req \<in> set (drop (length (sent w)) (sent w'))"
  shows "CURLOPT_VERB req \<noteq> CUSTOMREQUEST ''DELETE''"
  using simpleTrading_outcome [of J z cv n getenv w] assms trading_no_cancel
  by (auto split: if_splits simp: program_requests)

section \<open>A run that places an order\<close>

lemma marketOrder_ok: "orderOk marketOrder"
  by (simp add: marketOrder_def newOrderRequest_def orderOk_def symbolOk_def is_alnum_def)

lemma marketOrder_check:
  assumes "accountOk account"
  shows "bindE (requireValidAccountNumber account) (\<lambda>_. buildParams marketOrder) = Inr (orderParams marketOrder)"
  using assms by (simp add: order_check_accepts marketOrder_ok)

lemma placeMarketOrder_delivers:
  assumes "reliable n" "accountOk (accountNumber c)"
  shows "converse c (placeMarketOrder J z cv (tradierClient n) c) inp
     (\<lambda>r reqs inp'. r = Inr () \<and> (\<exists>rest. reqs = submission n c marketOrder # rest))"
  unfolding placeMarketOrder_def
proof (intro converse_print converse_bind_total [OF converse_service [OF placeOrder.service_call_axioms,
      where meth = "''POST''" and ep = "''/accounts/'' @ accountNumber c @ ''/orders''" and qs = "\<lambda>p. p"]])
  fix res reqs inp'
  let ?rest = "\<lambda>r :: exn + unit. \<lambda>rs inp'. r = Inr () \<and> (\<exists>rest. reqs @ rs = submission n c marketOrder # rest)"
  assume "inp' = inp \<and> served n (bindE (requireValidAccountNumber (accountNumber c)) (\<lambda>_. buildParams marketOrder))
      (\<lambda>p. preparedRequest n c ''POST'' (''/accounts/'' @ accountNumber c @ ''/orders'') p)
      (expectParsed J ''Failed to place order: '' (ParseError ''Failed to parse order response'') (parseOrderResponse J)) res reqs"
  then have s: "served n (bindE (requireValidAccountNumber (accountNumber c)) (\<lambda>_. buildParams marketOrder))
      (\<lambda>p. preparedRequest n c ''POST'' (''/accounts/'' @ accountNumber c @ ''/orders'') p)
      (expectParsed J ''Failed to place order: '' (ParseError ''Failed to parse order response'') (parseOrderResponse J)) res reqs"
    by blast
  have reqs: "reqs = [submission n c marketOrder]"
    using served_reliable [OF s marketOrder_check [OF assms(2)] assms(1)] by (simp add: submission_def ordersPath_def)
  show "converse c
      (if isSuccess res
       then bindIO (printOut (linesText [checkMark @ '' Market order placed successfully!''])) (\<lambda>_.
         bindIO (liftIO (resultValue res)) (\<lambda>placedOrder.
         bindIO (printOut (printOrderConfirmation placedOrder)) (\<lambda>_.
         monitorOrder J z cv (tradierClient n) c placedOrder)))
       else complain ''Failed to place order: '' res) inp' ?rest"
  proof (cases "isSuccess res")
    case True
    then obtain v where res: "res = ofValue v" by (rule served_success [OF s])
    show ?thesis
      unfolding res ofValue_success if_True bindIO_prims
      by (intro converse_print converse_weaken [OF monitorOrder_converses]) (simp_all add: reqs ofValue_success)
  next
    case False
    then show ?thesis by (simp add: converse_complain [OF s] reqs)
  qed
qed simp

lemma marketOrderStage_delivers:
  assumes "reliable n" "accountOk (accountNumber c)" "agrees inp"
    and "\<forall>i. curl_easy_perform n i (previewRequest n c marketOrder) = Inr t"
    and "success (receive t)" "parseResponse J (receive t) (parseOrderPreview J) = Some preview"
  shows "converse c (marketOrderStage J z cv (tradierClient n) c) inp (\<lambda>r reqs inp'. r = Inr () \<and>
     (\<exists>rest. reqs = previewRequest n c marketOrder # submission n c marketOrder # rest))"
  unfolding marketOrderStage_def
proof (intro converse_print converse_bind_total [OF converse_service [OF previewOrder.service_call_axioms,
      where meth = "''POST''" and ep = "''/accounts/'' @ accountNumber c @ ''/orders/preview''" and qs = "\<lambda>p. p"]])
  fix res reqs inp'
  let ?interp = "expectParsed J ''Failed to preview order: '' (ParseError ''Failed to parse order preview response'')
      (parseOrderPreview J)"
  assume "inp' = inp \<and> served n (bindE (requireValidAccountNumber (accountNumber c)) (\<lambda>_. buildParams marketOrder))
      (\<lambda>p. preparedRequest n c ''POST'' (''/accounts/'' @ accountNumber c @ ''/orders/preview'') p) ?interp res reqs"
  then have inp: "inp' = inp" and s: "served n (bindE (requireValidAccountNumber (accountNumber c)) (\<lambda>_. buildParams marketOrder))
      (\<lambda>p. preparedRequest n c ''POST'' (''/accounts/'' @ accountNumber c @ ''/orders/preview'') p) ?interp res reqs"
    by blast+
  have "?interp (receive t) = Inr preview" using assms(5,6) by (simp add: expectParsed_def)
  then have res: "reqs = [previewRequest n c marketOrder]" "res = ofValue preview"
    using served_reliable [OF s marketOrder_check [OF assms(2)] assms(1)] assms(4) by (simp_all add: previewRequest_def)
  show "converse c
      (if isSuccess res
       then bindIO (printOut (linesText [checkMark @ '' Order preview successful''])) (\<lambda>_.
         bindIO (liftIO (resultValue res)) (\<lambda>preview.
         bindIO (printOut (printOrderPreview preview)) (\<lambda>_.
         bindIO (getUserConfirmation ''Proceed with placing this market order? (Sandbox only)'') (\<lambda>confirmed.
           if confirmed then placeMarketOrder J z cv (tradierClient n) c
           else printOut (linesText [''Order placement cancelled by user.''])))))
       else complain ''Order preview failed: '' res) inp'
      (\<lambda>r rs inp'. r = Inr () \<and>
         (\<exists>rest. reqs @ rs = previewRequest n c marketOrder # submission n c marketOrder # rest))"
    unfolding res ofValue_success if_True bindIO_prims inp
    by (intro converse_print converse_confirm, unfold eqTrueI [OF assms(3)] if_True)
      (auto intro: converse_weaken [OF placeMarketOrder_delivers [OF assms(1,2)]])
qed simp

lemma simpleTrading_places:
  fixes w :: "'z console_world_scheme"
  assumes "tradingConfig getenv = Inr c" "accessToken c \<noteq> []"
    and "reliable n" "accountOk (accountNumber c)" "agrees (consoleIn w)"
    and "\<forall>i. curl_easy_perform n i (previewRequest n c marketOrder) = Inr t"
    and "success (receive t)" "parseResponse J (receive t) (parseOrderPreview J) = Some preview"
  shows "\<exists>w' rest out. simpleTradingMain J z cv n getenv w = Some (Inr 0, w') \<and>
     sent w' = sent w @ previewRequest n c marketOrder # submission n c marketOrder # rest \<and>
     consoleOut w' = consoleOut w @ safetyNotice @ out"
proof -
  have "converse cfg (tradingSession J z cv n cfg) (consoleIn w) (\<lambda>r reqs inp'. \<exists>x. r = Inr x \<and> x = 0 \<and>
      (\<exists>rest. reqs = previewRequest n c marketOrder # submission n c marketOrder # rest))"
    if "tradingConfig getenv = Inr cfg" for cfg
  proof -
    have c: "cfg = c" using that assms(1) by simp
    show ?thesis
      unfolding c tradingSession_def
      by (intro converse_print converse_bind_unit [OF marketOrderStage_delivers [OF assms(3-8)]]
          converse_bind_unit [OF limitOrderStage_converses] converse_lift) auto
  qed
  from program_outcome [where loaded = "tradingConfig getenv", OF this, where n = n and greeting = safetyNotice and summary = configSummary and
      trouble = tradingTroubleshooting]
  obtain x w' reqs out where "simpleTradingMain J z cv n getenv w = Some (Inr x, w')" "sent w' = sent w @ reqs"
      "consoleOut w' = consoleOut w @ safetyNotice @ out"
      "if ready n (tradingConfig getenv) w then x = 0 \<and>
        (\<exists>rest. reqs = previewRequest n c marketOrder # submission n c marketOrder # rest) else x = 1 \<and> reqs = []"
    unfolding simpleTradingMain_def by (auto split: if_splits)
  moreover have "ready n (tradingConfig getenv) w" using assms(1-3) by (simp add: ready_iff reliable_def)
  ultimately show ?thesis by auto
qed

text \<open>The configuration made from a production key and a sandbox account.\<close>

definition mixedConfig :: "string \<Rightarrow> string \<Rightarrow> Config" where
  "mixedConfig token account = \<lparr>accessToken = token, accountNumber = account, sandboxMode = False, timeoutSeconds = 30\<rparr>"

lemma tradingConfig_mixed:
  assumes "getenv ''TRADIER_SANDBOX_KEY'' = None" "getenv ''TRADIER_SANDBOX_ACCT'' = Some account"
    and "getenv ''TRADIER_PRODUCTION_KEY'' = Some token"
  shows "tradingConfig getenv = Inr (mixedConfig token account)"
  using assms by (simp add: tradingConfig_def defaultConfig_def mixedConfig_def)

text \<open>
  C35: The trading example can place a real order while it says that it uses the sandbox only: with the sandbox key unset, the
  sandbox account and the production key set, a yes and a preview that succeeds, the program prints the notice that no
  real money is traded and submits the order to the production brokerage with the production token.
\<close>

theorem trading_example_real_orders:
  fixes w :: "'z console_world_scheme"
  assumes "getenv ''TRADIER_SANDBOX_KEY'' = None" "getenv ''TRADIER_SANDBOX_ACCT'' = Some account"
    and "getenv ''TRADIER_PRODUCTION_KEY'' = Some token" "token \<noteq> []" "accountOk account" "agrees (consoleIn w)"
    and "reliable n" "\<forall>i. curl_easy_perform n i (previewRequest n (mixedConfig token account) marketOrder) = Inr t"
    and "success (receive t)" "parseResponse J (receive t) (parseOrderPreview J) = Some preview"
  shows "\<exists>w' preview order rest out. simpleTradingMain J z cv n getenv w = Some (Inr 0, w') \<and>
     sent w' = sent w @ preview # order # rest \<and> consoleOut w' = consoleOut w @ safetyNotice @ out \<and>
     CURLOPT_VERB order = HTTPPOST \<and> CURLOPT_URL order = ''https://api.tradier.com/v1/accounts/'' @ account @ ''/orders'' \<and>
     ''Authorization: Bearer '' @ token \<in> set (CURLOPT_HTTPHEADER order)"
proof -
  let ?c = "mixedConfig token account"
  obtain w' rest out where run: "simpleTradingMain J z cv n getenv w = Some (Inr 0, w')"
      "sent w' = sent w @ previewRequest n ?c marketOrder # submission n ?c marketOrder # rest"
      "consoleOut w' = consoleOut w @ safetyNotice @ out"
    using simpleTrading_places [OF tradingConfig_mixed [OF assms(1-3)], of n w t J preview z cv] assms
    by (auto simp: mixedConfig_def)
  have "map_of (preparedHeaders ?c ''POST'') ''Authorization'' = Some (''Bearer '' @ token)"
    using assms(4) by (simp add: preparedHeaders_lookup mixedConfig_def)
  then have "''Authorization: Bearer '' @ token \<in> set (CURLOPT_HTTPHEADER (submission n ?c marketOrder))"
    by (force simp: submission_def preparedRequest_def curlRequest_def dest: map_of_SomeD)
  moreover have "CURLOPT_URL (submission n ?c marketOrder) = ''https://api.tradier.com/v1/accounts/'' @ account @ ''/orders''"
    by (simp add: program_requests ordersPath_def baseUrl_def mixedConfig_def)
  ultimately show ?thesis using run program_requests(4) by blast
qed

text \<open>Witness: such an environment, a user who types \<open>y\<close>, and a server that acknowledges everything.\<close>

definition mixedEnv :: "string \<Rightarrow> string option" where
  "mixedEnv = [''TRADIER_SANDBOX_ACCT'' \<mapsto> ''VA000001'', ''TRADIER_PRODUCTION_KEY'' \<mapsto> ''live'']"

lemma mixedEnv_facts:
  "mixedEnv ''TRADIER_SANDBOX_KEY'' = None" "mixedEnv ''TRADIER_SANDBOX_ACCT'' = Some ''VA000001''"
  "mixedEnv ''TRADIER_PRODUCTION_KEY'' = Some ''live''" "accountOk ''VA000001''"
  "agrees (consoleIn (exampleConsole [''y'']))"
  by (simp_all add: mixedEnv_def accountOk_def exampleConsole_def agrees_def saysYes_def nextLine_def)

theorem trading_example_real_orders_witness:
  "\<exists>w' preview order rest. simpleTradingMain ackJson (\<lambda>_. 0) (\<lambda>_. JNull) ackNet mixedEnv (exampleConsole [''y'']) =
       Some (Inr 0, w') \<and> sent w' = preview # order # rest \<and>
     CURLOPT_URL order = ''https://api.tradier.com/v1/accounts/VA000001/orders''"
proof -
  obtain v where v: "parseResponse ackJson (receive ackTransfer) (parseOrderPreview ackJson) = Some v"
    using ackNet_facts(5) by blast
  have "sent (exampleConsole [''y'']) = []" by (simp add: exampleConsole_def)
  then show ?thesis
    using trading_example_real_orders [OF mixedEnv_facts(1-3) _ mixedEnv_facts(4,5) ackNet_facts(1) _ ackNet_facts(4) v,
        of "\<lambda>_. 0" "\<lambda>_. JNull"] ackNet_facts(3) by auto
qed

text \<open>Witness: the same run; its second request submits the order.\<close>

theorem trading_example_one_order_witness:
  "\<exists>w' form. simpleTradingMain ackJson (\<lambda>_. 0) (\<lambda>_. JNull) ackNet mixedEnv (exampleConsole [''y'']) = Some (Inr 0, w') \<and>
     length (sent w') \<le> 5 \<and> submitsOrder (sent w' ! 1) \<and> CURLOPT_POSTFIELDS (sent w' ! 1) = Some form \<and>
     map_of (decodePairs form) = orderForm marketOrder \<and> CURLOPT_POSTFIELDS (sent w' ! 0) = Some form"
proof -
  obtain v where v: "parseResponse ackJson (receive ackTransfer) (parseOrderPreview ackJson) = Some v"
    using ackNet_facts(5) by blast
  have start: "sent (exampleConsole [''y'']) = []" by (simp add: exampleConsole_def)
  have "accountOk (accountNumber (mixedConfig ''live'' ''VA000001''))" "accessToken (mixedConfig ''live'' ''VA000001'') \<noteq> []"
    using mixedEnv_facts(4) by (simp_all add: mixedConfig_def)
  then obtain w' rest where run: "simpleTradingMain ackJson (\<lambda>_. 0) (\<lambda>_. JNull) ackNet mixedEnv (exampleConsole [''y'']) =
      Some (Inr 0, w')" "sent w' = previewRequest ackNet (mixedConfig ''live'' ''VA000001'') marketOrder #
        submission ackNet (mixedConfig ''live'' ''VA000001'') marketOrder # rest"
    using simpleTrading_places [OF tradingConfig_mixed [OF mixedEnv_facts(1-3)] _ ackNet_facts(1) _ mixedEnv_facts(5) _
        ackNet_facts(4) v, of "\<lambda>_. 0" "\<lambda>_. JNull"] ackNet_facts(3) start by auto
  have second: "1 < length (sent w')" "submitsOrder (sent w' ! 1)" by (simp_all add: run(2) submitsOrder_requests)
  obtain reqs where reqs: "sent w' = reqs" "length reqs \<le> 5" and one: "\<forall>i < length reqs. submitsOrder (reqs ! i) \<longrightarrow>
      (\<exists>form. CURLOPT_POSTFIELDS (reqs ! 0) = Some form \<and> CURLOPT_POSTFIELDS (reqs ! 1) = Some form \<and>
        map_of (decodePairs form) = orderForm marketOrder)"
    using trading_example_one_order [OF run(1) ackNet_facts(2)] unfolding start append_Nil by blast
  then obtain form where "CURLOPT_POSTFIELDS (sent w' ! 0) = Some form" "CURLOPT_POSTFIELDS (sent w' ! 1) = Some form"
      "map_of (decodePairs form) = orderForm marketOrder"
    using second unfolding reqs(1) by blast
  then show ?thesis using run(1) reqs second(2) by blast
qed

text \<open>Witness: no cancellation in that run.\<close>

theorem trading_example_never_cancels_witness:
  "\<exists>w'. simpleTradingMain ackJson (\<lambda>_. 0) (\<lambda>p. JStr (safeToString ackJson p)) ackNet mixedEnv (exampleConsole [''y'', ''y'']) =
       Some (Inr 0, w') \<and> list_all (\<lambda>q. CURLOPT_VERB q \<noteq> CUSTOMREQUEST ''DELETE'') (sent w')"
proof -
  have "ready ackNet (tradingConfig mixedEnv) (exampleConsole [''y'', ''y''])"
    using ackNet_facts(1) tradingConfig_mixed [OF mixedEnv_facts(1-3)] by (simp add: ready_iff reliable_def mixedConfig_def)
  then obtain w' where run: "simpleTradingMain ackJson (\<lambda>_. 0) (\<lambda>p. JStr (safeToString ackJson p)) ackNet mixedEnv
      (exampleConsole [''y'', ''y'']) = Some (Inr 0, w')"
    using simpleTrading_outcome [of ackJson "\<lambda>_. 0" "\<lambda>p. JStr (safeToString ackJson p)" ackNet mixedEnv
        "exampleConsole [''y'', ''y'']"] by auto
  have "CURLOPT_VERB q \<noteq> CUSTOMREQUEST ''DELETE''" if "q \<in> set (sent w')" for q
    by (rule trading_example_never_cancels [OF run ackJson_documented]) (use that in \<open>simp add: exampleConsole_def\<close>)
  then show ?thesis using run unfolding list_all_iff by blast
qed

end
