(* ===== verification/Example_Account.thy ===== *)
theory Example_Account
  imports Console
begin

text \<open>
  \<^verbatim>\<open>examples/basic/account_info_fixed.cpp\<close>: the program that prints the profile of the user and the balances and positions
  of one account. It only reads: it makes at most three requests, all of them GET requests to the configured brokerage.
\<close>

section \<open>Printing\<close>

definition accountLines :: "Account \<Rightarrow> string list" where
  "accountLines account = [
     endLine @ ''Account: '' @ acctNumber account,
     ''  Type: '' @ acctType account,
     ''  Status: '' @ acctStatus account,
     ''  Classification: '' @ acctClassification account,
     ''  Day Trader: '' @ yesNo (dayTrader account),
     ''  Option Level: '' @ to_string (optionLevel account)]"

definition printAccountProfile :: "AccountProfile \<Rightarrow> string" where
  "printAccountProfile profile = linesText (
     [endLine @ ''=== Account Profile ==='',
      ''User ID: '' @ profileId profile,
      ''Name: '' @ profileName profile] @
     concat (map accountLines (profileAccounts profile)))"

definition printAccountBalances :: "AccountBalances \<Rightarrow> string" where
  "printAccountBalances balances = linesText [
     endLine @ ''=== Account Balances ==='',
     ''Account Number: '' @ balAccountNumber balances,
     ''Account Type: '' @ balAccountType balances,
     ''Total Equity: $'' @ fixedText 2 (totalEquity balances),
     ''Total Cash: $'' @ fixedText 2 (totalCash balances),
     ''Market Value: $'' @ fixedText 2 (marketValue balances),
     ''Buying Power: $'' @ fixedText 2 (buyingPower balances),
     ''Day Change: $'' @ fixedText 2 (dayChange balances)]"

definition positionLine :: "Position \<Rightarrow> string" where
  "positionLine position =
     padRight 8 (posSymbol position) @ padRight 12 (fixedText 2 (posQuantity position)) @
     padRight 15 (''$'' @ to_string_double (costBasis position))"

definition printPositions :: "Position list \<Rightarrow> string" where
  "printPositions positions = linesText (
     [endLine @ ''=== Current Positions ===''] @
     (if positions = [] then [''No positions found.'']
      else [padRight 8 ''Symbol'' @ padRight 12 ''Quantity'' @ padRight 15 ''Cost Basis'', replicate 35 (CHR ''-'')] @
        map positionLine positions))"

section \<open>Configuration\<close>

text \<open>\<open>getConfigFromEnvironment\<close> of this program.\<close>

definition accountConfig :: "(string \<Rightarrow> string option) \<Rightarrow> Config fallible" where
  "accountConfig getenv =
     (let token = getenv ''TRADIER_SANDBOX_KEY'';
          usingSandbox = (token \<noteq> None);
          (token, usingSandbox) =
            (if token = None then (getenv ''TRADIER_PRODUCTION_KEY'', False) else (token, usingSandbox))
      in case token of
           None \<Rightarrow> Inl (RuntimeError (
             linesText [''Neither TRADIER_SANDBOX_KEY nor TRADIER_PRODUCTION_KEY environment variables are set.'',
               ''Set TRADIER_SANDBOX_KEY for safe testing or TRADIER_PRODUCTION_KEY for live trading.''] @
             ''Get your tokens from: https://documentation.tradier.com/getting-started''))
         | Some t \<Rightarrow>
             (let cfg = defaultConfig\<lparr>accessToken := t, sandboxMode := usingSandbox, timeoutSeconds := 30\<rparr>;
                  accountNum = getenv (if usingSandbox then ''TRADIER_SANDBOX_ACCT'' else ''TRADIER_PRODUCTION_ACCT'')
              in Inr (case accountNum of None \<Rightarrow> cfg | Some a \<Rightarrow> cfg\<lparr>accountNumber := a\<rparr>)))"

section \<open>The program\<close>

definition accountGreeting :: string where
  "accountGreeting = linesText [
     ''=== libtradier Account Information Example ==='',
     ''This example demonstrates retrieving account information.'']"

definition accountSummary :: "Config \<Rightarrow> string" where
  "accountSummary cfg = linesText [
     endLine @ checkMark @ '' Configuration loaded'',
     ''  Environment: '' @ (if sandboxMode cfg then ''Sandbox'' else ''Production''),
     ''  Base URL: '' @ baseUrl cfg]"

definition accountTroubleshooting :: "exn \<Rightarrow> string" where
  "accountTroubleshooting e = linesText [
     endLine @ crossMark @ '' Error: '' @ what e,
     endLine @ ''Troubleshooting:'',
     ''1. Ensure TRADIER_SANDBOX_KEY/TRADIER_SANDBOX_ACCT or TRADIER_PRODUCTION_KEY are set'',
     ''2. Check your internet connection'',
     ''3. Verify the Tradier sandbox API is accessible'']"

definition balancesStage ::
  "'j json_api \<Rightarrow> 'z console_world_scheme client_ops \<Rightarrow> string \<Rightarrow> ('z, unit) console_io" where
  "balancesStage J C accountId =
     bindIO (printOut (linesText [endLine @ ''--- Retrieving Account Balances ---''])) (\<lambda>_.
     bindIO (getBalances J C accountId) (\<lambda>balancesResult.
       if isSuccess balancesResult then
         bindIO (printOut (linesText [checkMark @ '' Balances retrieved successfully''])) (\<lambda>_.
         bindIO (liftIO (resultValue balancesResult)) (\<lambda>balances.
         printOut (printAccountBalances balances)))
       else complain ''Failed to get balances: '' balancesResult))"

definition positionsStage ::
  "'j json_api \<Rightarrow> (int \<Rightarrow> int) \<Rightarrow> 'j conversion \<Rightarrow> 'z console_world_scheme client_ops \<Rightarrow> string \<Rightarrow>
     ('z, unit) console_io" where
  "positionsStage J z cv C accountId =
     bindIO (printOut (linesText [endLine @ ''--- Retrieving Current Positions ---''])) (\<lambda>_.
     bindIO (getPositions J z cv C accountId) (\<lambda>positionsResult.
       if isSuccess positionsResult then
         bindIO (printOut (linesText [checkMark @ '' Positions retrieved successfully''])) (\<lambda>_.
         bindIO (liftIO (resultValue positionsResult)) (\<lambda>positions.
         printOut (printPositions positions)))
       else complain ''Failed to get positions: '' positionsResult))"

text \<open>\<open>accountId\<close>: the configured account, or the first one of the profile.\<close>

definition chosenAccount :: "Config \<Rightarrow> AccountProfile \<Rightarrow> string" where
  "chosenAccount cfg profile =
     (if accountNumber cfg = [] \<and> profileAccounts profile \<noteq> [] then acctNumber (hd (profileAccounts profile))
      else accountNumber cfg)"

definition accountStages ::
  "'j json_api \<Rightarrow> (int \<Rightarrow> int) \<Rightarrow> 'j conversion \<Rightarrow> net \<Rightarrow> string \<Rightarrow> ('z, int) console_io" where
  "accountStages J z cv n accountId =
     bindIO
       (if accountId \<noteq> [] then
          bindIO (balancesStage J (tradierClient n) accountId) (\<lambda>_. positionsStage J z cv (tradierClient n) accountId)
        else printOut (linesText [endLine @ ''! No account number available for balance/position queries''])) (\<lambda>_.
     bindIO (printOut (linesText [endLine @ ''=== Example completed successfully ==='']))
       (\<lambda>_. returnIO 0))"

definition accountSession ::
  "'j json_api \<Rightarrow> (int \<Rightarrow> int) \<Rightarrow> 'j conversion \<Rightarrow> net \<Rightarrow> Config \<Rightarrow> ('z, int) console_io" where
  "accountSession J z cv n cfg =
     bindIO (printOut (linesText [checkMark @ '' Tradier client created'',
       ''  Authenticated: '' @ yesNo (isAuthenticated cfg)])) (\<lambda>_.
     bindIO (printOut (linesText [checkMark @ '' Account service initialized''])) (\<lambda>_.
     bindIO (printOut (linesText [endLine @ ''--- Retrieving User Profile ---''])) (\<lambda>_.
     bindIO (getProfile J z cv (tradierClient n)) (\<lambda>profileResult.
       if isSuccess profileResult then
         bindIO (printOut (linesText [checkMark @ '' Profile retrieved successfully''])) (\<lambda>_.
         bindIO (liftIO (resultValue profileResult)) (\<lambda>profile.
         bindIO (printOut (printAccountProfile profile)) (\<lambda>_.
         accountStages J z cv n (chosenAccount cfg profile))))
       else bindIO (complain ''Failed to get profile: '' profileResult) (\<lambda>_. returnIO 1)))))"

definition accountInfoMain ::
  "'j json_api \<Rightarrow> (int \<Rightarrow> int) \<Rightarrow> 'j conversion \<Rightarrow> net \<Rightarrow> (string \<Rightarrow> string option) \<Rightarrow> ('z, int) console_io" where
  "accountInfoMain J z cv n getenv =
     program n accountGreeting (accountConfig getenv) accountSummary (accountSession J z cv n) accountTroubleshooting"

section \<open>The conversation\<close>

definition profileRequest :: "net \<Rightarrow> Config \<Rightarrow> request" where
  "profileRequest n c = preparedRequest n c ''GET'' ''/user/profile'' []"

definition balancesRequest :: "net \<Rightarrow> Config \<Rightarrow> string \<Rightarrow> request" where
  "balancesRequest n c account = preparedRequest n c ''GET'' (''/accounts/'' @ account @ ''/balances'') []"

definition positionsRequest :: "net \<Rightarrow> Config \<Rightarrow> string \<Rightarrow> request" where
  "positionsRequest n c account = preparedRequest n c ''GET'' (''/accounts/'' @ account @ ''/positions'') []"

lemma balancesStage_converses:
  "converse c (balancesStage J (tradierClient n) account) inp
     (\<lambda>r reqs inp'. r = Inr () \<and> set reqs \<subseteq> {balancesRequest n c account} \<and> length reqs \<le> 1)"
  unfolding balancesStage_def
proof (intro converse_print converse_call [OF getBalances.service_call_axioms, where meth = "''GET''" and
      ep = "''/accounts/'' @ account @ ''/balances''" and qs = "\<lambda>_. []"])
  fix balances :: AccountBalances
  show "converse c
      (if isSuccess (ofValue balances)
       then bindIO (printOut (linesText [checkMark @ '' Balances retrieved successfully''])) (\<lambda>_.
         bindIO (liftIO (resultValue (ofValue balances))) (\<lambda>balances. printOut (printAccountBalances balances)))
       else complain ''Failed to get balances: '' (ofValue balances)) inp
      (\<lambda>r reqs inp'. r = Inr () \<and>
         set (preparedRequest n c ''GET'' (''/accounts/'' @ account @ ''/balances'') [] # reqs) \<subseteq> {balancesRequest n c account} \<and>
         length (preparedRequest n c ''GET'' (''/accounts/'' @ account @ ''/balances'') [] # reqs) \<le> 1)"
    unfolding ofValue_success if_True bindIO_prims by (intro converse_print converse_prims) (simp add: balancesRequest_def)
qed (auto simp: balancesRequest_def)

lemma positionsStage_converses:
  "converse c (positionsStage J z cv (tradierClient n) account) inp
     (\<lambda>r reqs inp'. r = Inr () \<and> set reqs \<subseteq> {positionsRequest n c account} \<and> length reqs \<le> 1)"
  unfolding positionsStage_def
proof (intro converse_print converse_call [OF getPositions.service_call_axioms, where meth = "''GET''" and
      ep = "''/accounts/'' @ account @ ''/positions''" and qs = "\<lambda>_. []"])
  fix positions :: "Position list"
  show "converse c
      (if isSuccess (ofValue positions)
       then bindIO (printOut (linesText [checkMark @ '' Positions retrieved successfully''])) (\<lambda>_.
         bindIO (liftIO (resultValue (ofValue positions))) (\<lambda>positions. printOut (printPositions positions)))
       else complain ''Failed to get positions: '' (ofValue positions)) inp
      (\<lambda>r reqs inp'. r = Inr () \<and>
         set (preparedRequest n c ''GET'' (''/accounts/'' @ account @ ''/positions'') [] # reqs) \<subseteq> {positionsRequest n c account} \<and>
         length (preparedRequest n c ''GET'' (''/accounts/'' @ account @ ''/positions'') [] # reqs) \<le> 1)"
    unfolding ofValue_success if_True bindIO_prims by (intro converse_print converse_prims) (simp add: positionsRequest_def)
qed (auto simp: positionsRequest_def)

lemma accountStages_converses:
  "converse c (accountStages J z cv n account) inp (\<lambda>r reqs inp'. r = Inr 0 \<and> length reqs \<le> 2 \<and>
     (if account = [] then reqs = [] else set reqs \<subseteq> {balancesRequest n c account, positionsRequest n c account}))"
proof (cases "account = []")
  case True
  then show ?thesis
    unfolding accountStages_def by (simp del: linesText.simps) (intro converse_print converse_lift; simp)
next
  case False
  have "converse c (bindIO (balancesStage J (tradierClient n) account) (\<lambda>_. positionsStage J z cv (tradierClient n) account)) inp
      (\<lambda>r reqs inp'. r = Inr () \<and> length reqs \<le> 2 \<and> set reqs \<subseteq> {balancesRequest n c account, positionsRequest n c account})"
    by (intro converse_bind_unit [OF balancesStage_converses] converse_weaken [OF positionsStage_converses]) auto
  then have "converse c (bindIO (bindIO (balancesStage J (tradierClient n) account) (\<lambda>_. positionsStage J z cv (tradierClient n) account))
      (\<lambda>_. bindIO (printOut (linesText [endLine @ ''=== Example completed successfully ===''])) (\<lambda>_. returnIO 0))) inp
      (\<lambda>r reqs inp'. r = Inr 0 \<and> length reqs \<le> 2 \<and> set reqs \<subseteq> {balancesRequest n c account, positionsRequest n c account})"
    by (rule converse_bind_unit) (intro converse_print converse_lift; simp)
  then show ?thesis unfolding accountStages_def using False by simp
qed

text \<open>The requests of a run that ends with exit status \<open>x\<close>.\<close>

definition accountRequests :: "net \<Rightarrow> Config \<Rightarrow> bool \<Rightarrow> int \<Rightarrow> request list \<Rightarrow> bool" where
  "accountRequests n c documented x reqs \<longleftrightarrow>
     (x = 1 \<and> (reqs = [] \<or> reqs = [profileRequest n c])) \<or>
     (x = 0 \<and> (\<exists>account rest. reqs = profileRequest n c # rest \<and> length rest \<le> 2 \<and>
        (accountNumber c \<noteq> [] \<or> documented \<longrightarrow> account = accountNumber c) \<and>
        (if account = [] then rest = [] else set rest \<subseteq> {balancesRequest n c account, positionsRequest n c account})))"

lemma accountSession_converses:
  "converse c (accountSession J z cv n c) inp
     (\<lambda>r reqs inp'. \<exists>x. r = Inr x \<and> accountRequests n c (conversion_documented J cv) x reqs)"
  unfolding accountSession_def
proof (intro converse_print converse_bind_total [OF converse_service [OF getProfile.service_call_axioms,
      where meth = "''GET''" and ep = "''/user/profile''" and qs = "\<lambda>_. []"]])
  fix res reqs inp'
  let ?interp = "expectSafe J ''Failed to get profile: '' (RuntimeError ''Failed to parse profile response'')
      (memberAs J cv ''profile'' ''Invalid profile response format'' (parseAccountProfile J z))"
  let ?R = "\<lambda>r rs inp'. \<exists>x. r = Inr x \<and> accountRequests n c (conversion_documented J cv) x (reqs @ rs)"
  assume "inp' = inp \<and> served n (Inr ()) (\<lambda>p :: unit. preparedRequest n c ''GET'' ''/user/profile'' []) ?interp res reqs"
  then have s: "served n (Inr ()) (\<lambda>p :: unit. preparedRequest n c ''GET'' ''/user/profile'' []) ?interp res reqs" by blast
  show "converse c
      (if isSuccess res
       then bindIO (printOut (linesText [checkMark @ '' Profile retrieved successfully''])) (\<lambda>_.
         bindIO (liftIO (resultValue res)) (\<lambda>profile.
         bindIO (printOut (printAccountProfile profile)) (\<lambda>_. accountStages J z cv n (chosenAccount c profile))))
       else bindIO (complain ''Failed to get profile: '' res) (\<lambda>_. returnIO 1)) inp' ?R"
  proof (cases "isSuccess res")
    case True
    then obtain resp profile where profile: "reqs = [profileRequest n c]" "?interp resp = Inr profile" "res = ofValue profile"
      by (rule served_success [OF s]) (simp add: profileRequest_def)
    have "profile = emptyProfile" if "conversion_documented J cv"
      by (rule member_documented [OF that parsers_on_strings(2) profile(2)])
    then have own: "accountNumber c \<noteq> [] \<or> conversion_documented J cv \<longrightarrow> chosenAccount c profile = accountNumber c"
      by (auto simp: chosenAccount_def emptyProfile_def)
    have chosen: "accountRequests n c (conversion_documented J cv) 0 (reqs @ rs)"
      if "length rs \<le> 2" "if chosenAccount c profile = [] then rs = []
          else set rs \<subseteq> {balancesRequest n c (chosenAccount c profile), positionsRequest n c (chosenAccount c profile)}" for rs
      unfolding accountRequests_def
      by (rule disjI2, intro conjI exI [of _ "chosenAccount c profile"] exI [of _ rs])
        (use that own in \<open>simp_all only: profile(1) append_Cons append_Nil\<close>)
    then show ?thesis
      unfolding profile(3) ofValue_success if_True bindIO_prims
      by (intro converse_print converse_weaken [OF accountStages_converses]) (use chosen in blast)
  next
    case False
    have "accountRequests n c (conversion_documented J cv) 1 reqs"
      using served_requests [OF s] by (auto simp: accountRequests_def profileRequest_def)
    then show ?thesis
      unfolding if_not_P [OF False]
      by (intro converse_bind_unit [OF converse_complain [OF s False, where R = "\<lambda>r rs inp'. r = Inr () \<and> rs = []"]]
          converse_lift) auto
  qed
qed simp

lemma accountInfo_outcome:
  "\<exists>x w' reqs. accountInfoMain J z cv n getenv w = Some (Inr x, w') \<and> sent w' = sent w @ reqs \<and>
     (if ready n (accountConfig getenv) w
      then \<exists>c. accountConfig getenv = Inr c \<and> accountRequests n c (conversion_documented J cv) x reqs
      else x = 1 \<and> reqs = [])"
proof -
  have "\<exists>x w' reqs out. accountInfoMain J z cv n getenv w = Some (Inr x, w') \<and> sent w' = sent w @ reqs \<and>
      consoleOut w' = consoleOut w @ accountGreeting @ out \<and>
      (if ready n (accountConfig getenv) w
       then \<exists>c. accountConfig getenv = Inr c \<and> accountRequests n c (conversion_documented J cv) x reqs
       else x = 1 \<and> reqs = [])"
    unfolding accountInfoMain_def by (rule program_outcome) (rule accountSession_converses)
  then show ?thesis by blast
qed

lemma account_requests_get:
  "CURLOPT_VERB (profileRequest n c) = HTTPGET" "CURLOPT_VERB (balancesRequest n c account) = HTTPGET"
  "CURLOPT_VERB (positionsRequest n c account) = HTTPGET"
  "CURLOPT_URL (profileRequest n c) = baseUrl c @ ''/user/profile''"
  "CURLOPT_URL (balancesRequest n c account) = baseUrl c @ ''/accounts/'' @ account @ ''/balances''"
  "CURLOPT_URL (positionsRequest n c account) = baseUrl c @ ''/accounts/'' @ account @ ''/positions''"
  by (simp_all add: profileRequest_def balancesRequest_def positionsRequest_def preparedRequest_def curlRequest_def
      requestUrl_def formMethod_def buildUrl_def)

text \<open>
  C36: The account example only reads, and reads no other account than the configured one: \<open>main\<close> returns with 0 or 1 after at most
  three requests, all GET; with the documented conversion the profile it prints has no accounts, so that every request is
  for the profile of the user or for the balances or positions of the account of the environment, and without such a variable
  only the profile is ever requested.
\<close>

theorem account_example_reads:
  assumes "conversion_documented J cv"
  shows "\<exists>x w' reqs. accountInfoMain J z cv n getenv w = Some (Inr x, w') \<and> x \<in> {0, 1} \<and> sent w' = sent w @ reqs \<and>
     length reqs \<le> 3 \<and> list_all (\<lambda>q. CURLOPT_VERB q = HTTPGET \<and> (\<exists>c. accountConfig getenv = Inr c \<and>
       CURLOPT_URL q \<in> {baseUrl c @ ''/user/profile''} \<union> (if accountNumber c = [] then {}
         else {baseUrl c @ ''/accounts/'' @ accountNumber c @ ''/balances'',
               baseUrl c @ ''/accounts/'' @ accountNumber c @ ''/positions''}))) reqs"
proof -
  obtain x w' reqs where run: "accountInfoMain J z cv n getenv w = Some (Inr x, w')" "sent w' = sent w @ reqs"
      "if ready n (accountConfig getenv) w
       then \<exists>c. accountConfig getenv = Inr c \<and> accountRequests n c (conversion_documented J cv) x reqs
       else x = 1 \<and> reqs = []"
    using accountInfo_outcome [of J z cv n getenv w] by blast
  show ?thesis
  proof (cases "ready n (accountConfig getenv) w")
    case False
    then show ?thesis using run by auto
  next
    case True
    then obtain c where c: "accountConfig getenv = Inr c" "accountRequests n c True x reqs"
      using run(3) assms by auto
    then have "x \<in> {0, 1}" "length reqs \<le> 3" by (auto simp: accountRequests_def)
    moreover have "set reqs \<subseteq> {profileRequest n c} \<union> (if accountNumber c = [] then {}
        else {balancesRequest n c (accountNumber c), positionsRequest n c (accountNumber c)})"
      using c(2) by (auto simp: accountRequests_def)
    then have "list_all (\<lambda>q. CURLOPT_VERB q = HTTPGET \<and> CURLOPT_URL q \<in> {baseUrl c @ ''/user/profile''} \<union>
        (if accountNumber c = [] then {}
         else {baseUrl c @ ''/accounts/'' @ accountNumber c @ ''/balances'',
               baseUrl c @ ''/accounts/'' @ accountNumber c @ ''/positions''})) reqs"
      unfolding list_all_iff using account_requests_get [of n c] by (fastforce split: if_splits)
    ultimately show ?thesis using run(1,2) c(1) by auto
  qed
qed

text \<open>Witness: an environment with a sandbox key and no account, so that only the profile is requested.\<close>

theorem account_example_reads_witness:
  "\<exists>x w'. accountInfoMain ackJson (\<lambda>_. 0) (\<lambda>p. JStr (safeToString ackJson p)) ackNet
       [''TRADIER_SANDBOX_KEY'' \<mapsto> ''tok''] (exampleConsole []) = Some (Inr x, w') \<and>
     list_all (\<lambda>q. CURLOPT_URL q = ''https://sandbox.tradier.com/v1/user/profile'') (sent w')"
proof -
  let ?env = "[''TRADIER_SANDBOX_KEY'' \<mapsto> ''tok'']"
  let ?c = "\<lparr>accessToken = ''tok'', accountNumber = [], sandboxMode = True, timeoutSeconds = 30\<rparr>"
  have c: "accountConfig ?env = Inr ?c" by (simp add: accountConfig_def defaultConfig_def)
  obtain x w' reqs where run: "accountInfoMain ackJson (\<lambda>_. 0) (\<lambda>p. JStr (safeToString ackJson p)) ackNet ?env
        (exampleConsole []) = Some (Inr x, w')" "sent w' = sent (exampleConsole []) @ reqs"
      and urls: "list_all (\<lambda>q. CURLOPT_VERB q = HTTPGET \<and> (\<exists>c. accountConfig ?env = Inr c \<and>
        CURLOPT_URL q \<in> {baseUrl c @ ''/user/profile''} \<union> (if accountNumber c = [] then {}
          else {baseUrl c @ ''/accounts/'' @ accountNumber c @ ''/balances'',
                baseUrl c @ ''/accounts/'' @ accountNumber c @ ''/positions''}))) reqs"
    using account_example_reads [OF ackJson_documented, of "\<lambda>_. 0" ackNet ?env "exampleConsole []"] by blast
  have "list_all (\<lambda>q. CURLOPT_URL q = ''https://sandbox.tradier.com/v1/user/profile'') reqs"
    using urls unfolding c list_all_iff by (simp add: baseUrl_def)
  then show ?thesis using run by (simp add: exampleConsole_def)
qed

end
