(* ===== verification/Spec2Isabelle.thy ===== *)
theory Spec2Isabelle
  imports Order_Flow Watchlist Auth_Properties Account Market_Properties Streaming_Properties
    Websocket_Handle Market_Async Logger_Properties Simd Handles Service_Objects Example_Trading Example_Account
begin

text \<open>
  A verification development of \<^emph>\<open>libtradier\<close>, a C++ client library for the Tradier brokerage API.

  \<^bold>\<open>The program.\<close> A program that uses the library makes a \<^verbatim>\<open>TradierClient\<close> from a \<^verbatim>\<open>Config\<close> and asks it for services:
  accounts, trading, market data, watchlists, authentication and streaming. A service checks its arguments with
  \<^verbatim>\<open>Validator\<close>, hands a request to the client, which passes it to the \<^verbatim>\<open>HttpClient\<close>, parses the answer with
  \<^verbatim>\<open>SafeJsonParser\<close> or \<^verbatim>\<open>nlohmann::json\<close>, and returns an \<^verbatim>\<open>ApiResult\<close>; exceptions on the way become errors of
  that type. The HTTP client retries, limits the rate and keeps statistics. The streaming service keeps a WebSocket open on
  a thread of its own and hands events to handlers. The asynchronous variants run an operation on a thread pool or on a
  thread of its own and deliver its result in a future. Diagnostics go to a logger, which may have a thread too.

  \<^bold>\<open>How code becomes definitions.\<close> An exception is \<^verbatim>\<open>Inl\<close>, a value \<^verbatim>\<open>Inr\<close>. Code with effects has the type
  \<^verbatim>\<open>('w, 'e, 'a) io\<close> of \<^verbatim>\<open>Prelude\<close>: it takes the world and yields an outcome and the next world, or \<^verbatim>\<open>None\<close>
  when it does not return. Objects are records in the world. What the library does not contain is an argument: libcurl,
  clocks and allocation are the \<^verbatim>\<open>net\<close> of \<^verbatim>\<open>World\<close>, in which the answer to an outside call depends on its number;
  the JSON library is a \<^verbatim>\<open>json_api\<close>, whose documented behaviour is the locale \<^verbatim>\<open>json_lib\<close> and whose concrete
  instance for examples is \<^verbatim>\<open>jref\<close>; OpenSSL, the file system, Boost.URL, the environment and the local time zone
  are arguments likewise. Threads are state machines: a step is what happens under a lock or between two points where other
  threads can interfere, and the theorems are about all interleavings of these steps.

  \<^bold>\<open>How fine the steps are.\<close> The thread pool and the logger step from one use of their mutex to the next. In the WebSocket
  every access of \<^verbatim>\<open>connect\<close> and \<^verbatim>\<open>disconnect\<close> to the shared flags is separated from the next by a gap that a
  \<^verbatim>\<open>schedule\<close> fills with moves of the I/O thread and of senders; these two operations are called by one thread at a time.
  In the streaming service an operation is one step and a message is one step of \<^verbatim>\<open>stream_step\<close>; for the
  counters, which are separate atomics, \<^verbatim>\<open>count_step\<close> takes a message apart, so that operations run in the middle of it.
  \<^verbatim>\<open>resetStatistics\<close> and \<^verbatim>\<open>getStatistics\<close> touch six atomics one after the other and are single steps here. Handlers are
  functions of the event; what a handler does to the service is a step of its own between those of the message. A task of the
  pool runs as one step, in which temporary owners of a promise are not counted.

  \<^bold>\<open>The theories.\<close>
  \<^item> \<^verbatim>\<open>Prelude\<close>, \<^verbatim>\<open>Cpp_Std\<close>, \<^verbatim>\<open>Std_Map\<close>, \<^verbatim>\<open>World\<close>: outcomes and effects, the C++ library as far as it is used
    (decimal output, \<^verbatim>\<open>double\<close> with its rounding, strings), \<^verbatim>\<open>std::map\<close> behind the locale \<^verbatim>\<open>ordered_map\<close>, the
    outside world.
  \<^item> \<^verbatim>\<open>Errors\<close>, \<^verbatim>\<open>Api_Result\<close>, \<^verbatim>\<open>Validation\<close>, \<^verbatim>\<open>Encoding\<close>, \<^verbatim>\<open>Json\<close>, \<^verbatim>\<open>Dates\<close>, \<^verbatim>\<open>Config\<close>: the headers of
    \<^verbatim>\<open>common/\<close> with the same names. Encodings decode to what was encoded; dates survive formatting and parsing up to the
    offset of the local zone; a result is always a value or an error.
  \<^item> \<^verbatim>\<open>Rate_Limiter\<close>, \<^verbatim>\<open>Retry\<close>: \<^verbatim>\<open>RateLimiter\<close> and \<^verbatim>\<open>retryWithBackoff\<close> of \<^verbatim>\<open>common/async.hpp\<close>. The grants of
    a run are bounded per window, and a waiting caller is served when the clock goes on.
  \<^item> \<^verbatim>\<open>Http_Client\<close>, \<^verbatim>\<open>Http_Properties\<close>, \<^verbatim>\<open>Http_Reliable\<close>: \<^verbatim>\<open>common/http_client.cpp\<close>. Calls return, requests are
    bounded in number, go only to the configured host, carry the access token in one header line and depend on it nowhere
    else, and their parameters decode to those of the call; on a reliable
    network the answer is the server's. \<^verbatim>\<open>one_transfer\<close> is the interface between the loop and a single transfer.
  \<^item> \<^verbatim>\<open>Client\<close>: \<^verbatim>\<open>client.cpp\<close>. The locale \<^verbatim>\<open>api_client\<close> is what services rely on, \<^verbatim>\<open>service_call\<close> the contract of a
    service operation: what it checks, what it asks for, how the outcome becomes a result. Every operation of the
    services below is an interpretation of it.
  \<^item> \<^verbatim>\<open>Trading\<close>, \<^verbatim>\<open>Trading_Properties\<close>, \<^verbatim>\<open>Order_Flow\<close>: \<^verbatim>\<open>trading.cpp\<close> and \<^verbatim>\<open>json/trading.cpp\<close>; \<^verbatim>\<open>Order_Flow\<close>
    composes them with the client and the HTTP client down to the bytes of the form.
  \<^item> \<^verbatim>\<open>Market_Json\<close>, \<^verbatim>\<open>Fundamentals\<close>, \<^verbatim>\<open>Market\<close>, \<^verbatim>\<open>Market_Properties\<close>: \<^verbatim>\<open>json/market.cpp\<close> and \<^verbatim>\<open>market.cpp\<close>.
    \<^verbatim>\<open>Account\<close>, \<^verbatim>\<open>Watchlist\<close>: the services of those names.
  \<^item> \<^verbatim>\<open>Auth\<close>, \<^verbatim>\<open>Auth_Properties\<close>: \<^verbatim>\<open>auth.cpp\<close>, with its invariant over all sequences of operations.
  \<^item> \<^verbatim>\<open>Websocket\<close>, \<^verbatim>\<open>Websocket_Handle\<close>: \<^verbatim>\<open>common/websocket_client.cpp\<close>, the implementation as a state machine of
    the caller and the I/O thread, and the movable handle. \<^verbatim>\<open>Streaming\<close>, \<^verbatim>\<open>Streaming_Properties\<close>: \<^verbatim>\<open>streaming.cpp\<close> and
    \<^verbatim>\<open>json/streaming.cpp\<close>; the locale \<^verbatim>\<open>service_property\<close> lifts a property of the operations to all calls, and
    \<^verbatim>\<open>stream_property\<close> extends it to all runs.
  \<^item> \<^verbatim>\<open>Thread_Pool\<close>, \<^verbatim>\<open>Async\<close>, \<^verbatim>\<open>Async_Properties\<close>, \<^verbatim>\<open>Market_Async\<close>: \<^verbatim>\<open>ThreadPool\<close>, futures and \<^verbatim>\<open>Promise\<close> of
    \<^verbatim>\<open>common/async.hpp\<close>, \<^verbatim>\<open>common/simple_async.hpp\<close> and the asynchronous operations of \<^verbatim>\<open>market.cpp\<close>. The pool refines an
    abstract executor, loses no task and no wake-up, and drains on shutdown. A promise keeps its first result.
  \<^item> \<^verbatim>\<open>Logger\<close>, \<^verbatim>\<open>Logger_Properties\<close>: \<^verbatim>\<open>common/debug.cpp\<close> and \<^verbatim>\<open>common/debug.hpp\<close>. Lines keep their order, the
    queue is bounded, the access token is masked.
  \<^item> \<^verbatim>\<open>Handles\<close>: the classes of \<^verbatim>\<open>common/http_client.cpp\<close> and \<^verbatim>\<open>auth.cpp\<close> that own a resource of libcurl or
    OpenSSL. The locale \<^verbatim>\<open>owning\<close> is the contract of such a class, over all sequences of operations on its objects: no
    resource is freed twice; \<^verbatim>\<open>tight_owning\<close> adds that none is lost. \<^verbatim>\<open>Service_Objects\<close>: the special members of
    \<^verbatim>\<open>StreamingService\<close> and the accessors of the services.
  \<^item> \<^verbatim>\<open>Console\<close>, \<^verbatim>\<open>Example_Trading\<close>, \<^verbatim>\<open>Example_Account\<close>: the programs \<^verbatim>\<open>examples/basic/simple_trading_fixed.cpp\<close> and
    \<^verbatim>\<open>examples/basic/account_info_fixed.cpp\<close>, which compose the configuration, the client and the services with a user at
    the console. \<^verbatim>\<open>converse\<close> is total correctness of a program that talks to the user and the server; with it the theorems say
    which requests a whole run can make.
  \<^item> \<^verbatim>\<open>Simd\<close>: the directory \<^verbatim>\<open>simd\<close>. Every implementation of a bulk operation meets the contract
    \<^verbatim>\<open>batch_processor\<close> or agrees with the scalar version, under the conditions stated there.

  \<^bold>\<open>Bounds and fuel.\<close> Loops with a bound, the retry loops included, are recursive functions. The loop that waits for the
  clock, \<^verbatim>\<open>waitForSlot\<close>, is a partial function into \<^verbatim>\<open>option\<close>; that it returns is a theorem of its own, with the
  condition under which it does. The heartbeat's loop takes the list of what its iterations meet, and an operation that
  waits for another thread takes the schedule of what happens meanwhile as an argument, so no bound on it is assumed.
  Integers are unbounded where the code stays in range, and conversions that C++ leaves undefined have the value \<^verbatim>\<open>None\<close>.

  \<^bold>\<open>Where the code does not do what it means to\<close>, the theorem says what it does: the sides of multi-leg orders, the
  dead WebSocket and the race in its \<^verbatim>\<open>connect\<close>, counters that are reset in the middle of a message, chains of promises,
  continuations that hold the pool, the race when the logger's thread is stopped, header lists that leak, the example that
  leaves the sandbox.

  \<^bold>\<open>Not modelled.\<close> The programs \<^verbatim>\<open>account_info\<close>, \<^verbatim>\<open>simple_trading\<close>, \<^verbatim>\<open>market_data\<close> and \<^verbatim>\<open>quote_streamer\<close> of \<^verbatim>\<open>examples/\<close> use
  operations and fields that the library does not have, and are not built; they have no meaning to model. The tests call the
  library. The forwarding members of \<^verbatim>\<open>HttpClient\<close> and the functions of \<^verbatim>\<open>TradierClient\<close> that only construct a service have no
  definitions of their own. Calls of the logger inside other components
  are left out there, since they change nothing but the log. Tasks of the thread pool do not submit tasks. Data races
  proper, in which C++ gives no meaning to the program, are recorded as findings and are outside the model: every
  access to shared data is a step.
\<close>

end
